(* ===== verification/Prelude.thy ===== *)
theory Prelude
  imports Main "HOL-Library.Word" "HOL-Library.Char_ord" "HOL-Library.List_Lexorder"
    "HOL-Library.Product_Lexorder" "HOL-Library.Sublist" "HOL-Library.Code_Target_Numeral"
begin

text \<open>
  Shared vocabulary of the development: the Rust integer widths, UTF-8 strings as the byte
  lists Rust stores, the string operations of the standard library that the code calls, and
  the generic lemmas the component theories share.

  A Rust \<^verbatim>\<open>String\<close> is a \<^typ>\<open>string\<close>, one HOL \<^typ>\<open>char\<close> per UTF-8 byte, so that \<open>length\<close> is
  Rust's \<^verbatim>\<open>len()\<close>, equality is byte equality and the order of \<^verbatim>\<open>BTreeMap\<close> keys is the
  lexicographic order of HOL-Library. Operations on Rust's \<^verbatim>\<open>char\<close>s first split a string into
  its encoded scalars (\<open>utf8_chars\<close>).
\<close>

section \<open>Integer widths\<close>

type_synonym u8 = "8 word"
type_synonym u16 = "16 word"
type_synonym u32 = "32 word"
type_synonym u64 = "64 word"

text \<open>Collections that the component theories extend and the proofs refer to.\<close>

named_theorems str_simps \<open>evaluation of the string operations\<close>
named_theorems model_defs \<open>definitions of the model unfolded in its proofs\<close>

section \<open>Results\<close>

text \<open>Rust's \<^verbatim>\<open>Result<T, E>\<close> is a sum with the error on the left; \<^verbatim>\<open>?\<close> is \<open>res_bind\<close>.\<close>

definition res_bind :: "'e + 'a \<Rightarrow> ('a \<Rightarrow> 'e + 'b) \<Rightarrow> 'e + 'b" where
  "res_bind r f = (case r of Inl e \<Rightarrow> Inl e | Inr x \<Rightarrow> f x)"

lemma res_bind_simps [simp]:
  "res_bind (Inl e) f = Inl e" "res_bind (Inr x) f = f x"
  by (simp_all add: res_bind_def)

lemma res_bind_Inr_iff: "res_bind r f = Inr y \<longleftrightarrow> (\<exists>x. r = Inr x \<and> f x = Inr y)"
  by (cases r) auto

lemma res_bind_Inl_iff: "res_bind r f = Inl e \<longleftrightarrow> r = Inl e \<or> (\<exists>x. r = Inr x \<and> f x = Inl e)"
  by (cases r) auto

text \<open>\<^verbatim>\<open>iter().find\<close>, \<^verbatim>\<open>iter().position\<close>.\<close>

fun position :: "('a \<Rightarrow> bool) \<Rightarrow> 'a list \<Rightarrow> nat option" where
  "position p [] = None"
| "position p (x # xs) = (if p x then Some 0 else map_option Suc (position p xs))"

lemma position_Some:
  "position p xs = Some i \<Longrightarrow> i < length xs \<and> p (xs ! i) \<and> (\<forall>j<i. \<not> p (xs ! j))"
proof (induction xs arbitrary: i)
  case (Cons x xs)
  show ?case
  proof (cases i)
    case 0
    with Cons.prems show ?thesis by (auto split: if_splits)
  next
    case (Suc k)
    with Cons.prems have "\<not> p x" "position p xs = Some k" by (auto split: if_splits)
    with Cons.IH [of k] Suc show ?thesis by (auto simp: nth_Cons split: nat.splits)
  qed
qed simp

lemma position_None: "position p xs = None \<longleftrightarrow> (\<forall>x\<in>set xs. \<not> p x)"
  by (induction xs) auto

lemma find_None_iff_all: "List.find P xs = None \<longleftrightarrow> (\<forall>x\<in>set xs. \<not> P x)"
  by (induction xs) auto

lemma find_SomeD: "List.find P xs = Some x \<Longrightarrow> x \<in> set xs \<and> P x"
  by (induction xs) (auto split: if_splits)

section \<open>UTF-8 scalars\<close>

definition byte :: "char \<Rightarrow> nat" where
  "byte c = of_char c"

text \<open>Length of the encoded scalar that starts with the given byte (\<^verbatim>\<open>char::len_utf8\<close>).\<close>

definition utf8_len :: "char \<Rightarrow> nat" where
  "utf8_len c = (let b = byte c in if b < 128 then 1 else if b < 224 then 2 else if b < 240 then 3 else 4)"

lemma utf8_len_pos [simp]: "0 < utf8_len c"
  by (simp add: utf8_len_def Let_def)

lemma utf8_len_neq_0 [simp]: "utf8_len c \<noteq> 0"
  by (simp add: utf8_len_def Let_def)

text \<open>The \<^verbatim>\<open>chars()\<close> of a string, each as its encoded bytes.\<close>

function utf8_chars :: "string \<Rightarrow> string list" where
  "utf8_chars [] = []"
| "utf8_chars (c # cs) = take (utf8_len c) (c # cs) # utf8_chars (drop (utf8_len c) (c # cs))"
  by pat_completeness auto
termination
  by (relation "measure length") auto

lemma concat_utf8_chars [simp]: "concat (utf8_chars s) = s"
  by (induction s rule: utf8_chars.induct) simp_all

lemma utf8_chars_nonempty: "c \<in> set (utf8_chars s) \<Longrightarrow> c \<noteq> []"
  by (induction s rule: utf8_chars.induct) auto

lemma utf8_chars_eq_Nil [simp]: "utf8_chars s = [] \<longleftrightarrow> s = []"
  by (cases s) auto

text \<open>On ASCII bytes the scalars are the bytes.\<close>

definition is_ascii :: "char \<Rightarrow> bool" where
  "is_ascii c \<longleftrightarrow> byte c < 128"

lemma utf8_len_ascii: "is_ascii c \<Longrightarrow> utf8_len c = 1"
  by (simp add: is_ascii_def utf8_len_def Let_def)

lemma utf8_chars_ascii: "\<forall>c\<in>set s. is_ascii c \<Longrightarrow> utf8_chars s = map (\<lambda>c. [c]) s"
  by (induction s) (auto simp: utf8_len_ascii)

section \<open>Character classes\<close>

definition is_ascii_digit :: "char \<Rightarrow> bool" where
  "is_ascii_digit c \<longleftrightarrow> 48 \<le> byte c \<and> byte c \<le> 57"

definition is_ascii_lower :: "char \<Rightarrow> bool" where
  "is_ascii_lower c \<longleftrightarrow> 97 \<le> byte c \<and> byte c \<le> 122"

definition is_ascii_upper :: "char \<Rightarrow> bool" where
  "is_ascii_upper c \<longleftrightarrow> 65 \<le> byte c \<and> byte c \<le> 90"

definition is_ascii_alphanumeric :: "char \<Rightarrow> bool" where
  "is_ascii_alphanumeric c \<longleftrightarrow> is_ascii_digit c \<or> is_ascii_lower c \<or> is_ascii_upper c"

definition is_ascii_hexdigit :: "char \<Rightarrow> bool" where
  "is_ascii_hexdigit c \<longleftrightarrow> is_ascii_digit c \<or> (97 \<le> byte c \<and> byte c \<le> 102) \<or> (65 \<le> byte c \<and> byte c \<le> 70)"

definition to_ascii_lower :: "char \<Rightarrow> char" where
  "to_ascii_lower c = (if is_ascii_upper c then char_of (byte c + 32) else c)"

definition eq_ignore_ascii_case :: "string \<Rightarrow> string \<Rightarrow> bool" where
  "eq_ignore_ascii_case a b \<longleftrightarrow> map to_ascii_lower a = map to_ascii_lower b"

text \<open>
  \<^verbatim>\<open>char::is_whitespace\<close> on an encoded scalar: the code points with the Unicode White_Space
  property, by their UTF-8 bytes (U+0085 and U+00A0 take two bytes, U+1680, U+2000 to U+200A,
  U+2028, U+2029, U+202F, U+205F and U+3000 three).
\<close>

definition is_whitespace :: "string \<Rightarrow> bool" where
  "is_whitespace ch =
     (case map byte ch of
        [a] \<Rightarrow> (9 \<le> a \<and> a \<le> 13) \<or> a = 32
      | [a, b] \<Rightarrow> a = 194 \<and> (b = 133 \<or> b = 160)
      | [a, b, c] \<Rightarrow>
          (a = 225 \<and> b = 154 \<and> c = 128)
          \<or> (a = 226 \<and> b = 128 \<and> ((128 \<le> c \<and> c \<le> 138) \<or> c = 168 \<or> c = 169 \<or> c = 175))
          \<or> (a = 226 \<and> b = 129 \<and> c = 159)
          \<or> (a = 227 \<and> b = 128 \<and> c = 128)
      | _ \<Rightarrow> False)"

section \<open>String operations of the standard library\<close>

text \<open>\<^verbatim>\<open>[String]::join\<close>.\<close>

fun join :: "string \<Rightarrow> string list \<Rightarrow> string" where
  "join sep [] = []"
| "join sep [s] = s"
| "join sep (s # t # ts) = s @ sep @ join sep (t # ts)"

text \<open>\<^verbatim>\<open>trim\<close>, \<^verbatim>\<open>split_whitespace\<close>, \<^verbatim>\<open>lines\<close>, \<^verbatim>\<open>split_once\<close>.\<close>

definition trim_start :: "string \<Rightarrow> string" where
  "trim_start s = concat (dropWhile is_whitespace (utf8_chars s))"

definition trim :: "string \<Rightarrow> string" where
  "trim s = concat (rev (dropWhile is_whitespace (rev (dropWhile is_whitespace (utf8_chars s)))))"

fun split_on :: "('a \<Rightarrow> bool) \<Rightarrow> 'a list \<Rightarrow> 'a list list" where
  "split_on p [] = [[]]"
| "split_on p (x # xs) =
     (if p x then [] # split_on p xs
      else (case split_on p xs of [] \<Rightarrow> [[x]] | w # ws \<Rightarrow> (x # w) # ws))"

definition split_whitespace :: "string \<Rightarrow> string list" where
  "split_whitespace s = map concat (filter (\<lambda>w. w \<noteq> []) (split_on is_whitespace (utf8_chars s)))"

definition strip_cr :: "string \<Rightarrow> string" where
  "strip_cr s = (if s \<noteq> [] \<and> last s = CHR 0x0D then butlast s else s)"

text \<open>\<^verbatim>\<open>str::lines\<close>: split at newlines, an empty last piece is no line, and a carriage return
  before the newline belongs to the terminator (a last line with no newline keeps its own).\<close>

definition lines :: "string \<Rightarrow> string list" where
  "lines s = (let ps = split_on (\<lambda>c. c = CHR 0x0A) s
              in map strip_cr (butlast ps) @ (if last ps = [] then [] else [last ps]))"

definition starts_with :: "string \<Rightarrow> string \<Rightarrow> bool" where
  "starts_with s p \<longleftrightarrow> take (length p) s = p"

definition strip_prefix :: "string \<Rightarrow> string \<Rightarrow> string option" where
  "strip_prefix p s = (if starts_with s p then Some (drop (length p) s) else None)"

lemma split_on_nonempty [simp]: "split_on p xs \<noteq> []"
  by (induction xs) (auto split: list.splits)

lemma starts_with_append [simp]: "starts_with (p @ s) p"
  by (simp add: starts_with_def)

lemma starts_with_iff: "starts_with s p \<longleftrightarrow> (\<exists>r. s = p @ r)"
  by (metis append_eq_conv_conj append_take_drop_id starts_with_def)

lemma strip_prefix_append [simp]: "strip_prefix p (p @ s) = Some s"
  by (simp add: strip_prefix_def)

section \<open>Decimal and radix numerals\<close>

text \<open>\<^verbatim>\<open>Display\<close> of an unsigned integer, and of a signed one.\<close>

definition digit_char :: "nat \<Rightarrow> char" where
  "digit_char d = char_of (48 + d)"

fun dec :: "nat \<Rightarrow> string" where
  "dec n = (if n < 10 then [digit_char n] else dec (n div 10) @ [digit_char (n mod 10)])"

declare dec.simps [simp del]

definition dec_int :: "int \<Rightarrow> string" where
  "dec_int i = (if i < 0 then CHR ''-'' # dec (nat (- i)) else dec (nat i))"

text \<open>Value of a digit in the radixes the code uses (\<^verbatim>\<open>char::to_digit\<close>).\<close>

definition digit_value :: "char \<Rightarrow> nat option" where
  "digit_value c =
     (if is_ascii_digit c then Some (byte c - 48)
      else if is_ascii_lower c then Some (byte c - 87)
      else if is_ascii_upper c then Some (byte c - 55)
      else None)"

fun radix_digits :: "nat \<Rightarrow> nat \<Rightarrow> string \<Rightarrow> nat option" where
  "radix_digits r acc [] = Some acc"
| "radix_digits r acc (c # cs) =
     (case digit_value c of
        None \<Rightarrow> None
      | Some d \<Rightarrow> if d < r then radix_digits r (acc * r + d) cs else None)"

text \<open>
  \<^verbatim>\<open>uN::from_str_radix\<close> and \<^verbatim>\<open>str::parse::<uN>\<close>: one optional leading plus, at least one
  digit, no other character, and a value below the bound.
\<close>

definition parse_unsigned :: "nat \<Rightarrow> nat \<Rightarrow> string \<Rightarrow> nat option" where
  "parse_unsigned r bound s =
     (let ds = (case s of c # cs \<Rightarrow> if c = CHR ''+'' then cs else s | [] \<Rightarrow> s)
      in if ds = [] then None
         else case radix_digits r 0 ds of
                None \<Rightarrow> None
              | Some v \<Rightarrow> if v < bound then Some v else None)"

lemma parse_unsigned_bound: "parse_unsigned r b s = Some v \<Longrightarrow> v < b"
  by (auto simp: parse_unsigned_def Let_def split: if_splits option.splits)

lemma digit_value_digit_char: "d < 10 \<Longrightarrow> digit_value (digit_char d) = Some d"
  by (auto simp: digit_value_def digit_char_def is_ascii_digit_def byte_def)

lemma radix_digits_snoc:
  "radix_digits r a (s @ [c]) =
     (case radix_digits r a s of
        None \<Rightarrow> None
      | Some v \<Rightarrow> (case digit_value c of
                     None \<Rightarrow> None | Some d \<Rightarrow> if d < r then Some (v * r + d) else None))"
  by (induction s arbitrary: a) (auto split: option.splits)

lemma dec_not_Nil [simp]: "dec n \<noteq> []"
  by (subst dec.simps) simp

lemma dec_digits: "c \<in> set (dec n) \<Longrightarrow> \<exists>d<10. c = digit_char d"
proof (induction n rule: dec.induct)
  case (1 n)
  show ?case
  proof (cases "n < 10 \<or> c = digit_char (n mod 10)")
    case True
    with "1.prems" show ?thesis by (intro exI [of _ "n mod 10"]) (auto simp: dec.simps [of n])
  next
    case False
    with 1 show ?thesis by (auto simp: dec.simps [of n])
  qed
qed

lemma digit_char_neq_plus: "d < 10 \<Longrightarrow> digit_char d \<noteq> CHR ''+''"
  using digit_value_digit_char [of d]
  by (auto simp: digit_value_def is_ascii_digit_def is_ascii_lower_def is_ascii_upper_def byte_def)

lemma radix_digits_dec: "radix_digits 10 0 (dec n) = Some n"
proof (induction n rule: dec.induct)
  case (1 n)
  show ?case
  proof (cases "n < 10")
    case True
    then show ?thesis by (subst dec.simps) (simp add: digit_value_digit_char)
  next
    case False
    with 1 have "radix_digits 10 0 (dec (n div 10)) = Some (n div 10)" by simp
    with False show ?thesis
      by (subst dec.simps) (simp add: radix_digits_snoc digit_value_digit_char)
  qed
qed

text \<open>Printing in decimal and parsing back is the identity below the bound.\<close>

lemma parse_unsigned_dec: "n < b \<Longrightarrow> parse_unsigned 10 b (dec n) = Some n"
proof -
  assume "n < b"
  obtain c cs where d: "dec n = c # cs" by (cases "dec n") auto
  then have "c \<in> set (dec n)" by simp
  then have "c \<noteq> CHR ''+''" using dec_digits digit_char_neq_plus by metis
  with d \<open>n < b\<close> show ?thesis
    using radix_digits_dec [of n] by (simp add: parse_unsigned_def Let_def)
qed

end
