(* ===== verification/Ordered_Map.thy ===== *)
theory Ordered_Map
  imports Prelude
begin

text \<open>
  Rust's \<^verbatim>\<open>BTreeMap\<close> as an association list sorted by key, which is also its iteration order.
  The interface the clients rely on is the locale \<open>ordered_map\<close>; it is interpreted on the
  sorted association list, and the catalogue, the validator parameters and the registry are
  built on the interpretation's facts.
\<close>

section \<open>The interface\<close>

locale ordered_map =
  fixes empty :: "'m"
    and insert :: "'k::linorder \<Rightarrow> 'v \<Rightarrow> 'm \<Rightarrow> 'm"
    and lookup :: "'m \<Rightarrow> 'k \<Rightarrow> 'v option"
    and keys :: "'m \<Rightarrow> 'k list"
    and invar :: "'m \<Rightarrow> bool"
  assumes invar_empty: "invar empty"
    and invar_insert: "invar m \<Longrightarrow> invar (insert k v m)"
    and lookup_empty: "lookup empty k = None"
    and lookup_insert: "invar m \<Longrightarrow> lookup (insert k v m) j = (if j = k then Some v else lookup m j)"
    and keys_lookup: "invar m \<Longrightarrow> k \<in> set (keys m) \<longleftrightarrow> lookup m k \<noteq> None"
    and keys_sorted: "invar m \<Longrightarrow> sorted_wrt (<) (keys m)"
begin

definition insert_all :: "('k \<times> 'v) list \<Rightarrow> 'm \<Rightarrow> 'm" where
  "insert_all kvs m = fold (\<lambda>(k, v). insert k v) kvs m"

lemma insert_all_simps [simp]:
  "insert_all [] m = m"
  "insert_all ((k, v) # kvs) m = insert_all kvs (insert k v m)"
  by (simp_all add: insert_all_def)

lemma invar_insert_all: "invar m \<Longrightarrow> invar (insert_all kvs m)"
  by (induction kvs arbitrary: m) (auto simp: invar_insert)

text \<open>The last value inserted for a key is the one found.\<close>

lemma lookup_insert_all:
  "invar m \<Longrightarrow> lookup (insert_all kvs m) k =
     (case map_of (rev kvs) k of None \<Rightarrow> lookup m k | Some v \<Rightarrow> Some v)"
  by (induction kvs arbitrary: m)
    (auto simp: invar_insert lookup_insert map_add_def split: option.splits)

lemma keys_insert: "invar m \<Longrightarrow> set (keys (insert k v m)) = {k} \<union> set (keys m)"
  by (auto simp: keys_lookup invar_insert lookup_insert split: if_splits)

lemma keys_insert_all:
  "invar m \<Longrightarrow> set (keys (insert_all kvs m)) = set (map fst kvs) \<union> set (keys m)"
proof (induction kvs arbitrary: m)
  case (Cons kv kvs)
  obtain k v where "kv = (k, v)" by fastforce
  with Cons.IH [of "insert k v m"] Cons.prems show ?case by (auto simp: invar_insert keys_insert)
qed simp

lemma keys_distinct: "invar m \<Longrightarrow> distinct (keys m)"
  using keys_sorted strict_sorted_iff by blast

text \<open>Iteration visits the same keys in the same order whatever the order of insertion.\<close>

lemma keys_unique:
  assumes "invar m" "invar m'" "\<And>k. lookup m k \<noteq> None \<longleftrightarrow> lookup m' k \<noteq> None"
  shows "keys m = keys m'"
proof -
  have "set (keys m) = set (keys m')" using assms keys_lookup by blast
  then show ?thesis
    using assms(1,2) keys_sorted strict_sorted_equal by blast
qed

end

section \<open>The sorted association list\<close>

type_synonym ('k, 'v) btree_map = "('k \<times> 'v) list"

abbreviation bt_get :: "('k, 'v) btree_map \<Rightarrow> 'k \<Rightarrow> 'v option" where
  "bt_get \<equiv> map_of"

definition bt_contains :: "('k, 'v) btree_map \<Rightarrow> 'k \<Rightarrow> bool" where
  "bt_contains m k \<longleftrightarrow> bt_get m k \<noteq> None"

abbreviation bt_keys :: "('k, 'v) btree_map \<Rightarrow> 'k list" where
  "bt_keys m \<equiv> map fst m"

abbreviation bt_values :: "('k, 'v) btree_map \<Rightarrow> 'v list" where
  "bt_values m \<equiv> map snd m"

fun bt_insert :: "'k::linorder \<Rightarrow> 'v \<Rightarrow> ('k, 'v) btree_map \<Rightarrow> ('k, 'v) btree_map" where
  "bt_insert key val [] = [(key, val)]"
| "bt_insert key val (entry # rest) =
     (if fst entry < key then entry # bt_insert key val rest
      else if fst entry = key then (key, val) # rest
      else (key, val) # entry # rest)"

definition bt_invar :: "('k::linorder, 'v) btree_map \<Rightarrow> bool" where
  "bt_invar m \<longleftrightarrow> sorted_wrt (<) (bt_keys m)"

lemma bt_contains_iff: "bt_contains m k \<longleftrightarrow> k \<in> set (bt_keys m)"
  by (auto simp: bt_contains_def map_of_eq_None_iff)

lemma bt_keys_insert: "set (bt_keys (bt_insert k v m)) = {k} \<union> set (bt_keys m)"
  by (induction m) auto

lemma bt_insert_mem: "e \<in> set (bt_insert k v m) \<Longrightarrow> e = (k, v) \<or> e \<in> set m"
  by (induction m) (auto split: if_splits)

lemma bt_invar_insert: "bt_invar m \<Longrightarrow> bt_invar (bt_insert k v m)"
proof (induction m)
  case (Cons e m)
  then have e: "\<forall>x\<in>set (bt_keys m). fst e < x" "bt_invar m" by (auto simp: bt_invar_def)
  with Cons.IH have "bt_invar (bt_insert k v m)" by simp
  moreover have "\<forall>x\<in>set (bt_keys (bt_insert k v m)). fst e < x" if "fst e < k"
    using that e bt_keys_insert [of k v m] by auto
  ultimately show ?case using e by (auto simp: bt_invar_def)
qed (simp add: bt_invar_def)

lemma bt_get_insert:
  "bt_get (bt_insert k v m) j = (if j = k then Some v else bt_get m j)"
  by (induction m) auto

interpretation bt: ordered_map "[]" bt_insert bt_get bt_keys bt_invar
proof unfold_locales
  show "bt_invar []" by (simp add: bt_invar_def)
  show "sorted_wrt (<) (bt_keys m)" if "bt_invar m" for m :: "('a::linorder, 'b) btree_map"
    using that by (simp add: bt_invar_def)
qed (simp_all add: bt_invar_insert bt_get_insert map_of_eq_None_iff)

lemma bt_invar_filter: "bt_invar m \<Longrightarrow> bt_invar (filter p m)"
  by (induction m) (auto simp: bt_invar_def)

lemma bt_contains_insert: "bt_contains (bt_insert k v m) j \<longleftrightarrow> j = k \<or> bt_contains m j"
  by (simp add: bt_contains_def bt_get_insert)

lemma bt_get_mem: "bt_get m k = Some v \<Longrightarrow> (k, v) \<in> set m"
  by (rule map_of_SomeD)

lemma bt_mem_get: "bt_invar m \<Longrightarrow> (k, v) \<in> set m \<Longrightarrow> bt_get m k = Some v"
  by (simp add: bt.keys_distinct)

end
