(* ===== verification/Json.thy ===== *)
theory Json
  imports Ordered_Map
begin

text \<open>
  JSON values as \<^verbatim>\<open>serde_json::Value\<close> presents them to the code: a number is a non-negative
  integer, a negative integer or a fraction (kept as its text, the code never computes with
  it), an object is a sorted map. The accessors are those the sources call.
\<close>

datatype json_number = PosInt nat | NegInt int | Fraction string

datatype json =
    JNull
  | JBool bool
  | JNumber json_number
  | JString string
  | JArray "json list"
  | JObject "(string \<times> json) list"

fun as_str :: "json \<Rightarrow> string option" where
  "as_str (JString s) = Some s"
| "as_str _ = None"

fun as_bool :: "json \<Rightarrow> bool option" where
  "as_bool (JBool b) = Some b"
| "as_bool _ = None"

fun as_array :: "json \<Rightarrow> json list option" where
  "as_array (JArray xs) = Some xs"
| "as_array _ = None"

text \<open>Integers outside the 64-bit range of the requested type are refused.\<close>

fun as_i64 :: "json \<Rightarrow> int option" where
  "as_i64 (JNumber (PosInt n)) = (if n < 2 ^ 63 then Some (int n) else None)"
| "as_i64 (JNumber (NegInt i)) = Some i"
| "as_i64 _ = None"

fun as_u64 :: "json \<Rightarrow> nat option" where
  "as_u64 (JNumber (PosInt n)) = Some n"
| "as_u64 _ = None"

definition is_string :: "json \<Rightarrow> bool" where
  "is_string j \<longleftrightarrow> as_str j \<noteq> None"

lemma is_string_iff: "is_string j \<longleftrightarrow> (\<exists>s. j = JString s)"
  by (cases j) (auto simp: is_string_def)

lemma as_str_Some [simp]: "as_str j = Some s \<longleftrightarrow> j = JString s"
  by (cases j) auto

lemma as_bool_Some [simp]: "as_bool j = Some b \<longleftrightarrow> j = JBool b"
  by (cases j) auto

lemma as_array_Some [simp]: "as_array j = Some xs \<longleftrightarrow> j = JArray xs"
  by (cases j) auto

text \<open>
  The number of constructors of a value, the measure of the recursions that descend into
  nested validators.
\<close>

primrec json_nodes :: "json \<Rightarrow> nat" where
  "json_nodes JNull = 1"
| "json_nodes (JBool b) = 1"
| "json_nodes (JNumber n) = 1"
| "json_nodes (JString s) = 1"
| "json_nodes (JArray xs) = Suc (sum_list (map json_nodes xs))"
| "json_nodes (JObject kvs) = Suc (sum_list (map snd (map (map_prod id json_nodes) kvs)))"

abbreviation members_nodes :: "(string \<times> json) list \<Rightarrow> nat" where
  "members_nodes kvs \<equiv> sum_list (map (json_nodes \<circ> snd) kvs)"

lemma json_nodes_JObject [simp]: "json_nodes (JObject kvs) = Suc (members_nodes kvs)"
  by (simp add: comp_def)

declare json_nodes.simps(6) [simp del]

lemma json_nodes_pos [simp]: "0 < json_nodes j"
  by (cases j) simp_all

lemma members_nodes_filter: "members_nodes (filter P kvs) \<le> members_nodes kvs"
  by (induction kvs) auto

end
