(* ===== verification/Lesson_Types.thy ===== *)
theory Lesson_Types
  imports Json
begin

text \<open>
  The lesson package types of crates/shared-types/src/lesson.rs, field by field, with their
  methods. A validator is a tag with untyped parameters; the registry theory says which are
  legal.
\<close>

section \<open>Enumerations\<close>

datatype lesson_level = Orientation | Beginner | Foundation | Intermediate | Advanced
  | Administrator | Troubleshooting | LevelCapstone

datatype lesson_type = Concept | DemonstrationLesson | GuidedPractice | IndependentPractice
  | Debugging | Scenario | Review | Assessment | Capstone

text \<open>Assessment-style lessons hide hints and worked examples.\<close>

definition hides_hints :: "lesson_type \<Rightarrow> bool" where
  "hides_hints ty = (case ty of Assessment \<Rightarrow> True | Capstone \<Rightarrow> True | _ \<Rightarrow> False)"

datatype reset_policy = PerAttempt | PerLesson | Manual | Never

datatype network_mode = NetworkDisabled | InternalLab | RestrictedInternet

datatype task_kind = Guided | Independent | Mistake | Applied | AssessmentTask

datatype review_question_type = MultipleChoice | MultipleSelect | ShortAnswer | CommandRecall

section \<open>Validators\<close>

record validator =
  v_kind :: string
  v_params :: "(string, json) btree_map"

definition validator_new :: "string \<Rightarrow> validator" where
  "validator_new k = \<lparr>v_kind = k, v_params = []\<rparr>"

definition validator_with :: "string \<Rightarrow> json \<Rightarrow> validator \<Rightarrow> validator" where
  "validator_with k j v = v\<lparr>v_params := bt_insert k j (v_params v)\<rparr>"

definition str_param :: "validator \<Rightarrow> string \<Rightarrow> string option" where
  "str_param v k = Option.bind (bt_get (v_params v) k) as_str"

definition i64_param :: "validator \<Rightarrow> string \<Rightarrow> int option" where
  "i64_param v k = Option.bind (bt_get (v_params v) k) as_i64"

definition bool_param :: "validator \<Rightarrow> string \<Rightarrow> bool option" where
  "bool_param v k = Option.bind (bt_get (v_params v) k) as_bool"

text \<open>
  Deserialisation of a validator from JSON, as its serde attributes declare it: the member
  \<^verbatim>\<open>type\<close> is the tag and must be a string, the other members are flattened into the parameters.
\<close>

fun validator_of_json :: "json \<Rightarrow> validator option" where
  "validator_of_json (JObject kvs) =
     (case bt_get kvs ''type'' of
        Some (JString k) \<Rightarrow> Some \<lparr>v_kind = k, v_params = filter (\<lambda>kv. fst kv \<noteq> ''type'') kvs\<rparr>
      | _ \<Rightarrow> None)"
| "validator_of_json _ = None"

lemma validator_of_json_Some:
  "validator_of_json j = Some v \<Longrightarrow>
     \<exists>kvs. j = JObject kvs \<and> bt_get kvs ''type'' = Some (JString (v_kind v))
       \<and> v_params v = filter (\<lambda>kv. fst kv \<noteq> ''type'') kvs"
  by (cases j) (auto split: option.splits json.splits)

lemma validator_of_json_nodes:
  "validator_of_json j = Some v \<Longrightarrow> members_nodes (v_params v) < json_nodes j"
  by (auto dest!: validator_of_json_Some simp: less_Suc_eq_le members_nodes_filter)

section \<open>Tasks\<close>

record task =
  t_id :: string
  t_kind :: task_kind
  t_instruction :: string
  t_context :: "string option"
  t_broken_command :: "string option"
  t_diagnosis :: "string option"
  t_validators :: "validator list"
  t_hints :: "string list"
  t_suggested_solution :: "string option"
  t_known_incorrect_solution :: "string option"
  t_alternate_solutions :: "string list"
  t_optional :: bool

record review_question =
  q_type :: review_question_type
  q_question :: string
  q_answers :: "string list"
  q_correct_answer :: "nat option"
  q_correct_answers :: "nat list"
  q_accepted_answers :: "string list"
  q_explanation :: "string option"

text \<open>
  Grading of free text: runs of whitespace collapse to one space and case is ignored. Unicode
  lower-casing is the parameter \<open>lower\<close>.
\<close>

definition normalise_answer :: "(string \<Rightarrow> string) \<Rightarrow> string \<Rightarrow> string" where
  "normalise_answer lower s = lower (join '' '' (split_whitespace s))"

definition accepts_text :: "(string \<Rightarrow> string) \<Rightarrow> review_question \<Rightarrow> string \<Rightarrow> bool" where
  "accepts_text lower q given \<longleftrightarrow>
     list_ex (\<lambda>candidate. normalise_answer lower candidate = normalise_answer lower given)
       (q_accepted_answers q)"

section \<open>Lessons and modules\<close>

record lesson_environment =
  e_profile :: string
  e_reset_policy :: reset_policy
  e_network_mode :: network_mode
  e_sudo_allowed :: bool
  e_dangerous_allowed :: bool
  e_memory_mb :: "u32 option"
  e_namespaces :: "string list"
  e_setup_script :: "string option"
  e_reset_script :: "string option"
  e_fixtures :: "string list"

record demonstration =
  d_command :: string
  d_explanation :: "string option"
  d_output :: "string option"

record command_option =
  co_option :: string
  co_meaning :: string

record lesson_summary =
  s_remember :: "string list"
  s_common_options :: "command_option list"
  s_dangerous :: "string list"
  s_related :: "string list"

record lesson_content =
  c_purpose :: string
  c_mental_model :: string
  c_syntax :: "string list"
  c_demonstration :: "demonstration list"
  c_explanation_markdown :: "string option"
  c_summary :: "lesson_summary option"

record lesson =
  l_schema_version :: u32
  l_id :: string
  l_title :: string
  l_level :: lesson_level
  l_module :: string
  l_type :: lesson_type
  l_estimated_difficulty :: u8
  l_estimated_minutes :: "u32 option"
  l_prerequisites :: "string list"
  l_concepts :: "string list"
  l_commands :: "string list"
  l_environment :: lesson_environment
  l_content :: lesson_content
  l_tasks :: "task list"
  l_review_questions :: "review_question list"

definition required_tasks :: "lesson \<Rightarrow> task list" where
  "required_tasks l = filter (\<lambda>t. \<not> t_optional t) (l_tasks l)"

definition lesson_total_hints :: "lesson \<Rightarrow> nat" where
  "lesson_total_hints l = sum_list (map (length \<circ> t_hints) (required_tasks l))"

record module =
  m_schema_version :: u32
  m_id :: string
  m_number :: u32
  m_title :: string
  m_level :: lesson_level
  m_summary :: string
  m_outcomes :: "string list"
  m_pack :: string
  m_lessons :: "string list"

definition default_pack :: string where
  "default_pack = ''core''"

section \<open>Sample data\<close>

text \<open>A lesson and a module with little content, for concrete instances of the theorems.\<close>

definition sample_task :: "string \<Rightarrow> string list \<Rightarrow> task" where
  "sample_task tid hints =
     \<lparr>t_id = tid, t_kind = Guided, t_instruction = ''Do it'', t_context = None, t_broken_command = None,
      t_diagnosis = None, t_validators = [], t_hints = hints, t_suggested_solution = Some ''pwd'',
      t_known_incorrect_solution = None, t_alternate_solutions = [], t_optional = False\<rparr>"

definition sample_lesson :: "string \<Rightarrow> string \<Rightarrow> string list \<Rightarrow> lesson" where
  "sample_lesson lid mid prereqs =
     \<lparr>l_schema_version = 1, l_id = lid, l_title = lid, l_level = Beginner, l_module = mid,
      l_type = GuidedPractice, l_estimated_difficulty = 1, l_estimated_minutes = None,
      l_prerequisites = prereqs, l_concepts = [], l_commands = [''pwd''],
      l_environment = \<lparr>e_profile = ''base'', e_reset_policy = PerLesson, e_network_mode = NetworkDisabled,
        e_sudo_allowed = False, e_dangerous_allowed = False, e_memory_mb = None, e_namespaces = [],
        e_setup_script = None, e_reset_script = None, e_fixtures = []\<rparr>,
      l_content = \<lparr>c_purpose = [], c_mental_model = [], c_syntax = [], c_demonstration = [],
        c_explanation_markdown = None, c_summary = None\<rparr>,
      l_tasks = [sample_task ''t1'' [''try pwd'', ''type pwd'']], l_review_questions = []\<rparr>"

definition sample_module :: "string \<Rightarrow> u32 \<Rightarrow> string list \<Rightarrow> module" where
  "sample_module mid number lids =
     \<lparr>m_schema_version = 1, m_id = mid, m_number = number, m_title = mid, m_level = Beginner,
      m_summary = [], m_outcomes = [], m_pack = default_pack, m_lessons = lids\<rparr>"

end
