(* ===== verification/Registry.thy ===== *)
theory Registry
  imports Lesson_Types
begin

text \<open>
  The validator registry (crates/shared-types/src/registry.rs): the check that the host runs
  on a lesson package and the guest on a request. The registry itself is data, parsed from
  lessons/schema/validators.json at start-up, and is the parameter \<open>R\<close>.

  \<open>legal\<close> is the specification: what a validator must satisfy, with nested validators in
  parameters of type \<^verbatim>\<open>validators\<close>; the order in which the code tests things plays no part in
  it. The check is shown to accept exactly the legal validators and never to reach the
  \<^verbatim>\<open>expect\<close> it contains.
\<close>

section \<open>Data\<close>

record param_spec =
  ps_type :: string
  ps_required :: bool
  ps_values :: "string list"
  ps_summary :: "string option"

record validator_spec =
  vs_category :: string
  vs_implemented :: bool
  vs_failure_category :: string
  vs_summary :: string
  vs_params :: "(string, param_spec) btree_map"
  vs_requires_one_of :: "string list"

record registry =
  reg_schema_version :: u32
  reg_failure_categories :: "string list"
  reg_common_params :: "(string, param_spec) btree_map"
  reg_validators :: "(string, validator_spec) btree_map"

datatype registry_error =
    UnknownValidator string
  | NotImplemented string
  | MissingParam string string
  | UnknownParam string string
  | MissingOneOf string "string list"
  | WrongParamType string string string
  | BadEnumValue string string "string list"

text \<open>What the check can return besides success: an error of the code, or a panic.\<close>

datatype check_failure = Rejected registry_error | Panicked

type_synonym check_result = "check_failure + unit"

abbreviation quoted :: "string \<Rightarrow> string" where
  "quoted s \<equiv> CHR 0x27 # s @ [CHR 0x27]"

primrec display_registry_error :: "registry_error \<Rightarrow> string" where
  "display_registry_error (UnknownValidator k) = ''unknown validator '' @ quoted k"
| "display_registry_error (NotImplemented k) =
     ''validator '' @ quoted k @ '' is declared but not implemented by this agent''"
| "display_registry_error (MissingParam k p) =
     ''validator '' @ quoted k @ '' requires parameter '' @ quoted p"
| "display_registry_error (UnknownParam k p) =
     ''validator '' @ quoted k @ '' does not accept parameter '' @ quoted p"
| "display_registry_error (MissingOneOf k os) =
     ''validator '' @ quoted k @ '' needs at least one of: '' @ join '', '' os"
| "display_registry_error (WrongParamType k p e) =
     ''validator '' @ quoted k @ '' parameter '' @ quoted p @ '' must be of type '' @ e"
| "display_registry_error (BadEnumValue k p vs) =
     ''validator '' @ quoted k @ '' parameter '' @ quoted p @ '' must be one of: '' @ join '', '' vs"

definition registry_spec :: "registry \<Rightarrow> string \<Rightarrow> validator_spec option" where
  "registry_spec R kind = bt_get (reg_validators R) kind"

definition implemented_validators :: "registry \<Rightarrow> string list" where
  "implemented_validators R = map fst (filter (\<lambda>(_, spec). vs_implemented spec) (reg_validators R))"

section \<open>Values\<close>

text \<open>\<^verbatim>\<open>trim_start_matches\<close> with the pattern \<^verbatim>\<open>0o\<close>: the prefix is removed as often as it occurs.\<close>

fun strip_octal_prefix :: "string \<Rightarrow> string" where
  "strip_octal_prefix (a # b # s) =
     (if a = CHR ''0'' \<and> b = CHR ''o'' then strip_octal_prefix s else a # b # s)"
| "strip_octal_prefix s = s"

definition octal_mode :: "string \<Rightarrow> nat option" where
  "octal_mode s = parse_unsigned 8 (2 ^ 32) (strip_octal_prefix s)"

definition wrong :: "string \<Rightarrow> string \<Rightarrow> string \<Rightarrow> check_result" where
  "wrong kind param expected = Inl (Rejected (WrongParamType kind param expected))"

text \<open>\<^verbatim>\<open>check_value\<close> for every parameter type but \<^verbatim>\<open>validators\<close>.\<close>

definition check_scalar :: "string \<Rightarrow> string \<Rightarrow> param_spec \<Rightarrow> json \<Rightarrow> check_result" where
  "check_scalar kind name spec j =
     (let ty = ps_type spec in
      if ty = ''int'' \<or> ty = ''port'' then
        (case as_i64 j of
           None \<Rightarrow> wrong kind name ''an integer''
         | Some n \<Rightarrow> if ty = ''port'' \<and> \<not> (1 \<le> n \<and> n \<le> 65535)
                     then wrong kind name ''a port between 1 and 65535'' else Inr ())
      else if ty = ''bool'' then
        (if as_bool j = None then wrong kind name ''a boolean'' else Inr ())
      else if ty = ''list<string>'' then
        (case as_array j of
           None \<Rightarrow> wrong kind name ''an array of strings''
         | Some items \<Rightarrow> if list_ex (\<lambda>i. \<not> is_string i) items
                         then wrong kind name ''an array of strings'' else Inr ())
      else if ty = ''enum'' then
        (case as_str j of
           None \<Rightarrow> wrong kind name ''a string''
         | Some s \<Rightarrow> if s \<notin> set (ps_values spec)
                     then Inl (Rejected (BadEnumValue kind name (ps_values spec))) else Inr ())
      else if ty = ''path'' then
        (case as_str j of
           None \<Rightarrow> wrong kind name ''a string path''
         | Some s \<Rightarrow> if s = [] then wrong kind name ''a non-empty path'' else Inr ())
      else if ty = ''mode'' then
        (case j of
           JString s \<Rightarrow> if octal_mode s = None then wrong kind name ''an octal mode such as \"0644\"''
                        else Inr ()
         | JNumber _ \<Rightarrow> Inr ()
         | _ \<Rightarrow> wrong kind name ''an octal mode such as \"0644\"'')
      else if ty = ''sha256'' then
        (case as_str j of
           None \<Rightarrow> wrong kind name ''a hex digest''
         | Some s \<Rightarrow> if length s \<noteq> 64 \<or> \<not> list_all is_ascii_hexdigit s
                     then wrong kind name ''a 64 character hex SHA-256 digest'' else Inr ())
      else (if as_str j = None then wrong kind name ''a string'' else Inr ()))"

text \<open>The same as a predicate.\<close>

definition scalar_legal :: "param_spec \<Rightarrow> json \<Rightarrow> bool" where
  "scalar_legal spec j =
     (let ty = ps_type spec in
      if ty = ''int'' then as_i64 j \<noteq> None
      else if ty = ''port'' then (\<exists>n. as_i64 j = Some n \<and> 1 \<le> n \<and> n \<le> 65535)
      else if ty = ''bool'' then as_bool j \<noteq> None
      else if ty = ''list<string>'' then (\<exists>ss. j = JArray (map JString ss))
      else if ty = ''enum'' then (\<exists>s\<in>set (ps_values spec). j = JString s)
      else if ty = ''path'' then (\<exists>s. s \<noteq> [] \<and> j = JString s)
      else if ty = ''mode'' then (\<exists>s. j = JString s \<and> octal_mode s \<noteq> None) \<or> (\<exists>n. j = JNumber n)
      else if ty = ''sha256'' then
        (\<exists>s. j = JString s \<and> length s = 64 \<and> (\<forall>c\<in>set s. is_ascii_hexdigit c))
      else (\<exists>s. j = JString s))"

lemma all_strings_iff: "(\<forall>i\<in>set items. is_string i) \<longleftrightarrow> (\<exists>ss. items = map JString ss)"
proof
  assume "\<forall>i\<in>set items. is_string i"
  then have "items = map JString (map (\<lambda>i. the (as_str i)) items)"
    by (induction items) (auto simp: is_string_iff)
  then show "\<exists>ss. items = map JString ss" by blast
qed (auto simp: is_string_iff)

lemma wrong_neq_Inr [simp]: "wrong k p e \<noteq> Inr u" "wrong k p e \<noteq> Inl Panicked"
  by (simp_all add: wrong_def)

lemma as_eq_None:
  "as_str j = None \<longleftrightarrow> (\<nexists>s. j = JString s)"
  "as_bool j = None \<longleftrightarrow> (\<nexists>b. j = JBool b)"
  "as_array j = None \<longleftrightarrow> (\<nexists>xs. j = JArray xs)"
  by (cases j; simp)+

lemma check_scalar_iff: "check_scalar kind name spec j = Inr () \<longleftrightarrow> scalar_legal spec j"
proof -
  have ex: "list_ex (\<lambda>i. \<not> is_string i) items \<longleftrightarrow> \<not> (\<exists>ss. items = map JString ss)" for items
    using all_strings_iff [of items] by (auto simp: list_ex_iff)
  show ?thesis
    unfolding check_scalar_def scalar_legal_def Let_def
    by (auto simp: ex as_eq_None list_all_iff split: option.splits json.splits)
qed

lemma check_scalar_no_panic: "check_scalar kind name spec j \<noteq> Inl Panicked"
  unfolding check_scalar_def Let_def by (auto split: option.splits json.splits)

section \<open>The check\<close>

text \<open>
  \<^verbatim>\<open>Registry::check\<close> with its loop over the parameters (\<open>check_params\<close>), \<^verbatim>\<open>check_value\<close> and the
  loop over nested validators (\<open>check_nested\<close>). Nested validators are checked against the
  global registry, which is the one the outer check uses.
\<close>

definition known_param :: "registry \<Rightarrow> validator_spec \<Rightarrow> string \<Rightarrow> bool" where
  "known_param R spec name \<longleftrightarrow> bt_contains (vs_params spec) name \<or> bt_contains (reg_common_params R) name"

definition param_for :: "registry \<Rightarrow> validator_spec \<Rightarrow> string \<Rightarrow> param_spec option" where
  "param_for R spec name =
     (case bt_get (vs_params spec) name of
        Some p \<Rightarrow> Some p
      | None \<Rightarrow> bt_get (reg_common_params R) name)"

definition unknown_param :: "registry \<Rightarrow> validator_spec \<Rightarrow> validator \<Rightarrow> string option" where
  "unknown_param R spec v = List.find (\<lambda>name. \<not> known_param R spec name) (bt_keys (v_params v))"

definition missing_required :: "validator_spec \<Rightarrow> validator \<Rightarrow> string option" where
  "missing_required spec v =
     map_option fst (List.find (\<lambda>(name, p). ps_required p \<and> \<not> bt_contains (v_params v) name) (vs_params spec))"

definition lacks_one_of :: "validator_spec \<Rightarrow> validator \<Rightarrow> bool" where
  "lacks_one_of spec v \<longleftrightarrow>
     vs_requires_one_of spec \<noteq> []
     \<and> \<not> list_ex (\<lambda>name. bt_contains (v_params v) name) (vs_requires_one_of spec)"

function (sequential) check :: "registry \<Rightarrow> validator \<Rightarrow> check_result"
  and check_params :: "registry \<Rightarrow> validator_spec \<Rightarrow> string \<Rightarrow> (string \<times> json) list \<Rightarrow> check_result"
  and check_value :: "registry \<Rightarrow> string \<Rightarrow> string \<Rightarrow> param_spec \<Rightarrow> json \<Rightarrow> check_result"
  and check_nested :: "registry \<Rightarrow> string \<Rightarrow> string \<Rightarrow> json list \<Rightarrow> check_result" where
  "check R v =
     (case registry_spec R (v_kind v) of
        None \<Rightarrow> Inl (Rejected (UnknownValidator (v_kind v)))
      | Some spec \<Rightarrow>
          if \<not> vs_implemented spec then Inl (Rejected (NotImplemented (v_kind v)))
          else case unknown_param R spec v of
            Some name \<Rightarrow> Inl (Rejected (UnknownParam (v_kind v) name))
          | None \<Rightarrow>
              case missing_required spec v of
                Some name \<Rightarrow> Inl (Rejected (MissingParam (v_kind v) name))
              | None \<Rightarrow>
                  if lacks_one_of spec v
                  then Inl (Rejected (MissingOneOf (v_kind v) (vs_requires_one_of spec)))
                  else check_params R spec (v_kind v) (v_params v))"
| "check_params R spec kind [] = Inr ()"
| "check_params R spec kind ((name, j) # rest) =
     (case param_for R spec name of
        None \<Rightarrow> Inl Panicked
      | Some p \<Rightarrow> res_bind (check_value R kind name p j) (\<lambda>_. check_params R spec kind rest))"
| "check_value R kind name p j =
     (if ps_type p = ''validators'' then
        (case j of
           JArray items \<Rightarrow> check_nested R kind name items
         | _ \<Rightarrow> wrong kind name ''an array of validators'')
      else check_scalar kind name p j)"
| "check_nested R kind name [] = Inr ()"
| "check_nested R kind name (item # items) =
     (case validator_of_json item of
        None \<Rightarrow> wrong kind name ''an array of validators''
      | Some v \<Rightarrow> res_bind (check R v) (\<lambda>_. check_nested R kind name items))"
  by pat_completeness auto
termination
proof (relation "measure (\<lambda>x. case x of
    Inl (Inl (R, v)) \<Rightarrow> 3 * members_nodes (v_params v) + 2
  | Inl (Inr (R, spec, kind, ps)) \<Rightarrow> 3 * members_nodes ps + 1
  | Inr (Inl (R, kind, name, p, j)) \<Rightarrow> 3 * json_nodes j
  | Inr (Inr (R, kind, name, items)) \<Rightarrow> 3 * sum_list (map json_nodes items) + 2)", goal_cases)
  case (6 R kind name item items v)
  then show ?case using validator_of_json_nodes [of item v] by simp
qed (auto simp: add_gr_0)

declare check.simps [simp del] check_value.simps [simp del]

section \<open>The specification\<close>

inductive legal :: "registry \<Rightarrow> validator \<Rightarrow> bool"
  and legal_value :: "registry \<Rightarrow> param_spec \<Rightarrow> json \<Rightarrow> bool" where
  legal: "registry_spec R (v_kind v) = Some spec \<Longrightarrow> vs_implemented spec \<Longrightarrow>
    \<forall>(name, p)\<in>set (vs_params spec). ps_required p \<longrightarrow> bt_contains (v_params v) name \<Longrightarrow>
    vs_requires_one_of spec = [] \<or> (\<exists>name\<in>set (vs_requires_one_of spec). bt_contains (v_params v) name) \<Longrightarrow>
    \<forall>(name, j)\<in>set (v_params v). \<exists>p. param_for R spec name = Some p \<and> legal_value R p j \<Longrightarrow>
    legal R v"
| scalar: "ps_type p \<noteq> ''validators'' \<Longrightarrow> scalar_legal p j \<Longrightarrow> legal_value R p j"
| nested: "ps_type p = ''validators'' \<Longrightarrow> j = JArray items \<Longrightarrow>
    \<forall>item\<in>set items. \<exists>v. validator_of_json item = Some v \<and> legal R v \<Longrightarrow> legal_value R p j"

inductive_simps legal_iff: "legal R v"
inductive_simps legal_value_iff: "legal_value R p j"

lemma known_param_iff: "known_param R spec name \<longleftrightarrow> param_for R spec name \<noteq> None"
  by (auto simp: known_param_def param_for_def bt_contains_def split: option.splits)

lemma unknown_param_None:
  "unknown_param R spec v = None \<longleftrightarrow> (\<forall>(name, j)\<in>set (v_params v). param_for R spec name \<noteq> None)"
  by (auto simp: unknown_param_def find_None_iff_all known_param_iff)

lemma missing_required_None:
  "missing_required spec v = None \<longleftrightarrow>
     (\<forall>(name, p)\<in>set (vs_params spec). ps_required p \<longrightarrow> bt_contains (v_params v) name)"
  by (auto simp: missing_required_def find_None_iff_all)

lemma lacks_one_of_iff:
  "lacks_one_of spec v \<longleftrightarrow> \<not> (vs_requires_one_of spec = []
     \<or> (\<exists>name\<in>set (vs_requires_one_of spec). bt_contains (v_params v) name))"
  by (auto simp: lacks_one_of_def list_ex_iff)

text \<open>The check reaches its parameter loop exactly when the four tests before it pass.\<close>

lemma check_cases:
  assumes "r = Inr () \<or> r = Inl Panicked"
  shows "check R v = r \<longleftrightarrow>
    (\<exists>spec. registry_spec R (v_kind v) = Some spec \<and> vs_implemented spec
       \<and> unknown_param R spec v = None \<and> missing_required spec v = None \<and> \<not> lacks_one_of spec v
       \<and> check_params R spec (v_kind v) (v_params v) = r)"
  using assms by (subst check.simps) (auto split: option.split)

text \<open>What success of each function means.\<close>

definition params_legal :: "registry \<Rightarrow> validator_spec \<Rightarrow> (string \<times> json) list \<Rightarrow> bool" where
  "params_legal R spec ps \<longleftrightarrow>
     (\<forall>(name, j)\<in>set ps. \<exists>p. param_for R spec name = Some p \<and> legal_value R p j)"

definition nested_legal :: "registry \<Rightarrow> json list \<Rightarrow> bool" where
  "nested_legal R items \<longleftrightarrow> (\<forall>item\<in>set items. \<exists>v. validator_of_json item = Some v \<and> legal R v)"

lemma check_legal:
  "check R v = Inr () \<longleftrightarrow> legal R v"
  "check_params R spec kind ps = Inr () \<longleftrightarrow> params_legal R spec ps"
  "check_value R kind name p j = Inr () \<longleftrightarrow> legal_value R p j"
  "check_nested R kind name items = Inr () \<longleftrightarrow> nested_legal R items"
proof (induction R v and R spec kind ps and R kind name p j and R kind name items
    rule: check_check_params_check_value_check_nested.induct)
  case (1 R v)
  have "legal R v \<longleftrightarrow>
    (\<exists>spec. registry_spec R (v_kind v) = Some spec \<and> vs_implemented spec
       \<and> unknown_param R spec v = None \<and> missing_required spec v = None \<and> \<not> lacks_one_of spec v
       \<and> params_legal R spec (v_params v))"
    by (subst legal_iff)
      (fastforce simp: unknown_param_None missing_required_None lacks_one_of_iff params_legal_def)
  moreover note 1
  ultimately show ?case unfolding check_cases [OF disjI1, OF refl] by (metis (no_types, lifting))
next
  case (3 R spec kind name j rest)
  then show ?case by (auto simp: params_legal_def res_bind_Inr_iff split: option.splits)
next
  case (4 R kind name p j)
  then show ?case
    by (subst check_value.simps, subst legal_value_iff)
      (auto simp: check_scalar_iff nested_legal_def split: json.splits)
next
  case (6 R kind name item items)
  then show ?case by (auto simp: nested_legal_def res_bind_Inr_iff split: option.splits)
qed (simp_all add: params_legal_def nested_legal_def)

text \<open>The \<^verbatim>\<open>expect\<close> is never reached: unknown parameters were rejected before the loop.\<close>

lemma check_never_panics:
  "check R v \<noteq> Inl Panicked"
  "\<forall>(name, j)\<in>set ps. param_for R spec name \<noteq> None \<Longrightarrow> check_params R spec kind ps \<noteq> Inl Panicked"
  "check_value R kind name p j \<noteq> Inl Panicked"
  "check_nested R kind name items \<noteq> Inl Panicked"
proof (induction R v and R spec kind ps and R kind name p j and R kind name items
    rule: check_check_params_check_value_check_nested.induct)
  case (1 R v)
  then show ?case
    unfolding check_cases [OF disjI2, OF refl] by (auto simp: unknown_param_None)
next
  case (4 R kind name p j)
  then show ?case
    by (subst check_value.simps) (auto simp: check_scalar_no_panic split: json.splits)
qed (auto simp: res_bind_Inl_iff split: option.splits)

section \<open>Properties\<close>

text \<open>C1: The registry accepts exactly the legal validators: known and implemented, with known
  parameters of the declared types, the required ones present, and every nested validator legal in
  turn. The check always returns and never reaches its panic.\<close>

theorem registry_check_exact:
  "(check R v = Inr () \<longleftrightarrow> legal R v) \<and> check R v \<noteq> Inl Panicked"
  using check_legal(1) check_never_panics(1) by blast

end
