(* ===== verification/Prereq_Cycles.thy ===== *)
theory Prereq_Cycles
  imports Lesson_Types
begin

text \<open>
  The depth-first search of \<^verbatim>\<open>Catalog::prerequisite_cycles\<close>
  (crates/lesson-engine/src/catalog.rs): the recursive \<^verbatim>\<open>visit\<close> over explicit marks, stack and
  list of reported cycles. It is shown to report only real cycles, and at least one when the
  prerequisite relation has any.
\<close>

section \<open>The search\<close>

type_synonym lesson_map = "(string, lesson) btree_map"

datatype mark = Open | Done

record dfs =
  marks :: "string \<rightharpoonup> mark"
  stack :: "string list"
  cycles :: "string list list"

definition dfs_init :: dfs where
  "dfs_init = \<lparr>marks = Map.empty, stack = [], cycles = []\<rparr>"

text \<open>A back edge: the loop is the stack from where it started, closed with the node.\<close>

definition report_cycle :: "string \<Rightarrow> dfs \<Rightarrow> dfs" where
  "report_cycle node s =
     (case position (\<lambda>x. x = node) (stack s) of
        Some start \<Rightarrow> s\<lparr>cycles := cycles s @ [drop start (stack s) @ [node]]\<rparr>
      | None \<Rightarrow> s)"

definition enter :: "string \<Rightarrow> dfs \<Rightarrow> dfs" where
  "enter node s = s\<lparr>marks := (marks s)(node \<mapsto> Open), stack := stack s @ [node]\<rparr>"

definition leave :: "string \<Rightarrow> dfs \<Rightarrow> dfs" where
  "leave node s = s\<lparr>stack := butlast (stack s), marks := (marks s)(node \<mapsto> Done)\<rparr>"

lemma dfs_selectors [simp]:
  "marks (report_cycle v s) = marks s" "stack (report_cycle v s) = stack s"
  "marks (enter v s) = (marks s)(v \<mapsto> Open)" "stack (enter v s) = stack s @ [v]"
  "cycles (enter v s) = cycles s"
  "marks (leave v s) = (marks s)(v \<mapsto> Done)" "stack (leave v s) = butlast (stack s)"
  "cycles (leave v s) = cycles s"
  by (simp_all add: report_cycle_def enter_def leave_def split: option.splits)

text \<open>
  \<^verbatim>\<open>visit\<close> and its loop over the prerequisites. The recursion ends because it descends only
  from lessons of the catalogue that carry no mark yet, and no mark is ever removed.
\<close>

definition unmarked :: "lesson_map \<Rightarrow> dfs \<Rightarrow> nat" where
  "unmarked L s = card (set (bt_keys L) - dom (marks s))"

function (sequential) visit :: "lesson_map \<Rightarrow> string \<Rightarrow> dfs \<Rightarrow> dfs"
  and visit_all :: "lesson_map \<Rightarrow> string list \<Rightarrow> dfs \<Rightarrow> dfs" where
  "visit L node s =
     (case marks s node of
        Some Done \<Rightarrow> s
      | Some Open \<Rightarrow> report_cycle node s
      | None \<Rightarrow>
          (case bt_get L node of
             Some l \<Rightarrow> leave node (visit_all L (l_prerequisites l) (enter node s))
           | None \<Rightarrow> leave node (enter node s)))"
| "visit_all L [] s = s"
| "visit_all L (p # ps) s =
     (if bt_contains L p then visit_all L ps (visit L p s) else visit_all L ps s)"
  by pat_completeness auto

lemma visit_dom:
  "visit_visit_all_dom (Inl (L, v, s)) \<Longrightarrow> dom (marks s) \<subseteq> dom (marks (visit L v s))"
  "visit_visit_all_dom (Inr (L, ps, s)) \<Longrightarrow> dom (marks s) \<subseteq> dom (marks (visit_all L ps s))"
proof (induction L v s and L ps s rule: visit_visit_all.pinduct)
  case (1 L v s)
  then show ?case
    by (fastforce simp: visit.psimps split: option.split mark.split)
next
  case (3 L p ps s)
  then show ?case by (cases "bt_contains L p") (auto simp: visit_all.psimps)
qed (simp add: visit_all.psimps)

lemma unmarked_mono: "dom (marks s) \<subseteq> dom (marks t) \<Longrightarrow> unmarked L t \<le> unmarked L s"
  unfolding unmarked_def by (rule card_mono) auto

lemma unmarked_enter:
  assumes "marks s v = None" "bt_get L v = Some l"
  shows "unmarked L (enter v s) < unmarked L s"
proof -
  have "v \<in> set (bt_keys L) - dom (marks s)"
    using assms bt_contains_iff [of L v] by (auto simp: bt_contains_def)
  then show ?thesis
    unfolding unmarked_def by (intro psubset_card_mono) auto
qed

termination visit
proof (relation "measures
    [\<lambda>x. case x of Inl (L, v, s) \<Rightarrow> unmarked L s | Inr (L, ps, s) \<Rightarrow> unmarked L s,
     \<lambda>x. case x of Inl _ \<Rightarrow> 0 | Inr (L, ps, s) \<Rightarrow> Suc (length ps)]", goal_cases)
  case (4 L p ps s)
  then show ?case using unmarked_mono [OF visit_dom(1)] by (auto simp: le_less)
qed (auto simp: unmarked_enter)

declare visit.simps [simp del]

definition prerequisite_cycles :: "lesson_map \<Rightarrow> string list list" where
  "prerequisite_cycles L = cycles (fold (visit L) (bt_keys L) dfs_init)"

section \<open>The prerequisite relation\<close>

text \<open>\<open>(a, b)\<close> when lesson \<open>a\<close> lists \<open>b\<close> and both are in the catalogue.\<close>

definition prereq_edges :: "lesson_map \<Rightarrow> (string \<times> string) set" where
  "prereq_edges L =
     {(a, b). \<exists>l. bt_get L a = Some l \<and> b \<in> set (l_prerequisites l) \<and> bt_contains L b}"

fun is_path :: "('a \<times> 'a) set \<Rightarrow> 'a list \<Rightarrow> bool" where
  "is_path E (x # y # zs) \<longleftrightarrow> (x, y) \<in> E \<and> is_path E (y # zs)"
| "is_path E _ \<longleftrightarrow> True"

text \<open>A simple cycle as the code reports it: the first node is repeated at the end.\<close>

definition is_cycle :: "('a \<times> 'a) set \<Rightarrow> 'a list \<Rightarrow> bool" where
  "is_cycle E c \<longleftrightarrow> 2 \<le> length c \<and> hd c = last c \<and> distinct (butlast c) \<and> is_path E c"

lemma is_path_snoc:
  "is_path E (xs @ [x]) \<longleftrightarrow> is_path E xs \<and> (xs = [] \<or> (last xs, x) \<in> E)"
  by (induction E xs rule: is_path.induct) auto

lemma is_path_drop: "is_path E xs \<Longrightarrow> is_path E (drop n xs)"
proof (induction n arbitrary: xs)
  case (Suc n)
  then show ?case by (cases xs; cases "tl xs") auto
qed simp

lemma is_path_trancl: "is_path E (x # ys) \<Longrightarrow> ys \<noteq> [] \<Longrightarrow> (x, last ys) \<in> E\<^sup>+"
proof (induction ys arbitrary: x)
  case (Cons y ys)
  then show ?case by (cases "ys = []") (auto intro: trancl_into_trancl2)
qed simp

lemma is_cycle_not_acyclic: "is_cycle E c \<Longrightarrow> \<not> acyclic E"
proof -
  assume c: "is_cycle E c"
  then obtain x y ys where "c = x # y # ys"
    by (cases c; cases "tl c") (auto simp: is_cycle_def)
  with c is_path_trancl [of E x "y # ys"] show ?thesis
    by (auto simp: is_cycle_def acyclic_def)
qed

section \<open>The invariant of the search\<close>

abbreviation finished :: "dfs \<Rightarrow> string set" where
  "finished s \<equiv> {v. marks s v = Some Done}"

text \<open>
  The stack is a path of the open nodes, every reported list is a cycle, and while nothing has
  been reported the finished nodes are closed under prerequisites and free of cycles.
\<close>

definition dfs_inv :: "lesson_map \<Rightarrow> dfs \<Rightarrow> bool" where
  "dfs_inv L s \<longleftrightarrow>
     distinct (stack s) \<and> set (stack s) = {v. marks s v = Some Open}
     \<and> is_path (prereq_edges L) (stack s)
     \<and> (\<forall>c\<in>set (cycles s). is_cycle (prereq_edges L) c)
     \<and> (cycles s = [] \<longrightarrow> prereq_edges L `` finished s \<subseteq> finished s
          \<and> acyclic (Restr (prereq_edges L) (finished s)))"

definition dfs_extends :: "dfs \<Rightarrow> dfs \<Rightarrow> bool" where
  "dfs_extends s t \<longleftrightarrow>
     stack t = stack s \<and> (\<forall>v. marks s v \<noteq> None \<longrightarrow> marks t v = marks s v) \<and> prefix (cycles s) (cycles t)"

lemma dfs_extends_refl [simp]: "dfs_extends s s"
  by (simp add: dfs_extends_def)

lemma dfs_extends_trans: "dfs_extends s t \<Longrightarrow> dfs_extends t u \<Longrightarrow> dfs_extends s u"
  by (auto simp: dfs_extends_def)

lemma dfs_extends_Nil: "dfs_extends s t \<Longrightarrow> cycles t = [] \<Longrightarrow> cycles s = []"
  by (auto simp: dfs_extends_def)

lemma dfs_extends_marked: "dfs_extends s t \<Longrightarrow> marks s v = Some m \<Longrightarrow> marks t v = Some m"
  by (auto simp: dfs_extends_def)

lemma acyclic_add_source:
  assumes "E `` D \<subseteq> D" "acyclic (Restr E D)" "E `` {v} \<subseteq> D" "v \<notin> D"
  shows "acyclic (Restr E (insert v D))"
proof (rule acyclicI, intro allI notI)
  let ?R = "Restr E (insert v D)"
  have stay: "(x, y) \<in> ?R\<^sup>+ \<Longrightarrow> x \<in> D \<Longrightarrow> (x, y) \<in> (Restr E D)\<^sup>+ \<and> y \<in> D" for x y
  proof (induction rule: trancl_induct)
    case (base y)
    with assms(1) show ?case by auto
  next
    case (step y z)
    with assms(1) have "(y, z) \<in> Restr E D" by auto
    with step show ?case by (auto intro: trancl_into_trancl)
  qed
  fix x
  assume x: "(x, x) \<in> ?R\<^sup>+"
  then obtain y where "(y, x) \<in> ?R" by (auto elim: tranclE)
  with assms(1,3) have "x \<in> D" by auto
  with stay [OF x] assms(2) show False by (simp add: acyclic_def)
qed

lemma dfs_inv_init: "dfs_inv L dfs_init"
  by (simp add: dfs_inv_def dfs_init_def acyclic_def)

lemma dfs_inv_report:
  assumes "dfs_inv L s" "marks s v = Some Open" "(last (stack s), v) \<in> prereq_edges L"
  shows "dfs_inv L (report_cycle v s)" "dfs_extends s (report_cycle v s)" "cycles (report_cycle v s) \<noteq> []"
proof -
  from assms(1,2) have "v \<in> set (stack s)" by (auto simp: dfs_inv_def)
  then have "position (\<lambda>x. x = v) (stack s) \<noteq> None" by (simp add: position_None)
  then obtain i where i: "position (\<lambda>x. x = v) (stack s) = Some i" by blast
  let ?d = "drop i (stack s)"
  from position_Some [OF i] have d: "?d = v # drop (Suc i) (stack s)"
    by (metis Cons_nth_drop_Suc)
  have "last ?d = last (stack s)" using position_Some [OF i] by simp
  moreover have "is_path (prereq_edges L) ?d"
    using assms(1) by (simp add: dfs_inv_def is_path_drop)
  ultimately have "is_path (prereq_edges L) (?d @ [v])"
    using assms(3) by (simp add: is_path_snoc del: append_Cons)
  moreover have "2 \<le> length (?d @ [v])" "hd (?d @ [v]) = v" by (simp_all add: d)
  ultimately have c: "is_cycle (prereq_edges L) (?d @ [v])"
    using assms(1) by (simp add: is_cycle_def dfs_inv_def)
  have r: "report_cycle v s = s\<lparr>cycles := cycles s @ [?d @ [v]]\<rparr>"
    using i by (simp add: report_cycle_def)
  from c assms(1) show "dfs_inv L (report_cycle v s)" by (auto simp: r dfs_inv_def)
  show "dfs_extends s (report_cycle v s)" "cycles (report_cycle v s) \<noteq> []"
    by (auto simp: r dfs_extends_def)
qed

lemma dfs_inv_enter:
  assumes "dfs_inv L s" "marks s v = None" "stack s = [] \<or> (last (stack s), v) \<in> prereq_edges L"
  shows "dfs_inv L (enter v s)"
proof -
  have "finished (enter v s) = finished s" using assms(2) by auto
  with assms show ?thesis by (auto simp: dfs_inv_def is_path_snoc)
qed

lemma dfs_inv_leave:
  assumes inv: "dfs_inv L t" and top: "stack t = st @ [v]"
    and succ: "cycles t = [] \<Longrightarrow> prereq_edges L `` {v} \<subseteq> finished t"
  shows "dfs_inv L (leave v t)"
proof -
  have v: "marks t v = Some Open" "v \<notin> set st" using inv top by (auto simp: dfs_inv_def)
  have op: "set st = {u. marks (leave v t) u = Some Open}"
    using inv top v by (auto simp: dfs_inv_def)
  have fin: "finished (leave v t) = insert v (finished t)" by auto
  have "prereq_edges L `` insert v (finished t) \<subseteq> insert v (finished t)
      \<and> acyclic (Restr (prereq_edges L) (insert v (finished t)))" if "cycles t = []"
    using acyclic_add_source [of "prereq_edges L" "finished t" v] succ [OF that] inv that v(1)
    by (auto simp: dfs_inv_def)
  with inv top op fin show ?thesis
    by (auto simp: dfs_inv_def is_path_snoc)
qed

lemma visit_correct:
  "dfs_inv L s \<Longrightarrow> stack s = [] \<or> (last (stack s), v) \<in> prereq_edges L \<Longrightarrow>
     dfs_inv L (visit L v s) \<and> dfs_extends s (visit L v s)
     \<and> (cycles (visit L v s) = [] \<longrightarrow> marks (visit L v s) v = Some Done)"
  "dfs_inv L s \<Longrightarrow> stack s \<noteq> [] \<Longrightarrow>
     \<forall>p\<in>set ps. bt_contains L p \<longrightarrow> (last (stack s), p) \<in> prereq_edges L \<Longrightarrow>
     dfs_inv L (visit_all L ps s) \<and> dfs_extends s (visit_all L ps s)
     \<and> (cycles (visit_all L ps s) = [] \<longrightarrow>
          (\<forall>p\<in>set ps. bt_contains L p \<longrightarrow> marks (visit_all L ps s) p = Some Done))"
proof (induction L v s and L ps s rule: visit_visit_all.induct)
  case (1 L v s)
  show ?case
  proof (cases "marks s v")
    case None
    let ?s1 = "enter v s"
    define s2 where "s2 = (case bt_get L v of Some l \<Rightarrow> visit_all L (l_prerequisites l) ?s1 | None \<Rightarrow> ?s1)"
    have inv1: "dfs_inv L ?s1" using "1.prems" None by (intro dfs_inv_enter) auto
    have "dfs_inv L s2 \<and> dfs_extends ?s1 s2 \<and> (cycles s2 = [] \<longrightarrow> prereq_edges L `` {v} \<subseteq> finished s2)"
    proof (cases "bt_get L v")
      case (Some l)
      then have "\<forall>p\<in>set (l_prerequisites l). bt_contains L p \<longrightarrow> (last (stack ?s1), p) \<in> prereq_edges L"
        by (simp add: prereq_edges_def)
      from "1.IH" [OF None Some inv1 _ this] Some show ?thesis
        by (auto simp: s2_def prereq_edges_def)
    qed (use inv1 in \<open>auto simp: s2_def prereq_edges_def\<close>)
    then have s2: "dfs_inv L s2" "dfs_extends ?s1 s2" "cycles s2 = [] \<Longrightarrow> prereq_edges L `` {v} \<subseteq> finished s2"
      by auto
    have vis: "visit L v s = leave v s2"
      using None by (simp add: visit.simps s2_def split: option.split)
    have top: "stack s2 = stack s @ [v]" using s2(2) by (simp add: dfs_extends_def)
    have "dfs_extends s (leave v s2)"
      using s2(2) top None by (auto simp: dfs_extends_def)
    with dfs_inv_leave [OF s2(1) top s2(3)] show ?thesis by (simp add: vis)
  next
    case (Some m)
    show ?thesis
    proof (cases m)
      case Open
      with "1.prems" Some have "(last (stack s), v) \<in> prereq_edges L" by (auto simp: dfs_inv_def)
      with "1.prems" Some Open show ?thesis
        by (auto simp: visit.simps dfs_inv_report dest: dfs_inv_report(3))
    qed (use 1 Some in \<open>auto simp: visit.simps\<close>)
  qed
next
  case (2 L s)
  then show ?case by simp
next
  case (3 L p ps s)
  show ?case
  proof (cases "bt_contains L p")
    case True
    let ?t = "visit L p s"
    from 3 True have t: "dfs_inv L ?t" "dfs_extends s ?t" "cycles ?t = [] \<longrightarrow> marks ?t p = Some Done"
      by auto
    then have "stack ?t = stack s" by (simp add: dfs_extends_def)
    with 3 True t have u: "dfs_inv L (visit_all L ps ?t)" "dfs_extends ?t (visit_all L ps ?t)"
      "cycles (visit_all L ps ?t) = [] \<longrightarrow>
        (\<forall>q\<in>set ps. bt_contains L q \<longrightarrow> marks (visit_all L ps ?t) q = Some Done)"
      by auto
    with t True show ?thesis
      by (auto intro: dfs_extends_trans dfs_extends_marked dest: dfs_extends_Nil)
  next
    case False
    with 3 show ?thesis by auto
  qed
qed

lemma fold_visit_correct:
  assumes "dfs_inv L s" "stack s = []"
  shows "dfs_inv L (fold (visit L) vs s) \<and> dfs_extends s (fold (visit L) vs s)
    \<and> (cycles (fold (visit L) vs s) = [] \<longrightarrow> set vs \<subseteq> finished (fold (visit L) vs s))"
  using assms
proof (induction vs arbitrary: s)
  case (Cons v vs)
  let ?t = "visit L v s"
  from Cons.prems visit_correct(1) [of L s v]
  have t: "dfs_inv L ?t" "dfs_extends s ?t" "cycles ?t = [] \<longrightarrow> marks ?t v = Some Done" by auto
  then have "stack ?t = []" using Cons.prems by (simp add: dfs_extends_def)
  with Cons.IH [OF t(1)] t show ?case
    by (auto intro: dfs_extends_trans dfs_extends_marked dest: dfs_extends_Nil)
qed simp

section \<open>Soundness and completeness\<close>

lemma prerequisite_cycles_sound:
  "c \<in> set (prerequisite_cycles L) \<Longrightarrow> is_cycle (prereq_edges L) c"
  using fold_visit_correct [OF dfs_inv_init, of L "bt_keys L"]
  by (auto simp: prerequisite_cycles_def dfs_init_def dfs_inv_def)

lemma prerequisite_cycles_complete:
  assumes "prerequisite_cycles L = []"
  shows "acyclic (prereq_edges L)"
proof -
  let ?t = "fold (visit L) (bt_keys L) dfs_init"
  have t: "dfs_inv L ?t" "cycles ?t = []" "set (bt_keys L) \<subseteq> finished ?t"
    using fold_visit_correct [OF dfs_inv_init, of L "bt_keys L"] assms
    by (auto simp: prerequisite_cycles_def dfs_init_def)
  have "prereq_edges L \<subseteq> set (bt_keys L) \<times> set (bt_keys L)"
    by (auto simp: prereq_edges_def bt_contains_iff dest: bt_get_mem intro: rev_image_eqI)
  with t(3) have "prereq_edges L = Restr (prereq_edges L) (finished ?t)" by blast
  with t show ?thesis by (metis dfs_inv_def)
qed

lemma prerequisite_cycles_Nil_iff: "prerequisite_cycles L = [] \<longleftrightarrow> acyclic (prereq_edges L)"
proof
  assume "acyclic (prereq_edges L)"
  with prerequisite_cycles_sound is_cycle_not_acyclic show "prerequisite_cycles L = []"
    by (metis list.set_intros(1) neq_Nil_conv)
qed (rule prerequisite_cycles_complete)

section \<open>Properties\<close>

text \<open>C4: The search for prerequisite cycles is exact: it reports nothing if and only if the
  prerequisite relation between the catalogue's lessons is acyclic, and everything it reports is a
  simple cycle of that relation.\<close>

theorem cycle_search_exact:
  "(prerequisite_cycles L = [] \<longleftrightarrow> acyclic (prereq_edges L))
   \<and> list_all (is_cycle (prereq_edges L)) (prerequisite_cycles L)"
  using prerequisite_cycles_Nil_iff prerequisite_cycles_sound by (auto simp: list_all_iff)

end
