(* ===== verification/Catalog.thy ===== *)
theory Catalog
  imports Registry Prereq_Cycles
begin

text \<open>
  The lesson catalogue (crates/lesson-engine/src/catalog.rs): loading, the integrity checks,
  and the queries. Files are the parameter \<open>package_source\<close>: what reading a pack directory
  and a lesson file gives. \<open>consistent\<close> is what a loaded catalogue promises; the integrity
  checks are shown to find no issue exactly for consistent catalogues.
\<close>

section \<open>State\<close>

record catalog =
  cat_lessons :: lesson_map
  cat_modules :: "(string, module) btree_map"
  cat_module_order :: "string list"
  cat_lesson_order :: "string list"
  cat_warnings :: "string list"

record catalog_issue =
  ci_source :: string
  ci_message :: string

definition issue :: "string \<Rightarrow> string \<Rightarrow> catalog_issue" where
  "issue src msg = \<lparr>ci_source = src, ci_message = msg\<rparr>"

definition display_issue :: "catalog_issue \<Rightarrow> string" where
  "display_issue i = ci_source i @ '': '' @ ci_message i"

definition empty_catalog :: catalog where
  "empty_catalog =
     \<lparr>cat_lessons = [], cat_modules = [], cat_module_order = [], cat_lesson_order = [],
      cat_warnings = []\<rparr>"

datatype load_error =
    Unreadable string
  | NoModules
  | IdMismatch string string
  | ModuleMismatch string string string
  | DuplicateLesson string
  | Inconsistent "catalog_issue list"

section \<open>Integrity\<close>

definition prerequisite_issues :: "lesson_map \<Rightarrow> string \<Rightarrow> lesson \<Rightarrow> catalog_issue list" where
  "prerequisite_issues L lid l =
     concat (map (\<lambda>p.
         (if bt_contains L p then [] else [issue lid (''prerequisite '' @ p @ '' does not exist'')])
         @ (if p = lid then [issue lid ''lesson lists itself as a prerequisite''] else []))
       (l_prerequisites l))"

definition validator_issues :: "registry \<Rightarrow> string \<Rightarrow> lesson \<Rightarrow> catalog_issue list" where
  "validator_issues R lid l =
     concat (map (\<lambda>t. concat (map (\<lambda>v.
         (case check R v of
            Inl (Rejected e) \<Rightarrow> [issue (lid @ ''/'' @ t_id t) (display_registry_error e)]
          | _ \<Rightarrow> [])) (t_validators t))) (l_tasks l))"

fun duplicate_task_issues :: "string \<Rightarrow> string set \<Rightarrow> task list \<Rightarrow> catalog_issue list" where
  "duplicate_task_issues lid seen [] = []"
| "duplicate_task_issues lid seen (t # ts) =
     (if t_id t \<in> seen then issue lid (''duplicate task id '' @ t_id t) # duplicate_task_issues lid seen ts
      else duplicate_task_issues lid (insert (t_id t) seen) ts)"

definition lesson_issues :: "registry \<Rightarrow> lesson_map \<Rightarrow> string \<times> lesson \<Rightarrow> catalog_issue list" where
  "lesson_issues R L = (\<lambda>(lid, l).
     prerequisite_issues L lid l @ validator_issues R lid l @ duplicate_task_issues lid {} (l_tasks l))"

definition cycle_issue :: "string list \<Rightarrow> catalog_issue" where
  "cycle_issue c =
     issue (case c of [] \<Rightarrow> [] | x # _ \<Rightarrow> x) (''prerequisite cycle: '' @ join '' -> '' c)"

definition module_issues :: "string \<times> module \<Rightarrow> catalog_issue list" where
  "module_issues = (\<lambda>(mid, m). if m_lessons m = [] then [issue mid ''module lists no lessons''] else [])"

definition integrity_issues :: "registry \<Rightarrow> catalog \<Rightarrow> catalog_issue list" where
  "integrity_issues R C =
     concat (map (lesson_issues R (cat_lessons C)) (cat_lessons C))
     @ map cycle_issue (prerequisite_cycles (cat_lessons C))
     @ concat (map module_issues (cat_modules C))"

definition advisory_notes :: "catalog \<Rightarrow> string list" where
  "advisory_notes C =
     concat (map (\<lambda>(lid, l).
         (if e_reset_policy (l_environment l) = PerAttempt
             \<and> e_setup_script (l_environment l) \<noteq> None \<and> e_reset_script (l_environment l) = None
          then [lid @ '' resets per attempt and has a setup script but no reset script, so Reset task cannot restore what setup created'']
          else [])
         @ (if l_commands l = []
            then [lid @ '' lists no commands, so it will not appear in the command reference'']
            else []))
       (cat_lessons C))"

section \<open>Loading\<close>

text \<open>
  \<open>pack_modules p\<close> is what listing the pack directory \<open>p\<close> gives: the directories that hold a
  \<^verbatim>\<open>module.json\<close>, in directory order, each with the parsed manifest or the error; a pack that
  does not exist gives no entry. \<open>lesson_file d i\<close> is the parsed \<^verbatim>\<open>d/i.json\<close> or the error.
\<close>

record package_source =
  pack_modules :: "string \<Rightarrow> load_error + (string \<times> (load_error + module)) list"
  lesson_file :: "string \<Rightarrow> string \<Rightarrow> load_error + lesson"

fun read_manifests :: "(string \<times> (load_error + module)) list \<Rightarrow> load_error + (string \<times> module) list" where
  "read_manifests [] = Inr []"
| "read_manifests ((dir, m) # entries) =
     res_bind m (\<lambda>m. res_bind (read_manifests entries) (\<lambda>ms. Inr ((dir, m) # ms)))"

definition collect_modules :: "package_source \<Rightarrow> load_error + (string \<times> module) list" where
  "collect_modules src =
     res_bind (pack_modules src ''core'') (\<lambda>entries. res_bind (read_manifests entries) (\<lambda>core.
     res_bind (pack_modules src ''optional'') (\<lambda>entries. res_bind (read_manifests entries) (\<lambda>optional.
       Inr (core @ optional)))))"

definition teaching_order :: "(string \<times> module) list \<Rightarrow> (string \<times> module) list" where
  "teaching_order ms = sort_key (\<lambda>(_, m). (m_pack m \<noteq> ''core'', m_number m)) ms"

definition load_lesson :: "package_source \<Rightarrow> string \<Rightarrow> module \<Rightarrow> string \<Rightarrow> catalog \<Rightarrow> load_error + catalog" where
  "load_lesson src dir m lid C =
     res_bind (lesson_file src dir lid) (\<lambda>l.
       if l_id l \<noteq> lid then Inl (IdMismatch (l_id l) lid)
       else if l_module l \<noteq> m_id m then Inl (ModuleMismatch (l_id l) (l_module l) (m_id m))
       else if bt_contains (cat_lessons C) lid then Inl (DuplicateLesson lid)
       else Inr (C\<lparr>cat_lesson_order := (if m_pack m = ''core'' then cat_lesson_order C @ [lid]
                                       else cat_lesson_order C),
                   cat_lessons := bt_insert lid l (cat_lessons C)\<rparr>))"

fun load_lessons :: "package_source \<Rightarrow> string \<Rightarrow> module \<Rightarrow> string list \<Rightarrow> catalog \<Rightarrow> load_error + catalog" where
  "load_lessons src dir m [] C = Inr C"
| "load_lessons src dir m (lid # lids) C =
     res_bind (load_lesson src dir m lid C) (load_lessons src dir m lids)"

fun load_modules :: "package_source \<Rightarrow> (string \<times> module) list \<Rightarrow> catalog \<Rightarrow> load_error + catalog" where
  "load_modules src [] C = Inr C"
| "load_modules src ((dir, m) # ms) C =
     res_bind (load_lessons src dir m (m_lessons m) C) (\<lambda>C.
       load_modules src ms
         (C\<lparr>cat_module_order := cat_module_order C @ [m_id m],
            cat_modules := bt_insert (m_id m) m (cat_modules C)\<rparr>))"

definition load :: "registry \<Rightarrow> package_source \<Rightarrow> load_error + catalog" where
  "load R src =
     res_bind (collect_modules src) (\<lambda>ms.
       if ms = [] then Inl NoModules
       else res_bind (load_modules src (teaching_order ms) empty_catalog) (\<lambda>C.
         let issues = integrity_issues R C in
         if issues \<noteq> [] then Inl (Inconsistent issues)
         else Inr (C\<lparr>cat_warnings := advisory_notes C\<rparr>)))"

section \<open>Queries\<close>

definition catalog_lesson :: "catalog \<Rightarrow> string \<Rightarrow> lesson option" where
  "catalog_lesson C lid = bt_get (cat_lessons C) lid"

definition try_lesson :: "catalog \<Rightarrow> string \<Rightarrow> string + lesson" where
  "try_lesson C lid =
     (case bt_get (cat_lessons C) lid of
        Some l \<Rightarrow> Inr l
      | None \<Rightarrow> Inl (''no lesson with id '' @ lid))"

definition catalog_module :: "catalog \<Rightarrow> string \<Rightarrow> module option" where
  "catalog_module C mid = bt_get (cat_modules C) mid"

definition modules :: "catalog \<Rightarrow> module list" where
  "modules C = List.map_filter (bt_get (cat_modules C)) (cat_module_order C)"

definition lessons :: "catalog \<Rightarrow> lesson list" where
  "lessons C = List.map_filter (bt_get (cat_lessons C)) (cat_lesson_order C)"

definition lesson_count :: "catalog \<Rightarrow> nat" where
  "lesson_count C = length (cat_lessons C)"

definition core_lesson_count :: "catalog \<Rightarrow> nat" where
  "core_lesson_count C = length (cat_lesson_order C)"

definition all_commands :: "catalog \<Rightarrow> string list" where
  "all_commands C = sorted_list_of_set (set (concat (map l_commands (bt_values (cat_lessons C)))))"

definition lessons_for_command :: "catalog \<Rightarrow> string \<Rightarrow> lesson list" where
  "lessons_for_command C cmd = filter (\<lambda>l. cmd \<in> set (l_commands l)) (lessons C)"

section \<open>What a consistent catalogue promises\<close>

definition consistent_lesson :: "registry \<Rightarrow> lesson_map \<Rightarrow> string \<Rightarrow> lesson \<Rightarrow> bool" where
  "consistent_lesson R L lid l \<longleftrightarrow>
     (\<forall>p\<in>set (l_prerequisites l). bt_contains L p \<and> p \<noteq> lid)
     \<and> (\<forall>t\<in>set (l_tasks l). \<forall>v\<in>set (t_validators t). legal R v)
     \<and> distinct (map t_id (l_tasks l))"

definition consistent :: "registry \<Rightarrow> catalog \<Rightarrow> bool" where
  "consistent R C \<longleftrightarrow>
     (\<forall>(lid, l)\<in>set (cat_lessons C). consistent_lesson R (cat_lessons C) lid l)
     \<and> acyclic (prereq_edges (cat_lessons C))
     \<and> (\<forall>(mid, m)\<in>set (cat_modules C). m_lessons m \<noteq> [])"

lemma prerequisite_issues_Nil:
  "prerequisite_issues L lid l = [] \<longleftrightarrow> (\<forall>p\<in>set (l_prerequisites l). bt_contains L p \<and> p \<noteq> lid)"
  by (auto simp: prerequisite_issues_def)

lemma validator_issues_Nil:
  "validator_issues R lid l = [] \<longleftrightarrow> (\<forall>t\<in>set (l_tasks l). \<forall>v\<in>set (t_validators t). legal R v)"
proof -
  have "(case check R v of Inl (Rejected e) \<Rightarrow> [issue src (display_registry_error e)] | _ \<Rightarrow> []) = []
      \<longleftrightarrow> legal R v" for v src
    using check_legal(1) [of R v] check_never_panics(1) [of R v]
    by (auto split: sum.split check_failure.split)
  then show ?thesis by (simp add: validator_issues_def)
qed

lemma duplicate_task_issues_Nil:
  "duplicate_task_issues lid seen ts = [] \<longleftrightarrow> distinct (map t_id ts) \<and> seen \<inter> t_id ` set ts = {}"
  by (induction ts arbitrary: seen) auto

lemma lesson_issues_Nil: "lesson_issues R L (lid, l) = [] \<longleftrightarrow> consistent_lesson R L lid l"
  by (auto simp: lesson_issues_def consistent_lesson_def prerequisite_issues_Nil
      validator_issues_Nil duplicate_task_issues_Nil)

lemma integrity_issues_Nil: "integrity_issues R C = [] \<longleftrightarrow> consistent R C"
  by (auto simp: integrity_issues_def consistent_def lesson_issues_Nil module_issues_def
      prerequisite_cycles_Nil_iff)

section \<open>Loading\<close>

definition pack_order :: "module \<Rightarrow> string list" where
  "pack_order m = (if m_pack m = ''core'' then m_lessons m else [])"

definition listed_in :: "lesson_map \<Rightarrow> module \<Rightarrow> string \<Rightarrow> bool" where
  "listed_in L m lid \<longleftrightarrow> (\<exists>l. bt_get L lid = Some l \<and> l_id l = lid \<and> l_module l = m_id m)"

lemma load_lessons_spec:
  assumes "load_lessons src dir m lids C = Inr C'"
  shows "cat_modules C' = cat_modules C" "cat_module_order C' = cat_module_order C"
    "cat_lesson_order C' = cat_lesson_order C @ (if m_pack m = ''core'' then lids else [])"
    "distinct lids" "set lids \<inter> set (bt_keys (cat_lessons C)) = {}"
    "set (bt_keys (cat_lessons C')) = set (bt_keys (cat_lessons C)) \<union> set lids"
    "bt_invar (cat_lessons C) \<Longrightarrow> bt_invar (cat_lessons C')"
    "\<And>k. bt_contains (cat_lessons C) k \<Longrightarrow> bt_get (cat_lessons C') k = bt_get (cat_lessons C) k"
    "\<forall>lid\<in>set lids. listed_in (cat_lessons C') m lid"
proof -
  have "cat_modules C' = cat_modules C \<and> cat_module_order C' = cat_module_order C
    \<and> cat_lesson_order C' = cat_lesson_order C @ (if m_pack m = ''core'' then lids else [])
    \<and> distinct lids \<and> set lids \<inter> set (bt_keys (cat_lessons C)) = {}
    \<and> set (bt_keys (cat_lessons C')) = set (bt_keys (cat_lessons C)) \<union> set lids
    \<and> (bt_invar (cat_lessons C) \<longrightarrow> bt_invar (cat_lessons C'))
    \<and> (\<forall>k. bt_contains (cat_lessons C) k \<longrightarrow> bt_get (cat_lessons C') k = bt_get (cat_lessons C) k)
    \<and> (\<forall>lid\<in>set lids. listed_in (cat_lessons C') m lid)"
    using assms
  proof (induction lids arbitrary: C)
    case (Cons lid lids)
    then obtain C1 where c1: "load_lesson src dir m lid C = Inr C1" "load_lessons src dir m lids C1 = Inr C'"
      by (auto simp: res_bind_Inr_iff)
    then obtain l where l: "l_id l = lid" "l_module l = m_id m" "\<not> bt_contains (cat_lessons C) lid"
      "C1 = C\<lparr>cat_lesson_order := (if m_pack m = ''core'' then cat_lesson_order C @ [lid] else cat_lesson_order C),
              cat_lessons := bt_insert lid l (cat_lessons C)\<rparr>"
      by (auto simp: load_lesson_def res_bind_Inr_iff split: if_splits)
    have new: "listed_in (cat_lessons C1) m lid" "bt_contains (cat_lessons C1) lid"
      by (simp_all add: l listed_in_def bt_get_insert bt_contains_insert)
    note IH = Cons.IH [OF c1(2)]
    have "listed_in (cat_lessons C') m lid" using IH new by (simp add: listed_in_def)
    moreover have "bt_get (cat_lessons C') k = bt_get (cat_lessons C) k" if "bt_contains (cat_lessons C) k" for k
    proof -
      have "k \<noteq> lid" using that l(3) by auto
      with IH that show ?thesis by (simp add: l(4) bt_contains_insert bt_get_insert)
    qed
    moreover have "set (bt_keys (cat_lessons C1)) = insert lid (set (bt_keys (cat_lessons C)))"
      by (simp add: l(4) bt_keys_insert del: set_map)
    moreover have "lid \<notin> set (bt_keys (cat_lessons C))" using l(3) by (simp add: bt_contains_iff)
    moreover have "bt_invar (cat_lessons C) \<longrightarrow> bt_invar (cat_lessons C1)"
      by (simp add: l(4) bt_invar_insert)
    ultimately show ?case using IH by (simp add: l(4) del: set_map)
  qed simp
  then show "cat_modules C' = cat_modules C" "cat_module_order C' = cat_module_order C"
    "cat_lesson_order C' = cat_lesson_order C @ (if m_pack m = ''core'' then lids else [])"
    "distinct lids" "set lids \<inter> set (bt_keys (cat_lessons C)) = {}"
    "set (bt_keys (cat_lessons C')) = set (bt_keys (cat_lessons C)) \<union> set lids"
    "bt_invar (cat_lessons C) \<Longrightarrow> bt_invar (cat_lessons C')"
    "\<And>k. bt_contains (cat_lessons C) k \<Longrightarrow> bt_get (cat_lessons C') k = bt_get (cat_lessons C) k"
    "\<forall>lid\<in>set lids. listed_in (cat_lessons C') m lid"
    by blast+
qed

text \<open>The invariant of the loop over the modules; \<open>ms\<close> are the modules already loaded.\<close>

definition loaded :: "module list \<Rightarrow> catalog \<Rightarrow> bool" where
  "loaded ms C \<longleftrightarrow>
     bt_invar (cat_lessons C) \<and> bt_invar (cat_modules C)
     \<and> set (bt_keys (cat_lessons C)) = set (concat (map m_lessons ms))
     \<and> distinct (concat (map m_lessons ms))
     \<and> cat_lesson_order C = concat (map pack_order ms)
     \<and> cat_module_order C = map m_id ms
     \<and> (\<forall>m\<in>set ms. \<forall>lid\<in>set (m_lessons m). listed_in (cat_lessons C) m lid)
     \<and> (\<forall>(mid, m)\<in>set (cat_modules C). m_id m = mid \<and> m \<in> set ms)
     \<and> (\<forall>m\<in>set ms. bt_contains (cat_modules C) (m_id m))"

lemma loaded_empty: "loaded [] empty_catalog"
  by (simp add: loaded_def empty_catalog_def bt.invar_empty)

lemma loaded_step:
  assumes "loaded ms C" "load_lessons src dir m (m_lessons m) C = Inr C1"
  shows "loaded (ms @ [m])
    (C1\<lparr>cat_module_order := cat_module_order C1 @ [m_id m],
        cat_modules := bt_insert (m_id m) m (cat_modules C1)\<rparr>)"
proof -
  note spec = load_lessons_spec [OF assms(2)]
  have "listed_in (cat_lessons C1) m' lid" if "m' \<in> set ms" "lid \<in> set (m_lessons m')" for m' lid
  proof -
    have "listed_in (cat_lessons C) m' lid" using assms(1) that by (simp add: loaded_def)
    then show ?thesis using spec(8) [of lid] by (auto simp: listed_in_def bt_contains_def)
  qed
  moreover have "\<forall>(mid, m')\<in>set (bt_insert (m_id m) m (cat_modules C)). m_id m' = mid \<and> m' \<in> set (ms @ [m])"
    using assms(1) by (auto simp: loaded_def dest!: bt_insert_mem)
  moreover have "distinct (concat (map m_lessons (ms @ [m])))"
    using assms(1) spec(4,5) by (simp add: loaded_def) blast
  ultimately show ?thesis
    using assms(1) spec(1-3,6,7,9)
    by (simp add: loaded_def pack_order_def bt_invar_insert bt_contains_insert del: set_map)
qed

lemma load_modules_loaded:
  "loaded ms C \<Longrightarrow> load_modules src dms C = Inr C' \<Longrightarrow> loaded (ms @ map snd dms) C'"
proof (induction dms arbitrary: ms C)
  case (Cons dm dms)
  obtain dir m where "dm = (dir, m)" by fastforce
  with Cons.prems obtain C1 where c1: "load_lessons src dir m (m_lessons m) C = Inr C1"
    "load_modules src dms (C1\<lparr>cat_module_order := cat_module_order C1 @ [m_id m],
        cat_modules := bt_insert (m_id m) m (cat_modules C1)\<rparr>) = Inr C'"
    by (auto simp: res_bind_Inr_iff)
  from Cons.IH [OF loaded_step [OF Cons.prems(1) c1(1)] c1(2)] \<open>dm = (dir, m)\<close> show ?case by simp
qed simp

lemma load_Inr:
  assumes "load R src = Inr C"
  obtains ms where "collect_modules src = Inr ms" "ms \<noteq> []" "loaded (map snd (teaching_order ms)) C" "consistent R C"
proof -
  from assms obtain ms C0 where ms: "collect_modules src = Inr ms" "ms \<noteq> []"
    "load_modules src (teaching_order ms) empty_catalog = Inr C0" "integrity_issues R C0 = []"
    "C = C0\<lparr>cat_warnings := advisory_notes C0\<rparr>"
    by (auto simp: load_def res_bind_Inr_iff Let_def split: if_splits)
  have "loaded (map snd (teaching_order ms)) C0" using load_modules_loaded [OF loaded_empty ms(3)] by simp
  then have "loaded (map snd (teaching_order ms)) C" by (simp add: loaded_def ms(5))
  moreover have "consistent R C0" using ms(4) by (simp add: integrity_issues_Nil)
  then have "consistent R C" by (simp add: consistent_def ms(5))
  ultimately show thesis using that ms by blast
qed

section \<open>Properties\<close>

text \<open>The integrity checks find nothing to report exactly for a consistent catalogue:
  prerequisites exist, none is the lesson itself and they form no cycle, every validator is legal,
  task ids are distinct and no module is empty.\<close>

theorem integrity_checks_exact: "integrity_issues R C = [] \<longleftrightarrow> consistent R C"
  by (rule integrity_issues_Nil)

text \<open>C3: What loading promises. A catalogue that loads is consistent; its teaching order lists the
  lessons of the core modules in the order of the modules, without repetition; and every lesson a
  module lists is there under its own id and names that module.\<close>

theorem load_promises:
  assumes "load R src = Inr C"
  shows "consistent R C \<and> distinct (cat_lesson_order C)
    \<and> (\<exists>ms. collect_modules src = Inr ms \<and> ms \<noteq> []
         \<and> cat_module_order C = map (m_id \<circ> snd) (teaching_order ms)
         \<and> cat_lesson_order C = concat (map (pack_order \<circ> snd) (teaching_order ms))
         \<and> set (bt_keys (cat_lessons C)) = set (concat (map (m_lessons \<circ> snd) ms))
         \<and> (\<forall>(_, m)\<in>set ms. \<forall>lid\<in>set (m_lessons m). \<exists>l. catalog_lesson C lid = Some l
              \<and> l_id l = lid \<and> l_module l = m_id m))"
proof -
  from assms obtain ms where ms: "collect_modules src = Inr ms" "ms \<noteq> []"
    "loaded (map snd (teaching_order ms)) C" "consistent R C" by (rule load_Inr)
  have same: "set (teaching_order ms) = set ms" by (simp add: teaching_order_def)
  have sub: "distinct (concat (map m_lessons xs)) \<Longrightarrow> distinct (concat (map pack_order xs))" for xs
  proof (induction xs)
    case (Cons x xs)
    then have "set (pack_order x) \<subseteq> set (m_lessons x)" "distinct (pack_order x)"
      by (auto simp: pack_order_def)
    moreover have "set (concat (map pack_order xs)) \<subseteq> set (concat (map m_lessons xs))"
      by (auto simp: pack_order_def)
    ultimately show ?case using Cons by auto
  qed simp
  have "distinct (cat_lesson_order C)"
    using ms(3) sub [of "map snd (teaching_order ms)"] by (simp add: loaded_def)
  moreover have "\<forall>(_, m)\<in>set ms. \<forall>lid\<in>set (m_lessons m). \<exists>l. catalog_lesson C lid = Some l
              \<and> l_id l = lid \<and> l_module l = m_id m"
    using ms(3) same by (fastforce simp: loaded_def listed_in_def catalog_lesson_def)
  moreover have "set (bt_keys (cat_lessons C)) = set (concat (map (m_lessons \<circ> snd) ms))"
  proof -
    have "set (bt_keys (cat_lessons C)) = (\<Union>x\<in>set (teaching_order ms). set (m_lessons (snd x)))"
      using ms(3) by (simp add: loaded_def)
    then show ?thesis by (simp add: same)
  qed
  ultimately show ?thesis using ms by (auto simp: loaded_def)
qed

definition sample_registry :: registry where
  "sample_registry =
     \<lparr>reg_schema_version = 1, reg_failure_categories = [], reg_common_params = [], reg_validators = []\<rparr>"

definition sample_source :: package_source where
  "sample_source =
     \<lparr>pack_modules = (\<lambda>p. if p = ''core'' then Inr [(''core/nav'', Inr (sample_module ''nav'' 1 [''nav.a'', ''nav.b'']))] else Inr []),
      lesson_file = (\<lambda>d i. if i = ''nav.a'' then Inr (sample_lesson ''nav.a'' ''nav'' [])
                       else Inr (sample_lesson ''nav.b'' ''nav'' [''nav.a'']))\<rparr>"

definition sample_catalog :: catalog where
  "sample_catalog = (case load sample_registry sample_source of Inr C \<Rightarrow> C | Inl _ \<Rightarrow> empty_catalog)"

lemma sample_load: "load sample_registry sample_source = Inr sample_catalog"
proof -
  have "\<not> isl (load sample_registry sample_source)" by code_simp
  then show ?thesis by (cases "load sample_registry sample_source") (auto simp: sample_catalog_def)
qed

lemma load_promises_witness: "consistent sample_registry sample_catalog"
  using load_promises [OF sample_load] by blast

end
