(* ===== verification/Float64.thy ===== *)
theory Float64
  imports Prelude
begin

text \<open>
  The percentage computation of \<^verbatim>\<open>TaskValidation::from_outcomes\<close> and
  \<^verbatim>\<open>ModuleProgress::completion_percent\<close>:
  \<^verbatim>\<open>((earned as f64 / total as f64) * 100.0).round() as u8\<close>.
  IEEE 754 binary64 rounding is written out, because at a tie the double nearest to the
  quotient may lie below it (23 of 40 is 57.49999999999999, so 57, where exact arithmetic
  would give 58). A non-negative finite double below \<open>2 ^ 53\<close> is a pair \<open>(m, k)\<close> of naturals
  that stands for \<open>m / 2 ^ k\<close>.
\<close>

type_synonym f64 = "nat \<times> nat"

text \<open>Rounding the quotient of two naturals to the nearest integer, ties to even.\<close>

definition round_half_even :: "nat \<Rightarrow> nat \<Rightarrow> nat" where
  "round_half_even n d =
     (let q = n div d; r = n mod d
      in if 2 * r < d then q else if d < 2 * r then Suc q else if even q then q else Suc q)"

text \<open>
  The number of fraction bits of the double nearest to \<open>n / d\<close>: the significand has 53 bits,
  so the quotient is scaled until it reaches \<open>2 ^ 52\<close>; 1074 is the limit set by the
  subnormal doubles.
\<close>

fun fraction_bits :: "nat \<Rightarrow> nat \<Rightarrow> nat \<Rightarrow> nat" where
  "fraction_bits 0 n d = 0"
| "fraction_bits (Suc fuel) n d = (if 2 ^ 52 * d \<le> n then 0 else Suc (fraction_bits fuel (2 * n) d))"

definition f64_quotient :: "nat \<Rightarrow> nat \<Rightarrow> f64" where
  "f64_quotient n d =
     (if n = 0 then (0, 0)
      else let k = fraction_bits 1074 n d in (round_half_even (n * 2 ^ k) d, k))"

text \<open>A double times an integer that is itself a double, and \<^verbatim>\<open>f64::round\<close> (ties away from zero).\<close>

definition f64_mult_nat :: "f64 \<Rightarrow> nat \<Rightarrow> f64" where
  "f64_mult_nat x c = (case x of (m, k) \<Rightarrow> f64_quotient (m * c) (2 ^ k))"

definition f64_round :: "f64 \<Rightarrow> nat" where
  "f64_round x = (case x of (m, k) \<Rightarrow> (2 * m + 2 ^ k) div (2 * 2 ^ k))"

text \<open>The cast \<^verbatim>\<open>as u8\<close> of a non-negative double saturates.\<close>

definition saturate_u8 :: "nat \<Rightarrow> u8" where
  "saturate_u8 n = word_of_nat (min 255 n)"

definition f64_percent :: "nat \<Rightarrow> nat \<Rightarrow> u8" where
  "f64_percent part whole =
     saturate_u8 (f64_round (f64_mult_nat (f64_quotient part whole) 100))"

section \<open>Bounds\<close>

lemma round_half_even_le: "0 < d \<Longrightarrow> n \<le> c * d \<Longrightarrow> round_half_even n d \<le> c"
proof -
  assume d: "0 < d" and n: "n \<le> c * d"
  have le: "n div d \<le> c" using div_le_mono [OF n, of d] d by simp
  show ?thesis
  proof (cases "n div d = c")
    case True
    with d n have "n mod d = 0"
      by (metis add_le_same_cancel1 div_mult_mod_eq le_zero_eq)
    with True d show ?thesis by (simp add: round_half_even_def Let_def)
  next
    case False
    with le show ?thesis by (simp add: round_half_even_def Let_def)
  qed
qed

lemma round_half_even_exact: "0 < d \<Longrightarrow> round_half_even (c * d) d = c"
  by (simp add: round_half_even_def Let_def)

lemma f64_quotient_le:
  assumes "0 < d" "n \<le> c * d" "f64_quotient n d = (m, k)"
  shows "m \<le> c * 2 ^ k"
proof (cases "n = 0")
  case False
  with assms have m: "m = round_half_even (n * 2 ^ k) d"
    by (auto simp: f64_quotient_def Let_def)
  have "n * 2 ^ k \<le> c * 2 ^ k * d" using assms(2) by (simp add: mult.commute mult.left_commute)
  with assms(1) show ?thesis unfolding m by (intro round_half_even_le) auto
qed (use assms in \<open>auto simp: f64_quotient_def\<close>)

lemma f64_quotient_exact:
  assumes "0 < d" "0 < c" "f64_quotient (c * d) d = (m, k)"
  shows "m = c * 2 ^ k"
proof -
  have "m = round_half_even (c * d * 2 ^ k) d"
    using assms by (auto simp: f64_quotient_def Let_def)
  also have "c * d * 2 ^ k = c * 2 ^ k * d" by simp
  also have "round_half_even (c * 2 ^ k * d) d = c * 2 ^ k"
    using assms(1) by (rule round_half_even_exact)
  finally show ?thesis .
qed

lemma f64_round_le: "m \<le> c * 2 ^ k \<Longrightarrow> f64_round (m, k) \<le> c"
proof -
  assume "m \<le> c * 2 ^ k"
  moreover have "(2::nat) ^ k > 0" by simp
  ultimately have "2 * m + 2 ^ k < 2 * (c * 2 ^ k) + 2 * 2 ^ k" by linarith
  then have "2 * m + 2 ^ k < Suc c * (2 * 2 ^ k)" by (simp add: algebra_simps)
  then show ?thesis
    by (simp add: f64_round_def less_mult_imp_div_less flip: less_Suc_eq_le)
qed

lemma f64_round_exact: "f64_round (c * 2 ^ k, k) = c"
proof -
  have "2 * (c * 2 ^ k) + 2 ^ k = 2 ^ k + c * (2 * 2 ^ k :: nat)" by simp
  moreover have "(2 ^ k + c * (2 * 2 ^ k)) div (2 * 2 ^ k :: nat) = c" by simp
  ultimately show ?thesis by (simp only: f64_round_def prod.case)
qed

lemma unat_saturate_u8: "unat (saturate_u8 n) = min 255 n"
  by (simp add: saturate_u8_def unat_of_nat)

lemma f64_percent_le_100:
  assumes "0 < t" "e \<le> t"
  shows "unat (f64_percent e t) \<le> 100"
proof -
  obtain m k where q: "f64_quotient e t = (m, k)" by fastforce
  with assms have m: "m \<le> 1 * 2 ^ k" by (intro f64_quotient_le) auto
  obtain m' k' where q': "f64_quotient (m * 100) (2 ^ k) = (m', k')" by fastforce
  from m have "m * 100 \<le> 100 * 2 ^ k" by simp
  with q' have "m' \<le> 100 * 2 ^ k'" by (intro f64_quotient_le [OF _ _ q']) auto
  then have "f64_round (m', k') \<le> 100" by (rule f64_round_le)
  with q q' show ?thesis
    by (simp add: f64_percent_def f64_mult_nat_def unat_saturate_u8)
qed

lemma f64_percent_zero [simp]: "f64_percent 0 t = 0"
  by (simp add: f64_percent_def f64_mult_nat_def f64_quotient_def f64_round_def saturate_u8_def)

lemma f64_percent_full:
  assumes "0 < t"
  shows "f64_percent t t = 100"
proof -
  obtain m k where q: "f64_quotient t t = (m, k)" by fastforce
  with assms have m: "m = 1 * 2 ^ k" by (intro f64_quotient_exact [of t 1]) auto
  obtain m' k' where q': "f64_quotient (100 * 2 ^ k) (2 ^ k) = (m', k')" by fastforce
  then have "m' = 100 * 2 ^ k'" by (intro f64_quotient_exact [OF _ _ q']) auto
  then have "f64_round (m', k') = 100" using f64_round_exact by blast
  with q q' m show ?thesis
    by (simp add: f64_percent_def f64_mult_nat_def saturate_u8_def mult.commute)
qed

text \<open>Evaluation on numerals.\<close>

lemma fraction_bits_numeral [simp]:
  "fraction_bits (numeral v) n d =
     (if 2 ^ 52 * d \<le> n then 0 else Suc (fraction_bits (pred_numeral v) (2 * n) d))"
  by (simp only: numeral_eq_Suc fraction_bits.simps)

lemma f64_percent_23_40: "f64_percent 23 40 = 57"
proof -
  have "fraction_bits 1074 23 40 = 53" by simp
  then have 1: "f64_quotient 23 40 = (5179139571476070, 53)"
    by (simp add: f64_quotient_def round_half_even_def)
  have "fraction_bits 1074 517913957147607000 9007199254740992 = 47" by simp
  then have "f64_quotient 517913957147607000 9007199254740992 = (8092405580431359, 47)"
    by (simp add: f64_quotient_def round_half_even_def)
  with 1 show ?thesis by (simp add: f64_percent_def f64_mult_nat_def f64_round_def saturate_u8_def)
qed

end
