(* ===== verification/Mastery.thy ===== *)
theory Mastery
  imports Float64
begin

text \<open>
  Progress and mastery (crates/shared-types/src/progress.rs). \<^verbatim>\<open>MasteryStatus\<close> derives its
  order from the order of its variants, so it is an instance of the library's \<open>linorder\<close>.
\<close>

datatype lesson_status = NotStarted | InProgress | StatusPassed | StatusNeedsReview

datatype mastery_status = ReviewRequired | NeedsReview | Passed | Strong | Mastered

primrec mastery_rank :: "mastery_status \<Rightarrow> nat" where
  "mastery_rank ReviewRequired = 0"
| "mastery_rank NeedsReview = 1"
| "mastery_rank Passed = 2"
| "mastery_rank Strong = 3"
| "mastery_rank Mastered = 4"

lemma mastery_rank_inj [simp]: "mastery_rank a = mastery_rank b \<longleftrightarrow> a = b"
  by (cases a; cases b) simp_all

instantiation mastery_status :: linorder
begin

definition less_eq_mastery_status :: "mastery_status \<Rightarrow> mastery_status \<Rightarrow> bool" where
  "a \<le> b \<longleftrightarrow> mastery_rank a \<le> mastery_rank b"

definition less_mastery_status :: "mastery_status \<Rightarrow> mastery_status \<Rightarrow> bool" where
  "a < b \<longleftrightarrow> mastery_rank a < mastery_rank b"

instance
  by standard (auto simp: less_eq_mastery_status_def less_mastery_status_def)

end

lemmas mastery_order_defs = less_eq_mastery_status_def less_mastery_status_def

text \<open>\<^verbatim>\<open>MasteryStatus::evaluate\<close>: showing the solution outranks the hint count.\<close>

definition evaluate_mastery :: "bool \<Rightarrow> bool \<Rightarrow> u32 \<Rightarrow> bool \<Rightarrow> mastery_status" where
  "evaluate_mastery passed is_assessment hints_used solution_revealed =
     (if \<not> passed then (if is_assessment then ReviewRequired else NeedsReview)
      else if solution_revealed then NeedsReview
      else if hints_used = 0 then Mastered
      else if hints_used = 1 then Strong
      else Passed)"

primrec mastery_score :: "mastery_status \<Rightarrow> u8" where
  "mastery_score Mastered = 100"
| "mastery_score Strong = 85"
| "mastery_score Passed = 70"
| "mastery_score NeedsReview = 40"
| "mastery_score ReviewRequired = 0"

primrec mastery_label :: "mastery_status \<Rightarrow> string" where
  "mastery_label Mastered = ''Mastered''"
| "mastery_label Strong = ''Strong''"
| "mastery_label Passed = ''Passed''"
| "mastery_label NeedsReview = ''Needs review''"
| "mastery_label ReviewRequired = ''Review required''"

definition needs_revisiting :: "mastery_status \<Rightarrow> bool" where
  "needs_revisiting m \<longleftrightarrow> m \<le> NeedsReview"

lemma needs_revisiting_iff: "needs_revisiting m \<longleftrightarrow> m = NeedsReview \<or> m = ReviewRequired"
  by (cases m) (simp_all add: needs_revisiting_def mastery_order_defs)

lemma needs_revisiting_antimono: "a \<le> b \<Longrightarrow> needs_revisiting b \<Longrightarrow> needs_revisiting a"
  by (simp add: needs_revisiting_def)

lemma mastery_score_mono: "a \<le> b \<Longrightarrow> mastery_score a \<le> mastery_score b"
  by (cases a; cases b) (simp_all add: mastery_order_defs)

lemma mastery_score_le: "unat (mastery_score m) \<le> 100"
  by (cases m) simp_all

record lesson_progress =
  p_profile_id :: int
  p_lesson_id :: string
  p_status :: lesson_status
  p_attempts :: u32
  p_hints_used :: u32
  p_solution_revealed :: bool
  p_mastery :: "mastery_status option"
  p_mastery_score :: u8
  p_first_started_at :: "int option"
  p_completed_at :: "int option"
  p_last_attempt_at :: "int option"

record module_progress =
  mp_profile_id :: int
  mp_module_id :: string
  mp_completed_lessons :: u32
  mp_total_lessons :: u32
  mp_assessment_score :: "u8 option"
  mp_mastery_percent :: u8

text \<open>\<^verbatim>\<open>ModuleProgress::completion_percent\<close>.\<close>

definition module_completion_percent :: "module_progress \<Rightarrow> u8" where
  "module_completion_percent p =
     (if mp_total_lessons p = 0 then 0
      else f64_percent (unat (mp_completed_lessons p)) (unat (mp_total_lessons p)))"

section \<open>Properties\<close>

text \<open>How mastery is judged. A learner is told to revisit a task exactly when it was not passed
  or the solution was shown; full mastery takes a pass without hints and without the solution; one
  more hint, or showing the solution, never raises the judgement, and neither does it raise the
  score.\<close>

theorem mastery_judgement:
  "(needs_revisiting (evaluate_mastery p asm h sol) \<longleftrightarrow> \<not> p \<or> sol)
   \<and> (evaluate_mastery p asm h sol = Mastered \<longleftrightarrow> p \<and> \<not> sol \<and> h = 0)
   \<and> (h \<le> h' \<longrightarrow> evaluate_mastery p asm h' sol \<le> evaluate_mastery p asm h sol
        \<and> mastery_score (evaluate_mastery p asm h' sol) \<le> mastery_score (evaluate_mastery p asm h sol))
   \<and> evaluate_mastery p asm h True \<le> evaluate_mastery p asm h sol"
proof -
  have "evaluate_mastery p asm h' sol \<le> evaluate_mastery p asm h sol" if "h \<le> h'"
  proof -
    have "h = 0" if "h' = 0" using that \<open>h \<le> h'\<close> by simp
    moreover have "h = 0 \<or> h = 1" if "h' = 1" using that \<open>h \<le> h'\<close> by (simp add: word_le_nat_alt) unat_arith
    ultimately show ?thesis by (auto simp: evaluate_mastery_def mastery_order_defs)
  qed
  then show ?thesis
    using mastery_score_mono by (auto simp: needs_revisiting_iff evaluate_mastery_def mastery_order_defs)
qed

lemma mastery_judgement_witness: "evaluate_mastery True False 2 False \<le> evaluate_mastery True False 1 False"
  using mastery_judgement [of True False 1 False 2] by simp

end
