(* ===== verification/Validation.thy ===== *)
theory Validation
  imports Lesson_Types Float64
begin

text \<open>
  Validation requests and results (crates/shared-types/src/validation.rs): one outcome per
  validator, and the roll-up of a task's outcomes into a \<open>task_validation\<close>.
\<close>

section \<open>Failure categories\<close>

datatype failure_category =
    CommandNotFound
  | InvalidOption
  | WrongWorkingDirectory
  | WrongPath
  | PermissionDenied
  | FileAlreadyExists
  | WrongFileType
  | WrongFileContents
  | WrongOwnership
  | WrongPermissions
  | ProcessNotRunning
  | ServiceNotActive
  | WrongPort
  | IncorrectRedirect
  | PipelineOutputIncorrect
  | ScriptSyntaxFailure
  | ScriptLogicFailure
  | NetworkUnreachable
  | DnsFailure
  | TaskPartiallyCompleted

text \<open>The class-level guidance shown beside a failure.\<close>

primrec guidance :: "failure_category \<Rightarrow> string" where
  "guidance CommandNotFound =
     ''The shell could not find that command. Check the spelling, and check PATH.''"
| "guidance InvalidOption =
     ''The command ran but rejected an option. Compare it against --help.''"
| "guidance WrongWorkingDirectory =
     ''You are not in the directory the task expects. Run pwd to check.''"
| "guidance WrongPath =
     ''The path does not exist yet, or it was created somewhere else.''"
| "guidance PermissionDenied =
     ''The account you used is not allowed to do that. Consider whether sudo is required.''"
| "guidance FileAlreadyExists =
     ''Something already exists at that path, so the command refused to overwrite it.''"
| "guidance WrongFileType =
     ''The path exists but is the wrong kind of object, for example a directory where a file was expected.''"
| "guidance WrongFileContents =
     ''The file exists but its contents are not what the task asked for.''"
| "guidance WrongOwnership =
     ''The owner or group is not what the task asked for.''"
| "guidance WrongPermissions =
     ''The permission bits are not what the task asked for.''"
| "guidance ProcessNotRunning =
     ''The expected process is not running.''"
| "guidance ServiceNotActive =
     ''The service is not in the expected state. Check systemctl status.''"
| "guidance WrongPort =
     ''Nothing is listening on the expected port, or it is bound to the wrong address.''"
| "guidance IncorrectRedirect =
     ''Output went somewhere other than where the task expected. Check > against >> and 2>.''"
| "guidance PipelineOutputIncorrect =
     ''The pipeline ran but produced different output. Compare it a stage at a time.''"
| "guidance ScriptSyntaxFailure =
     ''The script does not parse. Check quoting and block keywords.''"
| "guidance ScriptLogicFailure =
     ''The script runs but produces the wrong result.''"
| "guidance NetworkUnreachable =
     ''The target could not be reached. Work up from the interface.''"
| "guidance DnsFailure =
     ''The name did not resolve. Test the resolver directly with dig.''"
| "guidance TaskPartiallyCompleted =
     ''Part of this task is done. The remaining checks are listed below.''"

text \<open>The snake-case names that serde gives the variants.\<close>

primrec failure_category_key :: "failure_category \<Rightarrow> string" where
  "failure_category_key CommandNotFound = ''command_not_found''"
| "failure_category_key InvalidOption = ''invalid_option''"
| "failure_category_key WrongWorkingDirectory = ''wrong_working_directory''"
| "failure_category_key WrongPath = ''wrong_path''"
| "failure_category_key PermissionDenied = ''permission_denied''"
| "failure_category_key FileAlreadyExists = ''file_already_exists''"
| "failure_category_key WrongFileType = ''wrong_file_type''"
| "failure_category_key WrongFileContents = ''wrong_file_contents''"
| "failure_category_key WrongOwnership = ''wrong_ownership''"
| "failure_category_key WrongPermissions = ''wrong_permissions''"
| "failure_category_key ProcessNotRunning = ''process_not_running''"
| "failure_category_key ServiceNotActive = ''service_not_active''"
| "failure_category_key WrongPort = ''wrong_port''"
| "failure_category_key IncorrectRedirect = ''incorrect_redirect''"
| "failure_category_key PipelineOutputIncorrect = ''pipeline_output_incorrect''"
| "failure_category_key ScriptSyntaxFailure = ''script_syntax_failure''"
| "failure_category_key ScriptLogicFailure = ''script_logic_failure''"
| "failure_category_key NetworkUnreachable = ''network_unreachable''"
| "failure_category_key DnsFailure = ''dns_failure''"
| "failure_category_key TaskPartiallyCompleted = ''task_partially_completed''"

definition all_failure_categories :: "failure_category list" where
  "all_failure_categories =
    [CommandNotFound,
     InvalidOption,
     WrongWorkingDirectory,
     WrongPath,
     PermissionDenied,
     FileAlreadyExists,
     WrongFileType,
     WrongFileContents,
     WrongOwnership,
     WrongPermissions,
     ProcessNotRunning,
     ServiceNotActive,
     WrongPort,
     IncorrectRedirect,
     PipelineOutputIncorrect,
     ScriptSyntaxFailure,
     ScriptLogicFailure,
     NetworkUnreachable,
     DnsFailure,
     TaskPartiallyCompleted]"

text \<open>Parsing a category name, as serde does for the author's \<^verbatim>\<open>failureCategory\<close> override.\<close>

definition parse_failure_category :: "string \<Rightarrow> failure_category option" where
  "parse_failure_category s = List.find (\<lambda>c. failure_category_key c = s) all_failure_categories"

lemma all_failure_categories_complete: "c \<in> set all_failure_categories"
  by (cases c) (simp_all add: all_failure_categories_def)

lemma parse_failure_category_key [simp]:
  "parse_failure_category (failure_category_key c) = Some c"
  by (cases c) (simp_all add: parse_failure_category_def all_failure_categories_def)

lemma parse_failure_category_Some:
  "parse_failure_category s = Some c \<longleftrightarrow> failure_category_key c = s"
proof
  assume "parse_failure_category s = Some c"
  then show "failure_category_key c = s"
    unfolding parse_failure_category_def by (auto dest: find_SomeD)
qed auto

lemma failure_category_key_inj [simp]:
  "failure_category_key a = failure_category_key b \<longleftrightarrow> a = b"
  by (metis option.inject parse_failure_category_key)

section \<open>Outcomes of single checks\<close>

record check_outcome =
  o_kind :: string
  o_passed :: bool
  o_message :: string
  o_failure_category :: "failure_category option"
  o_observed :: "string option"
  o_expected :: "string option"
  o_weight :: u32
  o_errored :: bool

definition outcome_pass :: "string \<Rightarrow> string \<Rightarrow> check_outcome" where
  "outcome_pass kind message =
     \<lparr>o_kind = kind, o_passed = True, o_message = message, o_failure_category = None,
      o_observed = None, o_expected = None, o_weight = 1, o_errored = False\<rparr>"

definition outcome_fail :: "string \<Rightarrow> string \<Rightarrow> failure_category \<Rightarrow> check_outcome" where
  "outcome_fail kind message category =
     \<lparr>o_kind = kind, o_passed = False, o_message = message, o_failure_category = Some category,
      o_observed = None, o_expected = None, o_weight = 1, o_errored = False\<rparr>"

definition outcome_error :: "string \<Rightarrow> string \<Rightarrow> check_outcome" where
  "outcome_error kind message =
     \<lparr>o_kind = kind, o_passed = False, o_message = message, o_failure_category = None,
      o_observed = None, o_expected = None, o_weight = 1, o_errored = True\<rparr>"

definition with_observed :: "string \<Rightarrow> check_outcome \<Rightarrow> check_outcome" where
  "with_observed s c = c\<lparr>o_observed := Some s\<rparr>"

definition with_expected :: "string \<Rightarrow> check_outcome \<Rightarrow> check_outcome" where
  "with_expected s c = c\<lparr>o_expected := Some s\<rparr>"

definition weighted :: "u32 \<Rightarrow> check_outcome \<Rightarrow> check_outcome" where
  "weighted w c = c\<lparr>o_weight := max w 1\<rparr>"

lemmas outcome_defs = outcome_pass_def outcome_fail_def outcome_error_def
  with_observed_def with_expected_def weighted_def

text \<open>
  The invariant of outcomes: an errored check never counts as passed, a passed one carries no
  failure category, and every weight is positive. Every constructor establishes it.
\<close>

definition wf_outcome :: "check_outcome \<Rightarrow> bool" where
  "wf_outcome c \<longleftrightarrow>
     (o_errored c \<longrightarrow> \<not> o_passed c) \<and> (o_passed c \<longrightarrow> o_failure_category c = None) \<and> 0 < o_weight c"

lemma wf_outcome_intros [simp, intro]:
  "wf_outcome (outcome_pass k m)"
  "wf_outcome (outcome_fail k m c)"
  "wf_outcome (outcome_error k m)"
  "wf_outcome c' \<Longrightarrow> wf_outcome (with_observed s c')"
  "wf_outcome c' \<Longrightarrow> wf_outcome (with_expected s c')"
  "wf_outcome c' \<Longrightarrow> wf_outcome (weighted w c')"
proof -
  have "0 < max w 1" by (simp add: less_max_iff_disj)
  then show "wf_outcome c' \<Longrightarrow> wf_outcome (weighted w c')"
    by (simp add: wf_outcome_def weighted_def)
qed (simp_all add: wf_outcome_def outcome_defs)

section \<open>The result of a task\<close>

record task_validation =
  tv_lesson_id :: string
  tv_task_id :: string
  tv_passed :: bool
  tv_outcomes :: "check_outcome list"
  tv_completion_percent :: u8
  tv_primary_failure :: "check_outcome option"
  tv_errored :: bool

text \<open>The sum of the weights is a \<^verbatim>\<open>u32\<close>, which wraps in a release build.\<close>

definition total_weight :: "check_outcome list \<Rightarrow> u32" where
  "total_weight os = sum_list (map o_weight os)"

definition earned_weight :: "check_outcome list \<Rightarrow> u32" where
  "earned_weight os = sum_list (map o_weight (filter o_passed os))"

definition completion_percent :: "check_outcome list \<Rightarrow> u8" where
  "completion_percent os =
     (if total_weight os = 0 then 0
      else f64_percent (unat (earned_weight os)) (unat (total_weight os)))"

definition primary_failure :: "check_outcome list \<Rightarrow> check_outcome option" where
  "primary_failure os =
     (case List.find (\<lambda>c. \<not> o_passed c \<and> \<not> o_errored c) os of
        Some c \<Rightarrow> Some c
      | None \<Rightarrow> List.find (\<lambda>c. \<not> o_passed c) os)"

definition from_outcomes :: "string \<Rightarrow> string \<Rightarrow> check_outcome list \<Rightarrow> task_validation" where
  "from_outcomes lesson_id task_id os =
     \<lparr>tv_lesson_id = lesson_id, tv_task_id = task_id,
      tv_passed = (os \<noteq> [] \<and> list_all o_passed os),
      tv_outcomes = os,
      tv_completion_percent = completion_percent os,
      tv_primary_failure = primary_failure os,
      tv_errored = list_ex o_errored os\<rparr>"

record validation_request =
  r_lesson_id :: string
  r_task_id :: string
  r_validators :: "validator list"
  r_subject_user :: string
  r_lesson_root :: "string option"
  r_attempt_started_at :: "int option"

definition default_subject :: string where
  "default_subject = ''student''"

section \<open>Lemmas\<close>

lemma passed_iff: "tv_passed (from_outcomes l t os) \<longleftrightarrow> os \<noteq> [] \<and> (\<forall>c\<in>set os. o_passed c)"
  by (simp add: from_outcomes_def list_all_iff)

lemma primary_failure_None: "primary_failure os = None \<longleftrightarrow> (\<forall>c\<in>set os. o_passed c)"
  by (auto simp: primary_failure_def find_None_iff_all split: option.splits dest: find_SomeD)

lemma primary_failure_Some:
  assumes "primary_failure os = Some c"
  shows "c \<in> set os" "\<not> o_passed c"
    "o_errored c \<Longrightarrow> \<forall>d\<in>set os. \<not> o_passed d \<longrightarrow> o_errored d"
  using assms
  by (auto simp: primary_failure_def find_None_iff_all split: option.splits dest: find_SomeD)

text \<open>Without overflow the word sums are the sums of the naturals.\<close>

lemma unat_sum_list_words:
  fixes ws :: "'a::len word list"
  assumes "sum_list (map unat ws) < 2 ^ LENGTH('a)"
  shows "unat (sum_list ws) = sum_list (map unat ws)"
  using assms
proof (induction ws)
  case (Cons w ws)
  then have "unat w + unat (sum_list ws) < 2 ^ LENGTH('a)" by simp
  with Cons show ?case by (simp add: unat_add_lem [THEN iffD1])
qed simp

lemma sum_list_filter_le: "sum_list (map (f :: 'a \<Rightarrow> nat) (filter P xs)) \<le> sum_list (map f xs)"
  by (induction xs) auto

lemma earned_le_total:
  assumes "sum_list (map (unat \<circ> o_weight) os) < 2 ^ 32"
  shows "unat (total_weight os) = sum_list (map (unat \<circ> o_weight) os)"
    "unat (earned_weight os) = sum_list (map (unat \<circ> o_weight) (filter o_passed os))"
    "unat (earned_weight os) \<le> unat (total_weight os)"
proof -
  show t: "unat (total_weight os) = sum_list (map (unat \<circ> o_weight) os)"
    using assms unat_sum_list_words [of "map o_weight os"] by (simp add: total_weight_def)
  have le: "sum_list (map (unat \<circ> o_weight) (filter o_passed os)) \<le> sum_list (map (unat \<circ> o_weight) os)"
    by (rule sum_list_filter_le)
  with assms show e: "unat (earned_weight os) = sum_list (map (unat \<circ> o_weight) (filter o_passed os))"
    using unat_sum_list_words [of "map o_weight (filter o_passed os)"]
    by (simp add: earned_weight_def)
  show "unat (earned_weight os) \<le> unat (total_weight os)" using t e le by simp
qed

lemma total_weight_pos:
  assumes "sum_list (map (unat \<circ> o_weight) os) < 2 ^ 32" "os \<noteq> []" "\<forall>c\<in>set os. wf_outcome c"
  shows "0 < unat (total_weight os)"
proof -
  obtain c cs where "os = c # cs" using assms(2) by (cases os) auto
  with assms have "0 < unat (o_weight c)"
    by (simp add: wf_outcome_def word_neq_0_conv unat_gt_0)
  with \<open>os = c # cs\<close> earned_le_total(1) [OF assms(1)] show ?thesis by simp
qed

lemma completion_percent_le:
  assumes "sum_list (map (unat \<circ> o_weight) os) < 2 ^ 32"
  shows "unat (completion_percent os) \<le> 100"
  using f64_percent_le_100 [of "unat (total_weight os)" "unat (earned_weight os)"] earned_le_total(3) [OF assms]
  by (auto simp: completion_percent_def unat_gt_0)

lemma completion_percent_full:
  assumes "sum_list (map (unat \<circ> o_weight) os) < 2 ^ 32" "list_all wf_outcome os"
    and "os \<noteq> []" "\<forall>c\<in>set os. o_passed c"
  shows "completion_percent os = 100"
proof -
  have "earned_weight os = total_weight os" using assms(4)
    by (simp add: earned_weight_def total_weight_def filter_id_conv [THEN iffD2])
  moreover have "0 < unat (total_weight os)"
    using total_weight_pos [OF assms(1,3)] assms(2) by (simp add: list_all_iff)
  ultimately show ?thesis using f64_percent_full by (auto simp: completion_percent_def)
qed

lemma passed_not_errored: "list_all wf_outcome os \<Longrightarrow> \<forall>c\<in>set os. o_passed c \<Longrightarrow> \<not> list_ex o_errored os"
  by (auto simp: list_ex_iff list_all_iff wf_outcome_def)

section \<open>Properties\<close>



end
