(* ===== verification/Progression.thy ===== *)
theory Progression
  imports Catalog Mastery Validation
begin

text \<open>
  Progression rules (crates/lesson-engine/src/progression.rs): which lessons are open, the next
  lesson, the review list and the figures of the home screen. The closing section treats a
  learner's course as a step relation and shows that in a consistent catalogue the guided path
  never leaves a lesson out of reach.
\<close>

section \<open>State and queries\<close>

datatype progression_mode = GuidedPath | OpenLibrary | AssessmentMode

record lesson_state =
  ls_status :: lesson_status
  ls_mastery :: "mastery_status option"

type_synonym progress_index = "string \<rightharpoonup> lesson_state"

definition passed_state :: "mastery_status \<Rightarrow> lesson_state" where
  "passed_state m = \<lparr>ls_status = StatusPassed, ls_mastery = Some m\<rparr>"

definition is_passed :: "lesson_state \<Rightarrow> bool" where
  "is_passed s \<longleftrightarrow> ls_status s = StatusPassed"

text \<open>\<^verbatim>\<open>progress.get(id).map(|s| s.is_passed()).unwrap_or(false)\<close>.\<close>

definition passed_in :: "progress_index \<Rightarrow> string \<Rightarrow> bool" where
  "passed_in pi lid = (case pi lid of Some s \<Rightarrow> is_passed s | None \<Rightarrow> False)"

record availability =
  av_lesson_id :: string
  av_unlocked :: bool
  av_missing :: "string list"

definition availability_warning :: "availability \<Rightarrow> string option" where
  "availability_warning a =
     (if av_missing a = [] then None
      else Some (''This lesson builds on '' @ join '', '' (av_missing a)
        @ ''. You can still open it, but it may assume things you have not covered.''))"

definition missing_prerequisites :: "catalog \<Rightarrow> string \<Rightarrow> progress_index \<Rightarrow> string list" where
  "missing_prerequisites C lid pi =
     (case catalog_lesson C lid of
        Some l \<Rightarrow> filter (\<lambda>p. \<not> passed_in pi p) (l_prerequisites l)
      | None \<Rightarrow> [])"

definition availability_of :: "catalog \<Rightarrow> progression_mode \<Rightarrow> string \<Rightarrow> progress_index \<Rightarrow> availability" where
  "availability_of C mode lid pi =
     (let missing = missing_prerequisites C lid pi
      in \<lparr>av_lesson_id = lid,
          av_unlocked = (case mode of GuidedPath \<Rightarrow> missing = [] | _ \<Rightarrow> True),
          av_missing = missing\<rparr>)"

definition next_lesson :: "catalog \<Rightarrow> progress_index \<Rightarrow> string option" where
  "next_lesson C pi = List.find (\<lambda>lid. \<not> passed_in pi lid) (cat_lesson_order C)"

definition weak_lessons :: "catalog \<Rightarrow> progress_index \<Rightarrow> (string \<times> mastery_status) list" where
  "weak_lessons C pi =
     List.map_filter (\<lambda>lid.
       Option.bind (pi lid) (\<lambda>s. Option.bind (ls_mastery s) (\<lambda>m.
         if needs_revisiting m then Some (lid, m) else None))) (cat_lesson_order C)"

definition review_recommendations :: "catalog \<Rightarrow> progress_index \<Rightarrow> nat \<Rightarrow> string list" where
  "review_recommendations C pi limit = map fst (take limit (sort_key snd (weak_lessons C pi)))"

definition completed_core_lessons :: "catalog \<Rightarrow> progress_index \<Rightarrow> nat" where
  "completed_core_lessons C pi = length (filter (passed_in pi) (cat_lesson_order C))"

definition attempted_scores :: "catalog \<Rightarrow> progress_index \<Rightarrow> u8 list" where
  "attempted_scores C pi =
     List.map_filter (\<lambda>lid. Option.bind (pi lid) (\<lambda>s. map_option mastery_score (ls_mastery s)))
       (cat_lesson_order C)"

text \<open>
  The average is computed in \<^verbatim>\<open>u32\<close>; \<^verbatim>\<open>None\<close> is the panic of a division by a count that
  \<^verbatim>\<open>as u32\<close> truncated to zero.
\<close>

definition mastery_percent :: "catalog \<Rightarrow> progress_index \<Rightarrow> u8 option" where
  "mastery_percent C pi =
     (let scores = attempted_scores C pi in
      if scores = [] then Some 0
      else let total = sum_list (map (\<lambda>s. (ucast s :: u32)) scores);
               count = word_of_nat (length scores) :: u32
           in if count = 0 then None else Some (ucast (total div count)))"

section \<open>Facts about the queries\<close>

lemma map_filter_mem: "y \<in> set (List.map_filter f xs) \<longleftrightarrow> (\<exists>x\<in>set xs. f x = Some y)"
  by (force simp: List.map_filter_def)

lemma map_filter_length_le: "length (List.map_filter f xs) \<le> length xs"
  by (simp add: List.map_filter_def le_trans [OF length_filter_le])

lemma unlocked_guided:
  "av_unlocked (availability_of C GuidedPath lid pi) \<longleftrightarrow>
     (\<forall>l. catalog_lesson C lid = Some l \<longrightarrow> (\<forall>p\<in>set (l_prerequisites l). passed_in pi p))"
  by (auto simp: availability_of_def missing_prerequisites_def Let_def filter_empty_conv
      split: option.splits)

lemma sum_scores_le:
  "sum_list (map (unat \<circ> (\<lambda>s. ucast s :: u32)) (map mastery_score ms)) \<le> 100 * length ms"
proof (induction ms)
  case (Cons m ms)
  have "unat (ucast (mastery_score m) :: u32) \<le> 100" by (cases m) simp_all
  with Cons show ?case by simp
qed simp

lemma attempted_scores_masteries: "\<exists>ms. attempted_scores C pi = map mastery_score ms"
proof -
  have "\<exists>m. x = mastery_score m" if "x \<in> set (attempted_scores C pi)" for x
  proof -
    from that obtain lid where lid: "Option.bind (pi lid) (\<lambda>s. map_option mastery_score (ls_mastery s)) = Some x"
      unfolding attempted_scores_def map_filter_mem by blast
    show ?thesis
    proof (cases "pi lid")
      case (Some s)
      with lid have "map_option mastery_score (ls_mastery s) = Some x" by simp
      then show ?thesis by (metis map_option_eq_Some)
    qed (use lid in simp)
  qed
  then have "\<forall>x\<in>set (attempted_scores C pi). \<exists>m. x = mastery_score m" by blast
  then show ?thesis by (simp only: ex_map_conv)
qed

section \<open>A course as steps\<close>

text \<open>The learner passes a lesson of the catalogue that the guided path has unlocked.\<close>

inductive study :: "catalog \<Rightarrow> progress_index \<Rightarrow> progress_index \<Rightarrow> bool" for C where
  study: "catalog_lesson C lid = Some l \<Longrightarrow> av_unlocked (availability_of C GuidedPath lid pi) \<Longrightarrow>
    study C pi (pi(lid \<mapsto> passed_state m))"

inductive_cases studyE: "study C pi pi'"

definition all_passed :: "catalog \<Rightarrow> progress_index \<Rightarrow> bool" where
  "all_passed C pi \<longleftrightarrow> list_all (passed_in pi) (bt_keys (cat_lessons C))"

definition unpassed :: "catalog \<Rightarrow> progress_index \<Rightarrow> string set" where
  "unpassed C pi = {lid \<in> set (bt_keys (cat_lessons C)). \<not> passed_in pi lid}"

lemma passed_in_upd [simp]:
  "passed_in (pi(lid \<mapsto> passed_state m)) j \<longleftrightarrow> j = lid \<or> passed_in pi j"
  by (auto simp: passed_in_def passed_state_def is_passed_def)

text \<open>Passing a lesson never locks or un-passes another.\<close>

lemma study_monotone:
  "study C pi pi' \<Longrightarrow> passed_in pi lid \<Longrightarrow> passed_in pi' lid"
  "study C pi pi' \<Longrightarrow> av_unlocked (availability_of C GuidedPath lid pi) \<Longrightarrow>
     av_unlocked (availability_of C GuidedPath lid pi')"
  by (auto elim!: studyE simp: unlocked_guided simp del: fun_upd_apply)

text \<open>
  In a consistent catalogue an unpassed lesson that is minimal for the prerequisite relation
  has all its prerequisites passed, so some unpassed lesson is always open.
\<close>

lemma consistent_prereq_edge:
  assumes "consistent R C" "catalog_lesson C lid = Some l" "p \<in> set (l_prerequisites l)"
  shows "(lid, p) \<in> prereq_edges (cat_lessons C)" "p \<in> set (bt_keys (cat_lessons C))"
proof -
  from assms(2) have get: "bt_get (cat_lessons C) lid = Some l" by (simp add: catalog_lesson_def)
  then have "consistent_lesson R (cat_lessons C) lid l"
    using assms(1) bt_get_mem by (fastforce simp: consistent_def)
  with assms(3) have "bt_contains (cat_lessons C) p" by (simp add: consistent_lesson_def)
  with get assms(3) show "(lid, p) \<in> prereq_edges (cat_lessons C)" "p \<in> set (bt_keys (cat_lessons C))"
    by (auto simp: prereq_edges_def bt_contains_iff)
qed

lemma some_unpassed_unlocked:
  assumes "consistent R C" "unpassed C pi \<noteq> {}"
  obtains lid where "lid \<in> unpassed C pi" "av_unlocked (availability_of C GuidedPath lid pi)"
proof -
  let ?E = "prereq_edges (cat_lessons C)"
  have "?E \<subseteq> set (bt_keys (cat_lessons C)) \<times> set (bt_keys (cat_lessons C))"
    by (auto simp: prereq_edges_def bt_contains_iff dest: bt_get_mem intro: rev_image_eqI)
  then have "finite ?E" by (rule finite_subset) simp
  moreover have "acyclic ?E" using assms(1) by (simp add: consistent_def)
  ultimately have "wf (?E\<inverse>)" by (rule finite_acyclic_wf_converse)
  then obtain lid where lid: "lid \<in> unpassed C pi" "\<forall>p. (p, lid) \<in> ?E\<inverse> \<longrightarrow> p \<notin> unpassed C pi"
    using assms(2) by (metis wf_eq_minimal all_not_in_conv)
  have "passed_in pi p" if "catalog_lesson C lid = Some l" "p \<in> set (l_prerequisites l)" for l p
    using lid(2) consistent_prereq_edge [OF assms(1) that] by (auto simp: unpassed_def)
  then have "av_unlocked (availability_of C GuidedPath lid pi)" by (simp add: unlocked_guided)
  with lid(1) that show thesis by blast
qed

lemma course_completable:
  assumes "consistent R C"
  shows "\<exists>pi'. (study C)\<^sup>*\<^sup>* pi pi' \<and> all_passed C pi'"
proof (induction "card (unpassed C pi)" arbitrary: pi rule: less_induct)
  case less
  show ?case
  proof (cases "unpassed C pi = {}")
    case True
    then have "all_passed C pi" by (auto simp: unpassed_def all_passed_def list_all_iff)
    then show ?thesis by blast
  next
    case False
    with assms obtain lid where lid: "lid \<in> unpassed C pi" "av_unlocked (availability_of C GuidedPath lid pi)"
      by (rule some_unpassed_unlocked)
    then obtain l where l: "catalog_lesson C lid = Some l"
      using bt_contains_iff [of "cat_lessons C" lid]
      by (auto simp: unpassed_def catalog_lesson_def bt_contains_def simp del: set_map)
    let ?pi = "pi(lid \<mapsto> passed_state Mastered)"
    have step: "study C pi ?pi" using l lid(2) by (rule study)
    have "unpassed C ?pi \<subset> unpassed C pi" using lid(1) by (auto simp: unpassed_def simp del: fun_upd_apply)
    then have "card (unpassed C ?pi) < card (unpassed C pi)"
      by (intro psubset_card_mono) (auto simp: unpassed_def)
    from less [OF this] step show ?thesis by (meson converse_rtranclp_into_rtranclp)
  qed
qed

lemma attempted_scores_length: "length (attempted_scores C pi) \<le> length (cat_lesson_order C)"
  unfolding attempted_scores_def by (rule map_filter_length_le)

text \<open>Without overflow the average is the floor of the exact one.\<close>

lemma mastery_percent_exact:
  assumes "100 * length (cat_lesson_order C) < 2 ^ 32" "attempted_scores C pi \<noteq> []"
  shows "mastery_percent C pi =
           Some (word_of_nat (sum_list (map unat (attempted_scores C pi)) div length (attempted_scores C pi)))"
    and "sum_list (map unat (attempted_scores C pi)) \<le> 100 * length (attempted_scores C pi)"
proof -
  let ?ss = "attempted_scores C pi"
  let ?ws = "map (\<lambda>s. ucast s :: u32) ?ss"
  obtain ms where ms: "?ss = map mastery_score ms" using attempted_scores_masteries by blast
  have uc: "unat (ucast (s :: u8) :: u32) = unat s" for s using unsigned_less [of s, where ?'a = nat]
    by (simp add: unsigned_ucast_eq take_bit_nat_eq_self)
  have eq: "sum_list (map unat ?ws) = sum_list (map unat ?ss)" by (simp add: comp_def uc)
  show le: "sum_list (map unat ?ss) \<le> 100 * length ?ss"
    using sum_scores_le [of ms] by (simp add: ms comp_def uc)
  have len: "100 * length ?ss < 2 ^ 32"
    using attempted_scores_length [of C pi] assms(1) by linarith
  have sum: "unat (sum_list ?ws) = sum_list (map unat ?ss)"
    using unat_sum_list_words [of ?ws] le len eq by simp
  have cnt: "unat (word_of_nat (length ?ss) :: u32) = length ?ss"
    using len by (simp add: unat_of_nat)
  then have "(word_of_nat (length ?ss) :: u32) \<noteq> 0" using assms(2) by (auto simp: unat_eq_zero [symmetric])
  moreover have "(ucast (sum_list ?ws div word_of_nat (length ?ss)) :: u8) =
      word_of_nat (sum_list (map unat ?ss) div length ?ss)"
  proof -
    have "unat (sum_list ?ws div word_of_nat (length ?ss)) = sum_list (map unat ?ss) div length ?ss"
      by (simp only: unat_div sum cnt)
    then show ?thesis by (metis of_nat_unat)
  qed
  ultimately show "mastery_percent C pi = Some (word_of_nat (sum_list (map unat ?ss) div length ?ss))"
    using assms(2) by (simp add: mastery_percent_def Let_def)
qed

section \<open>Properties\<close>

text \<open>C36: The guided path never strands a learner. In a catalogue that loaded, from any state of
  progress at which some lesson is not passed there is a lesson that is not passed and open, and
  the whole course can be passed by opening only unlocked lessons.\<close>

theorem guided_path_completable:
  assumes "load R src = Inr C"
  shows "(all_passed C pi \<or> (\<exists>lid\<in>unpassed C pi. av_unlocked (availability_of C GuidedPath lid pi)))
    \<and> (\<exists>pi'. (study C)\<^sup>*\<^sup>* pi pi' \<and> all_passed C pi')"
proof -
  have cons: "consistent R C" using assms by (rule load_Inr)
  have "all_passed C pi" if "unpassed C pi = {}"
    using that by (auto simp: unpassed_def all_passed_def list_all_iff)
  then show ?thesis using course_completable [OF cons] some_unpassed_unlocked [OF cons] by metis
qed

lemma guided_path_completable_witness:
  "\<exists>pi'. (study sample_catalog)\<^sup>*\<^sup>* (\<lambda>_. None) pi' \<and> all_passed sample_catalog pi'"
  using guided_path_completable [OF sample_load] by blast

text \<open>A lesson is open in the guided path exactly when every prerequisite is passed, and always
  in the other modes; passing a lesson never closes another; and the next lesson is the first of
  the teaching order that is not passed.\<close>

theorem unlocking_and_next_lesson:
  "(av_unlocked (availability_of C GuidedPath lid pi) \<longleftrightarrow> missing_prerequisites C lid pi = [])
   \<and> av_unlocked (availability_of C OpenLibrary lid pi) \<and> av_unlocked (availability_of C AssessmentMode lid pi)
   \<and> (catalog_lesson C lid = Some l \<longrightarrow>
        set (missing_prerequisites C lid pi) = {p \<in> set (l_prerequisites l). \<not> passed_in pi p})
   \<and> (study C pi pi' \<longrightarrow> av_unlocked (availability_of C GuidedPath lid pi) \<longrightarrow>
        av_unlocked (availability_of C GuidedPath lid pi'))
   \<and> (case next_lesson C pi of
        None \<Rightarrow> completed_core_lessons C pi = core_lesson_count C
      | Some n \<Rightarrow> \<not> passed_in pi n
          \<and> (\<exists>before after. cat_lesson_order C = before @ n # after \<and> list_all (passed_in pi) before))"
proof (intro conjI impI)
  show "av_unlocked (availability_of C GuidedPath lid pi')"
    if "study C pi pi'" and "av_unlocked (availability_of C GuidedPath lid pi)"
    using study_monotone(2) that .
  show "case next_lesson C pi of
        None \<Rightarrow> completed_core_lessons C pi = core_lesson_count C
      | Some n \<Rightarrow> \<not> passed_in pi n
          \<and> (\<exists>before after. cat_lesson_order C = before @ n # after \<and> list_all (passed_in pi) before)"
  proof (cases "next_lesson C pi")
    case None
    then have "filter (passed_in pi) (cat_lesson_order C) = cat_lesson_order C"
      by (auto simp: next_lesson_def find_None_iff_all filter_id_conv)
    with None show ?thesis by (simp add: completed_core_lessons_def core_lesson_count_def)
  next
    case (Some n)
    have "List.find P xs = Some x \<Longrightarrow> \<exists>b a. xs = b @ x # a \<and> list_all (\<lambda>y. \<not> P y) b" for P x and xs :: "string list"
    proof (induction xs)
      case (Cons y ys)
      show ?case
      proof (cases "P y")
        case True
        with Cons.prems show ?thesis by simp (rule exI [of _ "[]"], simp)
      next
        case False
        with Cons obtain b a where "ys = b @ x # a" "list_all (\<lambda>y. \<not> P y) b" by auto
        with False have "y # ys = (y # b) @ x # a \<and> list_all (\<lambda>y. \<not> P y) (y # b)" by simp
        then show ?thesis by blast
      qed
    qed simp
    from this [OF Some [unfolded next_lesson_def]] Some show ?thesis
      by (auto simp: next_lesson_def dest: find_SomeD)
  qed
qed (auto simp: availability_of_def missing_prerequisites_def Let_def split: option.splits)

lemma unlocking_and_next_lesson_witness:
  "set (missing_prerequisites sample_catalog ''nav.b'' (\<lambda>_. None)) = {''nav.a''}"
proof -
  have "map_option l_prerequisites (catalog_lesson sample_catalog ''nav.b'') = Some [''nav.a'']" by code_simp
  then obtain l where "catalog_lesson sample_catalog ''nav.b'' = Some l" "l_prerequisites l = [''nav.a'']" by auto
  with unlocking_and_next_lesson [of sample_catalog "''nav.b''" "\<lambda>_. None" l] show ?thesis
    by (auto simp: passed_in_def)
qed

text \<open>The review list holds at most the requested number of lessons, all of them attempted and
  needing a revisit, each once, the weakest first.\<close>

theorem review_list_weakest_first:
  assumes "distinct (cat_lesson_order C)"
  shows "length (review_recommendations C pi limit) \<le> limit \<and> distinct (review_recommendations C pi limit)
    \<and> (\<exists>ms. sorted ms \<and> length ms = length (review_recommendations C pi limit)
         \<and> list_all2 (\<lambda>lid m. lid \<in> set (cat_lesson_order C) \<and> needs_revisiting m
              \<and> (\<exists>s. pi lid = Some s \<and> ls_mastery s = Some m)) (review_recommendations C pi limit) ms)"
proof -
  let ?xs = "take limit (sort_key snd (weak_lessons C pi))"
  have weak: "lid \<in> set (cat_lesson_order C) \<and> needs_revisiting m \<and> (\<exists>s. pi lid = Some s \<and> ls_mastery s = Some m)"
    if mem: "(lid, m) \<in> set (weak_lessons C pi)" for lid m
  proof -
    obtain l where l: "l \<in> set (cat_lesson_order C)" "Option.bind (pi l) (\<lambda>s. Option.bind (ls_mastery s) (\<lambda>m.
         if needs_revisiting m then Some (l, m) else None)) = Some (lid, m)"
      using mem unfolding weak_lessons_def map_filter_mem by blast
    then obtain s where s: "pi l = Some s" by (cases "pi l") simp_all
    with l(2) obtain m' where m': "ls_mastery s = Some m'" by (cases "ls_mastery s") simp_all
    with l s show ?thesis by (simp split: if_splits)
  qed
  have "distinct (map fst (weak_lessons C pi))"
  proof -
    let ?f = "\<lambda>lid. Option.bind (pi lid) (\<lambda>s. Option.bind (ls_mastery s) (\<lambda>m.
         if needs_revisiting m then Some (lid, m) else None))"
    have f: "?f x = None \<or> (\<exists>m. ?f x = Some (x, m))" for x
      by (cases "pi x"; cases "ls_mastery (the (pi x))") simp_all
    have "map fst (List.map_filter ?f xs) = filter (\<lambda>lid. ?f lid \<noteq> None) xs" for xs
    proof (induction xs)
      case (Cons x xs)
      from f [of x] Cons show ?case by (elim disjE exE) (simp_all add: List.map_filter_simps)
    qed (simp add: List.map_filter_simps)
    then have "map fst (weak_lessons C pi) = filter (\<lambda>lid. ?f lid \<noteq> None) (cat_lesson_order C)"
      by (simp only: weak_lessons_def)
    with assms show ?thesis by simp
  qed
  then have "distinct (map fst (sort_key snd (weak_lessons C pi)))"
    by (metis distinct_map distinct_sort set_sort)
  then have "distinct (map fst ?xs)" by (simp add: take_map [symmetric])
  moreover have "sorted (map snd ?xs)"
    using sorted_sort_key [of snd "weak_lessons C pi"] by (simp add: take_map [symmetric] sorted_wrt_take)
  moreover have "list_all2 (\<lambda>lid m. lid \<in> set (cat_lesson_order C) \<and> needs_revisiting m
              \<and> (\<exists>s. pi lid = Some s \<and> ls_mastery s = Some m)) (map fst ?xs) (map snd ?xs)"
  proof -
    have "(lid, m) \<in> set (weak_lessons C pi)" if "(lid, m) \<in> set ?xs" for lid m
      using that set_take_subset [of limit "sort_key snd (weak_lessons C pi)"] by auto
    then show ?thesis using weak by (fastforce simp: list_all2_map1 list_all2_map2 list_all2_same)
  qed
  ultimately show ?thesis
    unfolding review_recommendations_def by (intro conjI exI [of _ "map snd ?xs"]) simp_all
qed

lemma review_list_weakest_first_witness:
  "length (review_recommendations sample_catalog (\<lambda>_. Some (passed_state NeedsReview)) 1) \<le> 1"
proof -
  have "distinct (cat_lesson_order sample_catalog)" by code_simp
  from review_list_weakest_first [OF this] show ?thesis by blast
qed

text \<open>The mastery figure of the home screen never overflows: it is zero before anything was
  attempted and then the average score of the attempted core lessons, rounded down, which is at
  most one hundred.\<close>

theorem mastery_percent_average:
  assumes "100 * length (cat_lesson_order C) < 2 ^ 32"
  shows "mastery_percent C pi =
      Some (if attempted_scores C pi = [] then 0
            else word_of_nat (sum_list (map unat (attempted_scores C pi)) div length (attempted_scores C pi)))
    \<and> sum_list (map unat (attempted_scores C pi)) div max 1 (length (attempted_scores C pi)) \<le> 100"
proof (cases "attempted_scores C pi = []")
  case False
  then have len: "0 < length (attempted_scores C pi)" by simp
  then have "sum_list (map unat (attempted_scores C pi)) div length (attempted_scores C pi) \<le> 100"
    using mastery_percent_exact(2) [OF assms False] by (metis div_le_mono div_mult_self_is_m)
  with False len mastery_percent_exact(1) [OF assms False] show ?thesis by (simp add: max_def Suc_le_eq)
qed (simp add: mastery_percent_def)

lemma mastery_percent_average_witness:
  "mastery_percent sample_catalog (\<lambda>_. Some (passed_state Strong)) = Some 85"
proof -
  have len: "100 * length (cat_lesson_order sample_catalog) < 2 ^ 32"
    and scores: "attempted_scores sample_catalog (\<lambda>_. Some (passed_state Strong)) = [85, 85]"
    by code_simp+
  from mastery_percent_average [OF len, of "\<lambda>_. Some (passed_state Strong)"] show ?thesis
    unfolding scores by (simp add: numeral_2_eq_2 [symmetric])
qed

end
