(* ===== verification/Feedback.thy ===== *)
theory Feedback
  imports Validation Registry
begin

text \<open>
  The message the learner reads (crates/lesson-engine/src/feedback.rs), and the two functions
  of crates/lesson-engine/src/lib.rs that prepare a check.
\<close>

section \<open>Preparing a check\<close>

definition build_validation_request :: "lesson \<Rightarrow> task \<Rightarrow> int \<Rightarrow> validation_request" where
  "build_validation_request l t attempt_started_at =
     \<lparr>r_lesson_id = l_id l, r_task_id = t_id t, r_validators = t_validators t,
      r_subject_user = ''student'', r_lesson_root = Some (''/opt/linuxlab/lessons/'' @ l_id l),
      r_attempt_started_at = Some attempt_started_at\<rparr>"

text \<open>The first validator that the registry rejects makes the task unusable.\<close>

fun check_validators :: "registry \<Rightarrow> string \<Rightarrow> validator list \<Rightarrow> string + unit" where
  "check_validators R tid [] = Inr ()"
| "check_validators R tid (v # vs) =
     (case check R v of
        Inl (Rejected e) \<Rightarrow> Inl (''task '' @ tid @ '' has an invalid validator: '' @ display_registry_error e)
      | _ \<Rightarrow> check_validators R tid vs)"

definition check_task_validators :: "registry \<Rightarrow> task \<Rightarrow> string + unit" where
  "check_task_validators R t = check_validators R (t_id t) (t_validators t)"

lemma check_task_validators_iff:
  "check_task_validators R t = Inr () \<longleftrightarrow> (\<forall>v\<in>set (t_validators t). legal R v)"
proof -
  have "check_validators R tid vs = Inr () \<longleftrightarrow> (\<forall>v\<in>set vs. legal R v)" for tid vs
  proof (induction vs)
    case (Cons v vs)
    then show ?case
      using check_legal(1) [of R v] check_never_panics(1) [of R v]
      by (auto split: sum.splits check_failure.splits)
  qed simp
  then show ?thesis by (simp add: check_task_validators_def)
qed

section \<open>Feedback\<close>

record feedback =
  f_headline :: string
  f_category :: "failure_category option"
  f_guidance :: "string option"
  f_details :: "string list"
  f_partial :: bool
  f_authoring_error :: bool

definition detail_line :: "check_outcome \<Rightarrow> string" where
  "detail_line c =
     o_message c @
     (case (o_expected c, o_observed c) of
        (Some e, Some b) \<Rightarrow> '' (expected '' @ e @ '', found '' @ b @ '')''
      | (_, Some b) \<Rightarrow> '' (found '' @ b @ '')''
      | _ \<Rightarrow> [])"

text \<open>The category all categorised failures agree on.\<close>

definition unanimous :: "check_outcome list \<Rightarrow> failure_category option" where
  "unanimous failed =
     (case List.map_filter o_failure_category failed of
        [] \<Rightarrow> None
      | c # cs \<Rightarrow> if list_all (\<lambda>d. d = c) (c # cs) then Some c else None)"

definition shape_feedback :: "task_validation \<Rightarrow> feedback" where
  "shape_feedback v =
     (if tv_passed v then
        \<lparr>f_headline = ''Correct.'', f_category = None, f_guidance = None, f_details = [],
         f_partial = False, f_authoring_error = False\<rparr>
      else
        let failed = filter (\<lambda>c. \<not> o_passed c) (tv_outcomes v);
            details = map detail_line failed
        in if tv_errored v \<and> list_all o_errored failed then
             \<lparr>f_headline = ''This task could not be checked.'', f_category = None,
              f_guidance = Some ''The lesson package is faulty rather than your answer. Reporting this with the diagnostic export helps get it fixed.'',
              f_details = details, f_partial = False, f_authoring_error = True\<rparr>
           else
             let partial = (0 < tv_completion_percent v);
                 category = (case (unanimous failed, partial) of
                     (Some c, _) \<Rightarrow> Some c
                   | (None, True) \<Rightarrow> Some TaskPartiallyCompleted
                   | (None, False) \<Rightarrow> None);
                 headline = (if partial
                   then ''Almost there: '' @ dec (unat (tv_completion_percent v)) @ ''% of this task is done.''
                   else ''Not quite yet.'')
             in \<lparr>f_headline = headline, f_category = category, f_guidance = map_option guidance category,
                 f_details = details, f_partial = partial, f_authoring_error = False\<rparr>)"

lemma unanimous_Some:
  "unanimous failed = Some c \<longleftrightarrow>
     (\<exists>d\<in>set failed. o_failure_category d = Some c)
     \<and> (\<forall>d\<in>set failed. o_failure_category d = None \<or> o_failure_category d = Some c)"
proof -
  have mem: "x \<in> set (List.map_filter o_failure_category failed) \<longleftrightarrow>
      (\<exists>d\<in>set failed. o_failure_category d = Some x)" for x
    by (force simp: List.map_filter_def)
  show ?thesis
  proof (cases "List.map_filter o_failure_category failed")
    case Nil
    with mem show ?thesis by (auto simp: unanimous_def)
  next
    case (Cons x xs)
    have mem': "y \<in> set (x # xs) \<longleftrightarrow> (\<exists>d\<in>set failed. o_failure_category d = Some y)" for y
      using mem Cons by simp
    have all_eq: "(\<forall>y\<in>set (x # xs). y = c) \<longleftrightarrow>
        (\<forall>d\<in>set failed. o_failure_category d = None \<or> o_failure_category d = Some c)"
    proof
      assume L: "\<forall>y\<in>set (x # xs). y = c"
      have "o_failure_category d = None \<or> o_failure_category d = Some c" if "d \<in> set failed" for d
      proof (cases "o_failure_category d")
        case (Some a)
        then have "a \<in> set (x # xs)" unfolding mem' using that by blast
        with L have "a = c" by blast
        with Some show ?thesis by simp
      qed simp
      then show "\<forall>d\<in>set failed. o_failure_category d = None \<or> o_failure_category d = Some c" by blast
    next
      assume R: "\<forall>d\<in>set failed. o_failure_category d = None \<or> o_failure_category d = Some c"
      show "\<forall>y\<in>set (x # xs). y = c" using R unfolding Ball_def mem' by force
    qed
    have "unanimous failed = Some c \<longleftrightarrow> c = x \<and> (\<forall>y\<in>set (x # xs). y = x)"
      using Cons by (auto simp: unanimous_def list_all_iff)
    also have "\<dots> \<longleftrightarrow> c \<in> set (x # xs) \<and> (\<forall>y\<in>set (x # xs). y = c)" by auto
    also have "\<dots> \<longleftrightarrow> (\<exists>d\<in>set failed. o_failure_category d = Some c)
        \<and> (\<forall>d\<in>set failed. o_failure_category d = None \<or> o_failure_category d = Some c)"
      using all_eq mem' [of c] by simp
    finally show ?thesis .
  qed
qed

section \<open>Properties\<close>

text \<open>What the learner is told. Praise comes exactly with a pass; the lesson is blamed instead
  of the answer exactly when some check could not run and no check that ran failed; every failing
  check has its line of detail; and a category other than partial completion is shown only if all
  the categorised failures agree on it.\<close>

theorem feedback_is_fair:
  assumes "list_all wf_outcome os"
  shows "(f_headline (shape_feedback (from_outcomes l t os)) = ''Correct.'' \<longleftrightarrow> os \<noteq> [] \<and> list_all o_passed os)
    \<and> (f_authoring_error (shape_feedback (from_outcomes l t os)) \<longleftrightarrow>
         list_ex o_errored os \<and> list_all (\<lambda>c. o_passed c \<or> o_errored c) os)
    \<and> f_details (shape_feedback (from_outcomes l t os)) = map detail_line (filter (\<lambda>c. \<not> o_passed c) os)
    \<and> (f_category (shape_feedback (from_outcomes l t os)) = Some c \<longrightarrow> c \<noteq> TaskPartiallyCompleted \<longrightarrow>
         list_all (\<lambda>d. o_passed d \<or> o_failure_category d = None \<or> o_failure_category d = Some c) os)"
proof (cases "os \<noteq> [] \<and> list_all o_passed os")
  case True
  then have "filter (\<lambda>c. \<not> o_passed c) os = []" by (simp add: filter_empty_conv list_all_iff)
  with True assms show ?thesis
    by (auto simp: shape_feedback_def from_outcomes_def list_all_iff list_ex_iff wf_outcome_def)
next
  case False
  let ?failed = "filter (\<lambda>c. \<not> o_passed c) os"
  have err: "list_ex o_errored os \<and> list_all o_errored ?failed \<longleftrightarrow>
      list_ex o_errored os \<and> list_all (\<lambda>c. o_passed c \<or> o_errored c) os"
    by (auto simp: list_all_iff)
  have cat: "list_all (\<lambda>d. o_passed d \<or> o_failure_category d = None \<or> o_failure_category d = Some c) os"
    if "unanimous ?failed = Some c" using that by (auto simp: unanimous_Some list_all_iff)
  have head: "''Almost there: '' @ s \<noteq> ''Correct.''" "''Not quite yet.'' \<noteq> ''Correct.''"
    "''This task could not be checked.'' \<noteq> ''Correct.''" for s by simp_all
  have v: "tv_passed (from_outcomes l t os) = False" "tv_outcomes (from_outcomes l t os) = os"
    "tv_errored (from_outcomes l t os) = list_ex o_errored os" using False by (auto simp: from_outcomes_def)
  show ?thesis
  proof (cases "list_ex o_errored os \<and> list_all o_errored ?failed")
    case True
    with False err show ?thesis by (simp add: shape_feedback_def v Let_def)
  next
    case no_err: False
    have "f_category (shape_feedback (from_outcomes l t os)) = Some c \<Longrightarrow> c \<noteq> TaskPartiallyCompleted \<Longrightarrow>
        unanimous ?failed = Some c"
      using no_err by (auto simp: shape_feedback_def v Let_def split: option.splits bool.splits)
    moreover have "f_headline (shape_feedback (from_outcomes l t os)) \<noteq> ''Correct.''"
      "\<not> f_authoring_error (shape_feedback (from_outcomes l t os))"
      "f_details (shape_feedback (from_outcomes l t os)) = map detail_line ?failed"
      using no_err head by (simp_all add: shape_feedback_def v Let_def)
    ultimately show ?thesis using False err no_err cat by blast
  qed
qed

lemma feedback_is_fair_witness:
  "f_authoring_error (shape_feedback (from_outcomes ''a.b'' ''t'' [outcome_pass ''k'' [], outcome_error ''k'' []]))"
  using feedback_is_fair [of "[outcome_pass ''k'' [], outcome_error ''k'' []]" "''a.b''" "''t''"]
  by (simp add: outcome_pass_def outcome_error_def wf_outcome_def)

text \<open>A task is sent to the machine only if every one of its validators is legal, and the request
  asks for exactly the validators of the task, on the learner's account.\<close>

theorem only_legal_validators_are_sent:
  "(check_task_validators R t = Inr () \<longleftrightarrow> list_all (legal R) (t_validators t))
   \<and> r_validators (build_validation_request l t at) = t_validators t
   \<and> r_subject_user (build_validation_request l t at) = default_subject"
  by (simp add: check_task_validators_iff list_all_iff build_validation_request_def default_subject_def)

end
