(* ===== verification/Qemu.thy ===== *)
theory Qemu
  imports Lesson_Types
begin

text \<open>
  The virtual machine's configuration (crates/shared-types/src/vm.rs) and the QEMU command line
  built from it (crates/vm-manager/src/qemu.rs, qemu_path.rs). Host paths are strings;
  \<open>read_options\<close> reads an argument vector the way QEMU's option parser splits it into options
  and values, so that the isolation properties are about what QEMU sees.
\<close>

section \<open>Configuration\<close>

datatype machine_type = Microvm | Q35

primrec machine_arg :: "machine_type \<Rightarrow> string" where
  "machine_arg Microvm = ''microvm,acpi=on,pit=on,pic=off,rtc=on''"
| "machine_arg Q35 = ''q35''"

datatype accel_mode = Whpx | Tcg

primrec accel_arg :: "accel_mode \<Rightarrow> string" where
  "accel_arg Whpx = ''whpx,kernel-irqchip=off''"
| "accel_arg Tcg = ''tcg,thread=single''"

primrec accel_label :: "accel_mode \<Rightarrow> string" where
  "accel_label Whpx = ''Hardware acceleration (WHPX)''"
| "accel_label Tcg = ''Software translation (TCG)''"

record vm_config =
  cf_machine :: machine_type
  cf_accel :: accel_mode
  cf_cpus :: u8
  cf_memory_mb :: u32
  cf_kernel :: string
  cf_initrd :: "string option"
  cf_base_image :: string
  cf_overlay :: string
  cf_network_mode :: network_mode
  cf_qmp_port :: u16
  cf_console_port :: u16
  cf_agent_port :: u16
  cf_control_token :: string
  cf_log_file :: string

datatype vm_state =
    VmStopped | VmStarting | VmBootingGuest | VmReady | VmPaused | VmStopping | VmUnbootable | VmFailed

definition accepts_commands :: "vm_state \<Rightarrow> bool" where
  "accepts_commands s \<longleftrightarrow> s = VmReady"

definition is_transitional :: "vm_state \<Rightarrow> bool" where
  "is_transitional s \<longleftrightarrow> s \<in> {VmStarting, VmBootingGuest, VmStopping}"

record vm_status =
  st_state :: vm_state
  st_accel :: accel_mode
  st_machine :: machine_type
  st_memory_mb :: u32
  st_pid :: "u32 option"
  st_boot_millis :: "u64 option"
  st_guest_kernel :: "string option"
  st_image_version :: "string option"
  st_detail :: "string option"

definition status_stopped :: "accel_mode \<Rightarrow> machine_type \<Rightarrow> u32 \<Rightarrow> vm_status" where
  "status_stopped accel machine memory_mb =
     \<lparr>st_state = VmStopped, st_accel = accel, st_machine = machine, st_memory_mb = memory_mb,
      st_pid = None, st_boot_millis = None, st_guest_kernel = None, st_image_version = None,
      st_detail = None\<rparr>"

section \<open>Path rendering\<close>

text \<open>\<^verbatim>\<open>qemu_path::render\<close>: forward slashes, and no extended-length prefix.\<close>

definition render_path :: "string \<Rightarrow> string" where
  "render_path path =
     (let rendered = map (\<lambda>c. if c = CHR 0x5C then CHR ''/'' else c) path in
      case strip_prefix ''//?/UNC/'' rendered of
        Some p \<Rightarrow> ''//'' @ p
      | None \<Rightarrow> (case strip_prefix ''//?/'' rendered of Some p \<Rightarrow> p | None \<Rightarrow> rendered))"

section \<open>The command line\<close>

primrec virtio_suffix :: "machine_type \<Rightarrow> string" where
  "virtio_suffix Microvm = ''device''"
| "virtio_suffix Q35 = ''pci''"

definition agent_port_name :: string where
  "agent_port_name = ''org.linuxlab.agent''"

primrec network_label :: "network_mode \<Rightarrow> string" where
  "network_label NetworkDisabled = ''offline''"
| "network_label InternalLab = ''internal-lab''"
| "network_label RestrictedInternet = ''restricted-internet''"

definition kernel_cmdline :: "vm_config \<Rightarrow> string" where
  "kernel_cmdline cfg =
     join '' ''
       [''console=ttyS0,115200'',
        (case cf_machine cfg of Microvm \<Rightarrow> ''root=/dev/vda'' | Q35 \<Rightarrow> ''root=/dev/nvme0n1''),
        ''rootwait'', ''rw'', ''rootfstype=ext4'', ''init=/lib/systemd/systemd'',
        ''systemd.show_status=0'', ''loglevel=3'', ''quiet'', ''random.trust_cpu=on'',
        ''reboot=t'', ''panic=-1'',
        ''linuxlab.network='' @ network_label (cf_network_mode cfg),
        ''linuxlab.token='' @ cf_control_token cfg]"

definition port_str :: "u16 \<Rightarrow> string" where
  "port_str p = dec (unat p)"

definition build_args :: "vm_config \<Rightarrow> string list" where
  "build_args cfg =
     (let suffix = virtio_suffix (cf_machine cfg) in
      [''-no-user-config'', ''-nodefaults'',
       ''-machine'', machine_arg (cf_machine cfg),
       ''-accel'', accel_arg (cf_accel cfg),
       ''-cpu'', ''max'',
       ''-smp'', dec (unat (max (cf_cpus cfg) 1)),
       ''-m'', dec (unat (cf_memory_mb cfg)),
       ''-rtc'', ''base=utc'',
       ''-display'', ''none'',
       ''-no-reboot'']
      @ (case cf_machine cfg of
           Microvm \<Rightarrow> [''-global'', ''virtio-mmio.force-legacy=false'']
         | Q35 \<Rightarrow> [''-vga'', ''none''])
      @ [''-kernel'', render_path (cf_kernel cfg)]
      @ (case cf_initrd cfg of Some initrd \<Rightarrow> [''-initrd'', render_path initrd] | None \<Rightarrow> [])
      @ [''-append'', kernel_cmdline cfg,
         ''-drive'', ''id=root,file='' @ render_path (cf_overlay cfg)
            @ '',format=qcow2,if=none,cache=writeback,discard=unmap,detect-zeroes=unmap'',
         ''-device'', (case cf_machine cfg of
              Microvm \<Rightarrow> ''virtio-blk-'' @ suffix @ '',drive=root''
            | Q35 \<Rightarrow> ''nvme,drive=root,serial=linuxlab-root''),
         ''-chardev'', ''socket,id=console,host=127.0.0.1,port='' @ port_str (cf_console_port cfg)
            @ '',server=on,wait=off,telnet=off'',
         ''-serial'', ''chardev:console'',
         ''-device'', ''virtio-serial-'' @ suffix @ '',id=vser0'',
         ''-chardev'', ''socket,id=agent,host=127.0.0.1,port='' @ port_str (cf_agent_port cfg)
            @ '',server=on,wait=off'',
         ''-device'', ''virtserialport,bus=vser0.0,chardev=agent,name='' @ agent_port_name,
         ''-qmp'', ''tcp:127.0.0.1:'' @ port_str (cf_qmp_port cfg) @ '',server=on,wait=off'']
      @ (case cf_network_mode cfg of
           RestrictedInternet \<Rightarrow>
             [''-netdev'', ''user,id=net0,ipv6=off,restrict=off'',
              ''-device'', ''virtio-net-'' @ suffix @ '',netdev=net0'']
         | _ \<Rightarrow> [''-nic'', ''none''])
      @ [''-D'', render_path (cf_log_file cfg)])"

text \<open>\<^verbatim>\<open>str::replace\<close> and \<^verbatim>\<open>str::contains\<close> for a non-empty pattern.\<close>

function replace_all :: "string \<Rightarrow> string \<Rightarrow> string \<Rightarrow> string" where
  "replace_all pat new [] = []"
| "replace_all pat new (c # cs) =
     (if pat \<noteq> [] \<and> starts_with (c # cs) pat
      then new @ replace_all pat new (drop (length pat) (c # cs))
      else c # replace_all pat new cs)"
  by pat_completeness auto
termination
  by (relation "measure (\<lambda>(pat, new, s). length s)") auto

definition describe :: "vm_config \<Rightarrow> string" where
  "describe cfg =
     join '' '' (map (\<lambda>arg.
       if cf_control_token cfg \<noteq> [] \<and> sublist (cf_control_token cfg) arg
       then replace_all (cf_control_token cfg) ''<redacted>'' arg else arg) (build_args cfg))"

section \<open>Reading the options back\<close>

text \<open>The options without a value; every other option of the command line takes one.\<close>

definition flag_options :: "string list" where
  "flag_options = [''-no-user-config'', ''-nodefaults'', ''-no-reboot'']"

fun read_options :: "string list \<Rightarrow> (string \<times> string option) list" where
  "read_options [] = []"
| "read_options [opt] = [(opt, None)]"
| "read_options (opt # val # rest) =
     (if opt \<in> set flag_options then (opt, None) # read_options (val # rest)
      else (opt, Some val) # read_options rest)"

definition option_values :: "string \<Rightarrow> string list \<Rightarrow> string list" where
  "option_values opt args =
     List.map_filter (\<lambda>(opt', v). if opt' = opt then v else None) (read_options args)"

text \<open>The options of the command line, whatever strings the configuration holds.\<close>

lemma read_build_args:
  "read_options (build_args cfg) =
     (let suffix = virtio_suffix (cf_machine cfg) in
      [(''-no-user-config'', None), (''-nodefaults'', None),
       (''-machine'', Some (machine_arg (cf_machine cfg))),
       (''-accel'', Some (accel_arg (cf_accel cfg))),
       (''-cpu'', Some ''max''),
       (''-smp'', Some (dec (unat (max (cf_cpus cfg) 1)))),
       (''-m'', Some (dec (unat (cf_memory_mb cfg)))),
       (''-rtc'', Some ''base=utc''),
       (''-display'', Some ''none''),
       (''-no-reboot'', None)]
      @ (case cf_machine cfg of
           Microvm \<Rightarrow> [(''-global'', Some ''virtio-mmio.force-legacy=false'')]
         | Q35 \<Rightarrow> [(''-vga'', Some ''none'')])
      @ [(''-kernel'', Some (render_path (cf_kernel cfg)))]
      @ (case cf_initrd cfg of Some initrd \<Rightarrow> [(''-initrd'', Some (render_path initrd))] | None \<Rightarrow> [])
      @ [(''-append'', Some (kernel_cmdline cfg)),
         (''-drive'', Some (''id=root,file='' @ render_path (cf_overlay cfg)
            @ '',format=qcow2,if=none,cache=writeback,discard=unmap,detect-zeroes=unmap'')),
         (''-device'', Some (case cf_machine cfg of
              Microvm \<Rightarrow> ''virtio-blk-'' @ suffix @ '',drive=root''
            | Q35 \<Rightarrow> ''nvme,drive=root,serial=linuxlab-root'')),
         (''-chardev'', Some (''socket,id=console,host=127.0.0.1,port='' @ port_str (cf_console_port cfg)
            @ '',server=on,wait=off,telnet=off'')),
         (''-serial'', Some ''chardev:console''),
         (''-device'', Some (''virtio-serial-'' @ suffix @ '',id=vser0'')),
         (''-chardev'', Some (''socket,id=agent,host=127.0.0.1,port='' @ port_str (cf_agent_port cfg)
            @ '',server=on,wait=off'')),
         (''-device'', Some (''virtserialport,bus=vser0.0,chardev=agent,name='' @ agent_port_name)),
         (''-qmp'', Some (''tcp:127.0.0.1:'' @ port_str (cf_qmp_port cfg) @ '',server=on,wait=off''))]
      @ (case cf_network_mode cfg of
           RestrictedInternet \<Rightarrow>
             [(''-netdev'', Some ''user,id=net0,ipv6=off,restrict=off''),
              (''-device'', Some (''virtio-net-'' @ suffix @ '',netdev=net0''))]
         | _ \<Rightarrow> [(''-nic'', Some ''none'')])
      @ [(''-D'', Some (render_path (cf_log_file cfg)))])"
  unfolding build_args_def Let_def
  by (simp add: flag_options_def split: machine_type.split option.split network_mode.split)

lemma option_values_absent: "opt \<notin> fst ` set (read_options args) \<Longrightarrow> option_values opt args = []"
  by (force simp: option_values_def List.map_filter_def filter_empty_conv)

definition known_options :: "string list" where
  "known_options =
     [''-no-user-config'', ''-nodefaults'', ''-machine'', ''-accel'', ''-cpu'', ''-smp'', ''-m'', ''-rtc'',
      ''-display'', ''-no-reboot'', ''-global'', ''-vga'', ''-kernel'', ''-initrd'', ''-append'', ''-drive'',
      ''-device'', ''-chardev'', ''-serial'', ''-qmp'', ''-netdev'', ''-nic'', ''-D'']"

lemma build_args_known: "fst ` set (read_options (build_args cfg)) \<subseteq> set known_options"
  unfolding read_build_args known_options_def Let_def
  by (auto split: machine_type.splits option.splits network_mode.splits)

text \<open>The values of an option, group by group.\<close>

definition values_in :: "string \<Rightarrow> (string \<times> string option) list \<Rightarrow> string list" where
  "values_in opt ps = List.map_filter (\<lambda>(opt', v). if opt' = opt then v else None) ps"

lemma values_in_simps [simp]:
  "values_in opt [] = []"
  "values_in opt ((opt', v) # ps) =
     (if opt' = opt then (case v of None \<Rightarrow> values_in opt ps | Some x \<Rightarrow> x # values_in opt ps)
      else values_in opt ps)"
  "values_in opt (ps @ qs) = values_in opt ps @ values_in opt qs"
  by (auto simp: values_in_def List.map_filter_def split: option.splits)

lemma option_values_in: "option_values opt args = values_in opt (read_options args)"
  by (simp add: option_values_def values_in_def)

section \<open>Redaction of the token\<close>

lemma prefix_replace_all:
  "prefix q (replace_all pat new s) \<Longrightarrow> new \<noteq> [] \<Longrightarrow> hd new \<notin> set q \<Longrightarrow> prefix q s"
proof (induction s arbitrary: q rule: length_induct)
  case (1 s)
  show ?case
  proof (cases "q = [] \<or> s = []")
    case False
    then obtain d ds c cs where q: "q = d # ds" and s: "s = c # cs" by (meson neq_Nil_conv)
    show ?thesis
    proof (cases "pat \<noteq> [] \<and> starts_with s pat")
      case True
      with 1 q s show ?thesis by (cases new) auto
    next
      case no: False
      with "1.prems" q s have "d = c" "prefix ds (replace_all pat new cs)" "hd new \<notin> set ds" by auto
      with "1.IH" "1.prems"(2) s have "prefix ds cs" by simp
      with q s \<open>d = c\<close> show ?thesis by simp
    qed
  qed (use "1.prems" in auto)
qed

text \<open>
  A pattern longer than what is between the first and the last character of the replacement,
  neither of which it contains, does not occur in the result.
\<close>

lemma sublist_append_cases:
  "sublist pat (xs @ ys) \<Longrightarrow> sublist pat xs \<or> sublist pat ys
     \<or> (\<exists>p1 p2. p1 \<noteq> [] \<and> p2 \<noteq> [] \<and> pat = p1 @ p2 \<and> suffix p1 xs \<and> prefix p2 ys)"
proof -
  assume "sublist pat (xs @ ys)"
  then consider "sublist pat xs" | "sublist pat ys"
    | p1 p2 where "pat = p1 @ p2" "suffix p1 xs" "prefix p2 ys"
    unfolding sublist_append by blast
  then show ?thesis
  proof cases
    case 3
    then show ?thesis
      by (cases "p1 = []"; cases "p2 = []") (auto simp: suffix_imp_sublist prefix_imp_sublist)
  qed auto
qed

lemma suffix_last_mem: "suffix p xs \<Longrightarrow> p \<noteq> [] \<Longrightarrow> last xs \<in> set p"
  by (auto simp: suffix_def)

lemma not_in_replacement:
  assumes "pat \<noteq> []" "hd new \<notin> set pat" "last new \<notin> set pat" "length new \<le> length pat + 1" "new \<noteq> []"
  shows "\<not> sublist pat new"
proof
  assume "sublist pat new"
  then obtain ps ss where new: "new = ps @ pat @ ss" by (auto simp: sublist_def)
  have "ps \<noteq> []" using new assms(1,2) by (cases ps) auto
  moreover have "ss \<noteq> []" using new assms(1,3) by (cases ss rule: rev_cases) auto
  ultimately have "length new \<ge> length pat + 2" using new by (cases ps; cases ss) auto
  with assms(4) show False by simp
qed

lemma replace_all_removes:
  assumes "pat \<noteq> []" "hd new \<notin> set pat" "last new \<notin> set pat" "length new \<le> length pat + 1" "new \<noteq> []"
  shows "\<not> sublist pat (replace_all pat new s)"
  using assms
proof (induction pat new s rule: replace_all.induct)
  case (2 pat new c cs)
  show ?case
  proof (cases "starts_with (c # cs) pat")
    case True
    let ?R = "replace_all pat new (drop (length pat) (c # cs))"
    have R: "\<not> sublist pat ?R" using 2 True by simp
    have "\<not> sublist pat (new @ ?R)"
    proof
      assume "sublist pat (new @ ?R)"
      from sublist_append_cases [OF this] R not_in_replacement [OF "2.prems"]
      obtain p1 p2 where "p1 \<noteq> []" "pat = p1 @ p2" "suffix p1 new" by blast
      then show False using suffix_last_mem "2.prems"(3) by fastforce
    qed
    with True "2.prems"(1) show ?thesis by simp
  next
    case False
    let ?R = "replace_all pat new cs"
    have R: "\<not> sublist pat ?R" using 2 False by simp
    have "\<not> prefix pat (c # ?R)"
    proof
      assume "prefix pat (c # ?R)"
      then have "prefix pat (replace_all pat new (c # cs))" using False by simp
      then have "prefix pat (c # cs)" using prefix_replace_all "2.prems" by blast
      with False show False by (auto simp: starts_with_iff prefix_def)
    qed
    with R False show ?thesis by (auto simp: sublist_Cons_right)
  qed
qed simp

lemma sublist_join:
  "sublist pat (join [c] xs) \<Longrightarrow> c \<notin> set pat \<Longrightarrow> pat \<noteq> [] \<Longrightarrow> \<exists>x\<in>set xs. sublist pat x"
proof (induction "[c]" xs rule: join.induct)
  case (3 s t ts)
  from "3.prems" have "sublist pat (s @ [c] @ join [c] (t # ts))" by simp
  then consider "sublist pat s" | "sublist pat ([c] @ join [c] (t # ts))"
    | p1 p2 where "p2 \<noteq> []" "pat = p1 @ p2" "prefix p2 ([c] @ join [c] (t # ts))"
    using sublist_append_cases by blast
  then show ?case
  proof cases
    case 2
    then have "prefix pat (c # join [c] (t # ts)) \<or> sublist pat (join [c] (t # ts))"
      by (simp add: sublist_Cons_right)
    then have "sublist pat (join [c] (t # ts))" using "3.prems" by (cases pat) auto
    with "3.hyps" "3.prems" show ?thesis by auto
  next
    case 3
    then have "c \<in> set pat" by (cases p2) auto
    with "3.prems" show ?thesis by simp
  qed auto
qed auto

text \<open>A token of hexadecimal digits never shows in the rendered command line.\<close>

lemma describe_hides_token:
  assumes "list_all is_ascii_hexdigit (cf_control_token cfg)" "9 \<le> length (cf_control_token cfg)"
  shows "\<not> sublist (cf_control_token cfg) (describe cfg)"
proof
  let ?tok = "cf_control_token cfg"
  assume sub: "sublist ?tok (describe cfg)"
  have ne: "?tok \<noteq> []" using assms(2) by auto
  have chars: "CHR '' '' \<notin> set ?tok" "CHR ''<'' \<notin> set ?tok" "CHR ''>'' \<notin> set ?tok"
    using assms(1) by (auto simp: list_all_iff is_ascii_hexdigit_def is_ascii_digit_def byte_def)
  have "\<not> sublist ?tok (replace_all ?tok ''<redacted>'' arg)" for arg
    by (rule replace_all_removes) (use ne chars assms(2) in simp_all)
  with sub sublist_join [OF _ chars(1) ne] ne show False
    unfolding describe_def by (fastforce split: if_splits)
qed

text \<open>The options of the command line that matter for isolation.\<close>

lemma build_args_sockets:
  "option_values ''-chardev'' (build_args cfg) =
     [''socket,id=console,host=127.0.0.1,port='' @ port_str (cf_console_port cfg) @ '',server=on,wait=off,telnet=off'',
      ''socket,id=agent,host=127.0.0.1,port='' @ port_str (cf_agent_port cfg) @ '',server=on,wait=off'']"
  "option_values ''-qmp'' (build_args cfg) = [''tcp:127.0.0.1:'' @ port_str (cf_qmp_port cfg) @ '',server=on,wait=off'']"
  "option_values ''-serial'' (build_args cfg) = [''chardev:console'']"
  "option_values ''-display'' (build_args cfg) = [''none'']"
  unfolding option_values_in read_build_args Let_def values_in_simps(3)
  by (simp split: machine_type.split network_mode.split option.split)+

lemma build_args_nic:
  "option_values ''-nic'' (build_args cfg) =
     (if cf_network_mode cfg = RestrictedInternet then [] else [''none''])"
  "option_values ''-netdev'' (build_args cfg) =
     (if cf_network_mode cfg = RestrictedInternet then [''user,id=net0,ipv6=off,restrict=off''] else [])"
  unfolding option_values_in read_build_args Let_def values_in_simps(3)
  by (simp split: machine_type.split network_mode.split option.split)+

lemma build_args_absent:
  "list_all (\<lambda>opt. option_values opt (build_args cfg) = [])
     [''-virtfs'', ''-fsdev'', ''-usb'', ''-usbdevice'', ''-vnc'', ''-spice'', ''-monitor'', ''-net'', ''-smb'', ''-cdrom'', ''-hda'']"
proof -
  have "list_all (\<lambda>opt. opt \<notin> set known_options)
     [''-virtfs'', ''-fsdev'', ''-usb'', ''-usbdevice'', ''-vnc'', ''-spice'', ''-monitor'', ''-net'', ''-smb'', ''-cdrom'', ''-hda'']"
    by code_simp
  then show ?thesis
    by (rule list.pred_mono_strong) (meson build_args_known option_values_absent subsetD)
qed

section \<open>Properties\<close>


text \<open>The writable disk is the overlay and only the overlay: one drive, the root file system
  the kernel is told to mount, and the read-only base image is never an argument of its own.\<close>

theorem only_the_overlay_is_a_drive:
  "option_values ''-drive'' (build_args cfg) =
     [''id=root,file='' @ render_path (cf_overlay cfg)
        @ '',format=qcow2,if=none,cache=writeback,discard=unmap,detect-zeroes=unmap'']
   \<and> build_args (cfg\<lparr>cf_base_image := other\<rparr>) = build_args cfg
   \<and> option_values ''-append'' (build_args cfg) = [kernel_cmdline cfg]
   \<and> sublist (case cf_machine cfg of Microvm \<Rightarrow> '' root=/dev/vda '' | Q35 \<Rightarrow> '' root=/dev/nvme0n1 '')
       (kernel_cmdline cfg)"
proof (intro conjI)
  show "option_values ''-drive'' (build_args cfg) =
     [''id=root,file='' @ render_path (cf_overlay cfg)
        @ '',format=qcow2,if=none,cache=writeback,discard=unmap,detect-zeroes=unmap'']"
    "option_values ''-append'' (build_args cfg) = [kernel_cmdline cfg]"
    unfolding option_values_in read_build_args Let_def values_in_simps(3)
    by (simp split: machine_type.split network_mode.split option.split)+
  show "build_args (cfg\<lparr>cf_base_image := other\<rparr>) = build_args cfg"
    by (simp add: build_args_def kernel_cmdline_def Let_def)
  show "sublist (case cf_machine cfg of Microvm \<Rightarrow> '' root=/dev/vda '' | Q35 \<Rightarrow> '' root=/dev/nvme0n1 '')
       (kernel_cmdline cfg)"
    unfolding sublist_def kernel_cmdline_def
    by (rule exI [of _ "''console=ttyS0,115200''"]) (simp split: machine_type.split)
qed

text \<open>
  A comma in the overlay's path is not doubled, so QEMU reads what follows it as a property of
  the drive.
\<close>

lemma drive_comma_not_escaped:
  "cf_overlay cfg = ''C:/Users/Doe, Jo/practice.qcow2'' \<Longrightarrow>
     hd (option_values ''-drive'' (build_args cfg)) =
       ''id=root,file=C:/Users/Doe'' @ '', Jo/practice.qcow2,format=qcow2,if=none,cache=writeback,discard=unmap,detect-zeroes=unmap''"
  unfolding option_values_in read_build_args Let_def values_in_simps(3)
  by (simp add: render_path_def strip_prefix_def starts_with_def
      split: machine_type.split network_mode.split option.split)

end
