(* ===== verification/Overlay.thy ===== *)
theory Overlay
  imports Qemu
begin

text \<open>
  The storage layers (crates/vm-manager/src/overlay.rs) over a file system that maps paths to
  contents. \<^verbatim>\<open>qemu-img\<close> is a program outside the repository: it is the parameter \<open>img\<close> of the
  operations that run it, a function from its argument vector and the file system to success,
  its error output and the file system it leaves. The calls of \<^verbatim>\<open>std::fs\<close> that can fail take
  their outcome as an argument, so that a property can quantify over every failure.
\<close>

section \<open>Safe file names\<close>

definition keep_char :: "string \<Rightarrow> string \<Rightarrow> bool" where
  "keep_char cleaned ch =
     (case ch of
        [c] \<Rightarrow> is_ascii_alphanumeric c \<or> c = CHR ''-'' \<or> c = CHR ''_''
               \<or> (c = CHR ''.'' \<and> \<not> (cleaned \<noteq> [] \<and> last cleaned = CHR ''.''))
      | _ \<Rightarrow> False)"

fun clean_chars :: "string \<Rightarrow> string list \<Rightarrow> string" where
  "clean_chars cleaned [] = cleaned"
| "clean_chars cleaned (ch # chs) =
     clean_chars (cleaned @ (if keep_char cleaned ch then ch else ''_'')) chs"

text \<open>\<^verbatim>\<open>trim_matches('.')\<close>.\<close>

definition trim_dots :: "string \<Rightarrow> string" where
  "trim_dots s = rev (dropWhile (\<lambda>c. c = CHR ''.'') (rev (dropWhile (\<lambda>c. c = CHR ''.'') s)))"

definition sanitise_id :: "string \<Rightarrow> string" where
  "sanitise_id sid =
     (if sid = [] \<or> list_all (\<lambda>ch. ch = ''.'') (utf8_chars sid) then ''unnamed''
      else let cleaned = trim_dots (clean_chars [] (utf8_chars sid))
           in if cleaned = [] then ''unnamed'' else cleaned)"

section \<open>Paths\<close>

text \<open>\<^verbatim>\<open>Path::join\<close> with a relative component.\<close>

definition path_join :: "string \<Rightarrow> string \<Rightarrow> string" where
  "path_join dir name =
     (if dir = [] \<or> last dir = CHR ''/'' then dir @ name else dir @ ''/'' @ name)"

definition file_name :: "string \<Rightarrow> string" where
  "file_name path = rev (takeWhile (\<lambda>c. c \<noteq> CHR ''/'') (rev path))"

text \<open>A name whose only dot comes first has no extension.\<close>

definition split_extension :: "string \<Rightarrow> string \<times> string option" where
  "split_extension name =
     (let r = rev name;
          ext = takeWhile (\<lambda>c. c \<noteq> CHR ''.'') r;
          before = dropWhile (\<lambda>c. c \<noteq> CHR ''.'') r
      in if length before \<le> 1 then (name, None) else (rev (tl before), Some (rev ext)))"

definition extension :: "string \<Rightarrow> string option" where
  "extension path = snd (split_extension (file_name path))"

definition with_extension :: "string \<Rightarrow> string \<Rightarrow> string" where
  "with_extension ext path =
     take (length path - length (file_name path)) path
     @ fst (split_extension (file_name path)) @ ''.'' @ ext"

section \<open>The layers\<close>

record overlay_manager =
  om_qemu_img :: string
  om_data_dir :: string

record overlay_spec =
  os_path :: string
  os_backing :: string

definition free_practice_spec :: "overlay_manager \<Rightarrow> string \<Rightarrow> overlay_spec" where
  "free_practice_spec om base_image =
     \<lparr>os_path = path_join (om_data_dir om) ''free-practice.qcow2'', os_backing = base_image\<rparr>"

definition lesson_spec :: "overlay_manager \<Rightarrow> string \<Rightarrow> string \<Rightarrow> overlay_spec" where
  "lesson_spec om lesson_id base_image =
     \<lparr>os_path = path_join (path_join (om_data_dir om) ''lessons'')
                  (''lesson-'' @ sanitise_id lesson_id @ ''.qcow2''),
      os_backing = base_image\<rparr>"

definition snapshot_path :: "overlay_manager \<Rightarrow> string \<Rightarrow> string" where
  "snapshot_path om name =
     path_join (path_join (om_data_dir om) ''snapshots'') (sanitise_id name @ ''.qcow2'')"

definition backing_format :: "string \<Rightarrow> string" where
  "backing_format path = (if extension path = Some ''qcow2'' then ''qcow2'' else ''raw'')"

section \<open>Operations on the file system\<close>

type_synonym fs = "string \<rightharpoonup> string"
type_synonym qemu_img = "string list \<Rightarrow> fs \<Rightarrow> (bool \<times> string) \<times> fs"

definition path_exists :: "fs \<Rightarrow> string \<Rightarrow> bool" where
  "path_exists f p \<longleftrightarrow> f p \<noteq> None"

definition create_args :: "overlay_spec \<Rightarrow> string list" where
  "create_args spec =
     [''create'', ''-q'', ''-f'', ''qcow2'', ''-F'', backing_format (os_backing spec),
      ''-b'', render_path (os_backing spec), render_path (os_path spec)]"

definition rebase_args :: "overlay_spec \<Rightarrow> string list" where
  "rebase_args spec =
     [''rebase'', ''-u'', ''-f'', ''qcow2'', ''-F'', backing_format (os_backing spec),
      ''-b'', render_path (os_backing spec), render_path (os_path spec)]"

definition missing_base :: "string \<Rightarrow> string" where
  "missing_base backing = ''the base image '' @ backing @ '' is missing; run Verify Runtime Files''"

text \<open>\<open>dir_ok\<close>: whether the parent directory can be created.\<close>

definition overlay_create :: "qemu_img \<Rightarrow> bool \<Rightarrow> overlay_spec \<Rightarrow> fs \<Rightarrow> (string + unit) \<times> fs" where
  "overlay_create img dir_ok spec f =
     (if \<not> path_exists f (os_backing spec) then (Inl (missing_base (os_backing spec)), f)
      else if \<not> dir_ok then (Inl (''could not create the parent of '' @ os_path spec), f)
      else case img (create_args spec) f of
             ((ok, err), f') \<Rightarrow>
               if ok then (Inr (), f') else (Inl (''qemu-img create failed: '' @ trim err), f'))"

definition overlay_check :: "qemu_img \<Rightarrow> string \<Rightarrow> fs \<Rightarrow> bool \<times> fs" where
  "overlay_check img path f =
     (if \<not> path_exists f path then (False, f)
      else case img [''check'', ''-q'', render_path path] f of ((ok, _), f') \<Rightarrow> (ok, f'))"

definition overlay_rebase :: "qemu_img \<Rightarrow> overlay_spec \<Rightarrow> fs \<Rightarrow> (string + unit) \<times> fs" where
  "overlay_rebase img spec f =
     (if \<not> path_exists f (os_backing spec) then (Inl (missing_base (os_backing spec)), f)
      else case overlay_check img (os_path spec) f of
        (False, f') \<Rightarrow> (Inl (''the practice disk '' @ os_path spec
             @ '' is damaged; restore a snapshot or use Factory reset''), f')
      | (True, f') \<Rightarrow>
          (case img (rebase_args spec) f' of
             ((ok, err), f'') \<Rightarrow>
               if ok then (Inr (), f'')
               else (Inl (''qemu-img could not repair the practice disk backing path: '' @ trim err), f'')))"

definition overlay_ensure :: "qemu_img \<Rightarrow> bool \<Rightarrow> overlay_spec \<Rightarrow> fs \<Rightarrow> (string + unit) \<times> fs" where
  "overlay_ensure img dir_ok spec f =
     (if path_exists f (os_path spec) then overlay_rebase img spec f
      else overlay_create img dir_ok spec f)"

definition overlay_recreate :: "qemu_img \<Rightarrow> bool \<Rightarrow> bool \<Rightarrow> overlay_spec \<Rightarrow> fs \<Rightarrow> (string + unit) \<times> fs" where
  "overlay_recreate img remove_ok dir_ok spec f =
     (if path_exists f (os_path spec) then
        (if remove_ok then overlay_create img dir_ok spec (f(os_path spec := None))
         else (Inl (''could not remove '' @ os_path spec), f))
      else overlay_create img dir_ok spec f)"

section \<open>Snapshots\<close>

text \<open>The outcome of a copy: done, refused, or broken off with part of the file written.\<close>

datatype copy_outcome = CopyDone | CopyRefused | CopyPartial string

definition fs_copy :: "copy_outcome \<Rightarrow> string \<Rightarrow> string \<Rightarrow> fs \<Rightarrow> (string + unit) \<times> fs" where
  "fs_copy outcome src dst f =
     (case f src of
        None \<Rightarrow> (Inl ''copy failed'', f)
      | Some d \<Rightarrow>
          (case outcome of
             CopyDone \<Rightarrow> (Inr (), f(dst \<mapsto> d))
           | CopyRefused \<Rightarrow> (Inl ''copy failed'', f)
           | CopyPartial part \<Rightarrow> (Inl ''copy failed'', f(dst \<mapsto> part))))"

definition take_snapshot ::
  "overlay_manager \<Rightarrow> bool \<Rightarrow> copy_outcome \<Rightarrow> string \<Rightarrow> string \<Rightarrow> fs \<Rightarrow> (string + string) \<times> fs" where
  "take_snapshot om dir_ok copy live name f =
     (let target = snapshot_path om name in
      if \<not> dir_ok then (Inl ''could not create the snapshot folder'', f)
      else case fs_copy copy live target f of
             (Inl _, f') \<Rightarrow> (Inl (''could not snapshot to '' @ target), f')
           | (Inr _, f') \<Rightarrow> (Inr target, f'))"

record restore_io =
  ri_rename :: bool
  ri_salvage :: copy_outcome
  ri_remove :: bool
  ri_copy :: copy_outcome

definition salvage_path :: "string \<Rightarrow> string" where
  "salvage_path live = with_extension ''qcow2.prerestore'' live"

text \<open>Moving the live file aside: a rename, or a copy and a removal where that fails.\<close>

definition move_aside :: "restore_io \<Rightarrow> string \<Rightarrow> fs \<Rightarrow> (string + unit) \<times> fs" where
  "move_aside io live f =
     (let salvage = salvage_path live in
      if ri_rename io then (Inr (), (f(salvage := f live))(live := None))
      else case fs_copy (ri_salvage io) live salvage f of
             (Inl e, f') \<Rightarrow> (Inl e, f')
           | (Inr _, f') \<Rightarrow>
               if ri_remove io then (Inr (), f'(live := None)) else (Inl ''remove failed'', f'))"

definition overlay_restore :: "restore_io \<Rightarrow> string \<Rightarrow> string \<Rightarrow> fs \<Rightarrow> (string + unit) \<times> fs" where
  "overlay_restore io snapshot live f =
     (if \<not> path_exists f snapshot then (Inl (''snapshot '' @ snapshot @ '' does not exist''), f)
      else
        let (moved, f') = (if path_exists f live then move_aside io live f else (Inr (), f)) in
        case moved of
          Inl e \<Rightarrow> (Inl e, f')
        | Inr _ \<Rightarrow>
            (case fs_copy (ri_copy io) snapshot live f' of
               (Inl _, f'') \<Rightarrow> (Inl (''could not restore '' @ snapshot), f'')
             | (Inr _, f'') \<Rightarrow> (Inr (), f'')))"

text \<open>The snapshots among the entries of the snapshot folder (none when it cannot be read).\<close>

definition list_snapshots :: "string list option \<Rightarrow> string list" where
  "list_snapshots entries =
     (case entries of
        None \<Rightarrow> []
      | Some paths \<Rightarrow> sort (filter (\<lambda>p. extension p = Some ''qcow2'') paths))"

section \<open>Sanitised names\<close>

definition name_char :: "char \<Rightarrow> bool" where
  "name_char c \<longleftrightarrow> is_ascii_alphanumeric c \<or> c = CHR ''-'' \<or> c = CHR ''_'' \<or> c = CHR ''.''"

definition safe_name :: "string \<Rightarrow> bool" where
  "safe_name s \<longleftrightarrow> s \<noteq> [] \<and> list_all name_char s \<and> \<not> sublist ''..'' s
     \<and> hd s \<noteq> CHR ''.'' \<and> last s \<noteq> CHR ''.''"

lemma sublist_two_snoc:
  "sublist [a, b] (s @ [c]) \<longleftrightarrow> sublist [a, b] s \<or> (s \<noteq> [] \<and> last s = a \<and> c = b)"
proof
  assume "sublist [a, b] (s @ [c])"
  then obtain ps ss where e: "s @ [c] = ps @ [a, b] @ ss" by (auto simp: sublist_def)
  show "sublist [a, b] s \<or> (s \<noteq> [] \<and> last s = a \<and> c = b)"
  proof (cases ss rule: rev_cases)
    case Nil
    with e have "s @ [c] = (ps @ [a]) @ [b]" by simp
    then have "s = ps @ [a]" "c = b" by (metis append1_eq_conv)+
    then show ?thesis by simp
  next
    case (snoc ss' x)
    with e have "s @ [c] = (ps @ [a, b] @ ss') @ [x]" by simp
    then have "s = ps @ [a, b] @ ss'" by (metis append1_eq_conv)
    then show ?thesis by (auto simp: sublist_def)
  qed
next
  assume "sublist [a, b] s \<or> (s \<noteq> [] \<and> last s = a \<and> c = b)"
  then show "sublist [a, b] (s @ [c])"
  proof
    assume "s \<noteq> [] \<and> last s = a \<and> c = b"
    then have "s @ [c] = butlast s @ [a, b] @ []" using append_butlast_last_id [of s] by simp
    then show ?thesis unfolding sublist_def by blast
  qed (simp add: sublist_append)
qed

lemma keep_char_cases:
  "keep_char cleaned ch \<Longrightarrow>
     \<exists>c. ch = [c] \<and> name_char c \<and> (c = CHR ''.'' \<longrightarrow> \<not> (cleaned \<noteq> [] \<and> last cleaned = CHR ''.''))"
  by (auto simp: keep_char_def name_char_def is_ascii_alphanumeric_def is_ascii_digit_def
      is_ascii_lower_def is_ascii_upper_def byte_def split: list.splits)

lemma clean_chars_safe:
  "list_all name_char cleaned \<Longrightarrow> \<not> sublist ''..'' cleaned \<Longrightarrow>
     list_all name_char (clean_chars cleaned chs) \<and> \<not> sublist ''..'' (clean_chars cleaned chs)"
proof (induction chs arbitrary: cleaned)
  case (Cons ch chs)
  define c where "c = (if keep_char cleaned ch then hd ch else CHR ''_'')"
  have c: "(if keep_char cleaned ch then ch else ''_'') = [c]" "name_char c"
    "c = CHR ''.'' \<longrightarrow> \<not> (cleaned \<noteq> [] \<and> last cleaned = CHR ''.'')"
    using keep_char_cases [of cleaned ch] by (auto simp: c_def name_char_def)
  with Cons.prems have "list_all name_char (cleaned @ [c])" "\<not> sublist ''..'' (cleaned @ [c])"
    by (auto simp: sublist_two_snoc)
  from Cons.IH [OF this] show ?case unfolding clean_chars.simps c(1) .
qed simp

lemma dropWhile_suffix: "\<exists>ps. s = ps @ dropWhile P s"
  by (metis takeWhile_dropWhile_id)

lemma trim_dots_split: "\<exists>ps qs. s = ps @ trim_dots s @ qs \<and> dropWhile (\<lambda>c. c = CHR ''.'') s = trim_dots s @ qs"
proof -
  let ?d = "dropWhile (\<lambda>c. c = CHR ''.'') s"
  obtain ps where s: "s = ps @ ?d" using dropWhile_suffix by blast
  obtain qs where "rev ?d = qs @ dropWhile (\<lambda>c. c = CHR ''.'') (rev ?d)"
    using dropWhile_suffix by blast
  then have "rev (rev ?d) = rev (qs @ dropWhile (\<lambda>c. c = CHR ''.'') (rev ?d))" by (rule arg_cong)
  then have "?d = trim_dots s @ rev qs" unfolding trim_dots_def by simp
  with s show ?thesis by metis
qed

lemma trim_dots_sublist: "sublist (trim_dots s) s"
  using trim_dots_split [of s] unfolding sublist_def by blast

lemma trim_dots_ends:
  assumes "trim_dots s \<noteq> []"
  shows "hd (trim_dots s) \<noteq> CHR ''.''" "last (trim_dots s) \<noteq> CHR ''.''"
proof -
  let ?p = "\<lambda>c. c = CHR ''.''"
  have "dropWhile ?p (rev (dropWhile ?p s)) \<noteq> []" using assms by (simp add: trim_dots_def)
  then show "last (trim_dots s) \<noteq> CHR ''.''"
    unfolding trim_dots_def last_rev by (rule hd_dropWhile)
  obtain qs where d: "dropWhile ?p s = trim_dots s @ qs" using trim_dots_split by blast
  then have "dropWhile ?p s \<noteq> []" using assms by simp
  then have "hd (dropWhile ?p s) \<noteq> CHR ''.''" by (rule hd_dropWhile)
  with d assms show "hd (trim_dots s) \<noteq> CHR ''.''" by simp
qed

lemma list_all_sublist: "sublist xs ys \<Longrightarrow> list_all P ys \<Longrightarrow> list_all P xs"
  by (auto simp: sublist_def)

lemma sanitise_id_safe: "safe_name (sanitise_id sid)"
proof -
  let ?c = "clean_chars [] (utf8_chars sid)"
  have c: "list_all name_char ?c" "\<not> sublist ''..'' ?c" using clean_chars_safe [of "[]"] by auto
  have "list_all name_char (trim_dots ?c)" "\<not> sublist ''..'' (trim_dots ?c)"
    using c trim_dots_sublist list_all_sublist sublist_order.order.trans by blast+
  moreover have "safe_name ''unnamed''" unfolding safe_name_def by code_simp
  ultimately show ?thesis using trim_dots_ends by (auto simp: sanitise_id_def safe_name_def Let_def)
qed

lemma name_char_ascii: "name_char c \<Longrightarrow> is_ascii c"
  by (auto simp: name_char_def is_ascii_def is_ascii_alphanumeric_def is_ascii_digit_def
      is_ascii_lower_def is_ascii_upper_def byte_def)

lemma clean_chars_id:
  "list_all name_char s \<Longrightarrow> \<not> sublist ''..'' (cleaned @ s) \<Longrightarrow>
     clean_chars cleaned (map (\<lambda>c. [c]) s) = cleaned @ s"
proof (induction s arbitrary: cleaned)
  case (Cons c s)
  have "\<not> sublist ''..'' (cleaned @ [c])"
    using Cons.prems(2) sublist_append [of "''..''" "cleaned @ [c]" s] by simp
  then have "keep_char cleaned [c]"
    using Cons.prems(1) by (auto simp: keep_char_def name_char_def sublist_two_snoc)
  with Cons show ?case by simp
qed simp

lemma trim_dots_id: "s \<noteq> [] \<Longrightarrow> hd s \<noteq> CHR ''.'' \<Longrightarrow> last s \<noteq> CHR ''.'' \<Longrightarrow> trim_dots s = s"
proof -
  assume s: "s \<noteq> []" "hd s \<noteq> CHR ''.''" "last s \<noteq> CHR ''.''"
  then have "dropWhile (\<lambda>c. c = CHR ''.'') s = s" by (cases s) auto
  moreover have "dropWhile (\<lambda>c. c = CHR ''.'') (rev s) = rev s"
    using s by (cases s rule: rev_cases) auto
  ultimately show ?thesis by (simp add: trim_dots_def)
qed

lemma sanitise_safe_id: "safe_name s \<Longrightarrow> sanitise_id s = s"
proof -
  assume s: "safe_name s"
  then have chars: "utf8_chars s = map (\<lambda>c. [c]) s"
    using name_char_ascii by (auto simp: safe_name_def list_all_iff intro!: utf8_chars_ascii)
  have "\<not> list_all (\<lambda>ch. ch = ''.'') (utf8_chars s)"
    using s chars by (cases s) (auto simp: safe_name_def)
  moreover have "clean_chars [] (utf8_chars s) = s"
    using s chars clean_chars_id [of s "[]"] by (simp add: safe_name_def)
  moreover have "trim_dots s = s" using s trim_dots_id by (auto simp: safe_name_def)
  ultimately show ?thesis using s by (simp add: sanitise_id_def safe_name_def)
qed

section \<open>What qemu-img documents\<close>

text \<open>
  A successful \<^verbatim>\<open>create\<close> writes the new image and nothing else, a failed one nothing but the
  image; \<^verbatim>\<open>check\<close> without a repair option only reads; \<^verbatim>\<open>rebase -u\<close> rewrites the backing
  reference of one image. \<open>blank\<close> is a fresh overlay on a backing file and \<open>rebased\<close> an overlay
  with a new backing reference.
\<close>

definition qemu_img_spec ::
  "qemu_img \<Rightarrow> (string \<Rightarrow> string \<Rightarrow> string) \<Rightarrow> (string \<Rightarrow> string \<Rightarrow> string \<Rightarrow> string) \<Rightarrow> bool" where
  "qemu_img_spec img blank rebased \<longleftrightarrow>
     (\<forall>fmt backing path f.
        let r = img [''create'', ''-q'', ''-f'', ''qcow2'', ''-F'', fmt, ''-b'', backing, path] f in
        (fst (fst r) \<longrightarrow> snd r = f(path \<mapsto> blank fmt backing))
        \<and> (\<forall>p. p \<noteq> path \<longrightarrow> snd r p = f p))
     \<and> (\<forall>path f. snd (img [''check'', ''-q'', path] f) = f)
     \<and> (\<forall>fmt backing path f d.
        let r = img [''rebase'', ''-u'', ''-f'', ''qcow2'', ''-F'', fmt, ''-b'', backing, path] f in
        (fst (fst r) \<longrightarrow> f path = Some d \<longrightarrow> snd r path = Some (rebased fmt backing d))
        \<and> (\<not> fst (fst r) \<longrightarrow> snd r path = f path)
        \<and> (\<forall>p. p \<noteq> path \<longrightarrow> snd r p = f p))"

text \<open>Paths that are passed to QEMU's tools as they are.\<close>

definition plain_spec :: "overlay_spec \<Rightarrow> bool" where
  "plain_spec spec \<longleftrightarrow> render_path (os_path spec) = os_path spec
     \<and> render_path (os_backing spec) = os_backing spec \<and> os_path spec \<noteq> os_backing spec"

lemma img_create:
  assumes "qemu_img_spec img blank rebased" "plain_spec spec"
  shows "fst (fst (img (create_args spec) f)) \<Longrightarrow>
      snd (img (create_args spec) f) =
        f(os_path spec \<mapsto> blank (backing_format (os_backing spec)) (os_backing spec))"
    and "q \<noteq> os_path spec \<Longrightarrow> snd (img (create_args spec) f) q = f q"
proof -
  note c = assms(1) [unfolded qemu_img_spec_def Let_def, THEN conjunct1, rule_format,
    where fmt = "backing_format (os_backing spec)" and backing = "os_backing spec"
      and path = "os_path spec" and f = f]
  show "fst (fst (img (create_args spec) f)) \<Longrightarrow>
      snd (img (create_args spec) f) =
        f(os_path spec \<mapsto> blank (backing_format (os_backing spec)) (os_backing spec))"
    "q \<noteq> os_path spec \<Longrightarrow> snd (img (create_args spec) f) q = f q"
    using c assms(2) by (simp_all add: create_args_def plain_spec_def)
qed

lemma img_check: "qemu_img_spec img blank rebased \<Longrightarrow> snd (img [''check'', ''-q'', path] f) = f"
  unfolding qemu_img_spec_def by blast

lemma img_rebase:
  assumes "qemu_img_spec img blank rebased" "plain_spec spec"
  shows "fst (fst (img (rebase_args spec) f)) \<Longrightarrow> f (os_path spec) = Some d \<Longrightarrow>
      snd (img (rebase_args spec) f) (os_path spec) =
        Some (rebased (backing_format (os_backing spec)) (os_backing spec) d)"
    and "\<not> fst (fst (img (rebase_args spec) f)) \<Longrightarrow>
      snd (img (rebase_args spec) f) (os_path spec) = f (os_path spec)"
    and "q \<noteq> os_path spec \<Longrightarrow> snd (img (rebase_args spec) f) q = f q"
proof -
  note c = assms(1) [unfolded qemu_img_spec_def Let_def, THEN conjunct2, THEN conjunct2, rule_format,
    where fmt = "backing_format (os_backing spec)" and backing = "os_backing spec"
      and path = "os_path spec" and f = f and d = d]
  show "fst (fst (img (rebase_args spec) f)) \<Longrightarrow> f (os_path spec) = Some d \<Longrightarrow>
      snd (img (rebase_args spec) f) (os_path spec) =
        Some (rebased (backing_format (os_backing spec)) (os_backing spec) d)"
    "\<not> fst (fst (img (rebase_args spec) f)) \<Longrightarrow>
      snd (img (rebase_args spec) f) (os_path spec) = f (os_path spec)"
    "q \<noteq> os_path spec \<Longrightarrow> snd (img (rebase_args spec) f) q = f q"
    using c assms(2) by (simp_all add: rebase_args_def plain_spec_def)
qed

lemma overlay_create_result:
  assumes "qemu_img_spec img blank rebased" "plain_spec spec"
  shows "q \<noteq> os_path spec \<Longrightarrow> snd (overlay_create img dir_ok spec f) q = f q"
    and "fst (overlay_create img dir_ok spec f) = Inr () \<Longrightarrow>
      snd (overlay_create img dir_ok spec f) (os_path spec) =
        Some (blank (backing_format (os_backing spec)) (os_backing spec))"
  using img_create [OF assms, where f = f] by (auto simp: overlay_create_def split: prod.splits if_splits)

lemma overlay_recreate_result:
  assumes "qemu_img_spec img blank rebased" "plain_spec spec"
  shows "p \<noteq> os_path spec \<Longrightarrow> snd (overlay_recreate img remove_ok dir_ok spec f) p = f p"
    and "fst (overlay_recreate img remove_ok dir_ok spec f) = Inr () \<Longrightarrow>
      snd (overlay_recreate img remove_ok dir_ok spec f) (os_path spec) =
        Some (blank (backing_format (os_backing spec)) (os_backing spec))"
  using overlay_create_result [OF assms] by (auto simp: overlay_recreate_def)

lemma overlay_rebase_result:
  fixes f :: fs
  assumes "qemu_img_spec img blank rebased" "plain_spec spec" "f (os_path spec) = Some d"
  shows "q \<noteq> os_path spec \<Longrightarrow> snd (overlay_rebase img spec f) q = f q"
    and "snd (overlay_rebase img spec f) (os_path spec) =
      (if fst (overlay_rebase img spec f) = Inr ()
       then Some (rebased (backing_format (os_backing spec)) (os_backing spec) d) else Some d)"
proof -
  obtain ok err where chk: "img [''check'', ''-q'', render_path (os_path spec)] f = ((ok, err), f)"
    using img_check [OF assms(1), of "render_path (os_path spec)" f] by (metis prod.collapse)
  then have check: "overlay_check img (os_path spec) f = (ok, f)"
    using assms(3) by (simp add: overlay_check_def path_exists_def)
  obtain ok' err' f' where reb: "img (rebase_args spec) f = ((ok', err'), f')" by (metis prod.collapse)
  note r = img_rebase [OF assms(1,2), where f = f, unfolded reb, simplified]
  show "q \<noteq> os_path spec \<Longrightarrow> snd (overlay_rebase img spec f) q = f q"
    using r(3) by (simp add: overlay_rebase_def check reb split: bool.splits)
  show "snd (overlay_rebase img spec f) (os_path spec) =
      (if fst (overlay_rebase img spec f) = Inr ()
       then Some (rebased (backing_format (os_backing spec)) (os_backing spec) d) else Some d)"
    using r(1,2) assms(3) by (simp add: overlay_rebase_def check reb split: bool.splits)
qed

section \<open>Restoring\<close>

lemma move_aside_keeps:
  fixes f :: fs
  assumes "f live = Some d" "salvage_path live \<noteq> live"
  shows "snd (move_aside io live f) live = Some d \<or> snd (move_aside io live f) (salvage_path live) = Some d"
    and "p \<noteq> live \<Longrightarrow> p \<noteq> salvage_path live \<Longrightarrow> snd (move_aside io live f) p = f p"
    and "fst (move_aside io live f) = Inr u \<Longrightarrow> snd (move_aside io live f) (salvage_path live) = Some d"
  using assms by (auto simp: move_aside_def fs_copy_def Let_def split: copy_outcome.splits)

lemma overlay_restore_keeps:
  fixes f :: fs
  assumes "snapshot \<noteq> live" "snapshot \<noteq> salvage_path live" "salvage_path live \<noteq> live"
  shows "f live = Some d \<Longrightarrow> snd (overlay_restore io snapshot live f) live = Some d
            \<or> snd (overlay_restore io snapshot live f) (salvage_path live) = Some d"
    and "snd (overlay_restore io snapshot live f) snapshot = f snapshot"
    and "fst (overlay_restore io snapshot live f) = Inr () \<Longrightarrow>
           snd (overlay_restore io snapshot live f) live = f snapshot"
proof -
  obtain moved f' where m: "move_aside io live f = (moved, f')" by fastforce
  note keeps = move_aside_keeps [where f = f and live = live and io = io, unfolded m, simplified]
  show "f live = Some d \<Longrightarrow> snd (overlay_restore io snapshot live f) live = Some d
            \<or> snd (overlay_restore io snapshot live f) (salvage_path live) = Some d"
    using keeps(1,3) assms
    by (cases moved) (auto simp: overlay_restore_def path_exists_def m fs_copy_def
        split: option.splits copy_outcome.splits)
  show "snd (overlay_restore io snapshot live f) snapshot = f snapshot"
    using keeps(2) assms
    by (cases "f live"; cases moved) (auto simp: overlay_restore_def path_exists_def m fs_copy_def
        split: option.splits copy_outcome.splits)
  show "fst (overlay_restore io snapshot live f) = Inr () \<Longrightarrow>
           snd (overlay_restore io snapshot live f) live = f snapshot"
    using keeps(2) assms
    by (cases "f live"; cases moved) (auto simp: overlay_restore_def path_exists_def m fs_copy_def
        split: option.splits copy_outcome.splits if_splits)
qed

lemma path_join_prefix: "\<exists>pre. \<forall>name. path_join dir name = pre @ name"
  by (cases "dir = [] \<or> last dir = CHR ''/''") (auto simp: path_join_def intro: exI [of _ dir] exI [of _ "dir @ ''/''"])

lemma nested_join: "path_join (path_join dir ''lessons'') name = path_join dir (''lessons/'' @ name)"
  "path_join (path_join dir ''snapshots'') name = path_join dir (''snapshots/'' @ name)"
  by (auto simp: path_join_def)

lemma name_char_no_separator: "list_all name_char s \<Longrightarrow> CHR ''/'' \<notin> set s \<and> CHR 0x5C \<notin> set s \<and> CHR '':'' \<notin> set s"
  by (auto simp: list_all_iff name_char_def is_ascii_alphanumeric_def is_ascii_digit_def
      is_ascii_lower_def is_ascii_upper_def byte_def)

section \<open>Properties\<close>


text \<open>Resetting a lesson is deterministic and touches nothing else. When recreating the overlay
  succeeds it is a fresh overlay on the base image, whatever was there before; and whether it
  succeeds or not, no other file changes.\<close>

theorem lesson_reset_deterministic:
  assumes "qemu_img_spec img blank rebased" "plain_spec spec"
  shows "(fst (overlay_recreate img remove_ok dir_ok spec f) = Inr () \<longrightarrow>
            snd (overlay_recreate img remove_ok dir_ok spec f) =
              f(os_path spec \<mapsto> blank (backing_format (os_backing spec)) (os_backing spec)))
         \<and> (\<forall>q. q \<noteq> os_path spec \<longrightarrow> snd (overlay_recreate img remove_ok dir_ok spec f) q = f q)"
  using overlay_recreate_result [OF assms] by (auto simp: fun_eq_iff)

text \<open>A model of the tool that meets its documentation, for the concrete instances.\<close>

definition sample_img :: qemu_img where
  "sample_img args f =
     (if take 5 args = [''create'', ''-q'', ''-f'', ''qcow2'', ''-F''] \<and> length args = 9
      then ((True, []), f(args ! 8 \<mapsto> args ! 5 @ '':'' @ args ! 7))
      else if take 5 args = [''rebase'', ''-u'', ''-f'', ''qcow2'', ''-F''] \<and> length args = 9
      then ((True, []), f(args ! 8 := map_option (\<lambda>d. args ! 7 @ '':'' @ d) (f (args ! 8))))
      else ((True, []), f))"

lemma sample_img_spec:
  "qemu_img_spec sample_img (\<lambda>fmt backing. fmt @ '':'' @ backing) (\<lambda>fmt backing d. backing @ '':'' @ d)"
  by (simp add: qemu_img_spec_def sample_img_def Let_def)

definition sample_spec :: overlay_spec where
  "sample_spec = lesson_spec \<lparr>om_qemu_img = ''qemu-img'', om_data_dir = ''/d''\<rparr> ''nav.pwd'' ''/b.raw''"

lemma sample_plain: "plain_spec sample_spec"
  unfolding plain_spec_def sample_spec_def by code_simp

lemma lesson_reset_deterministic_witness:
  "snd (overlay_recreate sample_img True True sample_spec [''/b.raw'' \<mapsto> ''B'', ''/keep'' \<mapsto> ''K'']) ''/keep'' = Some ''K''"
  using lesson_reset_deterministic [OF sample_img_spec sample_plain, where remove_ok = True and dir_ok = True
      and f = "[''/b.raw'' \<mapsto> ''B'', ''/keep'' \<mapsto> ''K'']"]
  by (simp add: sample_spec_def lesson_spec_def path_join_def)

text \<open>Starting free practice keeps the learner's disk. An existing practice overlay holds the
  same data afterwards, with at most its backing reference rewritten, also when the check or the
  repair fails; and no other file changes.\<close>

theorem practice_disk_kept:
  fixes f :: fs
  assumes "qemu_img_spec img blank rebased" "plain_spec spec" "f (os_path spec) = Some d"
  shows "snd (overlay_ensure img dir_ok spec f) (os_path spec) =
           (if fst (overlay_ensure img dir_ok spec f) = Inr ()
            then Some (rebased (backing_format (os_backing spec)) (os_backing spec) d) else Some d)
         \<and> (\<forall>q. q \<noteq> os_path spec \<longrightarrow> snd (overlay_ensure img dir_ok spec f) q = f q)"
  using overlay_rebase_result [where f = f and spec = spec and d = d, OF assms] assms(3) by (simp add: overlay_ensure_def path_exists_def)

lemma practice_disk_kept_witness:
  "snd (overlay_ensure sample_img True sample_spec
      [''/b.raw'' \<mapsto> ''B'', os_path sample_spec \<mapsto> ''mine'', ''/keep'' \<mapsto> ''K'']) ''/keep'' = Some ''K''"
  using practice_disk_kept [OF sample_img_spec sample_plain, where dir_ok = True and d = "''mine''"
      and f = "[''/b.raw'' \<mapsto> ''B'', os_path sample_spec \<mapsto> ''mine'', ''/keep'' \<mapsto> ''K'']"]
  by (simp add: sample_spec_def lesson_spec_def path_join_def)

text \<open>C29: Restoring a snapshot never loses the learner's work. Whichever of its file operations
  fail, even half way through a copy, the disk's content is afterwards still at its place or
  beside it under the salvage name, and the snapshot is untouched; on success the disk is the
  snapshot.\<close>

theorem restore_loses_nothing:
  fixes f :: fs
  assumes "f live = Some d" "snapshot \<notin> {live, salvage_path live}" "salvage_path live \<noteq> live"
  shows "(snd (overlay_restore io snapshot live f) live = Some d
            \<or> snd (overlay_restore io snapshot live f) (salvage_path live) = Some d)
         \<and> snd (overlay_restore io snapshot live f) snapshot = f snapshot
         \<and> (fst (overlay_restore io snapshot live f) = Inr () \<longrightarrow>
              snd (overlay_restore io snapshot live f) live = f snapshot)"
  using overlay_restore_keeps [of snapshot live] assms by auto

lemma restore_loses_nothing_witness:
  "let f' = snd (overlay_restore \<lparr>ri_rename = False, ri_salvage = CopyDone, ri_remove = True, ri_copy = CopyPartial ''S''\<rparr>
       ''/d/snapshots/a.qcow2'' ''/d/free-practice.qcow2''
       [''/d/free-practice.qcow2'' \<mapsto> ''mine'', ''/d/snapshots/a.qcow2'' \<mapsto> ''SNAP''])
   in f' ''/d/free-practice.qcow2'' = Some ''mine'' \<or> f' ''/d/free-practice.qcow2.prerestore'' = Some ''mine''"
proof -
  have "salvage_path ''/d/free-practice.qcow2'' = ''/d/free-practice.qcow2.prerestore''" by code_simp
  then show ?thesis
    using restore_loses_nothing [where live = "''/d/free-practice.qcow2''" and d = "''mine''"
        and snapshot = "''/d/snapshots/a.qcow2''"
        and f = "[''/d/free-practice.qcow2'' \<mapsto> ''mine'', ''/d/snapshots/a.qcow2'' \<mapsto> ''SNAP'']"]
    by (simp add: Let_def)
qed

text \<open>
  Two snapshot names can share a file: the second snapshot then replaces the first.
\<close>

lemma snapshot_names_collide: "snapshot_path om ''before/after'' = snapshot_path om ''before_after''"
proof -
  have "sanitise_id ''before/after'' = sanitise_id ''before_after''" by code_simp
  then show ?thesis by (simp add: snapshot_path_def)
qed

end
