(* ===== verification/Runtime_Layout.thy ===== *)
theory Runtime_Layout
  imports Overlay
begin

text \<open>
  The install and data layout (crates/runtime-manager/src/layout.rs): every path the application
  reads or writes, derived from the environment and the resource folder, and the guard that
  keeps a path inside the data folder. The environment variables and what is on disk are
  arguments.
\<close>

section \<open>Layout\<close>

record layout =
  ly_data_root :: string
  ly_runtime_root :: string
  ly_bundled_runtime_root :: string
  ly_lessons_root :: string
  ly_runtime_version :: string

definition data_dir_name :: string where
  "data_dir_name = ''LinuxPracticeLab''"

record environment =
  en_data_dir :: "string option"
  en_local_app_data :: "string option"
  en_xdg_data_home :: "string option"
  en_home :: "string option"

definition local_app_data :: "environment \<Rightarrow> string + string" where
  "local_app_data env =
     (case en_local_app_data env of
        Some p \<Rightarrow> Inr p
      | None \<Rightarrow>
          (case en_xdg_data_home env of
             Some p \<Rightarrow> Inr p
           | None \<Rightarrow>
               (case en_home env of
                  Some home \<Rightarrow> Inr (path_join home ''.local/share'')
                | None \<Rightarrow> Inl ''could not determine a writable application data directory'')))"

definition layout_at :: "string \<Rightarrow> string \<Rightarrow> string \<Rightarrow> layout" where
  "layout_at version resource_dir data_root =
     \<lparr>ly_data_root = data_root,
      ly_runtime_root = path_join (path_join data_root ''runtime'') version,
      ly_bundled_runtime_root = path_join (path_join resource_dir ''runtime'') version,
      ly_lessons_root = path_join resource_dir ''lessons'',
      ly_runtime_version = version\<rparr>"

text \<open>\<open>is_file\<close>: whether a path is a file, for the marker of a portable installation.\<close>

definition discover_with_data_dir ::
  "(string \<Rightarrow> bool) \<Rightarrow> environment \<Rightarrow> string \<Rightarrow> string \<Rightarrow> string option \<Rightarrow> string + layout" where
  "discover_with_data_dir is_file env version resource_dir explicit =
     (case explicit of
        Some p \<Rightarrow> Inr (layout_at version resource_dir p)
      | None \<Rightarrow>
          if is_file (path_join resource_dir ''portable.mode'')
          then Inr (layout_at version resource_dir (path_join resource_dir ''portable-data''))
          else res_bind (local_app_data env) (\<lambda>p.
            Inr (layout_at version resource_dir (path_join p data_dir_name))))"

definition discover :: "(string \<Rightarrow> bool) \<Rightarrow> environment \<Rightarrow> string \<Rightarrow> string \<Rightarrow> string + layout" where
  "discover is_file env version resource_dir =
     discover_with_data_dir is_file env version resource_dir
       (case en_data_dir env of Some v \<Rightarrow> if trim v \<noteq> [] then Some v else None | None \<Rightarrow> None)"

definition qemu_system_filename :: "bool \<Rightarrow> string" where
  "qemu_system_filename windows = (if windows then ''qemu-system-x86_64.exe'' else ''qemu-system-x86_64'')"

definition qemu_img_filename :: "bool \<Rightarrow> string" where
  "qemu_img_filename windows = (if windows then ''qemu-img.exe'' else ''qemu-img'')"

definition ly_qemu_system :: "bool \<Rightarrow> layout \<Rightarrow> string" where
  "ly_qemu_system windows l = path_join (ly_runtime_root l) (qemu_system_filename windows)"

definition ly_qemu_img :: "bool \<Rightarrow> layout \<Rightarrow> string" where
  "ly_qemu_img windows l = path_join (ly_runtime_root l) (qemu_img_filename windows)"

definition ly_kernel :: "layout \<Rightarrow> string" where
  "ly_kernel l = path_join (ly_runtime_root l) ''vmlinuz''"

definition ly_initrd :: "layout \<Rightarrow> string" where
  "ly_initrd l = path_join (ly_runtime_root l) ''initrd.img''"

definition ly_base_image :: "layout \<Rightarrow> string" where
  "ly_base_image l = path_join (ly_runtime_root l) ''debian-base.raw''"

definition ly_base_image_compressed :: "layout \<Rightarrow> string" where
  "ly_base_image_compressed l = path_join (ly_runtime_root l) ''debian-base.raw.zst''"

definition ly_licences_dir :: "layout \<Rightarrow> string" where
  "ly_licences_dir l = path_join (ly_runtime_root l) ''licences''"

definition ly_checksums_file :: "layout \<Rightarrow> string" where
  "ly_checksums_file l = path_join (ly_runtime_root l) ''checksums.json''"

definition ly_user_data_dir :: "layout \<Rightarrow> string" where
  "ly_user_data_dir l = path_join (ly_data_root l) ''data''"

definition ly_progress_db :: "layout \<Rightarrow> string" where
  "ly_progress_db l = path_join (ly_user_data_dir l) ''progress.db''"

definition ly_settings_file :: "layout \<Rightarrow> string" where
  "ly_settings_file l = path_join (ly_user_data_dir l) ''settings.json''"

definition ly_free_practice_overlay :: "layout \<Rightarrow> string" where
  "ly_free_practice_overlay l = path_join (ly_user_data_dir l) ''free-practice.qcow2''"

definition ly_snapshots_dir :: "layout \<Rightarrow> string" where
  "ly_snapshots_dir l = path_join (ly_user_data_dir l) ''snapshots''"

definition ly_lesson_cache_dir :: "layout \<Rightarrow> string" where
  "ly_lesson_cache_dir l = path_join (ly_user_data_dir l) ''lesson-cache''"

definition ly_logs_dir :: "layout \<Rightarrow> string" where
  "ly_logs_dir l = path_join (ly_data_root l) ''logs''"

definition ly_application_log :: "layout \<Rightarrow> string" where
  "ly_application_log l = path_join (ly_logs_dir l) ''application.log''"

definition ly_vm_log :: "layout \<Rightarrow> string" where
  "ly_vm_log l = path_join (ly_logs_dir l) ''vm.log''"

definition ly_session_lock :: "layout \<Rightarrow> string" where
  "ly_session_lock l = path_join (ly_data_root l) ''session.lock''"

definition writable_dirs :: "layout \<Rightarrow> string list" where
  "writable_dirs l =
     [ly_user_data_dir l, ly_snapshots_dir l, ly_lesson_cache_dir l, ly_logs_dir l,
      path_join (ly_user_data_dir l) ''lessons'']"

section \<open>Staying inside the data folder\<close>

text \<open>\<^verbatim>\<open>Path::components\<close> of a path, and \<^verbatim>\<open>PathBuf::pop\<close>, which stops at the root.\<close>

datatype component = RootDir | CurDir | ParentDir | Normal string

definition component_of :: "string \<Rightarrow> component" where
  "component_of w = (if w = ''.'' then CurDir else if w = ''..'' then ParentDir else Normal w)"

text \<open>Separators that repeat or end the path count for nothing, and a dot only in front.\<close>

definition components :: "string \<Rightarrow> component list" where
  "components path =
     (let words = filter (\<lambda>w. w \<noteq> []) (split_on (\<lambda>c. c = CHR ''/'') path);
          rooted = (path \<noteq> [] \<and> hd path = CHR ''/'')
      in if rooted then RootDir # map component_of (filter (\<lambda>w. w \<noteq> ''.'') words)
         else (case words of
                 [] \<Rightarrow> []
               | w # ws \<Rightarrow> component_of w # map component_of (filter (\<lambda>w. w \<noteq> ''.'') ws)))"

definition pop_component :: "component list \<Rightarrow> component list" where
  "pop_component cs = (if cs = [] \<or> last cs = RootDir then cs else butlast cs)"

fun push_component :: "component \<Rightarrow> component list \<Rightarrow> component list" where
  "push_component ParentDir acc = pop_component acc"
| "push_component CurDir acc = acc"
| "push_component RootDir acc = [RootDir]"
| "push_component (Normal w) acc = acc @ [Normal w]"

definition normalise :: "component list \<Rightarrow> component list" where
  "normalise cs = fold push_component cs []"

text \<open>
  \<open>canonical\<close> is \<^verbatim>\<open>Path::canonicalize\<close>, which resolves links and fails for a path that does not
  exist; paths are their components.
\<close>

definition layout_contains ::
  "(component list \<Rightarrow> component list option) \<Rightarrow> component list \<Rightarrow> component list \<Rightarrow> bool" where
  "layout_contains canonical data_root path =
     (case canonical data_root of
        None \<Rightarrow> False
      | Some root \<Rightarrow>
          (case canonical path of
             Some p \<Rightarrow> prefix root p
           | None \<Rightarrow> prefix data_root (normalise path) \<or> prefix root (normalise path)))"

lemma pop_plain: "ParentDir \<notin> set cs \<Longrightarrow> ParentDir \<notin> set (pop_component cs)"
  by (auto simp: pop_component_def dest: in_set_butlastD)

lemma push_plain:
  "ParentDir \<notin> set acc \<and> CurDir \<notin> set acc \<Longrightarrow>
     ParentDir \<notin> set (push_component c acc) \<and> CurDir \<notin> set (push_component c acc)"
  by (cases c) (auto simp: pop_component_def dest: in_set_butlastD)

lemma fold_push_plain:
  "ParentDir \<notin> set acc \<and> CurDir \<notin> set acc \<Longrightarrow>
     ParentDir \<notin> set (fold push_component cs acc) \<and> CurDir \<notin> set (fold push_component cs acc)"
proof (induction cs arbitrary: acc)
  case (Cons c cs)
  from Cons.IH [OF push_plain [OF Cons.prems, of c]] show ?case by simp
qed simp

lemma normalise_plain: "ParentDir \<notin> set (normalise cs) \<and> CurDir \<notin> set (normalise cs)"
  unfolding normalise_def by (rule fold_push_plain) simp

lemma fold_push_normal:
  "list_all (\<lambda>c. \<exists>w. c = Normal w) cs \<Longrightarrow> fold push_component cs acc = acc @ cs"
  by (induction cs arbitrary: acc) auto

text \<open>The components of an absolute path without dots are already normal.\<close>

definition plain_absolute :: "component list \<Rightarrow> bool" where
  "plain_absolute cs \<longleftrightarrow> (\<exists>ns. cs = RootDir # map Normal ns)"

lemma normalise_plain_absolute: "plain_absolute cs \<Longrightarrow> normalise cs = cs"
proof -
  assume "plain_absolute cs"
  then obtain ns where cs: "cs = RootDir # map Normal ns" by (auto simp: plain_absolute_def)
  have "list_all (\<lambda>c. \<exists>w. c = Normal w) (map Normal ns)" by (simp add: list_all_iff)
  from fold_push_normal [OF this] show ?thesis unfolding cs normalise_def by simp
qed

text \<open>Climbing out of the folder with \<open>n\<close> parent components at a depth of at most \<open>n\<close>.\<close>

lemma fold_parents:
  "fold push_component (replicate n ParentDir) (RootDir # map Normal ns) =
     RootDir # map Normal (take (length ns - n) ns)"
proof (induction n arbitrary: ns)
  case (Suc n)
  have "pop_component (RootDir # map Normal ns) = RootDir # map Normal (butlast ns)"
    by (cases ns rule: rev_cases) (auto simp: pop_component_def)
  with Suc.IH [of "butlast ns"] show ?case
    by (simp add: butlast_conv_take min_def take_take)
qed simp

section \<open>Properties\<close>

text \<open>The guard on the data folder. For a path that does not exist yet, a plain path below the
  data folder is accepted; an accepted path resolves, without any dot component left, to one below
  the folder; and climbing out of the folder into another one is refused.\<close>

theorem data_folder_guard:
  assumes "data_root = RootDir # map Normal ns" "canonical data_root = Some data_root"
    and "canonical path = None"
  shows "(path = data_root @ map Normal ws \<longrightarrow> layout_contains canonical data_root path)
    \<and> (layout_contains canonical data_root path \<longrightarrow>
         (\<exists>rest. normalise path = data_root @ rest \<and> ParentDir \<notin> set rest \<and> CurDir \<notin> set rest))
    \<and> (ns \<noteq> [] \<longrightarrow> w \<noteq> last ns \<longrightarrow> path = data_root @ ParentDir # Normal w # map Normal ws \<longrightarrow>
         \<not> layout_contains canonical data_root path)"
proof (intro conjI impI)
  have contains: "layout_contains canonical data_root path \<longleftrightarrow> prefix data_root (normalise path)"
    using assms by (simp add: layout_contains_def)
  {
    assume "path = data_root @ map Normal ws"
    then have "plain_absolute path"
      using assms(1) unfolding plain_absolute_def by (metis append_Cons map_append)
    then show "layout_contains canonical data_root path"
      using contains normalise_plain_absolute \<open>path = data_root @ map Normal ws\<close> by simp
  }
  {
    assume "layout_contains canonical data_root path"
    then obtain rest where "normalise path = data_root @ rest" using contains by (auto simp: prefix_def)
    then show "\<exists>rest. normalise path = data_root @ rest \<and> ParentDir \<notin> set rest \<and> CurDir \<notin> set rest"
      using normalise_plain [of path] by auto
  }
  {
    assume ns: "ns \<noteq> []" "w \<noteq> last ns" and path: "path = data_root @ ParentDir # Normal w # map Normal ws"
    have "normalise data_root = data_root"
      using assms(1) by (intro normalise_plain_absolute) (auto simp: plain_absolute_def)
    then have "fold push_component data_root [] = data_root" by (simp only: normalise_def)
    moreover have "fold push_component [ParentDir] (RootDir # map Normal ns) = RootDir # map Normal (butlast ns)"
      using fold_parents [of 1 ns] by (simp add: butlast_conv_take)
    ultimately have "normalise path = fold push_component (map Normal (w # ws)) (RootDir # map Normal (butlast ns))"
      using path assms(1) by (simp add: normalise_def)
    also have "\<dots> = (RootDir # map Normal (butlast ns)) @ map Normal (w # ws)"
      by (rule fold_push_normal) (simp add: list_all_iff)
    finally have n: "normalise path = RootDir # map Normal (butlast ns @ w # ws)" by simp
    have "\<not> prefix ns (butlast ns @ w # ws)"
    proof
      assume "prefix ns (butlast ns @ w # ws)"
      then have "prefix (butlast ns @ [last ns]) (butlast ns @ w # ws)" using ns(1) by simp
      then have "last ns = w" unfolding same_prefix_prefix by simp
      with ns(2) show False by simp
    qed
    moreover have "prefix ns (butlast ns @ w # ws)"
      if "prefix (map Normal ns) (map Normal (butlast ns @ w # ws))"
    proof -
      from prefix_map_rightE [OF that] obtain xs
        where xs: "prefix xs (butlast ns @ w # ws)" "map Normal ns = map Normal xs" by blast
      have "inj Normal" by (simp add: inj_def)
      then have "ns = xs" using xs(2) by (simp add: inj_map_eq_map)
      with xs(1) show ?thesis by simp
    qed
    ultimately have "\<not> prefix (map Normal ns) (map Normal (butlast ns @ w # ws))" by blast
    then show "\<not> layout_contains canonical data_root path"
      using contains n assms(1) by simp
  }
qed

lemma data_folder_guard_witness:
  "let canonical = (\<lambda>p. if p = RootDir # map Normal [''d''] then Some (RootDir # map Normal [''d'']) else None) in
   layout_contains canonical (RootDir # map Normal [''d'']) ((RootDir # map Normal [''d'']) @ map Normal [''x''])
   \<and> \<not> layout_contains canonical (RootDir # map Normal [''d''])
        ((RootDir # map Normal [''d'']) @ ParentDir # Normal ''e'' # map Normal [''x''])"
proof -
  let ?c = "\<lambda>p. if p = RootDir # map Normal [''d''] then Some (RootDir # map Normal [''d'']) else None"
  let ?r = "RootDir # map Normal [''d'']"
  have "layout_contains ?c ?r (?r @ map Normal [''x''])"
    using data_folder_guard [of ?r "[''d'']" ?c "?r @ map Normal [''x'']" "[''x'']"] by simp
  moreover have "\<not> layout_contains ?c ?r (?r @ ParentDir # Normal ''e'' # map Normal [''x''])"
    using data_folder_guard [of ?r "[''d'']" ?c "?r @ ParentDir # Normal ''e'' # map Normal [''x'']" "[''x'']" "''e''"]
    by simp
  ultimately show ?thesis by (simp add: Let_def)
qed

end
