(* ===== verification/Runtime.thy ===== *)
theory Runtime
  imports Runtime_Layout
begin

text \<open>
  Verification of the runtime files (crates/runtime-manager/src/integrity.rs), the startup
  health check (health.rs) and the installation of the bundled runtime (install.rs). A runtime
  directory is a map from the paths of the manifest to files. The hash function (\<open>sha\<close>, giving
  hexadecimal text), the JSON reader of the manifest (\<open>parse\<close>) and the zstd decoder (\<open>decode\<close>)
  are code outside the repository and parameters.
\<close>

section \<open>Files and manifests\<close>

text \<open>A file whose content can be read, or whose size only is known.\<close>

datatype runtime_file = Readable string | Locked nat string

primrec file_size :: "runtime_file \<Rightarrow> nat" where
  "file_size (Readable s) = length s"
| "file_size (Locked n _) = n"

type_synonym directory = "string \<rightharpoonup> runtime_file"

record manifest_entry =
  me_path :: string
  me_sha256 :: string
  me_size_bytes :: nat
  me_optional :: bool

record manifest =
  mf_runtime_version :: string
  mf_qemu_version :: string
  mf_image_version :: string
  mf_files :: "manifest_entry list"

datatype file_verdict =
    VerdictOk
  | Missing
  | WrongSize nat nat
  | WrongHash string string
  | Unreadable string

definition verdict_is_ok :: "file_verdict \<Rightarrow> bool" where
  "verdict_is_ok v \<longleftrightarrow> v = VerdictOk"

primrec explain :: "string \<Rightarrow> file_verdict \<Rightarrow> string" where
  "explain path VerdictOk = path @ '' is intact.''"
| "explain path Missing =
     path @ '' is missing. Antivirus software sometimes removes it. Use Reinstall Runtime to restore it.''"
| "explain path (WrongSize expected actual) =
     path @ '' is '' @ dec actual @ '' bytes but should be '' @ dec expected
       @ ''. The copy is incomplete; use Reinstall Runtime.''"
| "explain path (WrongHash expected actual) =
     path @ '' does not match the version that was installed. Use Reinstall Runtime.''"
| "explain path (Unreadable reason) =
     path @ '' could not be read ('' @ reason @ ''). Check that another program is not locking it.''"

type_synonym verification_report = "(string \<times> file_verdict) list"

definition is_healthy :: "verification_report \<Rightarrow> bool" where
  "is_healthy report \<longleftrightarrow> list_all (\<lambda>(_, v). verdict_is_ok v) report"

definition problems :: "verification_report \<Rightarrow> string list" where
  "problems report =
     map (\<lambda>(path, v). explain path v) (filter (\<lambda>(_, v). \<not> verdict_is_ok v) report)"

text \<open>\<^verbatim>\<open>Manifest::load\<close> of the manifest's text: a byte order mark is skipped.\<close>

definition strip_bom :: "string \<Rightarrow> string" where
  "strip_bom text =
     (case strip_prefix [CHR 0xEF, CHR 0xBB, CHR 0xBF] text of Some rest \<Rightarrow> rest | None \<Rightarrow> text)"

definition manifest_load :: "(string \<Rightarrow> string + manifest) \<Rightarrow> runtime_file option \<Rightarrow> string + manifest" where
  "manifest_load parse f =
     (case f of
        Some (Readable text) \<Rightarrow>
          (case parse (strip_bom text) of
             Inl _ \<Rightarrow> Inl ''could not parse the runtime manifest''
           | Inr m \<Rightarrow> Inr m)
      | _ \<Rightarrow> Inl ''could not read the runtime manifest'')"

section \<open>Verification\<close>

definition sha256_file :: "(string \<Rightarrow> string) \<Rightarrow> runtime_file \<Rightarrow> string + string" where
  "sha256_file sha f = (case f of Readable s \<Rightarrow> Inr (sha s) | Locked _ reason \<Rightarrow> Inl reason)"

definition verify_one :: "(string \<Rightarrow> string) \<Rightarrow> manifest_entry \<Rightarrow> runtime_file option \<Rightarrow> file_verdict" where
  "verify_one sha entry f =
     (case f of
        None \<Rightarrow> if me_optional entry then VerdictOk else Missing
      | Some fl \<Rightarrow>
          if file_size fl \<noteq> me_size_bytes entry
          then WrongSize (me_size_bytes entry) (file_size fl)
          else case sha256_file sha fl of
                 Inr actual \<Rightarrow>
                   if eq_ignore_ascii_case actual (me_sha256 entry) then VerdictOk
                   else WrongHash (me_sha256 entry) actual
               | Inl reason \<Rightarrow> Unreadable reason)"

definition verify :: "(string \<Rightarrow> string) \<Rightarrow> manifest \<Rightarrow> directory \<Rightarrow> verification_report" where
  "verify sha m root = map (\<lambda>e. (me_path e, verify_one sha e (root (me_path e)))) (mf_files m)"

definition quick_verdict :: "manifest_entry \<Rightarrow> runtime_file option \<Rightarrow> file_verdict" where
  "quick_verdict entry f =
     (case f of
        None \<Rightarrow> if me_optional entry then VerdictOk else Missing
      | Some fl \<Rightarrow>
          if file_size fl \<noteq> me_size_bytes entry
          then WrongSize (me_size_bytes entry) (file_size fl) else VerdictOk)"

definition verify_quick :: "manifest \<Rightarrow> directory \<Rightarrow> verification_report" where
  "verify_quick m root = map (\<lambda>e. (me_path e, quick_verdict e (root (me_path e)))) (mf_files m)"

text \<open>The packaging script's manifest of the files at the given paths.\<close>

fun manifest_entries ::
  "(string \<Rightarrow> string) \<Rightarrow> directory \<Rightarrow> string list \<Rightarrow> string + manifest_entry list" where
  "manifest_entries sha root [] = Inr []"
| "manifest_entries sha root (path # paths) =
     (case root path of
        None \<Rightarrow> Inl (''could not stat '' @ path)
      | Some fl \<Rightarrow>
          res_bind (sha256_file sha fl) (\<lambda>h.
          res_bind (manifest_entries sha root paths) (\<lambda>es.
            Inr (\<lparr>me_path = map (\<lambda>c. if c = CHR 0x5C then CHR ''/'' else c) path, me_sha256 = h,
                  me_size_bytes = file_size fl, me_optional = False\<rparr> # es))))"

definition generate_manifest ::
  "(string \<Rightarrow> string) \<Rightarrow> directory \<Rightarrow> string \<Rightarrow> string \<Rightarrow> string \<Rightarrow> string list \<Rightarrow> string + manifest" where
  "generate_manifest sha root version qemu image_version paths =
     res_bind (manifest_entries sha root paths) (\<lambda>es.
       Inr \<lparr>mf_runtime_version = version, mf_qemu_version = qemu, mf_image_version = image_version,
            mf_files = es\<rparr>)"

lemma verify_one_ok:
  "verdict_is_ok (verify_one sha e f) \<longleftrightarrow>
     (case f of
        None \<Rightarrow> me_optional e
      | Some fl \<Rightarrow> file_size fl = me_size_bytes e
          \<and> (\<exists>s. fl = Readable s \<and> eq_ignore_ascii_case (sha s) (me_sha256 e)))"
  by (cases f) (auto simp: verdict_is_ok_def verify_one_def sha256_file_def split: runtime_file.splits if_splits)

lemma is_healthy_verify:
  "is_healthy (verify sha m root) \<longleftrightarrow>
     (\<forall>e\<in>set (mf_files m). verdict_is_ok (verify_one sha e (root (me_path e))))"
  by (simp add: is_healthy_def verify_def list_all_iff)

lemma is_healthy_quick:
  "is_healthy (verify_quick m root) \<longleftrightarrow>
     (\<forall>e\<in>set (mf_files m). verdict_is_ok (quick_verdict e (root (me_path e))))"
  by (simp add: is_healthy_def verify_quick_def list_all_iff)

lemma quick_of_full: "verdict_is_ok (verify_one sha e f) \<Longrightarrow> verdict_is_ok (quick_verdict e f)"
  unfolding verify_one_ok by (cases f) (auto simp: verdict_is_ok_def quick_verdict_def)

lemma problems_Nil: "problems report = [] \<longleftrightarrow> is_healthy report"
  by (auto simp: problems_def is_healthy_def filter_empty_conv list_all_iff)

section \<open>Startup health\<close>

datatype severity = Blocking | Warning | Info

datatype recovery_action =
    NoAction | VerifyRuntimeFiles | ReinstallRuntime | RepairUserOverlay
  | ResetPracticeEnvironment | RestoreLastSnapshot | FreeDiskSpace | ExportDiagnosticReport

record finding =
  fi_severity :: severity
  fi_title :: string
  fi_detail :: string
  fi_action :: recovery_action

record health_report =
  hr_findings :: "finding list"
  hr_unclean_shutdown :: bool
  hr_free_disk_bytes :: "u64 option"

definition can_start :: "health_report \<Rightarrow> bool" where
  "can_start r \<longleftrightarrow> \<not> list_ex (\<lambda>f. fi_severity f = Blocking) (hr_findings r)"

definition blocking :: "health_report \<Rightarrow> finding list" where
  "blocking r = filter (\<lambda>f. fi_severity f = Blocking) (hr_findings r)"

definition min_free_bytes :: u64 where
  "min_free_bytes = 2 * 1024 * 1024 * 1024"

definition verification_findings :: "verification_report \<Rightarrow> finding list" where
  "verification_findings report =
     map (\<lambda>p. \<lparr>fi_severity = Blocking, fi_title = ''A Linux runtime file is damaged or missing'',
               fi_detail = p, fi_action = ReinstallRuntime\<rparr>) (problems report)"

definition run_with_unclean_shutdown ::
  "(string \<Rightarrow> string) \<Rightarrow> string + manifest \<Rightarrow> directory \<Rightarrow> u64 option \<Rightarrow> bool \<Rightarrow> bool \<Rightarrow> health_report" where
  "run_with_unclean_shutdown sha loaded root free_bytes quick unclean =
     (let runtime = (case loaded of
            Inr m \<Rightarrow> verification_findings (if quick then verify_quick m root else verify sha m root)
          | Inl err \<Rightarrow>
              [\<lparr>fi_severity = Blocking, fi_title = ''The Linux runtime is not installed correctly'',
                fi_detail = ''The runtime manifest could not be read ('' @ err
                  @ ''). Reinstalling the runtime restores it without affecting your progress.'',
                fi_action = ReinstallRuntime\<rparr>]);
          disk = (case free_bytes of
            Some free \<Rightarrow>
              if free < min_free_bytes then
                [\<lparr>fi_severity = Blocking, fi_title = ''Not enough free disk space'',
                  fi_detail = ''Linux Practice Lab needs about '' @ dec (unat (min_free_bytes div 1073741824))
                    @ '' GB free to run safely, and there is '' @ dec (unat (free div 1073741824))
                    @ '' GB available. Free some space and try again.'',
                  fi_action = FreeDiskSpace\<rparr>]
              else []
          | None \<Rightarrow> []);
          crash = (if unclean then
              [\<lparr>fi_severity = Warning, fi_title = ''The previous session did not close cleanly'',
                fi_detail = ''Your Free Practice environment will be checked before it is reused. Nothing on Windows was affected.'',
                fi_action = RepairUserOverlay\<rparr>]
            else [])
      in \<lparr>hr_findings = runtime @ disk @ crash, hr_unclean_shutdown = unclean,
          hr_free_disk_bytes = free_bytes\<rparr>)"

lemma verification_findings_blocking:
  "list_ex (\<lambda>f. fi_severity f = Blocking) (verification_findings report) \<longleftrightarrow> \<not> is_healthy report"
  using problems_Nil [of report]
  by (cases "problems report") (simp_all add: verification_findings_def)

section \<open>Installation\<close>

definition raw_image :: string where
  "raw_image = ''debian-base.raw''"

definition compressed_image :: string where
  "compressed_image = ''debian-base.raw.zst''"

datatype install_outcome = AlreadyInstalled | Installed

text \<open>What the bundled resource folder holds: files, and links or devices, in reading order.\<close>

datatype bundle_entry = BundleFile runtime_file | BundleOther

type_synonym bundle_list = "(string \<times> bundle_entry) list"

text \<open>The outcome of the file operations that can fail.\<close>

record install_io =
  ii_mkdir :: bool
  ii_clear_stale :: bool
  ii_copy_fails :: "string \<Rightarrow> bool"
  ii_create_raw :: bool
  ii_remove_compressed :: bool
  ii_live_is_link :: bool
  ii_remove_live :: "directory option"
  ii_rename :: bool

fun copy_bundle :: "(string \<Rightarrow> bool) \<Rightarrow> bundle_list \<Rightarrow> directory \<Rightarrow> (string + unit) \<times> directory" where
  "copy_bundle fails [] d = (Inr (), d)"
| "copy_bundle fails ((path, BundleOther) # es) d =
     (Inl (''the bundled runtime contains an unsupported link or device at '' @ path), d)"
| "copy_bundle fails ((path, BundleFile f) # es) d =
     (if fails path then (Inl (''could not copy runtime file '' @ path), d)
      else copy_bundle fails es (d(path \<mapsto> f)))"

definition expand_image ::
  "(string \<Rightarrow> string option) \<Rightarrow> install_io \<Rightarrow> directory \<Rightarrow> (string + unit) \<times> directory" where
  "expand_image decode io d =
     (case d compressed_image of
        Some (Readable z) \<Rightarrow>
          if \<not> ii_create_raw io then (Inl ''could not create the base image'', d)
          else (case decode z of
                  None \<Rightarrow> (Inl ''could not decompress the Linux base image'', d(raw_image \<mapsto> Readable []))
                | Some raw \<Rightarrow>
                    let d' = d(raw_image \<mapsto> Readable raw) in
                    if ii_remove_compressed io then (Inr (), d'(compressed_image := None))
                    else (Inl ''could not remove compressed image after installation'', d'))
      | _ \<Rightarrow> (Inl ''could not open the compressed image'', d))"

definition raw_entry :: "manifest \<Rightarrow> string + manifest_entry" where
  "raw_entry m =
     (case List.find (\<lambda>e. me_path e = raw_image) (mf_files m) of
        None \<Rightarrow> Inl ''the runtime manifest does not describe the materialised base image''
      | Some e \<Rightarrow> if me_optional e then Inl ''the materialised base image cannot be optional'' else Inr e)"

definition stage_and_verify ::
  "(string \<Rightarrow> string) \<Rightarrow> (string \<Rightarrow> string + manifest) \<Rightarrow> (string \<Rightarrow> string option) \<Rightarrow> install_io \<Rightarrow> layout
     \<Rightarrow> bundle_list \<Rightarrow> (string + unit) \<times> directory" where
  "stage_and_verify sha parse decode io ly bundled =
     (let (copied, staging) = copy_bundle (ii_copy_fails io) bundled Map.empty in
      case copied of Inl e \<Rightarrow> (Inl e, staging) | Inr _ \<Rightarrow>
      (case manifest_load parse (staging ''checksums.json'') of Inl e \<Rightarrow> (Inl e, staging) | Inr m \<Rightarrow>
       if mf_runtime_version m \<noteq> ly_runtime_version ly then
         (Inl (''the bundled runtime is version '' @ mf_runtime_version m
            @ '', but the application requires '' @ ly_runtime_version ly), staging)
       else case raw_entry m of Inl e \<Rightarrow> (Inl e, staging) | Inr raw \<Rightarrow>
         (let packaged = verify sha (m\<lparr>mf_files := filter (\<lambda>e. me_path e \<noteq> raw_image) (mf_files m)\<rparr>) staging in
          if \<not> is_healthy packaged then
            (Inl (''the bundled runtime failed verification: '' @ join '' '' (problems packaged)), staging)
          else
            let (expanded, staging') = expand_image decode io staging in
            case expanded of Inl e \<Rightarrow> (Inl e, staging') | Inr _ \<Rightarrow>
              (let raw_report = verify sha (m\<lparr>mf_files := [raw]\<rparr>) staging' in
               if is_healthy raw_report then (Inr (), staging')
               else (Inl (''the decompressed Linux base image failed verification: ''
                      @ join '' '' (problems raw_report)), staging')))))"

definition installed_runtime_is_complete :: "(string \<Rightarrow> string + manifest) \<Rightarrow> layout \<Rightarrow> directory option \<Rightarrow> bool" where
  "installed_runtime_is_complete parse ly live =
     (case live of
        None \<Rightarrow> False
      | Some d \<Rightarrow>
          (case manifest_load parse (d ''checksums.json'') of
             Inl _ \<Rightarrow> False
           | Inr m \<Rightarrow> mf_runtime_version m = ly_runtime_version ly \<and> is_healthy (verify_quick m d)))"

text \<open>
  \<open>live\<close> is the runtime directory before, the second result what it is afterwards; the staging
  folder is private to the call. \<open>ii_remove_live\<close> is \<^verbatim>\<open>None\<close> when the old directory was removed
  and else what a broken-off removal left of it.
\<close>

definition install_runtime ::
  "(string \<Rightarrow> string) \<Rightarrow> (string \<Rightarrow> string + manifest) \<Rightarrow> (string \<Rightarrow> string option) \<Rightarrow> install_io \<Rightarrow> layout
     \<Rightarrow> bundle_list option \<Rightarrow> bool \<Rightarrow> directory option \<Rightarrow> (string + install_outcome) \<times> directory option" where
  "install_runtime sha parse decode io ly bundled force live =
     (if \<not> force \<and> installed_runtime_is_complete parse ly live then (Inr AlreadyInstalled, live)
      else case bundled of
        None \<Rightarrow> (Inl (''the bundled runtime is missing at '' @ ly_bundled_runtime_root ly
                  @ ''; reinstall Linux Practice Lab''), live)
      | Some entries \<Rightarrow>
          if \<not> ii_mkdir io then (Inl ''could not create the runtime folder'', live)
          else if \<not> ii_clear_stale io then (Inl ''could not clear stale staging area'', live)
          else
            let (staged, staging) = stage_and_verify sha parse decode io ly entries in
            case staged of
              Inl e \<Rightarrow> (Inl e, live)
            | Inr _ \<Rightarrow>
                if live \<noteq> None \<and> ii_live_is_link io
                then (Inl ''refusing to remove linked runtime path'', live)
                else if live \<noteq> None \<and> ii_remove_live io \<noteq> None
                then (Inl ''could not replace incomplete runtime'', ii_remove_live io)
                else if \<not> ii_rename io then (Inl ''could not activate runtime'', None)
                else (Inr Installed, Some staging))"

section \<open>Facts about the installation\<close>

lemma expand_image_Inr:
  assumes "expand_image decode io d = (Inr (), d')"
  shows "d' compressed_image = None" "p \<noteq> raw_image \<Longrightarrow> p \<noteq> compressed_image \<Longrightarrow> d' p = d p"
  using assms by (auto simp: expand_image_def Let_def split: option.splits runtime_file.splits if_splits)

lemma stage_and_verify_Inr:
  assumes "stage_and_verify sha parse decode io ly bundled = (Inr (), d)"
  obtains m raw where "manifest_load parse (d ''checksums.json'') = Inr m"
    "mf_runtime_version m = ly_runtime_version ly"
    "raw_entry m = Inr raw" "verdict_is_ok (verify_one sha raw (d raw_image))"
    "\<And>e. e \<in> set (mf_files m) \<Longrightarrow> me_path e \<noteq> raw_image \<Longrightarrow> me_path e \<noteq> compressed_image \<Longrightarrow>
        verdict_is_ok (verify_one sha e (d (me_path e)))"
    "d compressed_image = None"
proof -
  obtain copied staging where c: "copy_bundle (ii_copy_fails io) bundled Map.empty = (copied, staging)"
    by fastforce
  note * = assms [unfolded stage_and_verify_def c Let_def]
  from * obtain m where m: "manifest_load parse (staging ''checksums.json'') = Inr m"
    by (auto split: sum.splits)
  from * m obtain raw where raw: "raw_entry m = Inr raw" and version: "mf_runtime_version m = ly_runtime_version ly"
    by (auto split: sum.splits if_splits)
  from * m raw version have healthy: "is_healthy (verify sha (m\<lparr>mf_files := filter (\<lambda>e. me_path e \<noteq> raw_image) (mf_files m)\<rparr>) staging)"
    by (auto split: sum.splits if_splits)
  obtain expanded staging' where e: "expand_image decode io staging = (expanded, staging')" by fastforce
  from * m raw version healthy e have x: "expanded = Inr ()" "staging' = d"
    "is_healthy (verify sha (m\<lparr>mf_files := [raw]\<rparr>) d)"
    by (auto split: sum.splits if_splits)
  note exp = expand_image_Inr [OF e [unfolded x]]
  have "me_path raw = raw_image"
    using raw by (auto simp: raw_entry_def dest!: find_SomeD split: option.splits if_splits)
  moreover have "''checksums.json'' \<noteq> raw_image" "''checksums.json'' \<noteq> compressed_image"
    by (simp_all add: raw_image_def compressed_image_def)
  ultimately show thesis
    using that [of m raw] m raw version healthy x(3) exp by (auto simp: is_healthy_verify)
qed

lemma raw_entry_mem:
  "raw_entry m = Inr raw \<Longrightarrow> raw \<in> set (mf_files m) \<and> me_path raw = raw_image \<and> \<not> me_optional raw"
  by (auto simp: raw_entry_def dest!: find_SomeD split: option.splits if_splits)

lemma install_result:
  "install_runtime sha parse decode io ly bundled force live = (r, live') \<Longrightarrow>
     (r = Inr AlreadyInstalled \<longrightarrow> live' = live \<and> installed_runtime_is_complete parse ly live)
     \<and> (r = Inr Installed \<longrightarrow> (\<exists>entries d. bundled = Some entries \<and> live' = Some d
          \<and> stage_and_verify sha parse decode io ly entries = (Inr (), d)))
     \<and> (\<forall>e. r = Inl e \<longrightarrow> live' \<noteq> live \<longrightarrow>
          (\<exists>entries d. bundled = Some entries
             \<and> stage_and_verify sha parse decode io ly entries = (Inr (), d)))"
  by (auto simp: install_runtime_def Let_def split: if_splits option.splits prod.splits sum.splits)

section \<open>Properties\<close>


definition sample_sha :: "string \<Rightarrow> string" where
  "sample_sha s = (if s = ''raw'' then ''abc'' else ''def'')"

definition sample_manifest :: manifest where
  "sample_manifest =
     \<lparr>mf_runtime_version = ''0.1.0'', mf_qemu_version = ''9'', mf_image_version = ''1'',
      mf_files = [\<lparr>me_path = ''debian-base.raw'', me_sha256 = ''ABC'', me_size_bytes = 3, me_optional = False\<rparr>,
                  \<lparr>me_path = ''debian-base.raw.zst'', me_sha256 = ''def'', me_size_bytes = 1, me_optional = True\<rparr>,
                  \<lparr>me_path = ''vmlinuz'', me_sha256 = ''def'', me_size_bytes = 6, me_optional = False\<rparr>]\<rparr>"


text \<open>C35: The startup health check blocks exactly when it must. The application can start if and
  only if the manifest was read, the verification it was asked for is healthy, and the free disk
  space is unknown or at least two gigabytes; an unclean shutdown only warns, and every finding
  offers a recovery action.\<close>

theorem health_check_blocks_iff:
  "(can_start (run_with_unclean_shutdown sha loaded root free quick unclean) \<longleftrightarrow>
      (case loaded of Inl _ \<Rightarrow> False
         | Inr m \<Rightarrow> is_healthy (if quick then verify_quick m root else verify sha m root))
      \<and> (case free of None \<Rightarrow> True | Some b \<Rightarrow> 2147483648 \<le> b))
   \<and> list_all (\<lambda>f. fi_action f \<noteq> NoAction)
       (hr_findings (run_with_unclean_shutdown sha loaded root free quick unclean))
   \<and> hr_unclean_shutdown (run_with_unclean_shutdown sha loaded root free quick unclean) = unclean"
proof (intro conjI)
  show "can_start (run_with_unclean_shutdown sha loaded root free quick unclean) \<longleftrightarrow>
      (case loaded of Inl _ \<Rightarrow> False
         | Inr m \<Rightarrow> is_healthy (if quick then verify_quick m root else verify sha m root))
      \<and> (case free of None \<Rightarrow> True | Some b \<Rightarrow> 2147483648 \<le> b)"
    by (auto simp: can_start_def run_with_unclean_shutdown_def Let_def verification_findings_blocking
        min_free_bytes_def not_less split: sum.splits option.splits)
  show "list_all (\<lambda>f. fi_action f \<noteq> NoAction)
       (hr_findings (run_with_unclean_shutdown sha loaded root free quick unclean))"
    by (auto simp: run_with_unclean_shutdown_def Let_def verification_findings_def list_all_iff
        split: sum.splits option.splits)
qed (simp add: run_with_unclean_shutdown_def Let_def)

lemma manifest_entries_verify:
  "manifest_entries sha root paths = Inr es \<Longrightarrow> list_all (\<lambda>p. CHR 0x5C \<notin> set p) paths \<Longrightarrow>
     map me_path es = paths \<and> (\<forall>e\<in>set es. verdict_is_ok (verify_one sha e (root (me_path e))))"
proof (induction paths arbitrary: es)
  case (Cons path paths)
  from Cons.prems obtain fl h es' where f: "root path = Some fl" "sha256_file sha fl = Inr h"
    "manifest_entries sha root paths = Inr es'"
    and es: "es = \<lparr>me_path = map (\<lambda>c. if c = CHR 0x5C then CHR ''/'' else c) path, me_sha256 = h,
                  me_size_bytes = file_size fl, me_optional = False\<rparr> # es'"
    by (auto simp: res_bind_Inr_iff split: option.splits)
  have "map (\<lambda>c. if c = CHR 0x5C then CHR ''/'' else c) path = path"
    using Cons.prems(2) by (intro map_idI) auto
  with Cons.IH [OF f(3)] Cons.prems(2) f es show ?case
    by (auto simp: verify_one_ok sha256_file_def eq_ignore_ascii_case_def split: runtime_file.splits)
qed simp

text \<open>The manifest that packaging generates for a set of files describes them: it lists exactly
  those paths and verifying the directory it was made from is healthy.\<close>

theorem generated_manifest_verifies:
  assumes "generate_manifest sha root version qemu img paths = Inr m"
    and "list_all (\<lambda>p. CHR 0x5C \<notin> set p) paths"
  shows "map me_path (mf_files m) = paths \<and> is_healthy (verify sha m root) \<and> mf_runtime_version m = version"
  using assms manifest_entries_verify
  by (fastforce simp: generate_manifest_def res_bind_Inr_iff is_healthy_verify)

lemma generated_manifest_verifies_witness:
  "\<exists>m. generate_manifest sample_sha [''vmlinuz'' \<mapsto> Readable ''kernel''] ''1'' ''9'' ''1'' [''vmlinuz''] = Inr m
     \<and> is_healthy (verify sample_sha m [''vmlinuz'' \<mapsto> Readable ''kernel''])"
proof -
  obtain m where m: "generate_manifest sample_sha [''vmlinuz'' \<mapsto> Readable ''kernel''] ''1'' ''9'' ''1'' [''vmlinuz''] = Inr m"
    by (auto simp: generate_manifest_def sha256_file_def)
  have "list_all (\<lambda>p. CHR 0x5C \<notin> set p) [''vmlinuz'']" by code_simp
  from generated_manifest_verifies [OF m this] m show ?thesis by blast
qed


definition sample_bundle :: bundle_list where
  "sample_bundle =
     [(''checksums.json'', BundleFile (Readable ''m'')), (''vmlinuz'', BundleFile (Readable ''kernel'')),
      (''debian-base.raw.zst'', BundleFile (Readable ''z''))]"

definition sample_io :: install_io where
  "sample_io = \<lparr>ii_mkdir = True, ii_clear_stale = True, ii_copy_fails = (\<lambda>_. False), ii_create_raw = True,
     ii_remove_compressed = True, ii_live_is_link = False, ii_remove_live = None, ii_rename = True\<rparr>"

definition sample_install :: "directory option \<Rightarrow> (string + install_outcome) \<times> directory option" where
  "sample_install =
     install_runtime sample_sha (\<lambda>t. if t = ''m'' then Inr sample_manifest else Inl ''?'')
       (\<lambda>z. if z = ''z'' then Some ''raw'' else None) sample_io (layout_at ''0.1.0'' ''/res'' ''/data'')
       (Some sample_bundle) False"

lemma sample_installed: "fst (sample_install None) = Inr Installed"
  by code_simp


text \<open>Installing is idempotent. If the manifest lists no path twice and marks the compressed image
  as optional, the runtime an installation makes live counts as complete, so the next start keeps
  it and copies nothing.\<close>

theorem install_idempotent:
  assumes "install_runtime sha parse decode io ly bundled force live = (Inr Installed, Some d)"
    and "manifest_load parse (d ''checksums.json'') = Inr m"
    and "distinct (map me_path (mf_files m))"
    and "list_all (\<lambda>e. me_path e = compressed_image \<longrightarrow> me_optional e) (mf_files m)"
  shows "install_runtime sha parse decode io' ly bundled' False (Some d) = (Inr AlreadyInstalled, Some d)"
proof -
  obtain entries where st: "stage_and_verify sha parse decode io ly entries = (Inr (), d)"
    using install_result [OF assms(1)] by auto
  from st obtain raw where raw: "mf_runtime_version m = ly_runtime_version ly" "raw_entry m = Inr raw"
      "verdict_is_ok (verify_one sha raw (d raw_image))" "d compressed_image = None"
      "\<And>e. e \<in> set (mf_files m) \<Longrightarrow> me_path e \<noteq> raw_image \<Longrightarrow> me_path e \<noteq> compressed_image \<Longrightarrow>
        verdict_is_ok (verify_one sha e (d (me_path e)))"
    by (rule stage_and_verify_Inr) (use assms(2) in auto)
  have "verdict_is_ok (quick_verdict e (d (me_path e)))" if e: "e \<in> set (mf_files m)" for e
  proof -
    consider "me_path e = raw_image" | "me_path e = compressed_image"
      | "me_path e \<noteq> raw_image" "me_path e \<noteq> compressed_image" by blast
    then show ?thesis
    proof cases
      case 1
      then have "e = raw"
        using raw_entry_mem [OF raw(2)] e assms(3) by (metis eq_key_imp_eq_value inj_onD distinct_map)
      with raw(3) 1 quick_of_full show ?thesis by metis
    next
      case 2
      then show ?thesis using raw(4) assms(4) e
        by (auto simp: verdict_is_ok_def quick_verdict_def list_all_iff)
    next
      case 3
      with raw(5) e quick_of_full show ?thesis by blast
    qed
  qed
  then have "installed_runtime_is_complete parse ly (Some d)"
    using assms(2) raw(1) by (simp add: installed_runtime_is_complete_def is_healthy_quick)
  then show ?thesis by (simp add: install_runtime_def)
qed

lemma sample_installed_manifest:
  "map_option (\<lambda>d. d ''checksums.json'') (snd (sample_install None)) = Some (Some (Readable ''m''))"
  by code_simp

lemma install_idempotent_witness:
  "\<exists>d. sample_install None = (Inr Installed, Some d) \<and> sample_install (Some d) = (Inr AlreadyInstalled, Some d)"
proof -
  obtain d where d: "sample_install None = (Inr Installed, Some d)" "d ''checksums.json'' = Some (Readable ''m'')"
    using sample_installed sample_installed_manifest by (cases "sample_install None") auto
  have "strip_bom ''m'' = ''m''" by code_simp
  then have m: "manifest_load (\<lambda>t. if t = ''m'' then Inr sample_manifest else Inl ''?'') (d ''checksums.json'') = Inr sample_manifest"
    by (simp add: d(2) manifest_load_def)
  have "sample_install (Some d) = (Inr AlreadyInstalled, Some d)"
    unfolding sample_install_def
    by (rule install_idempotent [OF d(1) [unfolded sample_install_def] m]; code_simp)
  with d(1) show ?thesis by blast
qed

end
