(* ===== verification/Vm_Manager.thy ===== *)
theory Vm_Manager
  imports Overlay Json
begin

text \<open>
  Host-side orchestration (crates/vm-manager/src/lib.rs) with accelerator selection (accel.rs)
  and the process file (process.rs). A manager lives in a world with a file system and the QEMU
  processes it has started. What the operating system answers (the spawned process, an exit status,
  a bound port, random bytes, the monitor) is an argument of the operation that asks.
\<close>

section \<open>Acceleration\<close>

record accel_decision =
  ad_mode :: accel_mode
  ad_reason :: string

definition accel_hardware :: accel_decision where
  "accel_hardware =
     \<lparr>ad_mode = Whpx,
      ad_reason = ''Windows Hypervisor Platform is available, so the lab runs with hardware acceleration.''\<rparr>"

definition accel_software :: "string \<Rightarrow> accel_decision" where
  "accel_software detail =
     \<lparr>ad_mode = Tcg,
      ad_reason = ''Running with software translation ('' @ detail
        @ ''). Everything works, but the terminal starts more slowly. No action is needed.''\<rparr>"

text \<open>
  \<open>env\<close> is the value of \<^verbatim>\<open>LINUXLAB_ACCEL\<close>, \<open>lower\<close> Unicode lower-casing, and \<open>hypervisor\<close> the
  answer of the platform (\<^verbatim>\<open>None\<close> off Windows).
\<close>

definition forced_from_env :: "(string \<Rightarrow> string) \<Rightarrow> string option \<Rightarrow> accel_decision option" where
  "forced_from_env lower env =
     (case env of
        None \<Rightarrow> None
      | Some v \<Rightarrow>
          if lower v = ''tcg'' then
            Some \<lparr>ad_mode = Tcg, ad_reason = ''Software translation forced by LINUXLAB_ACCEL.''\<rparr>
          else if lower v = ''whpx'' then
            Some \<lparr>ad_mode = Whpx, ad_reason = ''Hardware acceleration forced by LINUXLAB_ACCEL.''\<rparr>
          else None)"

definition detect_platform :: "(string + bool) option \<Rightarrow> accel_decision" where
  "detect_platform hypervisor =
     (case hypervisor of
        None \<Rightarrow> accel_software ''this is not a Windows host''
      | Some (Inr True) \<Rightarrow> accel_hardware
      | Some (Inr False) \<Rightarrow> accel_software ''Windows Hypervisor Platform is not enabled''
      | Some (Inl detail) \<Rightarrow> accel_software detail)"

definition accel_detect ::
  "(string \<Rightarrow> string) \<Rightarrow> string option \<Rightarrow> (string + bool) option \<Rightarrow> accel_decision" where
  "accel_detect lower env hypervisor =
     (case forced_from_env lower env of Some forced \<Rightarrow> forced | None \<Rightarrow> detect_platform hypervisor)"

primrec preferred_machine :: "accel_mode \<Rightarrow> machine_type" where
  "preferred_machine Tcg = Q35"
| "preferred_machine Whpx = Microvm"

section \<open>State\<close>

record runtime_paths =
  rp_qemu_system :: string
  rp_qemu_img :: string
  rp_kernel :: string
  rp_initrd :: "string option"
  rp_base_image :: string
  rp_data_dir :: string
  rp_log_dir :: string

definition vm_log :: "runtime_paths \<Rightarrow> string" where
  "vm_log p = path_join (rp_log_dir p) ''vm.log''"

datatype session_kind = FreePractice | LessonSession string

definition default_memory_mb :: u32 where
  "default_memory_mb = 256"

record vm_manager =
  vm_paths :: runtime_paths
  vm_overlays :: overlay_manager
  vm_accel :: accel_decision
  vm_machine :: machine_type
  vm_supervised :: "u32 option"
  vm_configured :: "vm_config option"
  vm_current :: vm_state
  vm_started_at :: "nat option"
  vm_boot_millis :: "u64 option"
  vm_detail :: "string option"

record vm_world =
  w_vm :: vm_manager
  w_fs :: fs
  w_procs :: "u32 list"

definition vm_new :: "runtime_paths \<Rightarrow> accel_decision \<Rightarrow> vm_manager" where
  "vm_new paths accel =
     \<lparr>vm_paths = paths,
      vm_overlays = \<lparr>om_qemu_img = rp_qemu_img paths, om_data_dir = rp_data_dir paths\<rparr>,
      vm_accel = accel, vm_machine = preferred_machine (ad_mode accel), vm_supervised = None,
      vm_configured = None, vm_current = VmStopped, vm_started_at = None, vm_boot_millis = None,
      vm_detail = None\<rparr>"

definition manager_status :: "vm_manager \<Rightarrow> vm_status" where
  "manager_status m =
     \<lparr>st_state = vm_current m, st_accel = ad_mode (vm_accel m), st_machine = vm_machine m,
      st_memory_mb = (case vm_configured m of Some c \<Rightarrow> cf_memory_mb c | None \<Rightarrow> default_memory_mb),
      st_pid = vm_supervised m, st_boot_millis = vm_boot_millis m, st_guest_kernel = None,
      st_image_version = None, st_detail = vm_detail m\<rparr>"

section \<open>The process file\<close>

definition pid_path :: "string \<Rightarrow> string" where
  "pid_path data_dir = path_join data_dir ''vm.pid''"

definition pid_write :: "bool \<Rightarrow> string \<Rightarrow> u32 \<Rightarrow> fs \<Rightarrow> fs" where
  "pid_write ok data_dir pid f = (if ok then f(pid_path data_dir \<mapsto> dec (unat pid)) else f)"

definition pid_read :: "string \<Rightarrow> fs \<Rightarrow> u32 option" where
  "pid_read data_dir f =
     Option.bind (f (pid_path data_dir)) (\<lambda>s. map_option word_of_nat (parse_unsigned 10 (2 ^ 32) (trim s)))"

definition pid_clear :: "string \<Rightarrow> fs \<Rightarrow> fs" where
  "pid_clear data_dir f = f(pid_path data_dir := None)"

text \<open>The last component of a Windows path.\<close>

definition windows_file_name :: "string \<Rightarrow> string" where
  "windows_file_name path = rev (takeWhile (\<lambda>c. c \<noteq> CHR ''/'' \<and> c \<noteq> CHR 0x5C) (rev path))"

text \<open>
  \<^verbatim>\<open>kill_stale\<close> on Windows: \<open>exe\<close> is the executable of the process with the pid, if there is
  one, \<open>terminated\<close> whether the operating system ended it.
\<close>

definition kill_stale :: "string option \<Rightarrow> bool \<Rightarrow> string \<Rightarrow> string + bool" where
  "kill_stale exe terminated expected_binary =
     (case exe of
        None \<Rightarrow> Inr False
      | Some im \<Rightarrow>
          if eq_ignore_ascii_case (windows_file_name im) (windows_file_name expected_binary)
          then (if terminated then Inr True else Inl ''TerminateProcess failed'')
          else Inr False)"

definition reap_stale_process :: "(u32 \<Rightarrow> string option) \<Rightarrow> bool \<Rightarrow> vm_world \<Rightarrow> (string + bool) \<times> vm_world" where
  "reap_stale_process exe_of terminated w =
     (let m = w_vm w; dir = rp_data_dir (vm_paths m) in
      case pid_read dir (w_fs w) of
        None \<Rightarrow> (Inr False, w)
      | Some pid \<Rightarrow>
          (case kill_stale (exe_of pid) terminated (rp_qemu_system (vm_paths m)) of
             Inl e \<Rightarrow> (Inl e, w)
           | Inr killed \<Rightarrow>
               (Inr killed, w\<lparr>w_fs := pid_clear dir (w_fs w),
                              w_procs := (if killed then removeAll pid (w_procs w) else w_procs w)\<rparr>)))"

section \<open>Lifecycle\<close>

definition use_fallback_machine :: "vm_manager \<Rightarrow> vm_manager" where
  "use_fallback_machine m = m\<lparr>vm_machine := Q35\<rparr>"

definition use_software_acceleration :: "string \<Rightarrow> vm_manager \<Rightarrow> vm_manager" where
  "use_software_acceleration detail m =
     m\<lparr>vm_accel := \<lparr>ad_mode = Tcg, ad_reason = ''Running with software translation ('' @ detail @ '').''\<rparr>,
       vm_machine := preferred_machine Tcg\<rparr>"

text \<open>32 random bytes in hexadecimal.\<close>

definition hex_digit :: "nat \<Rightarrow> char" where
  "hex_digit d = (if d < 10 then char_of (48 + d) else char_of (87 + d))"

definition generate_token :: "u8 list \<Rightarrow> string" where
  "generate_token bytes =
     concat (map (\<lambda>b. [hex_digit (unat b div 16), hex_digit (unat b mod 16)]) bytes)"

record prepare_env =
  pe_img :: qemu_img
  pe_remove_ok :: bool
  pe_dir_ok :: bool
  pe_qmp_port :: "string + u16"
  pe_console_port :: "string + u16"
  pe_agent_port :: "string + u16"
  pe_random :: "u8 list"

definition session_spec :: "session_kind \<Rightarrow> vm_manager \<Rightarrow> overlay_spec" where
  "session_spec kind m =
     (case kind of
        FreePractice \<Rightarrow> free_practice_spec (vm_overlays m) (rp_base_image (vm_paths m))
      | LessonSession lid \<Rightarrow> lesson_spec (vm_overlays m) lid (rp_base_image (vm_paths m)))"

definition prepare ::
  "prepare_env \<Rightarrow> session_kind \<Rightarrow> network_mode \<Rightarrow> u32 option \<Rightarrow> vm_world \<Rightarrow> (string + vm_config) \<times> vm_world" where
  "prepare env kind mode memory_mb w =
     (let m = w_vm w;
          spec = session_spec kind m;
          (layered, f) = (case kind of
             FreePractice \<Rightarrow> overlay_ensure (pe_img env) (pe_dir_ok env) spec (w_fs w)
           | LessonSession _ \<Rightarrow>
               overlay_recreate (pe_img env) (pe_remove_ok env) (pe_dir_ok env) spec (w_fs w));
          w' = w\<lparr>w_fs := f\<rparr>;
          config = res_bind layered (\<lambda>_. res_bind (pe_qmp_port env) (\<lambda>qmp.
            res_bind (pe_console_port env) (\<lambda>console. res_bind (pe_agent_port env) (\<lambda>agent.
              Inr \<lparr>cf_machine = vm_machine m, cf_accel = ad_mode (vm_accel m), cf_cpus = 1,
                   cf_memory_mb = (case memory_mb of Some mb \<Rightarrow> mb | None \<Rightarrow> default_memory_mb),
                   cf_kernel = rp_kernel (vm_paths m), cf_initrd = rp_initrd (vm_paths m),
                   cf_base_image = rp_base_image (vm_paths m), cf_overlay = os_path spec,
                   cf_network_mode = mode, cf_qmp_port = qmp, cf_console_port = console,
                   cf_agent_port = agent, cf_control_token = generate_token (pe_random env),
                   cf_log_file = vm_log (vm_paths m)\<rparr>))))
      in case config of
           Inl e \<Rightarrow> (Inl e, w')
         | Inr c \<Rightarrow> (Inr c, w'\<lparr>w_vm := m\<lparr>vm_configured := Some c\<rparr>\<rparr>))"

definition mark_ready :: "nat \<Rightarrow> vm_manager \<Rightarrow> vm_manager" where
  "mark_ready now m =
     m\<lparr>vm_boot_millis := (case vm_started_at m of
           Some started \<Rightarrow> Some (word_of_nat (now - started)) | None \<Rightarrow> vm_boot_millis m),
       vm_current := VmReady, vm_detail := None\<rparr>"

text \<open>Dropping the supervised child kills what is left of it, so its process is gone.\<close>

definition drop_supervised :: "vm_world \<Rightarrow> vm_world" where
  "drop_supervised w =
     (case vm_supervised (w_vm w) of
        None \<Rightarrow> w
      | Some pid \<Rightarrow> w\<lparr>w_vm := (w_vm w)\<lparr>vm_supervised := None\<rparr>, w_procs := removeAll pid (w_procs w)\<rparr>)"

definition clear_pid_file :: "vm_world \<Rightarrow> vm_world" where
  "clear_pid_file w = w\<lparr>w_fs := pid_clear (rp_data_dir (vm_paths (w_vm w))) (w_fs w)\<rparr>"

definition mark_exited :: "bool \<Rightarrow> vm_world \<Rightarrow> vm_world" where
  "mark_exited guest_had_booted w =
     (let w' = clear_pid_file (drop_supervised w) in
      w'\<lparr>w_vm := (if guest_had_booted
          then (w_vm w')\<lparr>vm_detail := Some ''The Linux practice environment is no longer bootable. Windows was not affected.'',
                         vm_current := VmUnbootable\<rparr>
          else (w_vm w')\<lparr>vm_detail := Some ''The virtual machine stopped before Linux finished starting.'',
                         vm_current := VmFailed\<rparr>)\<rparr>)"

datatype wait_outcome = WaitError string | StillRunning | ExitedWith int

definition poll_exited :: "wait_outcome \<Rightarrow> vm_world \<Rightarrow> (string + int option) \<times> vm_world" where
  "poll_exited outcome w =
     (if vm_supervised (w_vm w) = None then (Inr None, w)
      else case outcome of
             WaitError e \<Rightarrow> (Inl (''could not check the virtual machine process: '' @ e), w)
           | StillRunning \<Rightarrow> (Inr None, w)
           | ExitedWith status \<Rightarrow> (Inr (Some status), mark_exited False w))"

definition mark_failed :: "string \<Rightarrow> vm_manager \<Rightarrow> vm_manager" where
  "mark_failed detail m = m\<lparr>vm_current := VmFailed, vm_detail := Some detail\<rparr>"

record start_env =
  se_wait :: wait_outcome
  se_now :: nat
  se_spawn :: "string + u32"
  se_pid_write :: bool

definition vm_start :: "start_env \<Rightarrow> vm_config \<Rightarrow> vm_world \<Rightarrow> (string + vm_status) \<times> vm_world" where
  "vm_start env config w =
     (let (polled, w) = (if vm_supervised (w_vm w) \<noteq> None then poll_exited (se_wait env) w else (Inr None, w)) in
      case polled of
        Inl e \<Rightarrow> (Inl e, w)
      | Inr _ \<Rightarrow>
          if vm_supervised (w_vm w) \<noteq> None then (Inl ''a virtual machine is already running'', w)
          else
            let w = w\<lparr>w_vm := (w_vm w)\<lparr>vm_current := VmStarting, vm_started_at := Some (se_now env)\<rparr>\<rparr> in
            case se_spawn env of
              Inl e \<Rightarrow> (Inl e, w)
            | Inr pid \<Rightarrow>
                let m = (w_vm w)\<lparr>vm_supervised := Some pid, vm_current := VmBootingGuest\<rparr> in
                (Inr (manager_status m),
                 w\<lparr>w_vm := m, w_procs := pid # w_procs w,
                   w_fs := pid_write (se_pid_write env) (rp_data_dir (vm_paths m)) pid (w_fs w)\<rparr>))"

text \<open>
  \<^verbatim>\<open>stop\<close>. The powerdown over QMP, its deadline and its errors change nothing in the manager:
  the child is terminated in any case.
\<close>

definition vm_stop :: "vm_world \<Rightarrow> (string + unit) \<times> vm_world" where
  "vm_stop w =
     (if vm_configured (w_vm w) = None then (Inr (), w)
      else if vm_supervised (w_vm w) = None then (Inr (), w)
      else
        let w' = clear_pid_file (drop_supervised (w\<lparr>w_vm := (w_vm w)\<lparr>vm_current := VmStopping\<rparr>\<rparr>))
        in (Inr (), w'\<lparr>w_vm := (w_vm w')\<lparr>vm_current := VmStopped, vm_boot_millis := None\<rparr>\<rparr>))"

text \<open>\<open>qmp\<close>: whether the monitor could be reached and obeyed.\<close>

definition vm_pause :: "string + unit \<Rightarrow> vm_manager \<Rightarrow> (string + unit) \<times> vm_manager" where
  "vm_pause qmp m =
     (if vm_configured m = None then (Inl ''no virtual machine configured'', m)
      else case qmp of Inl e \<Rightarrow> (Inl e, m) | Inr _ \<Rightarrow> (Inr (), m\<lparr>vm_current := VmPaused\<rparr>))"

definition vm_resume :: "string + unit \<Rightarrow> vm_manager \<Rightarrow> (string + unit) \<times> vm_manager" where
  "vm_resume qmp m =
     (if vm_configured m = None then (Inl ''no virtual machine configured'', m)
      else case qmp of Inl e \<Rightarrow> (Inl e, m) | Inr _ \<Rightarrow> (Inr (), m\<lparr>vm_current := VmReady\<rparr>))"

section \<open>The manager as a state machine\<close>

text \<open>
  What can happen to the manager of a running application. A configuration to start has been
  prepared before, though another may have been since, and a process that is spawned has a pid no running child of the manager has.
\<close>

inductive vm_step :: "vm_world \<Rightarrow> vm_world \<Rightarrow> bool" where
  reap: "vm_step w (snd (reap_stale_process exe terminated w))"
| prepare: "vm_step w (snd (prepare env kind mode memory_mb w))"
| start: "vm_configured (w_vm w) \<noteq> None \<Longrightarrow> vm_step w (snd (vm_start env cfg w))"
| ready: "vm_step w (w\<lparr>w_vm := mark_ready now (w_vm w)\<rparr>)"
| exited: "vm_step w (mark_exited booted w)"
| poll: "vm_step w (snd (poll_exited outcome w))"
| failed: "vm_step w (w\<lparr>w_vm := mark_failed detail (w_vm w)\<rparr>)"
| stop: "vm_step w (snd (vm_stop w))"
| pause: "vm_step w (w\<lparr>w_vm := snd (vm_pause qmp (w_vm w))\<rparr>)"
| resume: "vm_step w (w\<lparr>w_vm := snd (vm_resume qmp (w_vm w))\<rparr>)"
| fallback: "vm_step w (w\<lparr>w_vm := use_fallback_machine (w_vm w)\<rparr>)"
| software: "vm_step w (w\<lparr>w_vm := use_software_acceleration detail (w_vm w)\<rparr>)"

inductive_cases vm_stepE: "vm_step w w'"

definition vm_inv :: "vm_world \<Rightarrow> bool" where
  "vm_inv w \<longleftrightarrow>
     (case vm_supervised (w_vm w) of
        None \<Rightarrow> w_procs w = []
      | Some pid \<Rightarrow> (w_procs w = [] \<or> w_procs w = [pid]) \<and> vm_configured (w_vm w) \<noteq> None)
     \<and> (ad_mode (vm_accel (w_vm w)) = Tcg \<longrightarrow> vm_machine (w_vm w) = Q35)"

definition vm_initial :: "runtime_paths \<Rightarrow> accel_decision \<Rightarrow> fs \<Rightarrow> vm_world" where
  "vm_initial paths accel f = \<lparr>w_vm = vm_new paths accel, w_fs = f, w_procs = []\<rparr>"

lemma vm_inv_initial: "vm_inv (vm_initial paths accel f)"
  by (simp add: vm_inv_def vm_initial_def vm_new_def)

lemma vm_inv_mark_exited: "vm_inv w \<Longrightarrow> vm_inv (mark_exited b w)"
  by (auto simp: vm_inv_def mark_exited_def clear_pid_file_def drop_supervised_def Let_def
      split: option.splits)

lemma vm_inv_poll: "vm_inv w \<Longrightarrow> vm_inv (snd (poll_exited outcome w))"
  by (auto simp: poll_exited_def vm_inv_mark_exited split: wait_outcome.splits)

lemma vm_inv_prepare: "vm_inv w \<Longrightarrow> vm_inv (snd (prepare env kind mode memory_mb w))"
  by (auto simp: prepare_def vm_inv_def Let_def split: sum.splits prod.splits option.splits)

lemma mark_exited_config: "vm_configured (w_vm (mark_exited b w)) = vm_configured (w_vm w)"
  by (simp add: mark_exited_def clear_pid_file_def drop_supervised_def Let_def split: option.splits)

lemma poll_config: "vm_configured (w_vm (snd (poll_exited outcome w))) = vm_configured (w_vm w)"
  by (simp add: poll_exited_def mark_exited_config split: wait_outcome.splits)

lemma vm_inv_start:
  assumes "vm_inv w" "vm_configured (w_vm w) \<noteq> None"
  shows "vm_inv (snd (vm_start env cfg w))"
proof -
  obtain polled w' where p: "(if vm_supervised (w_vm w) \<noteq> None then poll_exited (se_wait env) w else (Inr None, w)) = (polled, w')"
    by fastforce
  have inv: "vm_inv w'" "vm_configured (w_vm w') \<noteq> None"
    using assms p vm_inv_poll [of w "se_wait env"] poll_config [of "se_wait env" w]
    by (auto split: if_splits)
  then show ?thesis
    unfolding vm_start_def p
    by (auto simp: vm_inv_def Let_def split: sum.splits option.splits)
qed

lemma vm_inv_stop: "vm_inv w \<Longrightarrow> vm_inv (snd (vm_stop w))"
  by (auto simp: vm_stop_def vm_inv_def clear_pid_file_def drop_supervised_def Let_def split: option.splits)

lemma vm_stop_Inr [simp]: "fst (vm_stop w) = Inr ()"
  by (simp add: vm_stop_def Let_def)

lemma vm_inv_reap: "vm_inv w \<Longrightarrow> vm_inv (snd (reap_stale_process exe terminated w))"
  by (auto simp: reap_stale_process_def vm_inv_def Let_def split: option.splits sum.splits if_splits)

lemma vm_inv_step: "vm_step w w' \<Longrightarrow> vm_inv w \<Longrightarrow> vm_inv w'"
proof (induction rule: vm_step.induct)
  case (pause w qmp)
  then show ?case by (auto simp: vm_inv_def vm_pause_def split: sum.splits option.splits)
next
  case (resume w qmp)
  then show ?case by (auto simp: vm_inv_def vm_resume_def split: sum.splits option.splits)
qed (simp_all add: vm_inv_reap vm_inv_prepare vm_inv_start vm_inv_mark_exited vm_inv_poll vm_inv_stop,
     auto simp: vm_inv_def mark_ready_def mark_failed_def use_fallback_machine_def
       use_software_acceleration_def split: option.splits)

text \<open>Once something was prepared there is always a configuration.\<close>

lemma start_config: "vm_configured (w_vm (snd (vm_start env cfg w))) = vm_configured (w_vm w)"
proof -
  obtain polled w' where p: "(if vm_supervised (w_vm w) \<noteq> None then poll_exited (se_wait env) w else (Inr None, w)) = (polled, w')"
    by fastforce
  then have "vm_configured (w_vm w') = vm_configured (w_vm w)"
    using poll_config [of "se_wait env" w] by (auto split: if_splits)
  then show ?thesis
    unfolding vm_start_def p by (auto simp: Let_def split: sum.splits)
qed

lemma vm_step_config: "vm_step w w' \<Longrightarrow> vm_configured (w_vm w) \<noteq> None \<Longrightarrow> vm_configured (w_vm w') \<noteq> None"
  by (erule vm_stepE)
    (auto simp: start_config poll_config mark_exited_config prepare_def reap_stale_process_def vm_stop_def
      clear_pid_file_def drop_supervised_def vm_pause_def vm_resume_def mark_ready_def mark_failed_def
      use_fallback_machine_def use_software_acceleration_def Let_def
      split: option.splits sum.splits prod.splits if_splits)

lemma vm_inv_run: "vm_step\<^sup>*\<^sup>* w w' \<Longrightarrow> vm_inv w \<Longrightarrow> vm_inv w'"
  by (induction rule: rtranclp_induct) (auto intro: vm_inv_step)

lemma vm_stop_ends: "vm_inv w \<Longrightarrow> w_procs (snd (vm_stop w)) = [] \<and> vm_supervised (w_vm (snd (vm_stop w))) = None"
  by (auto simp: vm_inv_def vm_stop_def clear_pid_file_def drop_supervised_def Let_def split: option.splits)

section \<open>Tokens and the process file\<close>

lemma hex_digit_hex: "d < 16 \<Longrightarrow> is_ascii_hexdigit (hex_digit d)"
  by (auto simp: hex_digit_def is_ascii_hexdigit_def is_ascii_digit_def byte_def)

lemma generate_token_hex: "list_all is_ascii_hexdigit (generate_token bytes)"
proof -
  have "unat (b :: u8) div 16 < 16" for b
    using unsigned_less [of b, where ?'a = nat] by (simp add: less_mult_imp_div_less)
  then show ?thesis by (auto simp: generate_token_def list_all_iff hex_digit_hex)
qed

lemma generate_token_length: "length (generate_token bytes) = 2 * length bytes"
  by (induction bytes) (simp_all add: generate_token_def)

lemma prepare_config:
  assumes "fst (prepare env kind mode memory_mb w) = Inr c"
  shows "cf_control_token c = generate_token (pe_random env)" "cf_network_mode c = mode"
    "cf_overlay c = os_path (session_spec kind (w_vm w))"
    "cf_machine c = vm_machine (w_vm w)" "cf_accel c = ad_mode (vm_accel (w_vm w))"
    "vm_configured (w_vm (snd (prepare env kind mode memory_mb w))) = Some c"
  using assms by (auto simp: prepare_def Let_def res_bind_Inr_iff split: sum.splits prod.splits)

lemma dec_ascii: "c \<in> set (dec n) \<Longrightarrow> is_ascii c \<and> \<not> is_whitespace [c]"
proof -
  have "list_all (\<lambda>d. is_ascii (digit_char d) \<and> \<not> is_whitespace [digit_char d]) [0..<10]" by code_simp
  then show "c \<in> set (dec n) \<Longrightarrow> ?thesis" using dec_digits [of c n] by (auto simp: list_all_iff)
qed

lemma dropWhile_none: "\<forall>x\<in>set xs. \<not> P x \<Longrightarrow> dropWhile P xs = xs"
  by (cases xs) auto

lemma trim_dec: "trim (dec n) = dec n"
proof -
  let ?cs = "map (\<lambda>c. [c]) (dec n)"
  have chars: "utf8_chars (dec n) = ?cs" using dec_ascii by (intro utf8_chars_ascii) blast
  have "\<forall>x\<in>set ?cs. \<not> is_whitespace x" using dec_ascii by auto
  then have dw: "dropWhile is_whitespace ?cs = ?cs" "dropWhile is_whitespace (rev ?cs) = rev ?cs"
    by (simp_all add: dropWhile_none)
  have "concat ?cs = dec n" by (induction "dec n") auto
  then show ?thesis unfolding trim_def chars dw by (simp only: dw rev_rev_ident)
qed

lemma pid_roundtrip: "pid_read dir (pid_write True dir pid f) = Some pid"
proof -
  have "unat pid < 2 ^ 32" using unsigned_less [of pid, where ?'a = nat] by simp
  then have "parse_unsigned 10 (2 ^ 32) (dec (unat pid)) = Some (unat pid)" by (rule parse_unsigned_dec)
  then show ?thesis by (simp add: pid_read_def pid_write_def trim_dec)
qed

section \<open>Properties\<close>

text \<open>C26: At most one QEMU process runs. In every state the manager can reach, the processes it
  has started are none or the supervised one, software translation implies the q35 machine, and
  stopping leaves no process behind.\<close>

theorem one_machine_at_most:
  assumes "vm_step\<^sup>*\<^sup>* (vm_initial paths accel f) w"
  shows "length (w_procs w) \<le> 1 \<and> set (w_procs w) \<subseteq> set_option (vm_supervised (w_vm w))
    \<and> (ad_mode (vm_accel (w_vm w)) = Tcg \<longrightarrow> vm_machine (w_vm w) = Q35)
    \<and> w_procs (snd (vm_stop w)) = [] \<and> vm_supervised (w_vm (snd (vm_stop w))) = None"
proof -
  have inv: "vm_inv w" using vm_inv_run [OF assms vm_inv_initial] .
  from vm_stop_ends [OF inv] inv show ?thesis
    by (auto simp: vm_inv_def split: option.splits)
qed

definition sample_paths :: runtime_paths where
  "sample_paths =
     \<lparr>rp_qemu_system = ''/q/qemu'', rp_qemu_img = ''/q/qemu-img'', rp_kernel = ''/r/vmlinuz'',
      rp_initrd = None, rp_base_image = ''/r/base.raw'', rp_data_dir = ''/d'', rp_log_dir = ''/l''\<rparr>"

definition sample_prepare :: prepare_env where
  "sample_prepare =
     \<lparr>pe_img = sample_img, pe_remove_ok = True, pe_dir_ok = True, pe_qmp_port = Inr 4001,
      pe_console_port = Inr 4002, pe_agent_port = Inr 4003, pe_random = replicate 32 171\<rparr>"

definition sample_world :: vm_world where
  "sample_world = vm_initial sample_paths (accel_software ''test'') [''/r/base.raw'' \<mapsto> ''B'']"

lemma one_machine_at_most_witness:
  "w_procs (snd (vm_stop (snd (prepare sample_prepare FreePractice NetworkDisabled None sample_world)))) = []"
proof -
  have "vm_step\<^sup>*\<^sup>* (vm_initial sample_paths (accel_software ''test'') [''/r/base.raw'' \<mapsto> ''B''])
      (snd (prepare sample_prepare FreePractice NetworkDisabled None sample_world))"
    unfolding sample_world_def by (rule r_into_rtranclp) (rule vm_step.prepare)
  from one_machine_at_most [OF this] show ?thesis by blast
qed

lemma join_last: "\<exists>ps. join sep (xs @ [x]) = ps @ x"
proof (induction xs)
  case (Cons y ys)
  then obtain ps where "join sep (ys @ [x]) = ps @ x" by blast
  then have "join sep ((y # ys) @ [x]) = (y @ sep @ ps) @ x" by (cases "ys @ [x]") auto
  then show ?case by blast
qed simp

text \<open>The control token of a run is 64 hexadecimal digits, reaches the guest on the kernel
  command line, and is never shown: the QEMU command line rendered for the log and the
  diagnostics panel does not contain it.\<close>

theorem control_token_not_described:
  assumes "fst (prepare env kind mode memory_mb w) = Inr c" "length (pe_random env) = 32"
  shows "length (cf_control_token c) = 64 \<and> list_all is_ascii_hexdigit (cf_control_token c)
    \<and> sublist (''linuxlab.token='' @ cf_control_token c) (kernel_cmdline c)
    \<and> \<not> sublist (cf_control_token c) (describe c)"
proof -
  have tok: "cf_control_token c = generate_token (pe_random env)" using prepare_config(1) [OF assms(1)] .
  have hex: "list_all is_ascii_hexdigit (cf_control_token c)" "length (cf_control_token c) = 64"
    using tok generate_token_hex generate_token_length assms(2) by auto
  obtain xs where "kernel_cmdline c = join '' '' (xs @ [''linuxlab.token='' @ cf_control_token c])"
    unfolding kernel_cmdline_def by (metis (no_types) append_Cons append_Nil)
  then have "\<exists>ps. kernel_cmdline c = ps @ (''linuxlab.token='' @ cf_control_token c) @ []"
    using join_last by (metis append_Nil2)
  then have "sublist (''linuxlab.token='' @ cf_control_token c) (kernel_cmdline c)"
    unfolding sublist_def by blast
  with hex describe_hides_token [of c] show ?thesis by simp
qed

lemma control_token_not_described_witness:
  "\<exists>c. fst (prepare sample_prepare FreePractice NetworkDisabled None sample_world) = Inr c
     \<and> \<not> sublist (cf_control_token c) (describe c)"
proof -
  have "\<exists>c. fst (prepare sample_prepare FreePractice NetworkDisabled None sample_world) = Inr c"
    by (simp add: prepare_def sample_prepare_def sample_world_def vm_initial_def vm_new_def
        session_spec_def sample_paths_def overlay_ensure_def overlay_create_def path_exists_def
        free_practice_spec_def path_join_def create_args_def sample_img_def)
  then obtain c where c: "fst (prepare sample_prepare FreePractice NetworkDisabled None sample_world) = Inr c" ..
  have "length (pe_random sample_prepare) = 32" by (simp add: sample_prepare_def)
  from control_token_not_described [OF c this] c show ?thesis by blast
qed

lemma pid_read_clear: "pid_read dir (pid_clear dir f) = None"
  by (simp add: pid_read_def pid_clear_def)

text \<open>A process of an earlier run is ended only if it is the application's own QEMU. With any
  other program, or none, at the recorded pid nothing is killed; and what \<open>write\<close> records is what
  the next start reads.\<close>

theorem stale_process_reaped_only_if_ours:
  "pid_read dir (pid_write True dir pid (w_fs w)) = Some pid
    \<and> (case pid_read (rp_data_dir (vm_paths (w_vm w))) (w_fs w) of
         None \<Rightarrow> reap_stale_process exe terminated w = (Inr False, w)
       | Some old \<Rightarrow>
           (fst (reap_stale_process exe terminated w) = Inr True \<longleftrightarrow>
              terminated \<and> (\<exists>im. exe old = Some im
                \<and> eq_ignore_ascii_case (windows_file_name im) (windows_file_name (rp_qemu_system (vm_paths (w_vm w))))))
           \<and> (fst (reap_stale_process exe terminated w) \<noteq> Inr True \<longrightarrow>
                w_procs (snd (reap_stale_process exe terminated w)) = w_procs w)
           \<and> (\<forall>b. fst (reap_stale_process exe terminated w) = Inr b \<longrightarrow>
                pid_read (rp_data_dir (vm_paths (w_vm w))) (w_fs (snd (reap_stale_process exe terminated w))) = None))"
  by (auto simp: pid_roundtrip reap_stale_process_def kill_stale_def pid_read_clear Let_def
      split: option.splits if_splits)

lemma stale_process_reaped_only_if_ours_witness:
  "let w = sample_world\<lparr>w_fs := pid_write True ''/d'' 77 Map.empty\<rparr>
   in fst (reap_stale_process (\<lambda>_. Some ''C:/Windows/notepad.exe'') True w) \<noteq> Inr True
      \<and> w_procs (snd (reap_stale_process (\<lambda>_. Some ''C:/Windows/notepad.exe'') True w)) = []"
proof -
  let ?w = "sample_world\<lparr>w_fs := pid_write True ''/d'' 77 Map.empty\<rparr>"
  have "pid_read (rp_data_dir (vm_paths (w_vm ?w))) (w_fs ?w) = Some 77"
    by (simp add: sample_world_def vm_initial_def vm_new_def sample_paths_def pid_roundtrip)
  moreover have "\<not> eq_ignore_ascii_case (windows_file_name ''C:/Windows/notepad.exe'')
      (windows_file_name (rp_qemu_system (vm_paths (w_vm ?w))))"
    unfolding sample_world_def vm_initial_def vm_new_def sample_paths_def by code_simp
  moreover have "w_procs ?w = []" by (simp add: sample_world_def vm_initial_def)
  ultimately show ?thesis
    using stale_process_reaped_only_if_ours [where w = ?w and exe = "\<lambda>_. Some ''C:/Windows/notepad.exe''" and terminated = True]
    unfolding Let_def by (simp del: pid_write_def)
qed

text \<open>
  When the process cannot be started the manager is left in the transitional state, and stopping
  does not leave it.
\<close>

lemma failed_spawn_stays_starting:
  assumes "vm_supervised (w_vm w) = None" "se_spawn env = Inl e"
  shows "fst (vm_start env cfg w) = Inl e
    \<and> vm_current (w_vm (snd (vm_start env cfg w))) = VmStarting
    \<and> vm_current (w_vm (snd (vm_stop (snd (vm_start env cfg w))))) = VmStarting"
  using assms by (simp add: vm_start_def vm_stop_def Let_def)

end
