(* ===== verification/Machines.thy ===== *)
theory Machines
  imports Prelude
begin

text \<open>
  Two interfaces several components share. A machine has operations that keep an invariant, as long
  as they are admissible; an audited machine also relates every state to the ones before it. A codec
  is a pair of functions of which the second reads what the first writes.
\<close>

section \<open>Machines\<close>

locale machine =
  fixes step :: "'op \<Rightarrow> 's \<Rightarrow> 's"
    and inv :: "'s \<Rightarrow> bool"
    and admissible :: "'op \<Rightarrow> bool"
  assumes step_keeps: "inv s \<Longrightarrow> admissible op \<Longrightarrow> inv (step op s)"
begin

lemma run_keeps: "inv s \<Longrightarrow> list_all admissible ops \<Longrightarrow> inv (fold step ops s)"
  by (induction ops arbitrary: s) (auto intro: step_keeps)

end

locale audited_machine = machine step inv admissible
  for step :: "'op \<Rightarrow> 's \<Rightarrow> 's" and inv :: "'s \<Rightarrow> bool" and admissible :: "'op \<Rightarrow> bool" +
  fixes later :: "'s \<Rightarrow> 's \<Rightarrow> bool"
  assumes later_refl: "later s s"
    and later_trans: "later s t \<Longrightarrow> later t u \<Longrightarrow> later s u"
    and step_later: "inv s \<Longrightarrow> admissible op \<Longrightarrow> later s (step op s)"
begin

lemma run_later: "inv s \<Longrightarrow> list_all admissible ops \<Longrightarrow> later s (fold step ops s)"
proof (induction ops arbitrary: s)
  case (Cons op ops)
  then have "later (step op s) (fold step ops (step op s))" by (auto intro: step_keeps)
  with Cons.prems show ?case by (auto intro: later_trans step_later)
qed (simp add: later_refl)

lemma prefix_later:
  assumes "inv s" "list_all admissible (before @ after)"
  shows "later (fold step before s) (fold step (before @ after) s)"
  using assms by (auto intro: run_later run_keeps)

end

section \<open>Codecs\<close>

locale codec =
  fixes encode :: "'a \<Rightarrow> 'b"
    and decode :: "'b \<Rightarrow> 'a option"
    and valid :: "'a \<Rightarrow> bool"
  assumes decode_encode: "valid x \<Longrightarrow> decode (encode x) = Some x"
begin

lemma encode_eq_iff: "valid x \<Longrightarrow> valid y \<Longrightarrow> encode x = encode y \<longleftrightarrow> x = y"
  by (metis decode_encode option.inject)

lemma encode_inj_on: "inj_on encode {x. valid x}"
  by (rule inj_onI) (simp add: encode_eq_iff)

lemma decode_all: "list_all valid xs \<Longrightarrow> those (map (decode \<circ> encode) xs) = Some xs"
  by (induction xs) (simp_all add: decode_encode)

end

end
