(* ===== verification/Progress_Store.thy ===== *)
theory Progress_Store
  imports Mastery Validation Ordered_Map Machines
begin

text \<open>
  Local progress storage (crates/progress-store/src/lib.rs). The database is a record of its
  tables: the keyed ones are ordered maps on their primary key, the others lists of rows in
  order of insertion with the AUTOINCREMENT counter beside them. Text columns hold the strings
  the code writes, integer columns are mathematical integers (the code stays within
  \<^verbatim>\<open>i64\<close>), and reading a column into a narrower type fails as rusqlite's conversion does.
  An operation returns the error, leaving the database as it was, or its value and the new
  database. The calls of the SQLite library itself are not modelled.
\<close>

section \<open>Retention policy\<close>

datatype history_retention = DoNotSave | LastSession | Days u32 | Forever

primrec as_setting :: "history_retention \<Rightarrow> string" where
  "as_setting DoNotSave = ''none''"
| "as_setting LastSession = ''session''"
| "as_setting (Days d) = ''days:'' @ dec (unat d)"
| "as_setting Forever = ''forever''"

definition parse_retention :: "string \<Rightarrow> history_retention" where
  "parse_retention value =
     (if value = ''session'' then LastSession
      else if value = ''forever'' then Forever
      else case Option.bind (strip_prefix ''days:'' value) (parse_unsigned 10 (2 ^ 32)) of
             Some d \<Rightarrow> Days (word_of_nat d)
           | None \<Rightarrow> DoNotSave)"

lemma unat_u32_lt: "unat (d :: u32) < 4294967296"
  using unsigned_less [of d, where ?'a = nat] by simp

lemma parse_as_setting: "parse_retention (as_setting r) = r"
proof (cases r)
  case (Days d)
  have "strip_prefix ''days:'' (''days:'' @ dec (unat d)) = Some (dec (unat d))"
    by (rule strip_prefix_append)
  then show ?thesis
    using Days unat_u32_lt [of d] by (simp add: parse_retention_def parse_unsigned_dec)
qed (simp_all add: parse_retention_def strip_prefix_def starts_with_def)

section \<open>Column encodings\<close>

primrec status_str :: "lesson_status \<Rightarrow> string" where
  "status_str NotStarted = ''not-started''"
| "status_str InProgress = ''in-progress''"
| "status_str StatusPassed = ''passed''"
| "status_str StatusNeedsReview = ''needs-review''"

definition parse_status :: "string \<Rightarrow> lesson_status" where
  "parse_status value =
     (if value = ''passed'' then StatusPassed
      else if value = ''needs-review'' then StatusNeedsReview
      else if value = ''in-progress'' then InProgress
      else NotStarted)"

primrec mastery_str :: "mastery_status \<Rightarrow> string" where
  "mastery_str Mastered = ''mastered''"
| "mastery_str Strong = ''strong''"
| "mastery_str Passed = ''passed''"
| "mastery_str NeedsReview = ''needs-review''"
| "mastery_str ReviewRequired = ''review-required''"

definition parse_mastery :: "string \<Rightarrow> mastery_status option" where
  "parse_mastery value =
     (if value = ''mastered'' then Some Mastered
      else if value = ''strong'' then Some Strong
      else if value = ''passed'' then Some Passed
      else if value = ''needs-review'' then Some NeedsReview
      else if value = ''review-required'' then Some ReviewRequired
      else None)"

lemma parse_status_str [simp]: "parse_status (status_str s) = s"
  by (cases s) (simp_all add: parse_status_def)

lemma parse_mastery_str [simp]: "parse_mastery (mastery_str m) = Some m"
  by (cases m) (simp_all add: parse_mastery_def)

text \<open>Each of the three texts is a codec, so different values have different texts.\<close>

interpretation retention_text: codec as_setting "\<lambda>v. Some (parse_retention v)" "\<lambda>_. True"
  by unfold_locales (simp add: parse_as_setting)

interpretation status_text: codec status_str "\<lambda>v. Some (parse_status v)" "\<lambda>_. True"
  by unfold_locales simp

interpretation mastery_text: codec mastery_str parse_mastery "\<lambda>_. True"
  by unfold_locales simp

lemmas status_str_eq [simp] = status_text.encode_eq_iff [OF TrueI TrueI]
lemmas mastery_str_eq [simp] = mastery_text.encode_eq_iff [OF TrueI TrueI]

section \<open>The tables\<close>

record profile_row =
  pr_id :: int
  pr_name :: string
  pr_created_at :: int
  pr_last_active_at :: int

record lesson_row =
  lr_status :: string
  lr_attempts :: int
  lr_hints_used :: int
  lr_solution_revealed :: int
  lr_mastery :: "string option"
  lr_mastery_score :: int
  lr_first_started_at :: "int option"
  lr_completed_at :: "int option"
  lr_last_attempt_at :: "int option"

record attempt_row =
  ar_id :: int
  ar_profile_id :: int
  ar_lesson_id :: string
  ar_task_id :: string
  ar_passed :: int
  ar_failure_category :: "string option"
  ar_hints_used :: int
  ar_created_at :: int

record module_row =
  mr_completed_lessons :: int
  mr_total_lessons :: int
  mr_assessment_score :: "int option"

record command_row =
  cr_id :: int
  cr_profile_id :: int
  cr_session_id :: string
  cr_command :: string
  cr_created_at :: int

record snapshot_row =
  sr_id :: int
  sr_profile_id :: int
  sr_name :: string
  sr_disk_path :: string
  sr_created_at :: int
  sr_runtime_version :: string
  sr_size_bytes :: int

record database =
  db_version :: int
  db_profiles :: "profile_row list"
  db_next_profile :: int
  db_lessons :: "(int \<times> string, lesson_row) btree_map"
  db_attempts :: "attempt_row list"
  db_next_attempt :: int
  db_modules :: "(int \<times> string, module_row) btree_map"
  db_snapshots :: "snapshot_row list"
  db_next_snapshot :: int
  db_settings :: "(int \<times> string, string) btree_map"
  db_achievements :: "((int \<times> string) \<times> int) list"
  db_commands :: "command_row list"
  db_next_command :: int
  db_metrics :: "(int \<times> string, int) btree_map"

definition empty_tables :: "int \<Rightarrow> database" where
  "empty_tables version =
     \<lparr>db_version = version, db_profiles = [], db_next_profile = 1, db_lessons = [],
      db_attempts = [], db_next_attempt = 1, db_modules = [], db_snapshots = [],
      db_next_snapshot = 1, db_settings = [], db_achievements = [], db_commands = [],
      db_next_command = 1, db_metrics = []\<rparr>"

datatype store_error = ForeignKey | OutOfRange | NewerSchema int int

section \<open>Migrations\<close>

text \<open>
  \<^verbatim>\<open>migrations::apply\<close> on a database whose \<^verbatim>\<open>user_version\<close> is \<open>db_version\<close>. A migration is its
  version and its effect on the tables; the only released one creates them.
\<close>

definition migrations :: "(int \<times> (database \<Rightarrow> database)) list" where
  "migrations = [(1, \<lambda>_. empty_tables 0)]"

definition latest_version :: int where
  "latest_version = (if migrations = [] then 0 else fst (last migrations))"

fun run_migrations :: "(int \<times> (database \<Rightarrow> database)) list \<Rightarrow> int \<Rightarrow> database \<Rightarrow> database" where
  "run_migrations [] current db = db"
| "run_migrations ((version, sql) # ms) current db =
     (if version \<le> current then run_migrations ms current db
      else run_migrations ms current ((sql db)\<lparr>db_version := version\<rparr>))"

definition apply_migrations :: "database \<Rightarrow> store_error + (int \<times> database)" where
  "apply_migrations db =
     (let current = db_version db; target = latest_version in
      if target < current then Inl (NewerSchema current target)
      else Inr (target, run_migrations migrations current db))"

section \<open>Operations\<close>

definition profile_exists :: "int \<Rightarrow> database \<Rightarrow> bool" where
  "profile_exists pid db \<longleftrightarrow> pid \<in> set (map pr_id (db_profiles db))"

definition ensure_profile :: "string \<Rightarrow> int \<Rightarrow> database \<Rightarrow> int \<times> database" where
  "ensure_profile name now db =
     (case List.find (\<lambda>p. pr_name p = name) (db_profiles db) of
        Some p \<Rightarrow> (pr_id p, db\<lparr>db_profiles :=
            map (\<lambda>q. if pr_id q = pr_id p then q\<lparr>pr_last_active_at := now\<rparr> else q) (db_profiles db)\<rparr>)
      | None \<Rightarrow> (db_next_profile db,
            db\<lparr>db_profiles := db_profiles db @
                 [\<lparr>pr_id = db_next_profile db, pr_name = name, pr_created_at = now,
                   pr_last_active_at = now\<rparr>],
               db_next_profile := db_next_profile db + 1\<rparr>))"

text \<open>
  \<^verbatim>\<open>INSERT ... ON CONFLICT (profile_id, lesson_id) DO UPDATE\<close>: the foreign key is checked
  when a row is inserted.
\<close>

definition upsert_lesson ::
  "int \<Rightarrow> string \<Rightarrow> lesson_row \<Rightarrow> (lesson_row \<Rightarrow> lesson_row) \<Rightarrow> database \<Rightarrow> store_error + database" where
  "upsert_lesson pid lid fresh upd db =
     (case bt_get (db_lessons db) (pid, lid) of
        Some row \<Rightarrow> Inr (db\<lparr>db_lessons := bt_insert (pid, lid) (upd row) (db_lessons db)\<rparr>)
      | None \<Rightarrow>
          if profile_exists pid db
          then Inr (db\<lparr>db_lessons := bt_insert (pid, lid) fresh (db_lessons db)\<rparr>)
          else Inl ForeignKey)"

definition new_lesson_row :: "int \<Rightarrow> int \<Rightarrow> int \<Rightarrow> lesson_row" where
  "new_lesson_row attempts hints now =
     \<lparr>lr_status = ''in-progress'', lr_attempts = attempts, lr_hints_used = hints,
      lr_solution_revealed = 0, lr_mastery = None, lr_mastery_score = 0,
      lr_first_started_at = Some now, lr_completed_at = None, lr_last_attempt_at = Some now\<rparr>"

definition start_lesson :: "int \<Rightarrow> string \<Rightarrow> int \<Rightarrow> database \<Rightarrow> store_error + database" where
  "start_lesson pid lid now =
     upsert_lesson pid lid (new_lesson_row 0 0 now)
       (\<lambda>r. r\<lparr>lr_last_attempt_at := Some now,
              lr_status := (if lr_status r = ''not-started'' then ''in-progress'' else lr_status r)\<rparr>)"

definition record_lesson_attempt :: "int \<Rightarrow> string \<Rightarrow> int \<Rightarrow> database \<Rightarrow> store_error + database" where
  "record_lesson_attempt pid lid now =
     upsert_lesson pid lid (new_lesson_row 1 0 now)
       (\<lambda>r. r\<lparr>lr_attempts := lr_attempts r + 1, lr_last_attempt_at := Some now\<rparr>)"

definition add_hint_used :: "int \<Rightarrow> string \<Rightarrow> int \<Rightarrow> database \<Rightarrow> store_error + database" where
  "add_hint_used pid lid now =
     upsert_lesson pid lid (new_lesson_row 0 1 now)
       (\<lambda>r. r\<lparr>lr_hints_used := lr_hints_used r + 1, lr_last_attempt_at := Some now\<rparr>)"

text \<open>Reading a row: the counters must fit the Rust integer they are read into.\<close>

definition in_width :: "nat \<Rightarrow> int \<Rightarrow> bool" where
  "in_width w i \<longleftrightarrow> 0 \<le> i \<and> i < 2 ^ w"

definition read_lesson_row :: "int \<Rightarrow> string \<Rightarrow> lesson_row \<Rightarrow> store_error + lesson_progress" where
  "read_lesson_row pid lid r =
     (if in_width 32 (lr_attempts r) \<and> in_width 32 (lr_hints_used r) \<and> in_width 8 (lr_mastery_score r)
      then Inr \<lparr>p_profile_id = pid, p_lesson_id = lid, p_status = parse_status (lr_status r),
                p_attempts = word_of_int (lr_attempts r), p_hints_used = word_of_int (lr_hints_used r),
                p_solution_revealed = (lr_solution_revealed r \<noteq> 0),
                p_mastery = Option.bind (lr_mastery r) parse_mastery,
                p_mastery_score = word_of_int (lr_mastery_score r),
                p_first_started_at = lr_first_started_at r, p_completed_at = lr_completed_at r,
                p_last_attempt_at = lr_last_attempt_at r\<rparr>
      else Inl OutOfRange)"

definition lesson_progress_of :: "int \<Rightarrow> string \<Rightarrow> database \<Rightarrow> store_error + lesson_progress option" where
  "lesson_progress_of pid lid db =
     (case bt_get (db_lessons db) (pid, lid) of
        None \<Rightarrow> Inr None
      | Some r \<Rightarrow> map_sum id Some (read_lesson_row pid lid r))"

fun collect_rows :: "('e + 'a) list \<Rightarrow> 'e + 'a list" where
  "collect_rows [] = Inr []"
| "collect_rows (r # rs) = res_bind r (\<lambda>x. res_bind (collect_rows rs) (\<lambda>xs. Inr (x # xs)))"

definition all_lesson_progress :: "int \<Rightarrow> database \<Rightarrow> store_error + lesson_progress list" where
  "all_lesson_progress pid db =
     collect_rows (map (\<lambda>((_, lid), r). read_lesson_row pid lid r)
       (filter (\<lambda>((p, _), _). p = pid) (db_lessons db)))"

text \<open>
  The row a completion inserts, and what it makes of a row that is there: mastery, status and
  score are overwritten, the counters add up, the first completion's time stays.
\<close>

definition completion_status :: "mastery_status \<Rightarrow> lesson_status" where
  "completion_status m = (if needs_revisiting m then StatusNeedsReview else StatusPassed)"

definition completion_row :: "mastery_status \<Rightarrow> u32 \<Rightarrow> bool \<Rightarrow> int \<Rightarrow> lesson_row" where
  "completion_row best hints_used solution_revealed now =
     \<lparr>lr_status = status_str (completion_status best), lr_attempts = 1,
      lr_hints_used = uint hints_used, lr_solution_revealed = (if solution_revealed then 1 else 0),
      lr_mastery = Some (mastery_str best), lr_mastery_score = uint (mastery_score best),
      lr_first_started_at = Some now, lr_completed_at = Some now, lr_last_attempt_at = Some now\<rparr>"

definition complete_row :: "mastery_status \<Rightarrow> u32 \<Rightarrow> bool \<Rightarrow> int \<Rightarrow> lesson_row \<Rightarrow> lesson_row" where
  "complete_row best hints_used solution_revealed now r =
     r\<lparr>lr_status := status_str (completion_status best), lr_attempts := lr_attempts r + 1,
       lr_hints_used := lr_hints_used r + uint hints_used,
       lr_solution_revealed := (if lr_solution_revealed r \<noteq> 0 \<or> solution_revealed then 1 else 0),
       lr_mastery := Some (mastery_str best), lr_mastery_score := uint (mastery_score best),
       lr_completed_at := (case lr_completed_at r of None \<Rightarrow> Some now | c \<Rightarrow> c),
       lr_last_attempt_at := Some now\<rparr>"

definition complete_lesson ::
  "int \<Rightarrow> string \<Rightarrow> mastery_status \<Rightarrow> u32 \<Rightarrow> bool \<Rightarrow> int \<Rightarrow> database \<Rightarrow> store_error + (mastery_status \<times> database)" where
  "complete_lesson pid lid mastery hints_used solution_revealed now db =
     res_bind (lesson_progress_of pid lid db) (\<lambda>existing.
       let best = (case Option.bind existing p_mastery of
             Some previous \<Rightarrow> max previous mastery | None \<Rightarrow> mastery)
       in map_sum id (Pair best)
            (upsert_lesson pid lid (completion_row best hints_used solution_revealed now)
               (complete_row best hints_used solution_revealed now) db))"

text \<open>A task attempt as the desktop records it (\<^verbatim>\<open>TaskAttempt\<close> of shared-types).\<close>

record task_attempt =
  ta_profile_id :: int
  ta_lesson_id :: string
  ta_task_id :: string
  ta_passed :: bool
  ta_failure_category :: "failure_category option"
  ta_hints_used :: u32
  ta_created_at :: int

definition record_task_attempt :: "task_attempt \<Rightarrow> database \<Rightarrow> store_error + (int \<times> database)" where
  "record_task_attempt a db =
     (if profile_exists (ta_profile_id a) db then
        Inr (db_next_attempt db,
          db\<lparr>db_attempts := db_attempts db @
               [\<lparr>ar_id = db_next_attempt db, ar_profile_id = ta_profile_id a,
                 ar_lesson_id = ta_lesson_id a, ar_task_id = ta_task_id a,
                 ar_passed = (if ta_passed a then 1 else 0),
                 ar_failure_category = map_option failure_category_key (ta_failure_category a),
                 ar_hints_used = uint (ta_hints_used a), ar_created_at = ta_created_at a\<rparr>],
             db_next_attempt := db_next_attempt db + 1\<rparr>)
      else Inl ForeignKey)"

definition upsert_module_progress :: "module_progress \<Rightarrow> database \<Rightarrow> store_error + database" where
  "upsert_module_progress p db =
     (let key = (mp_profile_id p, mp_module_id p);
          score = map_option uint (mp_assessment_score p);
          row = \<lparr>mr_completed_lessons = uint (mp_completed_lessons p),
                 mr_total_lessons = uint (mp_total_lessons p), mr_assessment_score = score\<rparr>
      in case bt_get (db_modules db) key of
           Some r \<Rightarrow> Inr (db\<lparr>db_modules := bt_insert key
               (row\<lparr>mr_assessment_score :=
                  (case score of None \<Rightarrow> mr_assessment_score r | s \<Rightarrow> s)\<rparr>) (db_modules db)\<rparr>)
         | None \<Rightarrow>
             if profile_exists (mp_profile_id p) db
             then Inr (db\<lparr>db_modules := bt_insert key row (db_modules db)\<rparr>)
             else Inl ForeignKey)"

text \<open>
  \<^verbatim>\<open>LIMIT ?\<close> with \<^verbatim>\<open>limit as i64\<close>: SQLite reads a negative bound as no bound.
\<close>

definition sql_limit :: "u64 \<Rightarrow> 'a list \<Rightarrow> 'a list" where
  "sql_limit limit xs = (if sint limit < 0 then xs else take (unat limit) xs)"

text \<open>
  The failing categories of a profile and how often each occurs, most frequent first; groups
  come in the order of the index on the category, which decides ties.
\<close>

definition failing_keys :: "int \<Rightarrow> database \<Rightarrow> string list" where
  "failing_keys pid db =
     List.map_filter ar_failure_category
       (filter (\<lambda>a. ar_profile_id a = pid \<and> ar_passed a = 0) (db_attempts db))"

definition common_failures :: "int \<Rightarrow> u64 \<Rightarrow> database \<Rightarrow> (string \<times> nat) list" where
  "common_failures pid limit db =
     (let keys = failing_keys pid db;
          groups = map (\<lambda>k. (k, count_list keys k)) (sort (remdups keys))
      in sql_limit limit (sort_key (\<lambda>(_, hits). - int hits) groups))"

definition set_setting :: "int \<Rightarrow> string \<Rightarrow> string \<Rightarrow> database \<Rightarrow> store_error + database" where
  "set_setting pid key val db =
     (if bt_contains (db_settings db) (pid, key) \<or> profile_exists pid db
      then Inr (db\<lparr>db_settings := bt_insert (pid, key) val (db_settings db)\<rparr>)
      else Inl ForeignKey)"

definition setting :: "int \<Rightarrow> string \<Rightarrow> database \<Rightarrow> string option" where
  "setting pid key db = bt_get (db_settings db) (pid, key)"

definition history_retention_of :: "int \<Rightarrow> database \<Rightarrow> history_retention" where
  "history_retention_of pid db =
     (case setting pid ''history.retention'' db of Some v \<Rightarrow> parse_retention v | None \<Rightarrow> DoNotSave)"

definition record_command :: "int \<Rightarrow> string \<Rightarrow> string \<Rightarrow> int \<Rightarrow> database \<Rightarrow> store_error + (bool \<times> database)" where
  "record_command pid session command now db =
     (if history_retention_of pid db = DoNotSave then Inr (False, db)
      else if profile_exists pid db then
        Inr (True, db\<lparr>db_commands := db_commands db @
               [\<lparr>cr_id = db_next_command db, cr_profile_id = pid, cr_session_id = session,
                 cr_command = command, cr_created_at = now\<rparr>],
             db_next_command := db_next_command db + 1\<rparr>)
      else Inl ForeignKey)"

definition delete_commands :: "(command_row \<Rightarrow> bool) \<Rightarrow> database \<Rightarrow> nat \<times> database" where
  "delete_commands p db =
     (length (filter p (db_commands db)), db\<lparr>db_commands := filter (\<lambda>c. \<not> p c) (db_commands db)\<rparr>)"

definition prune_command_history :: "int \<Rightarrow> string \<Rightarrow> int \<Rightarrow> database \<Rightarrow> nat \<times> database" where
  "prune_command_history pid current_session now db =
     (case history_retention_of pid db of
        DoNotSave \<Rightarrow> delete_commands (\<lambda>c. cr_profile_id c = pid) db
      | LastSession \<Rightarrow>
          delete_commands (\<lambda>c. cr_profile_id c = pid \<and> cr_session_id c \<noteq> current_session) db
      | Days days \<Rightarrow>
          let cutoff = now - uint days * 86400
          in delete_commands (\<lambda>c. cr_profile_id c = pid \<and> cr_created_at c < cutoff) db
      | Forever \<Rightarrow> (0, db))"

definition command_history :: "int \<Rightarrow> u64 \<Rightarrow> database \<Rightarrow> string list" where
  "command_history pid limit db =
     map cr_command (sql_limit limit
       (sort_key (\<lambda>c. (- cr_created_at c, - cr_id c))
         (filter (\<lambda>c. cr_profile_id c = pid) (db_commands db))))"

definition record_snapshot ::
  "int \<Rightarrow> string \<Rightarrow> string \<Rightarrow> string \<Rightarrow> u64 \<Rightarrow> int \<Rightarrow> database \<Rightarrow> store_error + (int \<times> database)" where
  "record_snapshot pid name disk_path version size_bytes now db =
     (if profile_exists pid db then
        Inr (db_next_snapshot db,
          db\<lparr>db_snapshots := db_snapshots db @
               [\<lparr>sr_id = db_next_snapshot db, sr_profile_id = pid, sr_name = name,
                 sr_disk_path = disk_path, sr_created_at = now, sr_runtime_version = version,
                 sr_size_bytes = sint size_bytes\<rparr>],
             db_next_snapshot := db_next_snapshot db + 1\<rparr>)
      else Inl ForeignKey)"

text \<open>Newest first; rows of the same second stay in the order of their ids.\<close>

definition snapshots :: "int \<Rightarrow> database \<Rightarrow> (int \<times> string \<times> string \<times> int) list" where
  "snapshots pid db =
     map (\<lambda>s. (sr_id s, sr_name s, sr_disk_path s, sr_created_at s))
       (sort_key (\<lambda>s. - sr_created_at s) (filter (\<lambda>s. sr_profile_id s = pid) (db_snapshots db)))"

definition forget_snapshot :: "int \<Rightarrow> int \<Rightarrow> database \<Rightarrow> database" where
  "forget_snapshot pid sid db =
     db\<lparr>db_snapshots := filter (\<lambda>s. \<not> (sr_profile_id s = pid \<and> sr_id s = sid)) (db_snapshots db)\<rparr>"

definition unlock_achievement :: "int \<Rightarrow> string \<Rightarrow> int \<Rightarrow> database \<Rightarrow> store_error + (bool \<times> database)" where
  "unlock_achievement pid aid now db =
     (if (pid, aid) \<in> set (map fst (db_achievements db)) then Inr (False, db)
      else if profile_exists pid db
      then Inr (True, db\<lparr>db_achievements := db_achievements db @ [((pid, aid), now)]\<rparr>)
      else Inl ForeignKey)"

definition achievements :: "int \<Rightarrow> database \<Rightarrow> (string \<times> int) list" where
  "achievements pid db =
     sort_key snd (List.map_filter (\<lambda>((p, aid), at). if p = pid then Some (aid, at) else None)
       (db_achievements db))"

definition metric :: "int \<Rightarrow> string \<Rightarrow> database \<Rightarrow> int" where
  "metric pid key db = (case bt_get (db_metrics db) (pid, key) of Some v \<Rightarrow> v | None \<Rightarrow> 0)"

definition bump_metric :: "int \<Rightarrow> string \<Rightarrow> int \<Rightarrow> database \<Rightarrow> store_error + (int \<times> database)" where
  "bump_metric pid key by db =
     (case bt_get (db_metrics db) (pid, key) of
        Some v \<Rightarrow> Inr (v + by, db\<lparr>db_metrics := bt_insert (pid, key) (v + by) (db_metrics db)\<rparr>)
      | None \<Rightarrow>
          if profile_exists pid db
          then Inr (by, db\<lparr>db_metrics := bt_insert (pid, key) by (db_metrics db)\<rparr>)
          else Inl ForeignKey)"

text \<open>The seven tables that \<^verbatim>\<open>reset_profile\<close> clears; the profile and its settings stay.\<close>

definition reset_profile :: "int \<Rightarrow> database \<Rightarrow> database" where
  "reset_profile pid db =
     db\<lparr>db_lessons := filter (\<lambda>((p, _), _). p \<noteq> pid) (db_lessons db),
        db_attempts := filter (\<lambda>a. ar_profile_id a \<noteq> pid) (db_attempts db),
        db_modules := filter (\<lambda>((p, _), _). p \<noteq> pid) (db_modules db),
        db_achievements := filter (\<lambda>((p, _), _). p \<noteq> pid) (db_achievements db),
        db_commands := filter (\<lambda>c. cr_profile_id c \<noteq> pid) (db_commands db),
        db_metrics := filter (\<lambda>((p, _), _). p \<noteq> pid) (db_metrics db),
        db_snapshots := filter (\<lambda>s. sr_profile_id s \<noteq> pid) (db_snapshots db)\<rparr>"

section \<open>Sequences of operations\<close>

datatype store_op =
    OpStart int string int
  | OpLessonAttempt int string int
  | OpHint int string int
  | OpComplete int string mastery_status u32 bool int
  | OpTaskAttempt task_attempt
  | OpProfile string int
  | OpModule module_progress
  | OpSetting int string string
  | OpCommand int string string int
  | OpPrune int string int
  | OpSnapshot int string string string u64 int
  | OpForget int int
  | OpAchievement int string int
  | OpMetric int string int
  | OpReset int

primrec store_step :: "store_op \<Rightarrow> database \<Rightarrow> store_error + database" where
  "store_step (OpStart pid lid now) db = start_lesson pid lid now db"
| "store_step (OpLessonAttempt pid lid now) db = record_lesson_attempt pid lid now db"
| "store_step (OpHint pid lid now) db = add_hint_used pid lid now db"
| "store_step (OpComplete pid lid m h s now) db = map_sum id snd (complete_lesson pid lid m h s now db)"
| "store_step (OpTaskAttempt a) db = map_sum id snd (record_task_attempt a db)"
| "store_step (OpProfile name now) db = Inr (snd (ensure_profile name now db))"
| "store_step (OpModule p) db = upsert_module_progress p db"
| "store_step (OpSetting pid k v) db = set_setting pid k v db"
| "store_step (OpCommand pid s c now) db = map_sum id snd (record_command pid s c now db)"
| "store_step (OpPrune pid s now) db = Inr (snd (prune_command_history pid s now db))"
| "store_step (OpSnapshot pid n d v b now) db = map_sum id snd (record_snapshot pid n d v b now db)"
| "store_step (OpForget pid i) db = Inr (forget_snapshot pid i db)"
| "store_step (OpAchievement pid a now) db = map_sum id snd (unlock_achievement pid a now db)"
| "store_step (OpMetric pid k b) db = map_sum id snd (bump_metric pid k b db)"
| "store_step (OpReset pid) db = Inr (reset_profile pid db)"

text \<open>A failed statement leaves the database as it was.\<close>

definition store_do :: "store_op \<Rightarrow> database \<Rightarrow> database" where
  "store_do op db = (case store_step op db of Inl _ \<Rightarrow> db | Inr db' \<Rightarrow> db')"

definition store_run :: "store_op list \<Rightarrow> database \<Rightarrow> database" where
  "store_run ops db = fold store_do ops db"

section \<open>The invariant\<close>

definition wf_lesson_row :: "lesson_row \<Rightarrow> bool" where
  "wf_lesson_row r \<longleftrightarrow>
     0 \<le> lr_attempts r \<and> 0 \<le> lr_hints_used r \<and> lr_solution_revealed r \<in> {0, 1}
     \<and> lr_first_started_at r \<noteq> None \<and> lr_last_attempt_at r \<noteq> None
     \<and> (case lr_mastery r of
          None \<Rightarrow> lr_status r = status_str InProgress \<and> lr_mastery_score r = 0 \<and> lr_completed_at r = None
        | Some s \<Rightarrow> lr_completed_at r \<noteq> None
            \<and> (case parse_mastery s of
                 None \<Rightarrow> False
               | Some m \<Rightarrow> s = mastery_str m \<and> lr_mastery_score r = uint (mastery_score m)
                   \<and> lr_status r = status_str (completion_status m)))"

definition store_inv :: "database \<Rightarrow> bool" where
  "store_inv db \<longleftrightarrow>
     bt_invar (db_lessons db)
     \<and> (\<forall>((pid, lid), r) \<in> set (db_lessons db). profile_exists pid db \<and> wf_lesson_row r)
     \<and> distinct (map pr_id (db_profiles db)) \<and> distinct (map pr_name (db_profiles db))
     \<and> (\<forall>p \<in> set (db_profiles db). pr_id p < db_next_profile db)
     \<and> (\<forall>c \<in> set (db_commands db). profile_exists (cr_profile_id c) db \<and> cr_id c < db_next_command db)
     \<and> distinct (map cr_id (db_commands db))
     \<and> distinct (map fst (db_achievements db))"

lemma wf_lesson_row_new: "0 \<le> a \<Longrightarrow> 0 \<le> h \<Longrightarrow> wf_lesson_row (new_lesson_row a h now)"
  by (simp add: wf_lesson_row_def new_lesson_row_def)

lemma store_inv_put:
  assumes "store_inv db" "profile_exists pid db" "wf_lesson_row r"
  shows "store_inv (db\<lparr>db_lessons := bt_insert (pid, lid) r (db_lessons db)\<rparr>)"
  using assms bt_insert_mem [of _ "(pid, lid)" r "db_lessons db"]
  by (fastforce simp: store_inv_def bt_invar_insert profile_exists_def)

lemma store_inv_row:
  assumes "store_inv db" "bt_get (db_lessons db) (pid, lid) = Some r"
  shows "wf_lesson_row r" "profile_exists pid db"
  using assms bt_get_mem [of "db_lessons db" "(pid, lid)" r] by (auto simp: store_inv_def)

lemma upsert_lesson_inv:
  assumes "upsert_lesson pid lid fresh upd db = Inr db'" "store_inv db"
    and "wf_lesson_row fresh" "\<And>r. wf_lesson_row r \<Longrightarrow> wf_lesson_row (upd r)"
  shows "store_inv db'"
  using assms store_inv_row [OF assms(2), of pid lid]
  by (auto simp: upsert_lesson_def intro!: store_inv_put split: option.splits if_splits)

lemma wf_lesson_row_started: "wf_lesson_row r \<Longrightarrow> lr_status r \<noteq> ''not-started''"
  by (auto simp: wf_lesson_row_def completion_status_def split: option.splits if_splits)

lemma wf_lesson_row_touch: "wf_lesson_row r \<Longrightarrow> wf_lesson_row (r\<lparr>lr_last_attempt_at := Some now\<rparr>)"
  by (auto simp: wf_lesson_row_def split: option.splits)

lemma wf_lesson_row_count:
  "wf_lesson_row r \<Longrightarrow>
     wf_lesson_row (r\<lparr>lr_attempts := lr_attempts r + 1, lr_last_attempt_at := Some now\<rparr>)"
  "wf_lesson_row r \<Longrightarrow>
     wf_lesson_row (r\<lparr>lr_hints_used := lr_hints_used r + 1, lr_last_attempt_at := Some now\<rparr>)"
  by (auto simp: wf_lesson_row_def split: option.splits)

lemma wf_complete_row: "wf_lesson_row r \<Longrightarrow> wf_lesson_row (complete_row best h q now r)"
  by (auto simp: wf_lesson_row_def complete_row_def split: option.splits)

lemma wf_completion_row: "wf_lesson_row (completion_row best h q now)"
  by (simp add: wf_lesson_row_def completion_row_def)

lemma complete_lesson_Inr:
  assumes "complete_lesson pid lid m h q now db = Inr (best, db')"
  obtains ex where "lesson_progress_of pid lid db = Inr ex"
    "best = (case Option.bind ex p_mastery of Some prev \<Rightarrow> max prev m | None \<Rightarrow> m)"
    "upsert_lesson pid lid (completion_row best h q now) (complete_row best h q now) db = Inr db'"
proof -
  obtain ex where ex: "lesson_progress_of pid lid db = Inr ex"
    using assms by (auto simp: complete_lesson_def res_bind_Inr_iff)
  show thesis
    using assms that [OF ex] unfolding complete_lesson_def ex res_bind_simps Let_def
    by (auto simp: map_sum_def split: sum.splits)
qed

lemma complete_lesson_inv:
  "complete_lesson pid lid m h q now db = Inr (best, db') \<Longrightarrow> store_inv db \<Longrightarrow> store_inv db'"
  by (erule complete_lesson_Inr, erule upsert_lesson_inv) (simp_all add: wf_complete_row wf_completion_row)

lemma lesson_ops_inv:
  assumes "store_inv db"
  shows "start_lesson pid lid now db = Inr db' \<Longrightarrow> store_inv db'"
    and "record_lesson_attempt pid lid now db = Inr db' \<Longrightarrow> store_inv db'"
    and "add_hint_used pid lid now db = Inr db' \<Longrightarrow> store_inv db'"
proof -
  show "start_lesson pid lid now db = Inr db' \<Longrightarrow> store_inv db'" unfolding start_lesson_def
    by (erule upsert_lesson_inv [OF _ assms];
        simp add: wf_lesson_row_new wf_lesson_row_started wf_lesson_row_touch)
  show "record_lesson_attempt pid lid now db = Inr db' \<Longrightarrow> store_inv db'" unfolding record_lesson_attempt_def
    by (erule upsert_lesson_inv [OF _ assms]; simp add: wf_lesson_row_new wf_lesson_row_count)
  show "add_hint_used pid lid now db = Inr db' \<Longrightarrow> store_inv db'" unfolding add_hint_used_def
    by (erule upsert_lesson_inv [OF _ assms]; simp add: wf_lesson_row_new wf_lesson_row_count)
qed

lemma ensure_profile_inv: "store_inv db \<Longrightarrow> store_inv (snd (ensure_profile name now db))"
proof -
  assume inv: "store_inv db"
  show ?thesis
  proof (cases "List.find (\<lambda>p. pr_name p = name) (db_profiles db)")
    case None
    then have "name \<notin> set (map pr_name (db_profiles db))" by (auto simp: find_None_iff_all)
    moreover have "db_next_profile db \<notin> set (map pr_id (db_profiles db))"
      using inv by (force simp: store_inv_def)
    ultimately show ?thesis
      using inv None by (fastforce simp: store_inv_def ensure_profile_def profile_exists_def)
  next
    case (Some p)
    let ?f = "\<lambda>q. if pr_id q = pr_id p then q\<lparr>pr_last_active_at := now\<rparr> else q"
    have m: "map pr_id (map ?f (db_profiles db)) = map pr_id (db_profiles db)"
      "map pr_name (map ?f (db_profiles db)) = map pr_name (db_profiles db)" by auto
    have lt: "\<forall>p\<in>set (map ?f (db_profiles db)). pr_id p < db_next_profile db"
      using inv by (auto simp: store_inv_def)
    show ?thesis
      using inv Some lt unfolding store_inv_def ensure_profile_def profile_exists_def
      by (simp add: m del: map_map set_map list.set_map)
  qed
qed

text \<open>Most statements leave alone the columns the invariant speaks of.\<close>

lemma store_inv_frame:
  "store_inv db \<Longrightarrow> db_lessons db' = db_lessons db \<Longrightarrow> db_profiles db' = db_profiles db \<Longrightarrow>
     db_next_profile db' = db_next_profile db \<Longrightarrow> db_commands db' = db_commands db \<Longrightarrow>
     db_next_command db' = db_next_command db \<Longrightarrow> db_achievements db' = db_achievements db \<Longrightarrow> store_inv db'"
  by (simp add: store_inv_def profile_exists_def)

lemma other_ops_inv:
  assumes "store_inv db"
  shows "record_task_attempt a db = Inr (i, db') \<Longrightarrow> store_inv db'"
    and "upsert_module_progress p db = Inr db' \<Longrightarrow> store_inv db'"
    and "set_setting pid k v db = Inr db' \<Longrightarrow> store_inv db'"
    and "record_snapshot pid n d ver sz now db = Inr (i, db') \<Longrightarrow> store_inv db'"
    and "unlock_achievement pid aid now db = Inr (b, db') \<Longrightarrow> store_inv db'"
    and "bump_metric pid k by db = Inr (i, db') \<Longrightarrow> store_inv db'"
proof -
  show "record_task_attempt a db = Inr (i, db') \<Longrightarrow> store_inv db'"
    by (rule store_inv_frame [OF assms]) (auto simp: record_task_attempt_def Let_def split: if_splits option.splits)
  show "upsert_module_progress p db = Inr db' \<Longrightarrow> store_inv db'"
    by (rule store_inv_frame [OF assms]) (auto simp: upsert_module_progress_def Let_def split: if_splits option.splits)
  show "set_setting pid k v db = Inr db' \<Longrightarrow> store_inv db'"
    by (rule store_inv_frame [OF assms]) (auto simp: set_setting_def Let_def split: if_splits option.splits)
  show "record_snapshot pid n d ver sz now db = Inr (i, db') \<Longrightarrow> store_inv db'"
    by (rule store_inv_frame [OF assms]) (auto simp: record_snapshot_def Let_def split: if_splits option.splits)
  show "bump_metric pid k by db = Inr (i, db') \<Longrightarrow> store_inv db'"
    by (rule store_inv_frame [OF assms]) (auto simp: bump_metric_def Let_def split: if_splits option.splits)
  show "unlock_achievement pid aid now db = Inr (b, db') \<Longrightarrow> store_inv db'"
    using assms
    by (auto simp: unlock_achievement_def store_inv_def profile_exists_def Let_def split: option.splits if_splits)
qed

lemma record_command_inv:
  assumes "store_inv db" "record_command pid s c now db = Inr (b, db')"
  shows "store_inv db'"
proof (cases "history_retention_of pid db = DoNotSave")
  case False
  define row where "row = \<lparr>cr_id = db_next_command db, cr_profile_id = pid, cr_session_id = s, cr_command = c, cr_created_at = now\<rparr>"
  have db': "db' = db\<lparr>db_commands := db_commands db @ [row], db_next_command := db_next_command db + 1\<rparr>" "profile_exists pid db"
    using assms(2) False by (simp_all add: record_command_def row_def split: if_splits)
  have "cr_id row \<notin> cr_id ` set (db_commands db)"
    using assms(1) by (auto simp: store_inv_def row_def)
  moreover have "profile_exists p db' = profile_exists p db" for p by (simp add: profile_exists_def db')
  moreover have "cr_profile_id row = pid" "cr_id row = db_next_command db" by (simp_all add: row_def)
  ultimately show ?thesis
    using assms(1) db' by (simp add: store_inv_def ball_Un) force
qed (use assms in \<open>simp add: record_command_def\<close>)

lemma deleting_ops_inv:
  assumes "store_inv db"
  shows "store_inv (snd (prune_command_history pid s now db))"
    and "store_inv (forget_snapshot pid i db)"
    and "store_inv (reset_profile pid db)"
  using assms
  by (auto simp: store_inv_def prune_command_history_def delete_commands_def forget_snapshot_def
      reset_profile_def profile_exists_def bt_invar_filter distinct_map_filter
      Let_def split: history_retention.splits)

lemma store_step_inv: "store_inv db \<Longrightarrow> store_step op db = Inr db' \<Longrightarrow> store_inv db'"
  by (cases op) (auto dest: lesson_ops_inv other_ops_inv record_command_inv complete_lesson_inv
      intro: deleting_ops_inv ensure_profile_inv simp: map_sum_def split: sum.splits)

lemma store_do_inv: "store_inv db \<Longrightarrow> store_inv (store_do op db)"
  by (auto simp: store_do_def dest: store_step_inv split: sum.splits)

lemma store_inv_empty: "store_inv (empty_tables v)"
  by (simp add: store_inv_def empty_tables_def bt_invar_def)

section \<open>Credit is never taken back\<close>

text \<open>
  A later state of a lesson's row: the mastery is at least what it was, the first completion
  keeps its time, the counters never go down and a passed lesson stays passed.
\<close>

definition row_kept :: "lesson_row \<Rightarrow> lesson_row \<Rightarrow> bool" where
  "row_kept r r' \<longleftrightarrow>
     (case Option.bind (lr_mastery r) parse_mastery of
        None \<Rightarrow> True
      | Some m \<Rightarrow> (case Option.bind (lr_mastery r') parse_mastery of
                    None \<Rightarrow> False | Some m' \<Rightarrow> m \<le> m'))
     \<and> (case lr_completed_at r of None \<Rightarrow> True | Some t \<Rightarrow> lr_completed_at r' = Some t)
     \<and> lr_first_started_at r' = lr_first_started_at r
     \<and> lr_attempts r \<le> lr_attempts r' \<and> lr_hints_used r \<le> lr_hints_used r'
     \<and> (lr_solution_revealed r \<noteq> 0 \<longrightarrow> lr_solution_revealed r' \<noteq> 0)
     \<and> (lr_status r = status_str StatusPassed \<longrightarrow> lr_status r' = status_str StatusPassed)"

lemma row_kept_refl [simp]: "row_kept r r"
  by (simp add: row_kept_def split: option.splits)

lemma row_kept_trans: "row_kept r s \<Longrightarrow> row_kept s t \<Longrightarrow> row_kept r t"
  unfolding row_kept_def by (auto split: option.splits)

lemma row_kept_touch: "row_kept r (r\<lparr>lr_last_attempt_at := t\<rparr>)"
  by (simp add: row_kept_def split: option.splits)

lemma row_kept_complete:
  assumes "wf_lesson_row r"
    and "\<And>m. Option.bind (lr_mastery r) parse_mastery = Some m \<Longrightarrow> m \<le> best"
  shows "row_kept r (complete_row best h q now r)"
proof (cases "lr_mastery r")
  case None
  with assms(1) show ?thesis
    by (auto simp: row_kept_def complete_row_def wf_lesson_row_def)
next
  case (Some s)
  then obtain m where m: "parse_mastery s = Some m" "lr_status r = status_str (completion_status m)"
    using assms(1) by (auto simp: wf_lesson_row_def split: option.splits)
  with Some assms(2) have "m \<le> best" by simp
  then have "completion_status m = StatusPassed \<longrightarrow> completion_status best = StatusPassed"
    using needs_revisiting_antimono [of m best] by (auto simp: completion_status_def)
  then have "lr_status r = ''passed'' \<Longrightarrow> status_str (completion_status best) = ''passed''"
    using m(2) status_str_eq [of "completion_status m" StatusPassed] by simp
  with Some m(1) \<open>m \<le> best\<close> show ?thesis
    by (auto simp: row_kept_def complete_row_def split: option.splits)
qed

lemma lesson_progress_of_mastery:
  assumes "lesson_progress_of pid lid db = Inr ex" "bt_get (db_lessons db) (pid, lid) = Some r"
  shows "Option.bind ex p_mastery = Option.bind (lr_mastery r) parse_mastery"
  using assms by (auto simp: lesson_progress_of_def read_lesson_row_def split: if_splits)

lemma upsert_lesson_kept:
  assumes "upsert_lesson pid lid fresh upd db = Inr db'" "bt_get (db_lessons db) k = Some r"
    and "k = (pid, lid) \<Longrightarrow> row_kept r (upd r)"
  shows "\<exists>r'. bt_get (db_lessons db') k = Some r' \<and> row_kept r r'"
  using assms by (auto simp: upsert_lesson_def bt_get_insert split: option.splits if_splits)

lemma complete_lesson_kept:
  assumes "complete_lesson pid lid m h q now db = Inr (best, db')" "store_inv db"
    and "bt_get (db_lessons db) k = Some r"
  shows "\<exists>r'. bt_get (db_lessons db') k = Some r' \<and> row_kept r r'"
  using assms(1)
proof (rule complete_lesson_Inr)
  fix ex
  assume ex: "lesson_progress_of pid lid db = Inr ex"
    "best = (case Option.bind ex p_mastery of Some prev \<Rightarrow> max prev m | None \<Rightarrow> m)"
    and u: "upsert_lesson pid lid (completion_row best h q now) (complete_row best h q now) db = Inr db'"
  from u assms(3) show ?thesis
  proof (rule upsert_lesson_kept)
    assume k: "k = (pid, lid)"
    with assms(2,3) have "wf_lesson_row r" by (auto dest: store_inv_row)
    then show "row_kept r (complete_row best h q now r)"
      by (rule row_kept_complete)
        (use ex(2) lesson_progress_of_mastery [OF ex(1)] assms(3) k in auto)
  qed
qed

definition is_reset :: "store_op \<Rightarrow> bool" where
  "is_reset op = (case op of OpReset _ \<Rightarrow> True | _ \<Rightarrow> False)"

text \<open>Every operation but the reset keeps every row in this sense.\<close>

lemma store_step_kept:
  assumes "store_step op db = Inr db'" "store_inv db" "bt_get (db_lessons db) k = Some r"
    and "\<not> is_reset op"
  shows "\<exists>r'. bt_get (db_lessons db') k = Some r' \<and> row_kept r r'"
proof -
  have wf: "wf_lesson_row r" using assms(2,3) by (cases k) (auto dest: store_inv_row)
  note up = upsert_lesson_kept [OF _ assms(3)]
  consider (lesson) pid lid now where "start_lesson pid lid now db = Inr db'"
    | (attempt) pid lid now where "record_lesson_attempt pid lid now db = Inr db'"
    | (hint) pid lid now where "add_hint_used pid lid now db = Inr db'"
    | (complete) pid lid m h q now best where "complete_lesson pid lid m h q now db = Inr (best, db')"
    | (other) "db_lessons db' = db_lessons db"
    using assms(1,4)
    by (cases op) (auto simp: is_reset_def map_sum_def record_task_attempt_def ensure_profile_def
        upsert_module_progress_def set_setting_def record_command_def prune_command_history_def
        delete_commands_def record_snapshot_def forget_snapshot_def unlock_achievement_def
        bump_metric_def Let_def split: sum.splits option.splits if_splits history_retention.splits)
  then show ?thesis
  proof cases
    case lesson
    then show ?thesis unfolding start_lesson_def
      by (rule up) (use wf in \<open>simp add: wf_lesson_row_started row_kept_touch\<close>)
  next
    case attempt
    then show ?thesis unfolding record_lesson_attempt_def
      by (rule up) (simp add: row_kept_def split: option.splits)
  next
    case hint
    then show ?thesis unfolding add_hint_used_def
      by (rule up) (simp add: row_kept_def split: option.splits)
  next
    case complete
    then show ?thesis by (rule complete_lesson_kept [OF _ assms(2,3)])
  qed (use assms(3) in auto)
qed

text \<open>Rows of a later database.\<close>

definition rows_kept :: "database \<Rightarrow> database \<Rightarrow> bool" where
  "rows_kept db db' \<longleftrightarrow>
     (\<forall>k r. bt_get (db_lessons db) k = Some r \<longrightarrow> (\<exists>r'. bt_get (db_lessons db') k = Some r' \<and> row_kept r r'))"

interpretation store: machine store_do store_inv "\<lambda>_. True"
  by unfold_locales (rule store_do_inv)

interpretation credit: audited_machine store_do store_inv "\<lambda>op. \<not> is_reset op" rows_kept
proof unfold_locales
  show "rows_kept db db" for db by (simp add: rows_kept_def)
  show "rows_kept a c" if "rows_kept a b" "rows_kept b c" for a b c
    using that row_kept_trans by (fastforce simp: rows_kept_def)
  show "rows_kept db (store_do op db)" if "store_inv db" "\<not> is_reset op" for op db
    using store_step_kept [of op db] that by (cases "store_step op db") (auto simp: store_do_def rows_kept_def)
qed (rule store_do_inv)

lemma store_run_inv: "store_inv db \<Longrightarrow> store_inv (store_run ops db)"
  unfolding store_run_def by (rule store.run_keeps) (simp_all add: list_all_iff)

section \<open>Command history\<close>

text \<open>What a retention policy lets the history keep.\<close>

definition retained :: "history_retention \<Rightarrow> string \<Rightarrow> int \<Rightarrow> command_row \<Rightarrow> bool" where
  "retained policy session now c =
     (case policy of
        DoNotSave \<Rightarrow> False
      | LastSession \<Rightarrow> cr_session_id c = session
      | Days d \<Rightarrow> now - uint d * 86400 \<le> cr_created_at c
      | Forever \<Rightarrow> True)"

lemma prune_commands:
  "db_commands (snd (prune_command_history pid session now db)) =
     filter (\<lambda>c. cr_profile_id c = pid \<longrightarrow> retained (history_retention_of pid db) session now c)
       (db_commands db)"
  by (auto simp: prune_command_history_def delete_commands_def retained_def Let_def not_less
      intro!: filter_cong split: history_retention.splits)

lemma delete_commands_count:
  "fst (delete_commands p db) + length (db_commands (snd (delete_commands p db))) = length (db_commands db)"
  using sum_length_filter_compl [of p "db_commands db"] by (simp add: delete_commands_def)

lemma prune_count:
  "fst (prune_command_history pid session now db)
     + length (db_commands (snd (prune_command_history pid session now db))) = length (db_commands db)"
  by (cases "history_retention_of pid db")
    (simp_all add: prune_command_history_def delete_commands_count Let_def)

text \<open>Operations that leave a profile's retention setting alone.\<close>

definition keeps_policy :: "int \<Rightarrow> store_op \<Rightarrow> bool" where
  "keeps_policy pid op = (case op of OpSetting p k _ \<Rightarrow> \<not> (p = pid \<and> k = ''history.retention'') | _ \<Rightarrow> True)"

lemma store_step_policy:
  "store_step op db = Inr db' \<Longrightarrow> keeps_policy pid op \<Longrightarrow>
     history_retention_of pid db' = history_retention_of pid db"
  by (cases op) (auto simp: keeps_policy_def history_retention_of_def setting_def map_sum_def
      start_lesson_def record_lesson_attempt_def add_hint_used_def complete_lesson_def
      upsert_lesson_def res_bind_def record_task_attempt_def ensure_profile_def
      upsert_module_progress_def set_setting_def record_command_def prune_command_history_def
      delete_commands_def record_snapshot_def forget_snapshot_def unlock_achievement_def
      bump_metric_def reset_profile_def bt_get_insert Let_def
      split: sum.splits option.splits if_splits history_retention.splits)

definition commands_of :: "int \<Rightarrow> database \<Rightarrow> command_row list" where
  "commands_of pid db = filter (\<lambda>c. cr_profile_id c = pid) (db_commands db)"

lemma store_step_private:
  "store_step op db = Inr db' \<Longrightarrow> history_retention_of pid db = DoNotSave \<Longrightarrow>
     set (commands_of pid db') \<subseteq> set (commands_of pid db)"
  by (cases op) (auto simp: commands_of_def map_sum_def
      start_lesson_def record_lesson_attempt_def add_hint_used_def complete_lesson_def
      upsert_lesson_def res_bind_def record_task_attempt_def ensure_profile_def
      upsert_module_progress_def set_setting_def record_command_def prune_command_history_def
      delete_commands_def record_snapshot_def forget_snapshot_def unlock_achievement_def
      bump_metric_def reset_profile_def Let_def
      split: sum.splits option.splits if_splits history_retention.splits)

interpretation history: audited_machine store_do "\<lambda>db. history_retention_of pid db = DoNotSave" "keeps_policy pid"
  "\<lambda>db db'. set (commands_of pid db') \<subseteq> set (commands_of pid db)" for pid
proof unfold_locales
  show "history_retention_of pid (store_do op db) = DoNotSave"
    if "history_retention_of pid db = DoNotSave" "keeps_policy pid op" for op db
    using that store_step_policy [of op db _ pid] by (auto simp: store_do_def split: sum.splits)
  show "set (commands_of pid (store_do op db)) \<subseteq> set (commands_of pid db)"
    if "history_retention_of pid db = DoNotSave" "keeps_policy pid op" for op db
    using that store_step_private [of op db _ pid] by (auto simp: store_do_def split: sum.splits)
qed auto

section \<open>Properties\<close>

text \<open>The settings and columns the store writes as text read back as what was written: a
  history retention policy, a lesson status and a mastery.\<close>

theorem stored_text_roundtrip:
  "parse_retention (as_setting policy) = policy
   \<and> parse_status (status_str status) = status
   \<and> parse_mastery (mastery_str mastery) = Some mastery"
  by (simp add: parse_as_setting)


text \<open>C5: Credit is never taken back. After any further operations short of a profile reset, a
  lesson's mastery is at least what it was, a passed lesson is still passed, and the time of the
  first completion stands.\<close>

theorem credit_never_lost:
  assumes "bt_get (db_lessons (store_run before (empty_tables latest_version))) key = Some r"
    and "list_all (\<lambda>op. \<not> is_reset op) later"
  shows "\<exists>r'. bt_get (db_lessons (store_run (before @ later) (empty_tables latest_version))) key = Some r'
           \<and> row_kept r r'"
  using credit.prefix_later [of "store_run before (empty_tables latest_version)" "[]" later]
    store_run_inv [OF store_inv_empty] assms
  by (cases key) (auto simp: store_run_def rows_kept_def)

definition sample_history :: "store_op list" where
  "sample_history = [OpProfile ''ada'' 1, OpStart 1 ''nav.pwd'' 2, OpComplete 1 ''nav.pwd'' Mastered 0 False 3]"

lemma credit_never_lost_witness:
  "\<exists>r'. bt_get (db_lessons (store_run (sample_history @ [OpComplete 1 ''nav.pwd'' NeedsReview 2 True 9])
             (empty_tables latest_version))) (1, ''nav.pwd'') = Some r'
     \<and> row_kept (complete_row Mastered 0 False 3 (new_lesson_row 0 0 2)) r'"
  by (rule credit_never_lost) code_simp+

text \<open>Command history is off until the learner turns it on: as long as no operation writes a
  profile's retention setting, no command of that profile is ever stored.\<close>

theorem history_off_by_default:
  assumes "list_all (keeps_policy pid) ops"
  shows "commands_of pid (store_run ops (empty_tables latest_version)) = []"
proof -
  have "history_retention_of pid (empty_tables latest_version) = DoNotSave"
    "commands_of pid (empty_tables latest_version) = []"
    by (simp_all add: history_retention_of_def setting_def empty_tables_def commands_of_def)
  with history.run_later [of pid "empty_tables latest_version" ops] assms show ?thesis
    by (simp add: store_run_def)
qed

lemma history_off_by_default_witness:
  "commands_of 1 (store_run (sample_history @ [OpCommand 1 ''s'' ''ls'' 4]) (empty_tables latest_version)) = []"
  by (rule history_off_by_default) code_simp

text \<open>Pruning leaves exactly the commands the policy in force retains, touches no other
  profile's history, and reports how many it removed.\<close>

theorem prune_enforces_retention:
  "db_commands (snd (prune_command_history pid session now db)) =
     filter (\<lambda>c. if cr_profile_id c = pid then retained (history_retention_of pid db) session now c else True)
       (db_commands db)
   \<and> fst (prune_command_history pid session now db) =
       length (db_commands db) - length (db_commands (snd (prune_command_history pid session now db)))"
proof
  show "db_commands (snd (prune_command_history pid session now db)) =
     filter (\<lambda>c. if cr_profile_id c = pid then retained (history_retention_of pid db) session now c else True)
       (db_commands db)"
    unfolding prune_commands by (intro filter_cong) auto
qed (use prune_count [of pid session now db] in simp)

end
