(* ===== verification/Desktop_View.thy ===== *)
theory Desktop_View
  imports Progression Feedback Runtime Vm_Manager Progress_Store
begin

text \<open>
  What the desktop sends to the user interface (apps/desktop/src-tauri/src/dto.rs): a lesson without
  its answers, the requirements of a task in words, the modules with the learner's progress, the
  result of a check. The section on secrets says what of a lesson the view does not depend on.
\<close>

section \<open>Requirements in words\<close>

definition text_param :: "validator \<Rightarrow> string \<Rightarrow> string" where
  "text_param v name = (case str_param v name of Some s \<Rightarrow> s | None \<Rightarrow> [])"

definition number_param :: "validator \<Rightarrow> string \<Rightarrow> int" where
  "number_param v name = (case i64_param v name of Some i \<Rightarrow> i | None \<Rightarrow> 0)"

definition file_requirement :: "string \<Rightarrow> validator \<Rightarrow> string option" where
  "file_requirement kind v =
     (let path = text_param v ''path'' in
      if kind = ''file_exists'' then Some (''The file '' @ path @ '' exists'')
      else if kind = ''file_missing'' then Some (path @ '' no longer exists'')
      else if kind = ''directory_exists'' then Some (''The directory '' @ path @ '' exists'')
      else if kind = ''directory_missing'' then Some (''The directory '' @ path @ '' no longer exists'')
      else if kind = ''symbolic_link_exists'' then Some (path @ '' is a symbolic link'')
      else if kind = ''hard_link_exists'' then
        Some (path @ '' and '' @ text_param v ''linkTo'' @ '' are hard links to the same file'')
      else if kind = ''file_type'' then Some (path @ '' is a '' @ text_param v ''fileType'')
      else if kind = ''file_owner'' then Some (path @ '' is owned by '' @ text_param v ''owner'')
      else if kind = ''file_group'' then Some (path @ '' belongs to the group '' @ text_param v ''group'')
      else if kind = ''file_mode'' then Some (path @ '' has the permissions '' @ text_param v ''mode'')
      else if kind = ''file_contains'' then Some (path @ '' contains the required text'')
      else if kind = ''file_matches_regex'' then Some (path @ '' matches the required pattern'')
      else if kind = ''file_line_count'' then Some (path @ '' has the required number of lines'')
      else if kind = ''file_size'' then Some (path @ '' is the required size'')
      else if kind = ''file_checksum'' then Some (path @ '' has exactly the required contents'')
      else if kind = ''directory_contains'' then Some (path @ '' contains the required entries'')
      else if kind = ''directory_empty'' then Some (path @ '' is empty'')
      else if kind = ''current_directory'' then Some (''Your shell'' @ [CHR 0x27] @ ''s working directory is '' @ path)
      else None)"

definition system_requirement :: "string \<Rightarrow> validator \<Rightarrow> string option" where
  "system_requirement kind v =
     (if kind = ''process_running'' then Some ''The required process is running''
      else if kind = ''process_not_running'' then Some ''The process is no longer running''
      else if kind = ''process_owner'' then Some (''The process runs as '' @ text_param v ''owner'')
      else if kind = ''background_job_running'' then Some ''The job is running in the background''
      else if kind = ''process_signal_received'' then Some (''The process received '' @ text_param v ''signal'')
      else if kind = ''service_active'' then Some (text_param v ''unit'' @ '' is active'')
      else if kind = ''service_inactive'' then Some (text_param v ''unit'' @ '' is stopped'')
      else if kind = ''service_enabled'' then Some (text_param v ''unit'' @ '' starts at boot'')
      else if kind = ''service_disabled'' then Some (text_param v ''unit'' @ '' does not start at boot'')
      else if kind = ''port_listening'' then
        Some (''Something is listening on port '' @ dec_int (number_param v ''port''))
      else if kind = ''user_exists'' then Some (''The account '' @ text_param v ''user'' @ '' exists'')
      else if kind = ''group_exists'' then Some (''The group '' @ text_param v ''group'' @ '' exists'')
      else if kind = ''group_membership'' then
        Some (text_param v ''user'' @ '' is a member of '' @ text_param v ''group'')
      else if kind = ''package_installed'' then Some (''The package '' @ text_param v ''package'' @ '' is installed'')
      else if kind = ''package_removed'' then Some (''The package '' @ text_param v ''package'' @ '' is removed'')
      else None)"

definition script_requirement :: "string \<Rightarrow> validator \<Rightarrow> string option" where
  "script_requirement kind v =
     (let path = text_param v ''path'' in
      if kind = ''script_exists'' then Some (''The script '' @ path @ '' exists'')
      else if kind = ''script_executable'' then Some (path @ '' is executable'')
      else if kind = ''script_exit_code'' then Some (path @ '' exits with '' @ dec_int (number_param v ''exitCode''))
      else if kind = ''shellcheck_passes'' then Some (path @ '' passes shellcheck'')
      else if kind = ''stdout_exact'' \<or> kind = ''stdout_contains'' then Some ''The command produces the required output''
      else if kind = ''stderr_contains'' then Some ''Errors go to the error stream''
      else if kind = ''unit_test_passes'' then Some ''Your solution works on hidden test data as well as the example''
      else if kind = ''idempotent_result'' then Some ''Running it twice gives the same result''
      else None)"

text \<open>The tags of the three groups are different, so the order does not matter.\<close>

definition describe_validator :: "validator \<Rightarrow> string option" where
  "describe_validator v =
     (case file_requirement (v_kind v) v of Some r \<Rightarrow> Some r | None \<Rightarrow>
      (case system_requirement (v_kind v) v of Some r \<Rightarrow> Some r | None \<Rightarrow> script_requirement (v_kind v) v))"

section \<open>Lessons\<close>

record task_view =
  tk_id :: string
  tk_kind :: task_kind
  tk_instruction :: string
  tk_context :: "string option"
  tk_broken_command :: "string option"
  tk_hint_count :: nat
  tk_optional :: bool
  tk_requirements :: "string list"

record review_question_view =
  rv_index :: nat
  rv_type :: review_question_type
  rv_question :: string
  rv_answers :: "string list"

record lesson_view =
  lv_id :: string
  lv_title :: string
  lv_level :: lesson_level
  lv_module :: string
  lv_type :: lesson_type
  lv_estimated_difficulty :: u8
  lv_estimated_minutes :: "u32 option"
  lv_prerequisites :: "string list"
  lv_concepts :: "string list"
  lv_commands :: "string list"
  lv_environment :: lesson_environment
  lv_purpose :: string
  lv_mental_model :: string
  lv_syntax :: "string list"
  lv_demonstration :: "demonstration list"
  lv_explanation_markdown :: "string option"
  lv_summary :: "lesson_summary option"
  lv_tasks :: "task_view list"
  lv_review_questions :: "review_question_view list"
  lv_hints_available :: bool

definition hints_offered :: "lesson \<Rightarrow> progression_mode \<Rightarrow> bool" where
  "hints_offered l mode \<longleftrightarrow> \<not> hides_hints (l_type l) \<and> mode \<noteq> AssessmentMode"

definition view_task :: "bool \<Rightarrow> task \<Rightarrow> task_view" where
  "view_task hints t =
     \<lparr>tk_id = t_id t, tk_kind = t_kind t, tk_instruction = t_instruction t, tk_context = t_context t,
      tk_broken_command = t_broken_command t, tk_hint_count = (if hints then length (t_hints t) else 0),
      tk_optional = t_optional t, tk_requirements = List.map_filter describe_validator (t_validators t)\<rparr>"

definition view_question :: "nat \<Rightarrow> review_question \<Rightarrow> review_question_view" where
  "view_question i q = \<lparr>rv_index = i, rv_type = q_type q, rv_question = q_question q, rv_answers = q_answers q\<rparr>"

definition from_lesson :: "lesson \<Rightarrow> progression_mode \<Rightarrow> lesson_view" where
  "from_lesson l mode =
     (let hints = hints_offered l mode in
      \<lparr>lv_id = l_id l, lv_title = l_title l, lv_level = l_level l, lv_module = l_module l, lv_type = l_type l,
       lv_estimated_difficulty = l_estimated_difficulty l, lv_estimated_minutes = l_estimated_minutes l,
       lv_prerequisites = l_prerequisites l, lv_concepts = l_concepts l, lv_commands = l_commands l,
       lv_environment = l_environment l, lv_purpose = c_purpose (l_content l),
       lv_mental_model = c_mental_model (l_content l),
       lv_syntax = (if hints then c_syntax (l_content l) else []),
       lv_demonstration = (if hints then c_demonstration (l_content l) else []),
       lv_explanation_markdown = c_explanation_markdown (l_content l), lv_summary = c_summary (l_content l),
       lv_tasks = map (view_task hints) (l_tasks l),
       lv_review_questions = map (\<lambda>(i, q). view_question i q) (enumerate 0 (l_review_questions l)),
       lv_hints_available = hints\<rparr>)"

section \<open>Modules\<close>

record lesson_summary_view =
  sv_id :: string
  sv_title :: string
  sv_type :: lesson_type
  sv_estimated_difficulty :: u8
  sv_estimated_minutes :: "u32 option"
  sv_commands :: "string list"
  sv_status :: "string option"
  sv_mastery :: "mastery_status option"
  sv_unlocked :: bool
  sv_missing :: "string list"

record module_view =
  mv_id :: string
  mv_number :: u32
  mv_title :: string
  mv_level :: lesson_level
  mv_summary :: string
  mv_outcomes :: "string list"
  mv_pack :: string
  mv_lessons :: "lesson_summary_view list"
  mv_completed_lessons :: nat

definition summary_view :: "lesson_progress list \<Rightarrow> (string \<Rightarrow> availability) \<Rightarrow> lesson \<Rightarrow> lesson_summary_view" where
  "summary_view progress available l =
     (let row = List.find (\<lambda>p. p_lesson_id p = l_id l) progress; av = available (l_id l) in
      \<lparr>sv_id = l_id l, sv_title = l_title l, sv_type = l_type l, sv_estimated_difficulty = l_estimated_difficulty l,
       sv_estimated_minutes = l_estimated_minutes l, sv_commands = l_commands l,
       sv_status = map_option (\<lambda>r. status_str (p_status r)) row, sv_mastery = Option.bind row p_mastery,
       sv_unlocked = av_unlocked av, sv_missing = av_missing av\<rparr>)"

definition shows_completed :: "lesson_summary_view \<Rightarrow> bool" where
  "shows_completed s \<longleftrightarrow> sv_status s = Some ''passed'' \<or> sv_status s = Some ''needs-review''"

definition module_view_of :: "catalog \<Rightarrow> lesson_progress list \<Rightarrow> (string \<Rightarrow> availability) \<Rightarrow> module \<Rightarrow> module_view" where
  "module_view_of C progress available m =
     (let shown = map (summary_view progress available) (List.map_filter (catalog_lesson C) (m_lessons m)) in
      \<lparr>mv_id = m_id m, mv_number = m_number m, mv_title = m_title m, mv_level = m_level m, mv_summary = m_summary m,
       mv_outcomes = m_outcomes m, mv_pack = m_pack m, mv_lessons = shown,
       mv_completed_lessons = length (filter shows_completed shown)\<rparr>)"

definition module_views :: "catalog \<Rightarrow> lesson_progress list \<Rightarrow> (string \<Rightarrow> availability) \<Rightarrow> module_view list" where
  "module_views C progress available = map (module_view_of C progress available) (modules C)"

section \<open>Results\<close>

record check_result =
  ck_validation :: task_validation
  ck_headline :: string
  ck_category :: "failure_category option"
  ck_guidance :: "string option"
  ck_details :: "string list"
  ck_partial :: bool
  ck_authoring_error :: bool
  ck_lesson_complete :: bool
  ck_mastery :: "mastery_status option"
  ck_diagnosis :: "string option"

definition check_result_new :: "task_validation \<Rightarrow> feedback \<Rightarrow> check_result" where
  "check_result_new v f =
     \<lparr>ck_validation = v, ck_headline = f_headline f, ck_category = f_category f, ck_guidance = f_guidance f,
      ck_details = f_details f, ck_partial = f_partial f, ck_authoring_error = f_authoring_error f,
      ck_lesson_complete = False, ck_mastery = None, ck_diagnosis = None\<rparr>"

record review_grade =
  gr_correct :: bool
  gr_explanation :: "string option"

record bootstrap_view =
  bs_app_version :: string
  bs_runtime_version :: string
  bs_profile_id :: int
  bs_mode :: progression_mode
  bs_modules :: "module_view list"
  bs_core_lesson_count :: nat
  bs_completed_core_lessons :: nat
  bs_mastery_percent :: "u8 option"
  bs_next_lesson_id :: "string option"
  bs_review_lesson_ids :: "string list"
  bs_recent_commands :: "string list"
  bs_vm :: vm_status
  bs_acceleration :: string
  bs_health :: health_report
  bs_catalog_warnings :: "string list"

section \<open>Secrets\<close>

text \<open>
  A lesson with its secrets blanked: the text of the hints (their number stays), the solutions, the
  diagnosis, the answer key and the explanations of review questions, and every parameter of a
  validator the requirements do not name. In an assessment the syntax and the worked examples go too.
\<close>

definition shown_params :: "string set" where
  "shown_params = {''path'', ''linkTo'', ''fileType'', ''owner'', ''group'', ''mode'', ''signal'', ''unit'',
     ''port'', ''user'', ''package'', ''exitCode''}"

definition blank_validator :: "validator \<Rightarrow> validator" where
  "blank_validator v = v\<lparr>v_params := filter (\<lambda>kv. fst kv \<in> shown_params) (v_params v)\<rparr>"

definition blank_task :: "task \<Rightarrow> task" where
  "blank_task t =
     t\<lparr>t_diagnosis := None, t_validators := map blank_validator (t_validators t),
       t_hints := replicate (length (t_hints t)) [], t_suggested_solution := None,
       t_known_incorrect_solution := None, t_alternate_solutions := []\<rparr>"

definition blank_question :: "review_question \<Rightarrow> review_question" where
  "blank_question q =
     q\<lparr>q_correct_answer := None, q_correct_answers := [], q_accepted_answers := [], q_explanation := None\<rparr>"

definition blank_lesson :: "lesson \<Rightarrow> lesson" where
  "blank_lesson l =
     l\<lparr>l_tasks := map blank_task (l_tasks l), l_review_questions := map blank_question (l_review_questions l)\<rparr>"

definition blank_teaching :: "lesson \<Rightarrow> lesson" where
  "blank_teaching l =
     (blank_lesson l)\<lparr>l_content := (l_content l)\<lparr>c_syntax := [], c_demonstration := []\<rparr>,
       l_tasks := map (\<lambda>t. (blank_task t)\<lparr>t_hints := []\<rparr>) (l_tasks l)\<rparr>"

lemma bt_get_filter_key: "P k \<Longrightarrow> bt_get (filter (\<lambda>kv. P (fst kv)) m) k = bt_get m k"
  by (induction m) auto

lemma blank_validator_params:
  "k \<in> shown_params \<Longrightarrow> text_param (blank_validator v) k = text_param v k"
  "k \<in> shown_params \<Longrightarrow> number_param (blank_validator v) k = number_param v k"
  by (simp_all add: text_param_def number_param_def str_param_def i64_param_def blank_validator_def
      bt_get_filter_key [where P = "\<lambda>k. k \<in> shown_params"])

lemma shown_keys:
  "''path'' \<in> shown_params" "''linkTo'' \<in> shown_params" "''fileType'' \<in> shown_params" "''owner'' \<in> shown_params"
  "''group'' \<in> shown_params" "''mode'' \<in> shown_params" "''signal'' \<in> shown_params" "''unit'' \<in> shown_params"
  "''port'' \<in> shown_params" "''user'' \<in> shown_params" "''package'' \<in> shown_params" "''exitCode'' \<in> shown_params"
  by (simp_all add: shown_params_def)

lemma describe_blank: "describe_validator (blank_validator v) = describe_validator v"
proof -
  have "v_kind (blank_validator v) = v_kind v" by (simp add: blank_validator_def)
  then show ?thesis
    by (simp only: describe_validator_def file_requirement_def system_requirement_def script_requirement_def
        blank_validator_params shown_keys Let_def)
qed

lemma view_blank_task: "view_task hints (blank_task t) = view_task hints t"
  by (simp add: view_task_def blank_task_def List.map_filter_def comp_def describe_blank filter_map)

lemma view_blank_question: "view_question i (blank_question q) = view_question i q"
  by (simp add: view_question_def blank_question_def)

lemma enumerate_map: "enumerate n (map f xs) = map (\<lambda>(i, x). (i, f x)) (enumerate n xs)"
  by (induction xs arbitrary: n) simp_all

section \<open>Properties\<close>

text \<open>C37: The answers stay with the program. What the user interface gets for a lesson is the same for the
  lesson with its secrets blanked: it does not depend on the text of a hint, a solution, a diagnosis,
  an answer key, or a validator parameter that the requirements do not name. When hints are off, in an
  assessment, it does not depend on the syntax, the worked examples or the number of hints either.\<close>

theorem answers_are_not_sent:
  "from_lesson l mode = from_lesson (blank_lesson l) mode
   \<and> (\<not> hints_offered l mode \<longrightarrow> from_lesson l mode = from_lesson (blank_teaching l) mode)"
proof -
  have questions: "map (\<lambda>(i, q). view_question i q) (enumerate 0 (map blank_question qs)) =
      map (\<lambda>(i, q). view_question i q) (enumerate 0 qs)" for qs
    by (simp add: enumerate_map view_blank_question split_def)
  have offered: "hints_offered (blank_lesson l) mode = hints_offered l mode"
    "hints_offered (blank_teaching l) mode = hints_offered l mode"
    by (simp_all add: hints_offered_def blank_lesson_def blank_teaching_def)
  have tasks: "view_task False ((blank_task t)\<lparr>t_hints := []\<rparr>) = view_task False t" for t
    using view_blank_task [of False t] by (simp add: view_task_def)
  show ?thesis
    unfolding from_lesson_def Let_def offered
    by (auto simp: blank_lesson_def blank_teaching_def view_blank_task questions comp_def tasks)
qed

lemma answers_are_not_sent_witness:
  "from_lesson (sample_lesson ''nav.pwd'' ''nav'' []) AssessmentMode
     = from_lesson (blank_teaching (sample_lesson ''nav.pwd'' ''nav'' [])) AssessmentMode"
  by (rule answers_are_not_sent [THEN conjunct2, THEN mp]) (simp add: hints_offered_def)

end
