(* ===== verification/Protocol.thy ===== *)
theory Protocol
  imports Validation Machines
begin

text \<open>
  The control protocol between the desktop application and the guest agent
  (crates/shared-types/src/protocol.rs): the messages, and the JSON objects the serde attributes of
  the requests declare. Text to JSON and back is serde_json's; the array forms serde also reads are
  never sent and have no counterpart here.
\<close>

section \<open>Messages\<close>

datatype agent_request =
    Ping
  | PrepareLesson string "string option" "string list" "string list" bool
  | ValidateTask string string "validator list" string "int option"
  | ResetLesson string "string option"
  | Checkpoint string
  | Diagnostics
  | ListDirectory string bool
  | Versions
  | SetTerminalSize u16 u16
  | Shutdown

record request_envelope =
  re_id :: u64
  re_token :: string
  re_request :: agent_request

text \<open>A load average is the bit pattern of a binary32 value.\<close>

record guest_diagnostics =
  gd_hostname :: string
  gd_kernel :: string
  gd_uptime_seconds :: u64
  gd_load_average :: "u32 \<times> u32 \<times> u32"
  gd_memory_total_kb :: u64
  gd_memory_available_kb :: u64
  gd_root_disk_used_percent :: u8
  gd_root_inodes_used_percent :: u8
  gd_failed_units :: "string list"
  gd_listening_ports :: "u16 list"
  gd_current_directory :: "string option"

record dir_entry_info =
  de_name :: string
  de_file_type :: string
  de_size :: u64
  de_mode :: string
  de_owner :: string
  de_group :: string
  de_link_target :: "string option"

record package_info =
  pk_name :: string
  pk_version :: string

datatype agent_response =
    Pong string string string u64
  | LessonPrepared string "string list"
  | TaskValidated task_validation
  | LessonReset string
  | CheckpointCreated string
  | DiagnosticsReport guest_diagnostics
  | DirectoryListing string "dir_entry_info list"
  | VersionsReport string string "package_info list"
  | TerminalResized u16 u16
  | ShuttingDown
  | AgentError string bool

record response_envelope =
  rs_id :: u64
  rs_response :: agent_response

definition default_subject_user :: string where
  "default_subject_user = ''student''"

definition error_outcome :: "string \<Rightarrow> string \<Rightarrow> check_outcome" where
  "error_outcome kind message = outcome_error kind message"

section \<open>Requests as JSON\<close>

definition json_object :: "(string \<times> json) list \<Rightarrow> json" where
  "json_object kvs = JObject (fold (\<lambda>(k, v). bt_insert k v) kvs [])"

definition opt_member :: "string \<Rightarrow> json option \<Rightarrow> (string \<times> json) list" where
  "opt_member name j = (case j of Some x \<Rightarrow> [(name, x)] | None \<Rightarrow> [])"

definition json_texts :: "string list \<Rightarrow> json" where
  "json_texts ss = JArray (map JString ss)"

definition json_int :: "int \<Rightarrow> json" where
  "json_int i = JNumber (if 0 \<le> i then PosInt (nat i) else NegInt i)"

definition json_nat :: "nat \<Rightarrow> json" where
  "json_nat n = JNumber (PosInt n)"

definition validator_to_json :: "validator \<Rightarrow> json" where
  "validator_to_json v = JObject (bt_insert ''type'' (JString (v_kind v)) (v_params v))"

fun request_members :: "agent_request \<Rightarrow> (string \<times> json) list" where
  "request_members Ping = [(''op'', JString ''ping'')]"
| "request_members (PrepareLesson lid script fixtures namespaces sudo) =
     (''op'', JString ''prepareLesson'') # (''lessonId'', JString lid)
     # opt_member ''setupScript'' (map_option JString script)
     @ [(''fixtures'', json_texts fixtures), (''namespaces'', json_texts namespaces), (''sudoAllowed'', JBool sudo)]"
| "request_members (ValidateTask lid tid vs subject started) =
     [(''op'', JString ''validateTask''), (''lessonId'', JString lid), (''taskId'', JString tid),
      (''validators'', JArray (map validator_to_json vs)), (''subjectUser'', JString subject)]
     @ opt_member ''attemptStartedAt'' (map_option json_int started)"
| "request_members (ResetLesson lid script) =
     (''op'', JString ''resetLesson'') # (''lessonId'', JString lid)
     # opt_member ''resetScript'' (map_option JString script)"
| "request_members (Checkpoint name) = [(''op'', JString ''checkpoint''), (''name'', JString name)]"
| "request_members Diagnostics = [(''op'', JString ''diagnostics'')]"
| "request_members (ListDirectory path hidden) =
     [(''op'', JString ''listDirectory''), (''path'', JString path), (''includeHidden'', JBool hidden)]"
| "request_members Versions = [(''op'', JString ''versions'')]"
| "request_members (SetTerminalSize rows cols) =
     [(''op'', JString ''setTerminalSize''), (''rows'', json_nat (unat rows)), (''cols'', json_nat (unat cols))]"
| "request_members Shutdown = [(''op'', JString ''shutdown'')]"

definition envelope_to_json :: "request_envelope \<Rightarrow> json" where
  "envelope_to_json e =
     json_object [(''id'', json_nat (unat (re_id e))), (''token'', JString (re_token e)),
                  (''request'', json_object (request_members (re_request e)))]"

section \<open>JSON as requests\<close>

text \<open>A member of an object: required, with a default, or optional (where null counts as absent).\<close>

type_synonym members = "(string, json) btree_map"

definition member :: "members \<Rightarrow> string \<Rightarrow> (json \<Rightarrow> 'a option) \<Rightarrow> 'a option" where
  "member kvs name read = Option.bind (bt_get kvs name) read"

definition member_or :: "'a \<Rightarrow> members \<Rightarrow> string \<Rightarrow> (json \<Rightarrow> 'a option) \<Rightarrow> 'a option" where
  "member_or fallback kvs name read = (case bt_get kvs name of None \<Rightarrow> Some fallback | Some j \<Rightarrow> read j)"

definition member_opt :: "members \<Rightarrow> string \<Rightarrow> (json \<Rightarrow> 'a option) \<Rightarrow> 'a option option" where
  "member_opt kvs name read =
     (case bt_get kvs name of None \<Rightarrow> Some None | Some JNull \<Rightarrow> Some None | Some j \<Rightarrow> map_option Some (read j))"

definition read_all :: "(json \<Rightarrow> 'a option) \<Rightarrow> json \<Rightarrow> 'a list option" where
  "read_all read j = Option.bind (as_array j) (\<lambda>js. those (map read js))"

definition read_u16 :: "json \<Rightarrow> u16 option" where
  "read_u16 j = Option.bind (as_u64 j) (\<lambda>n. if n < 65536 then Some (word_of_nat n) else None)"

definition read_u64 :: "json \<Rightarrow> u64 option" where
  "read_u64 j = Option.bind (as_u64 j) (\<lambda>n. if n < 2 ^ 64 then Some (word_of_nat n) else None)"

definition prepare_of_members :: "members \<Rightarrow> agent_request option" where
  "prepare_of_members kvs =
     Option.bind (member kvs ''lessonId'' as_str) (\<lambda>lid.
     Option.bind (member_opt kvs ''setupScript'' as_str) (\<lambda>script.
     Option.bind (member_or [] kvs ''fixtures'' (read_all as_str)) (\<lambda>fixtures.
     Option.bind (member_or [] kvs ''namespaces'' (read_all as_str)) (\<lambda>namespaces.
     map_option (PrepareLesson lid script fixtures namespaces) (member_or False kvs ''sudoAllowed'' as_bool)))))"

definition validate_of_members :: "members \<Rightarrow> agent_request option" where
  "validate_of_members kvs =
     Option.bind (member kvs ''lessonId'' as_str) (\<lambda>lid.
     Option.bind (member kvs ''taskId'' as_str) (\<lambda>tid.
     Option.bind (member kvs ''validators'' (read_all validator_of_json)) (\<lambda>vs.
     Option.bind (member_or default_subject_user kvs ''subjectUser'' as_str) (\<lambda>subject.
     map_option (ValidateTask lid tid vs subject) (member_opt kvs ''attemptStartedAt'' as_i64)))))"

definition request_of_members :: "members \<Rightarrow> agent_request option" where
  "request_of_members kvs =
     (case member kvs ''op'' as_str of
        None \<Rightarrow> None
      | Some op \<Rightarrow>
          if op = ''ping'' then Some Ping
          else if op = ''prepareLesson'' then prepare_of_members kvs
          else if op = ''validateTask'' then validate_of_members kvs
          else if op = ''resetLesson'' then
            Option.bind (member kvs ''lessonId'' as_str) (\<lambda>lid.
              map_option (ResetLesson lid) (member_opt kvs ''resetScript'' as_str))
          else if op = ''checkpoint'' then map_option Checkpoint (member kvs ''name'' as_str)
          else if op = ''diagnostics'' then Some Diagnostics
          else if op = ''listDirectory'' then
            Option.bind (member kvs ''path'' as_str) (\<lambda>path.
              map_option (ListDirectory path) (member_or False kvs ''includeHidden'' as_bool))
          else if op = ''versions'' then Some Versions
          else if op = ''setTerminalSize'' then
            Option.bind (member kvs ''rows'' read_u16) (\<lambda>rows.
              map_option (SetTerminalSize rows) (member kvs ''cols'' read_u16))
          else if op = ''shutdown'' then Some Shutdown
          else None)"

fun as_object :: "json \<Rightarrow> members option" where
  "as_object (JObject kvs) = Some kvs"
| "as_object _ = None"

definition envelope_of_json :: "json \<Rightarrow> request_envelope option" where
  "envelope_of_json j =
     Option.bind (as_object j) (\<lambda>kvs.
     Option.bind (member kvs ''id'' read_u64) (\<lambda>id.
     Option.bind (member kvs ''token'' as_str) (\<lambda>token.
     map_option (\<lambda>r. \<lparr>re_id = id, re_token = token, re_request = r\<rparr>)
       (member kvs ''request'' (\<lambda>r. Option.bind (as_object r) request_of_members)))))"

section \<open>Lemmas\<close>

text \<open>What can be sent: parameters are a map without the tag, times are in the range of \<^verbatim>\<open>i64\<close>.\<close>

definition sendable_validator :: "validator \<Rightarrow> bool" where
  "sendable_validator v \<longleftrightarrow> bt_invar (v_params v) \<and> bt_get (v_params v) ''type'' = None"

fun sendable :: "agent_request \<Rightarrow> bool" where
  "sendable (ValidateTask lid tid vs subject started) \<longleftrightarrow>
     list_all sendable_validator vs
     \<and> (case started of None \<Rightarrow> True | Some t \<Rightarrow> - (2 ^ 63) \<le> t \<and> t < 2 ^ 63)"
| "sendable _ \<longleftrightarrow> True"

lemma as_object_json_object [simp]: "as_object (json_object kvs) = Some (bt.insert_all kvs [])"
  by (simp add: json_object_def bt.insert_all_def)

lemma insert_all_get: "bt_get (bt.insert_all kvs []) k = map_of (rev kvs) k"
  using bt.lookup_insert_all [OF bt.invar_empty, of kvs k] by (simp split: option.splits)

lemma filter_bt_insert: "filter (\<lambda>kv. fst kv \<noteq> k) (bt_insert k v m) = filter (\<lambda>kv. fst kv \<noteq> k) m"
  by (induction m) auto

lemma bt_get_None_filter: "bt_get m k = None \<Longrightarrow> filter (\<lambda>kv. fst kv \<noteq> k) m = m"
  by (induction m) (auto split: if_splits)

lemma validator_roundtrip: "sendable_validator v \<Longrightarrow> validator_of_json (validator_to_json v) = Some v"
  by (simp add: validator_to_json_def sendable_validator_def bt_get_insert filter_bt_insert bt_get_None_filter)

interpretation validator_wire: codec validator_to_json validator_of_json sendable_validator
  by unfold_locales (rule validator_roundtrip)

interpretation text_wire: codec JString as_str "\<lambda>_. True"
  by unfold_locales simp

lemma read_texts [simp]: "read_all as_str (json_texts ss) = Some ss"
  using text_wire.decode_all [of ss] by (simp add: read_all_def json_texts_def list_all_iff)

lemma read_validators: "list_all sendable_validator vs \<Longrightarrow>
    read_all validator_of_json (JArray (map validator_to_json vs)) = Some vs"
  using validator_wire.decode_all [of vs] by (simp add: read_all_def)

lemma read_int: "- (2 ^ 63) \<le> t \<Longrightarrow> t < 2 ^ 63 \<Longrightarrow> as_i64 (json_int t) = Some t"
  by (auto simp: json_int_def nat_less_iff)

lemma json_int_neq_null [simp]: "json_int t \<noteq> JNull"
  by (simp add: json_int_def)

lemma read_words [simp]:
  "read_u16 (json_nat (unat r)) = Some r" "read_u64 (json_nat (unat i)) = Some i"
  using unsigned_less [of r] unsigned_less [of i] by (simp_all add: read_u16_def read_u64_def json_nat_def)

lemmas member_defs = member_def member_or_def member_opt_def insert_all_get opt_member_def
  prepare_of_members_def validate_of_members_def

lemma request_roundtrip: "sendable r \<Longrightarrow> request_of_members (bt.insert_all (request_members r) []) = Some r"
proof (cases r)
  case (PrepareLesson lid script fixtures namespaces sudo)
  then show ?thesis by (cases script) (simp_all add: request_of_members_def member_defs)
next
  case (ValidateTask lid tid vs subject started)
  assume "sendable r"
  with ValidateTask show ?thesis
    by (cases started) (simp_all add: request_of_members_def member_defs read_validators read_int json_int_def nat_less_iff)
next
  case (ResetLesson lid script)
  then show ?thesis by (cases script) (simp_all add: request_of_members_def member_defs)
qed (simp_all add: request_of_members_def member_defs)

interpretation request_wire: codec "\<lambda>r. bt.insert_all (request_members r) []" request_of_members sendable
  by unfold_locales (rule request_roundtrip)

interpretation envelope_wire: codec envelope_to_json envelope_of_json "\<lambda>e. sendable (re_request e)"
proof
  show "envelope_of_json (envelope_to_json e) = Some e" if "sendable (re_request e)" for e
    using request_wire.decode_encode [OF that]
    by (cases e) (simp add: envelope_of_json_def envelope_to_json_def member_def insert_all_get)
qed

section \<open>Properties\<close>

text \<open>C19: Requests cross the channel unchanged. What the agent reads from the JSON object of an envelope
  is that envelope, for every request the host can send: the camel case names, the tag, the absent
  options and the flattened validator parameters agree on both sides.\<close>

theorem request_wire_roundtrip:
  assumes "sendable (re_request e)"
  shows "envelope_of_json (envelope_to_json e) = Some e"
  using assms by (rule envelope_wire.decode_encode)

lemma request_wire_roundtrip_witness:
  "envelope_of_json (envelope_to_json \<lparr>re_id = 7, re_token = ''secret'',
     re_request = ValidateTask ''files.01'' ''t1'' [validator_with ''path'' (JString ''/srv'') (validator_new ''file_exists'')]
       ''student'' (Some 1700000000)\<rparr>)
   = Some \<lparr>re_id = 7, re_token = ''secret'',
     re_request = ValidateTask ''files.01'' ''t1'' [validator_with ''path'' (JString ''/srv'') (validator_new ''file_exists'')]
       ''student'' (Some 1700000000)\<rparr>"
  by (rule request_wire_roundtrip)
    (simp add: sendable_validator_def validator_with_def validator_new_def bt_invar_def)

end
