(* ===== verification/Desktop_Link.thy ===== *)
theory Desktop_Link
  imports Protocol
begin

text \<open>
  The desktop's side of the two channels into the guest: the client of the control channel
  (apps/desktop/src-tauri/src/agent.rs) and the terminal bridge (console.rs). What the network
  answers is a record of functions on a world that is left open.
\<close>

section \<open>The control client\<close>

text \<open>\<open>nt_send\<close> encodes, writes and flushes an envelope; \<open>nt_read\<close> waits for one line, at most the given
  number of milliseconds.\<close>

datatype read_result = Reply string | EndOfStream | TimedOut | ReadFailed string

record 'w net =
  nt_connect :: "'w \<Rightarrow> (string + unit) \<times> 'w"
  nt_send :: "request_envelope \<Rightarrow> 'w \<Rightarrow> (string + unit) \<times> 'w"
  nt_read :: "nat \<Rightarrow> 'w \<Rightarrow> read_result \<times> 'w"

text \<open>\<open>decode\<close> stands for serde_json reading a response envelope.\<close>

type_synonym reply_decoder = "string \<Rightarrow> response_envelope option"

record agent_client =
  cl_port :: u16
  cl_token :: string
  cl_next_id :: u64
  cl_connected :: bool

definition client_new :: "u16 \<Rightarrow> string \<Rightarrow> agent_client" where
  "client_new port token = \<lparr>cl_port = port, cl_token = token, cl_next_id = 1, cl_connected = False\<rparr>"

fun read_reply :: "'w net \<Rightarrow> reply_decoder \<Rightarrow> nat \<Rightarrow> u64 \<Rightarrow> nat \<Rightarrow> 'w \<Rightarrow> (string + agent_response) \<times> 'w" where
  "read_reply N decode timeout rid 0 w = (Inl ''could not correlate a reply from the guest'', w)"
| "read_reply N decode timeout rid (Suc n) w =
     (case nt_read N timeout w of
        (TimedOut, w') \<Rightarrow> (Inl ''the guest did not reply in time'', w')
      | (ReadFailed e, w') \<Rightarrow> (Inl e, w')
      | (EndOfStream, w') \<Rightarrow> (Inl ''the guest control channel closed'', w')
      | (Reply line, w') \<Rightarrow>
          (case decode (trim line) of
             None \<Rightarrow> (Inl (''malformed reply from the guest: '' @ line), w')
           | Some r \<Rightarrow>
               if rs_id r = rid \<or> rs_id r = 0 then (Inr (rs_response r), w')
               else read_reply N decode timeout rid n w'))"

definition max_stale_replies :: nat where
  "max_stale_replies = 8"

definition try_request ::
  "'w net \<Rightarrow> reply_decoder \<Rightarrow> agent_request \<Rightarrow> nat \<Rightarrow> agent_client \<times> 'w \<Rightarrow> (string + agent_response) \<times> agent_client \<times> 'w" where
  "try_request N decode request timeout cw =
     (let (c, w) = cw;
          (connected, w1) = (if cl_connected c then (Inr (), w) else nt_connect N w)
      in case connected of
           Inl e \<Rightarrow> (Inl e, c, w1)
         | Inr _ \<Rightarrow>
             let rid = cl_next_id c;
                 c' = c\<lparr>cl_connected := True, cl_next_id := rid + 1\<rparr>;
                 (sent, w2) = nt_send N \<lparr>re_id = rid, re_token = cl_token c, re_request = request\<rparr> w1
             in case sent of
                  Inl e \<Rightarrow> (Inl e, c', w2)
                | Inr _ \<Rightarrow> let (r, w3) = read_reply N decode timeout rid max_stale_replies w2 in (r, c', w3))"

definition request_with_timeout ::
  "'w net \<Rightarrow> reply_decoder \<Rightarrow> agent_request \<Rightarrow> nat \<Rightarrow> agent_client \<times> 'w \<Rightarrow> (string + agent_response) \<times> agent_client \<times> 'w" where
  "request_with_timeout N decode request timeout cw =
     (case try_request N decode request timeout cw of
        (Inr response, cw') \<Rightarrow> (Inr response, cw')
      | (Inl _, c, w) \<Rightarrow> try_request N decode request timeout (c\<lparr>cl_connected := False\<rparr>, w))"

definition client_request ::
  "'w net \<Rightarrow> reply_decoder \<Rightarrow> agent_request \<Rightarrow> agent_client \<times> 'w \<Rightarrow> (string + agent_response) \<times> agent_client \<times> 'w" where
  "client_request N decode request = request_with_timeout N decode request 180000"

text \<open>Waiting for the guest: \<open>clock\<close> gives the milliseconds that remain at the start of each attempt;
  the list ends when the deadline has passed. An attempt that the outer timeout cuts off ends like one
  whose read timed out. \<open>debug\<close> is \<^verbatim>\<open>derive(Debug)\<close>.\<close>

definition ping_failure :: "(agent_response \<Rightarrow> string) \<Rightarrow> string + agent_response \<Rightarrow> string option" where
  "ping_failure debug reply =
     (case reply of
        Inr (Pong version release img up) \<Rightarrow> None
      | Inr (AgentError message retriable) \<Rightarrow> Some message
      | Inr other \<Rightarrow> Some (''unexpected reply to ping: '' @ debug other)
      | Inl e \<Rightarrow> Some e)"

definition not_in_time :: "string option \<Rightarrow> string" where
  "not_in_time last_error =
     ''Linux did not finish starting in time''
     @ (case last_error of None \<Rightarrow> [] | Some detail \<Rightarrow> '' (last error: '' @ detail @ '')'')"

fun wait_until_ready ::
  "'w net \<Rightarrow> reply_decoder \<Rightarrow> (agent_response \<Rightarrow> string) \<Rightarrow> nat list \<Rightarrow> string option \<Rightarrow> agent_client \<times> 'w \<Rightarrow> (string + agent_response) \<times> agent_client \<times> 'w" where
  "wait_until_ready N decode debug [] last_error cw = (Inl (not_in_time last_error), cw)"
| "wait_until_ready N decode debug (remaining # clock) last_error cw =
     (let (reply, c, w) = try_request N decode Ping remaining cw
      in case ping_failure debug reply of
           None \<Rightarrow> (reply, c, w)
         | Some detail \<Rightarrow> wait_until_ready N decode debug clock (Some detail) (c\<lparr>cl_connected := False\<rparr>, w))"

definition expect_ok :: "agent_response \<Rightarrow> string + agent_response" where
  "expect_ok response = (case response of AgentError message _ \<Rightarrow> Inl message | other \<Rightarrow> Inr other)"

section \<open>The terminal bridge\<close>

definition tail_limit :: nat where
  "tail_limit = 32 * 1024"

record console =
  cs_attached :: bool
  cs_tail :: string
  cs_emitted :: "string list"

definition console_new :: console where
  "console_new = \<lparr>cs_attached = False, cs_tail = [], cs_emitted = []\<rparr>"

text \<open>Attaching succeeds when the socket accepts before ten seconds have passed.\<close>

definition console_attach :: "bool \<Rightarrow> console \<Rightarrow> (string + unit) \<times> console" where
  "console_attach accepted c =
     (if accepted then (Inr (), c\<lparr>cs_attached := True, cs_tail := []\<rparr>)
      else (Inl ''could not attach to the Linux console'', c))"

text \<open>One chunk of output, of at most 8192 bytes: kept for diagnosis and passed on unchanged.\<close>

definition console_output :: "string \<Rightarrow> console \<Rightarrow> console" where
  "console_output chunk c =
     (let tail = cs_tail c @ chunk
      in c\<lparr>cs_tail := (if tail_limit < length tail then drop (length tail - tail_limit) tail else tail),
           cs_emitted := cs_emitted c @ [chunk]\<rparr>)"

definition console_write :: "(string + unit) \<Rightarrow> console \<Rightarrow> string + unit" where
  "console_write outcome c = (if cs_attached c then outcome else Inl ''the terminal is not connected yet'')"

definition console_detach :: "console \<Rightarrow> console" where
  "console_detach c = c\<lparr>cs_attached := False\<rparr>"

definition first_chars :: "nat \<Rightarrow> string \<Rightarrow> string" where
  "first_chars n s = concat (take n (utf8_chars s))"

definition console_markers :: "string list" where
  "console_markers = [''Kernel panic'', ''VFS:'', ''Waiting for root device'', ''[FAILED]'', '' error:'']"

fun marked_line :: "string list \<Rightarrow> string list \<Rightarrow> string option" where
  "marked_line [] ls = None"
| "marked_line (marker # markers) ls =
     (case List.find (\<lambda>line. sublist marker line) (rev ls) of
        Some line \<Rightarrow> Some line
      | None \<Rightarrow> marked_line markers ls)"

text \<open>\<open>lossy\<close> is \<^verbatim>\<open>String::from_utf8_lossy\<close>.\<close>

definition summarise_console :: "(string \<Rightarrow> string) \<Rightarrow> string \<Rightarrow> string option" where
  "summarise_console lossy bytes =
     (let ls = filter (\<lambda>l. l \<noteq> []) (map trim (lines (lossy bytes)))
      in map_option (first_chars 500)
           (case marked_line console_markers ls of
              Some line \<Rightarrow> Some line
            | None \<Rightarrow> if ls = [] then None else Some (last ls)))"

section \<open>Lemmas\<close>

text \<open>The world after a number of reads, and the reply read then. A reply answers a request by its
  number, or without one (the agent's answer to a frame it could not read).\<close>

primrec after_reads :: "'w net \<Rightarrow> nat \<Rightarrow> nat \<Rightarrow> 'w \<Rightarrow> 'w" where
  "after_reads N timeout 0 w = w"
| "after_reads N timeout (Suc k) w = after_reads N timeout k (snd (nt_read N timeout w))"

definition reply_at :: "'w net \<Rightarrow> reply_decoder \<Rightarrow> nat \<Rightarrow> 'w \<Rightarrow> nat \<Rightarrow> response_envelope option" where
  "reply_at N decode timeout w k =
     (case fst (nt_read N timeout (after_reads N timeout k w)) of
        Reply line \<Rightarrow> decode (trim line) | _ \<Rightarrow> None)"

definition answers :: "u64 \<Rightarrow> response_envelope \<Rightarrow> bool" where
  "answers rid r \<longleftrightarrow> rs_id r = rid \<or> rs_id r = 0"

definition answered_at :: "'w net \<Rightarrow> reply_decoder \<Rightarrow> nat \<Rightarrow> 'w \<Rightarrow> u64 \<Rightarrow> agent_response \<Rightarrow> nat \<Rightarrow> bool" where
  "answered_at N decode timeout w rid response k \<longleftrightarrow>
     (\<exists>r. reply_at N decode timeout w k = Some r \<and> answers rid r \<and> rs_response r = response)"

definition stale_at :: "'w net \<Rightarrow> reply_decoder \<Rightarrow> nat \<Rightarrow> 'w \<Rightarrow> u64 \<Rightarrow> nat \<Rightarrow> bool" where
  "stale_at N decode timeout w rid k \<longleftrightarrow> (\<exists>r. reply_at N decode timeout w k = Some r \<and> \<not> answers rid r)"

lemma at_Suc:
  "answered_at N decode timeout w rid response (Suc k) = answered_at N decode timeout (snd (nt_read N timeout w)) rid response k"
  "stale_at N decode timeout w rid (Suc k) = stale_at N decode timeout (snd (nt_read N timeout w)) rid k"
  by (simp_all add: answered_at_def stale_at_def reply_at_def)

lemma read_reply_step:
  "fst (read_reply N decode timeout rid (Suc n) w) = Inr response \<longleftrightarrow>
     answered_at N decode timeout w rid response 0
     \<or> (stale_at N decode timeout w rid 0 \<and> fst (read_reply N decode timeout rid n (snd (nt_read N timeout w))) = Inr response)"
proof -
  obtain res w' where read: "nt_read N timeout w = (res, w')" by fastforce
  show ?thesis
  proof (cases res)
    case (Reply line)
    then show ?thesis
      by (cases "decode (trim line)") (auto simp: read answered_at_def stale_at_def reply_at_def answers_def)
  qed (simp_all add: read answered_at_def stale_at_def reply_at_def)
qed

lemma read_reply_Inr:
  "fst (read_reply N decode timeout rid n w) = Inr response \<longleftrightarrow>
     (\<exists>k<n. answered_at N decode timeout w rid response k \<and> (\<forall>j<k. stale_at N decode timeout w rid j))"
proof (induction n arbitrary: w)
  case (Suc n)
  show ?case
    unfolding read_reply_step Suc.IH
    by (auto simp: Ex_less_Suc2 All_less_Suc2 at_Suc)
qed simp

text \<open>The numbers of the requests of one client are consecutive, and one call sends at most two.\<close>

lemma try_request_client:
  "try_request N decode request timeout (c, w) = (r, c', w') \<Longrightarrow>
     cl_token c' = cl_token c \<and> cl_port c' = cl_port c
     \<and> (cl_next_id c' = cl_next_id c \<or> cl_next_id c' = cl_next_id c + 1)
     \<and> (cl_next_id c' = cl_next_id c \<longrightarrow> c' = c \<and> (\<exists>e. r = Inl e))"
  by (auto simp: try_request_def Let_def split: sum.splits prod.splits if_splits)

lemma client_request_client:
  "client_request N decode request (c, w) = (r, c', w') \<Longrightarrow>
     cl_token c' = cl_token c \<and> cl_port c' = cl_port c
     \<and> cl_next_id c' \<in> {cl_next_id c, cl_next_id c + 1, cl_next_id c + 2}"
  unfolding client_request_def request_with_timeout_def
  by (auto dest!: try_request_client split: sum.splits prod.splits)

section \<open>Properties\<close>


text \<open>A network whose lines are given in advance.\<close>

definition scripted_net :: "string list net" where
  "scripted_net =
     \<lparr>nt_connect = (\<lambda>w. (Inr (), w)), nt_send = (\<lambda>e w. (Inr (), w)),
      nt_read = (\<lambda>timeout w. case w of [] \<Rightarrow> (EndOfStream, []) | line # rest \<Rightarrow> (Reply line, rest))\<rparr>"

definition numbered_reply :: reply_decoder where
  "numbered_reply line =
     (if line = ''4'' then Some \<lparr>rs_id = 4, rs_response = LessonReset ''old''\<rparr>
      else if line = ''5'' then Some \<lparr>rs_id = 5, rs_response = ShuttingDown\<rparr> else None)"


text \<open>The diagnostic tail is the end of what the console printed.\<close>

definition console_run :: "string list \<Rightarrow> console \<Rightarrow> console" where
  "console_run chunks c = fold console_output chunks c"

lemma console_output_tail:
  assumes "cs_tail c = drop (length (prior) - tail_limit) prior"
  shows "cs_tail (console_output chunk c) = drop (length (prior @ chunk) - tail_limit) (prior @ chunk)"
proof -
  have "length prior + length chunk - tail_limit = length prior - tail_limit"
    if "length prior + length chunk - (length prior - tail_limit) \<le> tail_limit"
    using that by linarith
  with assms show ?thesis by (auto simp: console_output_def Let_def)
qed

text \<open>The terminal passes the guest's output on unchanged, chunk by chunk, and the tail kept to explain
  a failed start is exactly the last 32 KiB of it.\<close>

theorem console_tail_exact:
  assumes "cs_tail c = []"
  shows "cs_tail (console_run chunks c) = drop (length (concat chunks) - tail_limit) (concat chunks)
    \<and> cs_emitted (console_run chunks c) = cs_emitted c @ chunks"
proof (induction chunks rule: rev_induct)
  case (snoc chunk chunks)
  have "console_run (chunks @ [chunk]) c = console_output chunk (console_run chunks c)"
    by (simp add: console_run_def)
  with snoc console_output_tail [of "console_run chunks c" "concat chunks" chunk] show ?case
    by (simp add: console_output_def Let_def)
qed (use assms in \<open>simp add: console_run_def\<close>)

lemma console_tail_exact_witness:
  "cs_tail (console_run [''VFS: '', ''panic''] console_new) = ''VFS: panic''"
  using console_tail_exact [of console_new "[''VFS: '', ''panic'']"] by (simp add: console_new_def tail_limit_def)

end
