(* ===== verification/Hints.thy ===== *)
theory Hints
  imports Mastery Validation Machines
begin

text \<open>
  Hint progression and attempt bookkeeping (crates/lesson-engine/src/hints.rs). An attempt is a
  small state machine: hints are revealed one at a time, the solution separately, failures and
  the pass are recorded; \<open>attempt_run\<close> is a sequence of these events.
\<close>

section \<open>State and operations\<close>

record attempt_state =
  a_lesson_id :: string
  a_task_id :: string
  a_hints_revealed :: nat
  a_solution_revealed :: bool
  a_failed_checks :: u32
  a_failure_categories :: "failure_category list"
  a_passed :: bool

record hint_reveal =
  h_index :: nat
  h_text :: string
  h_remaining :: nat
  h_solution_next :: bool

datatype hint_outcome = Hint hint_reveal | SolutionAvailable | Unavailable string

definition attempt_new :: "string \<Rightarrow> string \<Rightarrow> attempt_state" where
  "attempt_new lesson_id task_id =
     \<lparr>a_lesson_id = lesson_id, a_task_id = task_id, a_hints_revealed = 0,
      a_solution_revealed = False, a_failed_checks = 0, a_failure_categories = [],
      a_passed = False\<rparr>"

definition reveal_next_hint :: "task \<Rightarrow> bool \<Rightarrow> attempt_state \<Rightarrow> attempt_state \<times> hint_outcome" where
  "reveal_next_hint t hints_allowed a =
     (if \<not> hints_allowed then
        (a, Unavailable ''Hints are not available in an assessment. Work from what you know, and review the lesson afterwards.'')
      else if t_hints t = [] then (a, SolutionAvailable)
      else if length (t_hints t) \<le> a_hints_revealed a then (a, SolutionAvailable)
      else
        let index = a_hints_revealed a;
            remaining = length (t_hints t) - Suc index
        in (a\<lparr>a_hints_revealed := Suc index\<rparr>,
            Hint \<lparr>h_index = index, h_text = t_hints t ! index, h_remaining = remaining,
                  h_solution_next = (remaining = 0)\<rparr>))"

definition reveal_solution :: "bool \<Rightarrow> attempt_state \<Rightarrow> attempt_state \<times> string option" where
  "reveal_solution hints_allowed a =
     (if \<not> hints_allowed then (a, Some ''The solution is not available in an assessment.'')
      else (a\<lparr>a_solution_revealed := True\<rparr>, None))"

definition record_failure :: "failure_category option \<Rightarrow> attempt_state \<Rightarrow> attempt_state" where
  "record_failure category a =
     (let a = a\<lparr>a_failed_checks := a_failed_checks a + 1\<rparr> in
      case category of
        None \<Rightarrow> a
      | Some c \<Rightarrow>
          if c \<in> set (a_failure_categories a) then a
          else a\<lparr>a_failure_categories := a_failure_categories a @ [c]\<rparr>)"

definition record_pass :: "attempt_state \<Rightarrow> attempt_state" where
  "record_pass a = a\<lparr>a_passed := True\<rparr>"

definition attempt_mastery :: "bool \<Rightarrow> attempt_state \<Rightarrow> mastery_status" where
  "attempt_mastery is_assessment a =
     evaluate_mastery (a_passed a) is_assessment (word_of_nat (a_hints_revealed a)) (a_solution_revealed a)"

text \<open>The lesson takes the worst mastery of its attempts.\<close>

definition lesson_mastery :: "attempt_state list \<Rightarrow> bool \<Rightarrow> mastery_status" where
  "lesson_mastery attempts is_assessment =
     (if attempts = [] then NeedsReview else min_list (map (attempt_mastery is_assessment) attempts))"

definition total_hints :: "attempt_state list \<Rightarrow> u32" where
  "total_hints attempts = sum_list (map (\<lambda>a. word_of_nat (a_hints_revealed a)) attempts)"

section \<open>Runs of an attempt\<close>

datatype attempt_event = AskHint | AskSolution | Failed "failure_category option" | PassedCheck

fun attempt_step :: "task \<Rightarrow> bool \<Rightarrow> attempt_event \<Rightarrow> attempt_state \<Rightarrow> attempt_state" where
  "attempt_step t allowed AskHint a = fst (reveal_next_hint t allowed a)"
| "attempt_step t allowed AskSolution a = fst (reveal_solution allowed a)"
| "attempt_step t allowed (Failed c) a = record_failure c a"
| "attempt_step t allowed PassedCheck a = record_pass a"

definition attempt_run :: "task \<Rightarrow> bool \<Rightarrow> attempt_event list \<Rightarrow> attempt_state \<Rightarrow> attempt_state" where
  "attempt_run t allowed es a = fold (attempt_step t allowed) es a"

lemmas attempt_ops = reveal_next_hint_def reveal_solution_def record_failure_def record_pass_def

definition attempt_inv :: "task \<Rightarrow> bool \<Rightarrow> attempt_state \<Rightarrow> bool" where
  "attempt_inv t allowed a \<longleftrightarrow>
     a_hints_revealed a \<le> length (t_hints t)
     \<and> distinct (a_failure_categories a)
     \<and> (\<not> allowed \<longrightarrow> a_hints_revealed a = 0 \<and> \<not> a_solution_revealed a)"

lemma attempt_inv_new [simp]: "attempt_inv t allowed (attempt_new l i)"
  by (simp add: attempt_inv_def attempt_new_def)

lemma attempt_inv_step: "attempt_inv t allowed a \<Longrightarrow> attempt_inv t allowed (attempt_step t allowed e a)"
  by (cases e) (auto simp: attempt_inv_def attempt_ops Let_def split: option.splits)

interpretation attempt: machine "attempt_step t allowed" "attempt_inv t allowed" "\<lambda>_. True" for t allowed
  by unfold_locales (rule attempt_inv_step)

lemma attempt_inv_run: "attempt_inv t allowed a \<Longrightarrow> attempt_inv t allowed (attempt_run t allowed es a)"
  unfolding attempt_run_def by (rule attempt.run_keeps) (simp_all add: list_all_iff)

text \<open>The number of hints after a run is the number of requests, capped by the hints there are.\<close>

lemma hints_after_step:
  "a_hints_revealed a \<le> length (t_hints t) \<Longrightarrow>
     a_hints_revealed (attempt_step t True e a) =
       (if e = AskHint then min (length (t_hints t)) (Suc (a_hints_revealed a)) else a_hints_revealed a)"
  by (cases e) (auto simp: attempt_ops Let_def split: option.splits)

lemma hints_after_run:
  "a_hints_revealed a \<le> length (t_hints t) \<Longrightarrow>
     a_hints_revealed (attempt_run t True es a) =
       min (length (t_hints t)) (a_hints_revealed a + count_list es AskHint)"
proof (induction es arbitrary: a)
  case (Cons e es)
  then show ?case
    using hints_after_step [of a t e] by (auto simp: attempt_run_def min_def)
qed (simp add: attempt_run_def)

lemma evaluate_le:
  "p' \<longrightarrow> p \<Longrightarrow> (h = 0 \<longrightarrow> s \<longrightarrow> s') \<Longrightarrow> evaluate_mastery False asm h s \<le> evaluate_mastery p asm h' s'"
  by (auto simp: evaluate_mastery_def mastery_order_defs)

lemma lesson_mastery_Min:
  "attempts \<noteq> [] \<Longrightarrow>
     lesson_mastery attempts asm = Min (attempt_mastery asm ` set attempts)"
  using min_list_Min [of "map (attempt_mastery asm) attempts"] by (simp add: lesson_mastery_def)

lemma lesson_mastery_le:
  "a \<in> set attempts \<Longrightarrow> lesson_mastery attempts asm \<le> attempt_mastery asm a"
  by (subst lesson_mastery_Min) auto

lemma lesson_mastery_attained:
  "attempts \<noteq> [] \<Longrightarrow> \<exists>a\<in>set attempts. lesson_mastery attempts asm = attempt_mastery asm a"
proof -
  assume ne: "attempts \<noteq> []"
  have "Min (attempt_mastery asm ` set attempts) \<in> attempt_mastery asm ` set attempts"
    using ne by (intro Min_in) auto
  with lesson_mastery_Min [OF ne] show ?thesis by auto
qed

section \<open>Properties\<close>

text \<open>What an attempt remembers after any sequence of requests and checks: each request reveals
  one more hint until there are none left, an assessment reveals neither hint nor solution, the
  categories of the failures are kept once each, and the failures are counted (in 32 bits).\<close>

theorem attempt_history_exact:
  "let a = attempt_run t allowed es (attempt_new lid tid) in
     a_hints_revealed a = (if allowed then min (length (t_hints t)) (count_list es AskHint) else 0)
     \<and> (a_solution_revealed a \<longleftrightarrow> allowed \<and> AskSolution \<in> set es)
     \<and> (a_passed a \<longleftrightarrow> PassedCheck \<in> set es)
     \<and> distinct (a_failure_categories a) \<and> set (a_failure_categories a) = {c. Failed (Some c) \<in> set es}
     \<and> a_failed_checks a = word_of_nat (length (filter (\<lambda>e. \<exists>c. e = Failed c) es))"
proof -
  let ?a = "attempt_run t allowed es (attempt_new lid tid)"
  have inv: "attempt_inv t allowed ?a" by (simp add: attempt_inv_run)
  have hints: "a_hints_revealed ?a = min (length (t_hints t)) (count_list es AskHint)" if "allowed = True"
    using hints_after_run [of "attempt_new lid tid" t es] that by (simp add: attempt_new_def)
  have sol: "a_solution_revealed (attempt_run t allowed es a) \<longleftrightarrow>
      a_solution_revealed a \<or> allowed \<and> AskSolution \<in> set es" for a
  proof (induction es arbitrary: a)
    case (Cons e es)
    then show ?case by (cases e) (auto simp: attempt_run_def attempt_ops Let_def split: option.splits)
  qed (simp add: attempt_run_def)
  have passed: "a_passed (attempt_run t allowed es a) \<longleftrightarrow> a_passed a \<or> PassedCheck \<in> set es" for a
  proof (induction es arbitrary: a)
    case (Cons e es)
    then show ?case by (cases e) (auto simp: attempt_run_def attempt_ops Let_def split: option.splits)
  qed (simp add: attempt_run_def)
  have cats: "set (a_failure_categories (attempt_run t allowed es a)) =
      set (a_failure_categories a) \<union> {c. Failed (Some c) \<in> set es}" for a
  proof (induction es arbitrary: a)
    case (Cons e es)
    then show ?case by (cases e) (auto simp: attempt_run_def attempt_ops Let_def split: option.splits)
  qed (simp add: attempt_run_def)
  have fails: "a_failed_checks (attempt_run t allowed es a) =
      a_failed_checks a + word_of_nat (length (filter (\<lambda>e. \<exists>c. e = Failed c) es))" for a
  proof (induction es arbitrary: a)
    case (Cons e es)
    then show ?case by (cases e) (auto simp: attempt_run_def attempt_ops Let_def split: option.splits)
  qed (simp add: attempt_run_def)
  from inv hints sol [of "attempt_new lid tid"] passed [of "attempt_new lid tid"]
    cats [of "attempt_new lid tid"] fails [of "attempt_new lid tid"]
  show ?thesis by (auto simp: attempt_inv_def attempt_new_def Let_def)
qed

text \<open>A lesson is as good as its weakest attempt: it has to be revisited exactly when nothing was
  attempted, some task was not passed or some solution was shown, and it is mastered exactly when
  every attempt passed without a hint and without the solution.\<close>

theorem lesson_mastery_is_weakest:
  "(needs_revisiting (lesson_mastery attempts asm) \<longleftrightarrow>
      attempts = [] \<or> list_ex (\<lambda>a. \<not> a_passed a \<or> a_solution_revealed a) attempts)
   \<and> (lesson_mastery attempts asm = Mastered \<longleftrightarrow>
      attempts \<noteq> [] \<and> list_all (\<lambda>a. a_passed a \<and> \<not> a_solution_revealed a
         \<and> (word_of_nat (a_hints_revealed a) :: u32) = 0) attempts)"
proof (cases "attempts = []")
  case False
  have revisit: "needs_revisiting (attempt_mastery asm a) \<longleftrightarrow> \<not> a_passed a \<or> a_solution_revealed a" for a
    by (auto simp: attempt_mastery_def needs_revisiting_iff evaluate_mastery_def)
  have mastered: "attempt_mastery asm a = Mastered \<longleftrightarrow>
      a_passed a \<and> \<not> a_solution_revealed a \<and> (word_of_nat (a_hints_revealed a) :: u32) = 0" for a
    by (auto simp: attempt_mastery_def evaluate_mastery_def)
  have top: "m \<le> Mastered" for m by (cases m) (simp_all add: mastery_order_defs)
  obtain b where b: "b \<in> set attempts" "lesson_mastery attempts asm = attempt_mastery asm b"
    using lesson_mastery_attained [OF False] by blast
  have "needs_revisiting (lesson_mastery attempts asm) \<longleftrightarrow> (\<exists>a\<in>set attempts. needs_revisiting (attempt_mastery asm a))"
    using b needs_revisiting_antimono lesson_mastery_le by metis
  moreover have "lesson_mastery attempts asm = Mastered \<longleftrightarrow> (\<forall>a\<in>set attempts. attempt_mastery asm a = Mastered)"
    using b lesson_mastery_le top by (metis antisym)
  ultimately show ?thesis using False by (simp add: revisit mastered list_ex_iff list_all_iff)
qed (simp add: lesson_mastery_def needs_revisiting_def)

lemma lesson_mastery_is_weakest_witness:
  "lesson_mastery [record_pass (attempt_new ''a.b'' ''t'')] False = Mastered
   \<and> needs_revisiting (lesson_mastery [record_pass (attempt_new ''a.b'' ''t''), attempt_new ''a.b'' ''u''] False)"
  using lesson_mastery_is_weakest [of "[record_pass (attempt_new ''a.b'' ''t'')]" False]
    lesson_mastery_is_weakest [of "[record_pass (attempt_new ''a.b'' ''t''), attempt_new ''a.b'' ''u'']" False]
  by (simp add: record_pass_def attempt_new_def)

end
