(* ===== verification/Actions.thy ===== *)
theory Actions
  imports Prelude
begin

text \<open>
  Stateful code that can fail: an action takes the state and returns a value or a message, and the
  state after it. A message ends what follows (the \<^verbatim>\<open>?\<close> operator), the changes made so far stay. The
  locale gives, for any reflexive and transitive relation, the rules by which composed actions stay
  within it.
\<close>

section \<open>Actions\<close>

type_synonym ('s, 'a) action = "'s \<Rightarrow> (string + 'a) \<times> 's"

definition return :: "'a \<Rightarrow> ('s, 'a) action" where
  "return x s = (Inr x, s)"

definition bail :: "string \<Rightarrow> ('s, 'a) action" where
  "bail message s = (Inl message, s)"

definition act_bind :: "('s, 'a) action \<Rightarrow> ('a \<Rightarrow> ('s, 'b) action) \<Rightarrow> ('s, 'b) action" where
  "act_bind m f s = (case m s of (Inl e, s') \<Rightarrow> (Inl e, s') | (Inr x, s') \<Rightarrow> f x s')"

definition inspect :: "('s \<Rightarrow> 'a) \<Rightarrow> ('s, 'a) action" where
  "inspect f s = (Inr (f s), s)"

definition update :: "('s \<Rightarrow> 's) \<Rightarrow> ('s, unit) action" where
  "update f s = (Inr (), f s)"

text \<open>A result of a pure function; \<^verbatim>\<open>.ok()\<close>, which drops the error.\<close>

definition lift :: "string + 'a \<Rightarrow> ('s, 'a) action" where
  "lift r s = (r, s)"

definition ignoring :: "('s, unit) action \<Rightarrow> ('s, unit) action" where
  "ignoring m s = (Inr (), snd (m s))"

text \<open>The result itself as the value, so that what follows can go on after an error.\<close>

definition attempting :: "('s, 'a) action \<Rightarrow> ('s, string + 'a) action" where
  "attempting m s = (Inr (fst (m s)), snd (m s))"

lemmas action_defs = return_def bail_def act_bind_def inspect_def update_def lift_def ignoring_def attempting_def

lemma act_bind_cong_state:
  assumes "m s = m' s" "\<And>x s'. m s = (Inr x, s') \<Longrightarrow> f x s' = f' x s'"
  shows "act_bind m f s = act_bind m' f' s"
  using assms by (auto simp: act_bind_def split: sum.split prod.split)

lemma act_bind_assoc: "act_bind (act_bind m f) g = act_bind m (\<lambda>x. act_bind (f x) g)"
  by (rule ext) (auto simp: act_bind_def split: sum.split prod.split)

lemma act_bind_Inr: "m s = (Inr x, t) \<Longrightarrow> act_bind m f s = f x t"
  by (simp add: act_bind_def)

lemma act_bind_return: "act_bind (return x) f = f x"
  by (rule ext) (simp add: act_bind_def return_def)

lemma act_bind_update: "act_bind (update g) f s = f () (g s)"
  by (simp add: act_bind_def update_def)

lemma act_bind_Inr_iff:
  "act_bind m f s = (Inr y, t) \<longleftrightarrow> (\<exists>x s'. m s = (Inr x, s') \<and> f x s' = (Inr y, t))"
  by (auto simp: act_bind_def split: sum.split prod.split)

lemma lift_Inr_iff [simp]: "lift r s = (Inr x, t) \<longleftrightarrow> r = Inr x \<and> t = s"
  by (auto simp: lift_def)

lemma inspect_Inr_iff [simp]: "inspect f s = (Inr x, t) \<longleftrightarrow> x = f s \<and> t = s"
  by (auto simp: inspect_def)

lemma return_Inr_iff [simp]: "return x s = (Inr y, t) \<longleftrightarrow> y = x \<and> t = s"
  by (auto simp: return_def)

lemma bail_Inr_iff [simp]: "bail e s \<noteq> (Inr y, t)"
  by (simp add: bail_def)

section \<open>Rejections\<close>

text \<open>An action is rejected when it fails and leaves the state alone; an inquiry leaves it alone in any case.\<close>

definition rejects :: "('s, 'a) action \<Rightarrow> 's \<Rightarrow> bool" where
  "rejects m s \<longleftrightarrow> isl (fst (m s)) \<and> snd (m s) = s"

definition inquires :: "('s, 'a) action \<Rightarrow> 's \<Rightarrow> bool" where
  "inquires m s \<longleftrightarrow> snd (m s) = s"

lemma rejects_iff: "rejects m s \<longleftrightarrow> (\<exists>e. m s = (Inl e, s))"
  by (cases "m s") (auto simp: rejects_def isl_def)

lemma rejects_first: "rejects m s \<Longrightarrow> rejects (act_bind m f) s"
  by (auto simp: rejects_iff act_bind_def)

lemma rejects_later: "inquires m s \<Longrightarrow> (\<And>x. m s = (Inr x, s) \<Longrightarrow> rejects (f x) s) \<Longrightarrow> rejects (act_bind m f) s"
  by (cases "m s"; cases "fst (m s)") (auto simp: inquires_def rejects_iff act_bind_def)

lemma inquires_lift [simp]: "inquires (lift r) s" "inquires (return x) s" "inquires (bail e) s" "inquires (inspect f) s"
  by (simp_all add: inquires_def action_defs)

section \<open>Actions within a relation\<close>

definition within :: "('s \<Rightarrow> 's \<Rightarrow> bool) \<Rightarrow> ('s, 'a) action \<Rightarrow> bool" where
  "within rel m \<longleftrightarrow> (\<forall>s. rel s (snd (m s)))"

named_theorems within_intros \<open>composed actions that stay within a relation\<close>

lemma withinI: "(\<And>s. rel s (snd (m s))) \<Longrightarrow> within rel m"
  by (simp add: within_def)

lemma withinD: "within rel m \<Longrightarrow> m s = (r, s') \<Longrightarrow> rel s s'"
  unfolding within_def by (metis snd_conv)

lemma within_snd: "within rel m \<Longrightarrow> rel s (snd (m s))"
  by (simp add: within_def)

lemma within_mono: "within rel m \<Longrightarrow> (\<And>s t. rel s t \<Longrightarrow> rel' s t) \<Longrightarrow> within rel' m"
  by (simp add: within_def)

lemma within_update: "(\<And>s. rel s (f s)) \<Longrightarrow> within rel (update f)"
  by (simp add: within_def update_def)

lemma within_ignoring [within_intros]: "within rel m \<Longrightarrow> within rel (ignoring m)"
  by (simp add: within_def ignoring_def)

lemma within_attempting [within_intros]: "within rel m \<Longrightarrow> within rel (attempting m)"
  by (simp add: within_def attempting_def)

locale effect_relation =
  fixes rel :: "'s \<Rightarrow> 's \<Rightarrow> bool"
  assumes rel_refl: "rel s s"
    and rel_trans: "rel s t \<Longrightarrow> rel t u \<Longrightarrow> rel s u"
begin

lemma within_pure [within_intros]:
  "within rel (return x)" "within rel (bail e)" "within rel (inspect f)" "within rel (lift r)"
  by (simp_all add: within_def action_defs rel_refl)

text \<open>What follows a step may rely on the step's result.\<close>

lemma within_bind_result:
  assumes "within rel m" "\<And>s x s'. m s = (Inr x, s') \<Longrightarrow> within rel (f x)"
  shows "within rel (act_bind m f)"
proof (rule withinI)
  fix s
  obtain r s' where m: "m s = (r, s')" by fastforce
  from assms(1) m have step: "rel s s'" by (rule withinD)
  show "rel s (snd (act_bind m f s))"
  proof (cases r)
    case (Inr x)
    with assms(2) m have "rel s' (snd (f x s'))" by (auto simp: within_def)
    with step m Inr show ?thesis by (auto simp: act_bind_def intro: rel_trans)
  qed (use m step in \<open>simp add: act_bind_def\<close>)
qed

lemma within_bind [within_intros]:
  "within rel m \<Longrightarrow> (\<And>x. within rel (f x)) \<Longrightarrow> within rel (act_bind m f)"
  by (rule within_bind_result)

end

end
