(* ===== verification/Desktop_State.thy ===== *)
theory Desktop_State
  imports Desktop_View Desktop_Link Hints Actions
begin

text \<open>
  The state shared by the desktop's commands (apps/desktop/src-tauri/src/state.rs), the guards every
  command starts with, its calls to the guest and to the progress store, and the start of the
  application (lib.rs). A command is an action on the state; the commands of one application follow
  each other, so the locks of the code do not appear.
\<close>

section \<open>The state\<close>

text \<open>
  \<^verbatim>\<open>AppState\<close> in two records: the fields without a lock, which never change, and those behind one.
  The first extends what the commands use of code outside this repository: the network, serde_json on
  a reply, \<^verbatim>\<open>derive(Debug)\<close> of a reply, SQLite's error texts, Unicode lower-casing, \<^verbatim>\<open>from_utf8_lossy\<close>
  and the text of an exit status; with the embedded validator registry. The second has two parts of the outside world beside the machine's: the runtime
  folder, and the state of the network behind the control channel.
\<close>

record 'w host =
  dk_net :: "'w net"
  dk_decode :: reply_decoder
  dk_debug :: "agent_response \<Rightarrow> string"
  dk_store_message :: "store_error \<Rightarrow> string"
  dk_lower :: "string \<Rightarrow> string"
  dk_lossy :: "string \<Rightarrow> string"
  dk_exit_status :: "int \<Rightarrow> string"
  dk_registry :: registry

record 'w desk = "'w host" +
  dk_layout :: layout
  dk_catalog :: catalog
  dk_profile_id :: int
  dk_session_id :: string

record 'w app =
  ap_store :: database
  ap_vm :: vm_world
  ap_console :: console
  ap_agent :: "agent_client option"
  ap_session :: "session_kind option"
  ap_attempts :: "(string, attempt_state) btree_map"
  ap_mode :: progression_mode
  ap_unclean_shutdown :: bool
  ap_runtime :: "directory option"
  ap_net :: 'w

definition runtime_paths_of :: "bool \<Rightarrow> bool \<Rightarrow> layout \<Rightarrow> runtime_paths" where
  "runtime_paths_of windows initrd_exists ly =
     \<lparr>rp_qemu_system = ly_qemu_system windows ly, rp_qemu_img = ly_qemu_img windows ly,
      rp_kernel = ly_kernel ly, rp_initrd = (if initrd_exists then Some (ly_initrd ly) else None),
      rp_base_image = ly_base_image ly, rp_data_dir = ly_user_data_dir ly, rp_log_dir = ly_logs_dir ly\<rparr>"

definition session_id_of :: "u32 \<Rightarrow> u64 \<Rightarrow> string" where
  "session_id_of process_id seconds = dec (unat process_id) @ ''-'' @ dec (unat seconds)"

definition app_new ::
  "'w host \<Rightarrow> runtime_paths \<Rightarrow> accel_decision \<Rightarrow> fs \<Rightarrow> string \<Rightarrow> directory option \<Rightarrow> 'w
     \<Rightarrow> layout \<Rightarrow> catalog \<Rightarrow> database \<Rightarrow> int \<Rightarrow> bool \<Rightarrow> 'w desk \<times> 'w app" where
  "app_new H paths accel f session_id runtime net layout catalog store profile_id unclean =
     (host.extend H (desk.fields layout catalog profile_id session_id),
      \<lparr>ap_store = store, ap_vm = vm_initial paths accel f, ap_console = console_new, ap_agent = None,
       ap_session = None, ap_attempts = [], ap_mode = GuidedPath, ap_unclean_shutdown = unclean,
       ap_runtime = runtime, ap_net = net\<rparr>)"

section \<open>Guards\<close>

definition not_ready_message :: "vm_state \<Rightarrow> string" where
  "not_ready_message s =
     (case s of
        VmStopped \<Rightarrow> ''Linux is not running yet.''
      | VmStarting \<Rightarrow> ''Linux is still starting.''
      | VmBootingGuest \<Rightarrow> ''Linux is still starting.''
      | VmPaused \<Rightarrow> ''Linux is paused. Resume it to carry on.''
      | VmStopping \<Rightarrow> ''Linux is shutting down.''
      | VmUnbootable \<Rightarrow>
          ''The Linux practice environment is no longer bootable. Restore a snapshot or create a fresh environment.''
      | VmFailed \<Rightarrow> ''Linux could not be started. See the Environment panel for details.''
      | VmReady \<Rightarrow> [])"

definition require_ready :: "('w app, unit) action" where
  "require_ready a =
     (let s = vm_current (w_vm (ap_vm a))
      in if accepts_commands s then (Inr (), a) else (Inl (not_ready_message s), a))"

definition agent_of :: "('w app, agent_client) action" where
  "agent_of a =
     (case ap_agent a of
        Some client \<Rightarrow> (Inr client, a)
      | None \<Rightarrow> (Inl ''Linux is not running yet. Open a lesson or Free Practice to start it.'', a))"

text \<open>A request to the guest. The client is shared, so its next number and connection stay with it.\<close>

definition send_request :: "'w desk \<Rightarrow> agent_request \<Rightarrow> agent_client \<Rightarrow> ('w app, agent_response) action" where
  "send_request D request client a =
     (let (reply, client', net) = client_request (dk_net D) (dk_decode D) request (client, ap_net a)
      in (reply, a\<lparr>ap_agent := Some client', ap_net := net\<rparr>))"

definition ask :: "'w desk \<Rightarrow> agent_request \<Rightarrow> ('w app, agent_response) action" where
  "ask D request = act_bind agent_of (send_request D request)"

definition unexpected :: "'w desk \<Rightarrow> string \<Rightarrow> agent_response \<Rightarrow> ('w app, 'a) action" where
  "unexpected D text reply = bail (text @ dk_debug D reply)"

section \<open>The progress store\<close>

definition store_read :: "'w desk \<Rightarrow> (database \<Rightarrow> store_error + 'a) \<Rightarrow> ('w app, 'a) action" where
  "store_read D query a =
     (case query (ap_store a) of Inl e \<Rightarrow> (Inl (dk_store_message D e), a) | Inr x \<Rightarrow> (Inr x, a))"

definition store_write :: "'w desk \<Rightarrow> (database \<Rightarrow> store_error + database) \<Rightarrow> ('w app, unit) action" where
  "store_write D statement a =
     (case statement (ap_store a) of
        Inl e \<Rightarrow> (Inl (dk_store_message D e), a) | Inr db \<Rightarrow> (Inr (), a\<lparr>ap_store := db\<rparr>))"

definition store_call :: "'w desk \<Rightarrow> (database \<Rightarrow> store_error + ('a \<times> database)) \<Rightarrow> ('w app, 'a) action" where
  "store_call D statement a =
     (case statement (ap_store a) of
        Inl e \<Rightarrow> (Inl (dk_store_message D e), a) | Inr (x, db) \<Rightarrow> (Inr x, a\<lparr>ap_store := db\<rparr>))"

section \<open>Attempts\<close>

definition attempt_key :: "string \<Rightarrow> string \<Rightarrow> string" where
  "attempt_key lesson_id task_id = lesson_id @ ''/'' @ task_id"

text \<open>The attempt record of a task, made when there is none.\<close>

definition attempt_entry :: "string \<Rightarrow> string \<Rightarrow> 'w app \<Rightarrow> attempt_state" where
  "attempt_entry lesson_id task_id a =
     (case bt_get (ap_attempts a) (attempt_key lesson_id task_id) of
        Some entry \<Rightarrow> entry | None \<Rightarrow> attempt_new lesson_id task_id)"

definition with_attempt ::
  "string \<Rightarrow> string \<Rightarrow> (attempt_state \<Rightarrow> attempt_state \<times> 'a) \<Rightarrow> ('w app, 'a) action" where
  "with_attempt lesson_id task_id f a =
     (let (entry, x) = f (attempt_entry lesson_id task_id a)
      in (Inr x, a\<lparr>ap_attempts := bt_insert (attempt_key lesson_id task_id) entry (ap_attempts a)\<rparr>))"

text \<open>\<^verbatim>\<open>attempts\<close> is a hash map: it is iterated in no particular order, here in the order of the keys.\<close>

definition lesson_attempts :: "string \<Rightarrow> 'w app \<Rightarrow> attempt_state list" where
  "lesson_attempts lesson_id a =
     map snd (filter (\<lambda>(key, _). starts_with key (lesson_id @ ''/'')) (ap_attempts a))"

definition clear_lesson_attempts :: "string \<Rightarrow> ('w app, unit) action" where
  "clear_lesson_attempts lesson_id =
     update (\<lambda>a. a\<lparr>ap_attempts := filter (\<lambda>(key, _). \<not> starts_with key (lesson_id @ ''/'')) (ap_attempts a)\<rparr>)"

section \<open>Starting the application\<close>

primrec mode_str :: "progression_mode \<Rightarrow> string" where
  "mode_str GuidedPath = ''guided-path''"
| "mode_str OpenLibrary = ''open-library''"
| "mode_str AssessmentMode = ''assessment''"

definition parse_mode :: "string \<Rightarrow> progression_mode option" where
  "parse_mode value =
     (if value = ''guided-path'' then Some GuidedPath
      else if value = ''open-library'' then Some OpenLibrary
      else if value = ''assessment'' then Some AssessmentMode else None)"

interpretation mode_text: codec mode_str parse_mode "\<lambda>_. True"
proof
  show "parse_mode (mode_str m) = Some m" for m by (cases m) (simp_all add: parse_mode_def)
qed

definition startup_mode :: "int \<Rightarrow> database \<Rightarrow> progression_mode" where
  "startup_mode profile_id db =
     (case Option.bind (setting profile_id ''progression.mode'' db) parse_mode of
        Some mode \<Rightarrow> mode | None \<Rightarrow> GuidedPath)"

text \<open>
  \<^verbatim>\<open>ProgressStore::open\<close>: the folder, the file, the pragmas and the migrations, each of which can fail.
  \<open>opened\<close> is the content of the file, no tables if it is new.
\<close>

record store_io =
  si_create_dir :: "string option"
  si_open :: "string option"
  si_configure :: "string option"

definition store_open :: "(store_error \<Rightarrow> string) \<Rightarrow> store_io \<Rightarrow> database \<Rightarrow> string + database" where
  "store_open message io opened =
     (case si_create_dir io of Some e \<Rightarrow> Inl e | None \<Rightarrow>
     (case si_open io of Some e \<Rightarrow> Inl e | None \<Rightarrow>
     (case si_configure io of Some e \<Rightarrow> Inl e | None \<Rightarrow>
     (case apply_migrations opened of Inl e \<Rightarrow> Inl (message e) | Inr (_, db) \<Rightarrow> Inr db))))"

lemma store_open_Inr: "store_open message io opened = Inr db \<Longrightarrow> \<exists>v. apply_migrations opened = Inr (v, db)"
  by (auto simp: store_open_def split: option.splits sum.splits)

text \<open>
  What \<^verbatim>\<open>try_run\<close> does once the layout is known: the lock of an earlier run, the catalogue, the
  database with its profile and retention policy, the mode.
\<close>

record startup =
  su_paths :: runtime_paths
  su_accel :: accel_decision
  su_fs :: fs
  su_runtime :: "directory option"
  su_process_id :: u32
  su_seconds :: u64
  su_now :: int
  su_pruned_at :: int
  su_session_lock :: bool
  su_packages :: package_source
  su_store_io :: store_io
  su_opened :: database

definition setup_app ::
  "'w host \<Rightarrow> (load_error \<Rightarrow> string) \<Rightarrow> startup \<Rightarrow> layout \<Rightarrow> 'w \<Rightarrow> string + ('w desk \<times> 'w app)" where
  "setup_app H load_message S ly net =
     (case load (dk_registry H) (su_packages S) of
        Inl e \<Rightarrow> Inl (''could not load the lesson catalogue from '' @ ly_lessons_root ly @ '': '' @ load_message e)
      | Inr catalog \<Rightarrow>
          (case store_open (dk_store_message H) (su_store_io S) (su_opened S) of
             Inl e \<Rightarrow> Inl e
           | Inr db \<Rightarrow>
               let (profile_id, db) = ensure_profile ''student'' (su_now S) db;
                   (_, db) = prune_command_history profile_id (dec (unat (su_process_id S)) @ ''-startup'') (su_pruned_at S) db;
                   (D, app) = app_new H (su_paths S) (su_accel S) (su_fs S) (session_id_of (su_process_id S) (su_seconds S))
                           (su_runtime S) net ly catalog db profile_id (su_session_lock S)
               in Inr (D, app\<lparr>ap_mode := startup_mode profile_id db\<rparr>)))"

section \<open>What commands do to the store and the machine\<close>

text \<open>The machine only takes the steps of its manager, and the file system under it changes.\<close>

definition vm_moves :: "vm_world \<Rightarrow> vm_world \<Rightarrow> bool" where
  "vm_moves w w' \<longleftrightarrow> vm_step w w' \<or> (\<exists>f. w' = w\<lparr>w_fs := f\<rparr>)"

text \<open>Attempts change by the events of an attempt at a task of the catalogue, with hints allowed only
  where the lesson does not hide them, and by being forgotten.\<close>

definition attempt_in :: "(string, attempt_state) btree_map \<Rightarrow> string \<Rightarrow> string \<Rightarrow> attempt_state" where
  "attempt_in m lesson_id task_id =
     (case bt_get m (attempt_key lesson_id task_id) of
        Some entry \<Rightarrow> entry | None \<Rightarrow> attempt_new lesson_id task_id)"

lemma attempt_entry_in: "attempt_entry lesson_id task_id a = attempt_in (ap_attempts a) lesson_id task_id"
  by (simp add: attempt_entry_def attempt_in_def)

inductive attempts_move ::
  "catalog \<Rightarrow> (string, attempt_state) btree_map \<Rightarrow> (string, attempt_state) btree_map \<Rightarrow> bool" for C where
  event: "try_lesson C lesson_id = Inr l \<Longrightarrow> t \<in> set (l_tasks l) \<Longrightarrow> t_id t = task_id \<Longrightarrow>
    (allowed \<Longrightarrow> \<not> hides_hints (l_type l)) \<Longrightarrow>
    attempts_move C m (bt_insert (attempt_key lesson_id task_id)
      (attempt_step t allowed e (attempt_in m lesson_id task_id)) m)"
| forget: "attempts_move C m (filter p m)"

inductive_cases attempts_moveE: "attempts_move C m m'"

definition evolves :: "('w, 'z) desk_scheme \<Rightarrow> 'w app \<Rightarrow> 'w app \<Rightarrow> bool" where
  "evolves D a a' \<longleftrightarrow>
     (\<exists>ops. list_all (\<lambda>op. \<not> is_reset op) ops \<and> ap_store a' = store_run ops (ap_store a))
     \<and> vm_moves\<^sup>*\<^sup>* (ap_vm a) (ap_vm a')
     \<and> (attempts_move (dk_catalog D))\<^sup>*\<^sup>* (ap_attempts a) (ap_attempts a')"

lemma evolvesI:
  assumes "ap_store a' = ap_store a" "vm_moves\<^sup>*\<^sup>* (ap_vm a) (ap_vm a')" "ap_attempts a' = ap_attempts a"
  shows "evolves D a a'"
  using assms by (auto simp: evolves_def store_run_def intro!: exI [of _ "[]"])

lemma evolves_same:
  "ap_store a' = ap_store a \<Longrightarrow> ap_vm a' = ap_vm a \<Longrightarrow> ap_attempts a' = ap_attempts a \<Longrightarrow> evolves D a a'"
  by (rule evolvesI) simp_all

lemma evolves_vm_step: "vm_step (ap_vm a) w \<Longrightarrow> evolves D a (a\<lparr>ap_vm := w\<rparr>)"
  by (rule evolvesI) (auto simp: vm_moves_def)

lemma evolves_fs: "evolves D a (a\<lparr>ap_vm := (ap_vm a)\<lparr>w_fs := f\<rparr>\<rparr>)"
  by (rule evolvesI) (auto simp: vm_moves_def intro!: r_into_rtranclp)

lemma evolves_op: "\<not> is_reset op \<Longrightarrow> evolves D a (a\<lparr>ap_store := store_do op (ap_store a)\<rparr>)"
  by (auto simp: evolves_def store_run_def intro!: exI [of _ "[op]"])

lemma evolves_attempts:
  "attempts_move (dk_catalog D) (ap_attempts a) m \<Longrightarrow> evolves D a (a\<lparr>ap_attempts := m\<rparr>)"
  by (auto simp: evolves_def store_run_def intro!: exI [of _ "[]"])

interpretation host_effect: effect_relation "evolves D" for D
proof
  show "evolves D a a" for a by (rule evolves_same) simp_all
  show "evolves D a c" if "evolves D a b" "evolves D b c" for a b c
  proof -
    from that obtain ops ops' where ops: "list_all (\<lambda>op. \<not> is_reset op) ops" "ap_store b = store_run ops (ap_store a)"
      "list_all (\<lambda>op. \<not> is_reset op) ops'" "ap_store c = store_run ops' (ap_store b)"
      by (auto simp: evolves_def)
    then have "ap_store c = store_run (ops @ ops') (ap_store a)" by (simp add: store_run_def)
    with ops that show ?thesis
      by (auto simp: evolves_def intro!: exI [of _ "ops @ ops'"])
  qed
qed

lemmas [within_intros] = host_effect.within_pure host_effect.within_bind

lemma vm_inv_moves: "vm_moves\<^sup>*\<^sup>* w w' \<Longrightarrow> vm_inv w \<Longrightarrow> vm_inv w'"
proof (induction rule: rtranclp_induct)
  case (step v w)
  then show ?case
    by (auto simp: vm_moves_def vm_inv_step) (simp add: vm_inv_def split: option.splits)
qed

lemma vm_moves_config:
  "vm_moves\<^sup>*\<^sup>* w w' \<Longrightarrow> vm_configured (w_vm w) \<noteq> None \<Longrightarrow> vm_configured (w_vm w') \<noteq> None"
  by (induction rule: rtranclp_induct) (auto simp: vm_moves_def dest: vm_step_config)

text \<open>So what holds of the store and of the machine holds after any command.\<close>

lemma evolves_invariants:
  assumes "evolves D a a'"
  shows "store_inv (ap_store a) \<Longrightarrow> store_inv (ap_store a') \<and> rows_kept (ap_store a) (ap_store a')"
    and "vm_inv (ap_vm a) \<Longrightarrow> vm_inv (ap_vm a')"
proof -
  from assms obtain ops where ops: "list_all (\<lambda>op. \<not> is_reset op) ops" "ap_store a' = store_run ops (ap_store a)"
    and vm: "vm_moves\<^sup>*\<^sup>* (ap_vm a) (ap_vm a')"
    by (auto simp: evolves_def)
  show "vm_inv (ap_vm a) \<Longrightarrow> vm_inv (ap_vm a')" using vm by (rule vm_inv_moves)
  show "store_inv (ap_store a) \<Longrightarrow> store_inv (ap_store a') \<and> rows_kept (ap_store a) (ap_store a')"
    using credit.run_later [of "ap_store a" ops] store_run_inv [of "ap_store a" ops] ops
    by (auto simp: store_run_def)
qed

lemma within_guards [within_intros]:
  "within (evolves D) require_ready" "within (evolves D) agent_of" "within (evolves D) (send_request D request client)"
  "within (evolves D) (ask D request)" "within (evolves D) (unexpected D text reply)" "within (evolves D) (store_read D query)"
  "within (evolves D) (clear_lesson_attempts lesson_id)"
proof -
  show "within (evolves D) require_ready"
    by (rule withinI) (simp add: require_ready_def Let_def evolves_same)
  show agent: "within (evolves D) agent_of"
    by (rule withinI) (simp add: agent_of_def evolves_same split: option.split)
  show send: "within (evolves D) (send_request D request client)" for client
    by (rule withinI) (simp add: send_request_def evolves_same split: prod.split)
  show "within (evolves D) (ask D request)"
    unfolding ask_def by (intro within_intros agent send)
  show "within (evolves D) (unexpected D text reply)"
    unfolding unexpected_def by (intro within_intros)
  show "within (evolves D) (store_read D query)"
    by (rule withinI) (simp add: store_read_def evolves_same split: sum.split)
  show "within (evolves D) (clear_lesson_attempts lesson_id)"
    unfolding clear_lesson_attempts_def by (intro within_update evolves_attempts attempts_move.forget)
qed

lemma within_with_attempt:
  assumes "try_lesson (dk_catalog D) lesson_id = Inr l" "t \<in> set (l_tasks l)" "t_id t = task_id"
    and "allowed \<Longrightarrow> \<not> hides_hints (l_type l)"
    and f: "\<And>entry. fst (f entry) = attempt_step t allowed e entry"
  shows "within (evolves D) (with_attempt lesson_id task_id f)"
proof (rule withinI)
  fix a
  have "evolves D a (a\<lparr>ap_attempts := bt_insert (attempt_key lesson_id task_id)
      (attempt_step t allowed e (attempt_in (ap_attempts a) lesson_id task_id)) (ap_attempts a)\<rparr>)"
    using evolves_attempts [OF attempts_move.event [where lesson_id = lesson_id]] assms(1-4) by blast
  then show "evolves D a (snd (with_attempt lesson_id task_id f a))"
    by (simp add: with_attempt_def attempt_entry_in f Let_def split_def)
qed

lemma within_store_write:
  assumes "\<And>db. statement db = store_step op db" "\<not> is_reset op"
  shows "within (evolves D) (store_write (D :: 'w desk) statement)"
proof (rule withinI)
  fix a :: "'w app"
  have "ap_store (snd (store_write D statement a)) = store_do op (ap_store a)"
    "snd (store_write D statement a) = a\<lparr>ap_store := ap_store (snd (store_write D statement a))\<rparr>"
    using assms(1) by (simp_all add: store_write_def store_do_def split: sum.split)
  with evolves_op [OF assms(2), of D a] show "evolves D a (snd (store_write D statement a))" by simp
qed

lemma within_store_call:
  assumes "\<And>db. map_sum id snd (statement db) = store_step op db" "\<not> is_reset op"
  shows "within (evolves D) (store_call (D :: 'w desk) statement)"
proof (rule withinI)
  fix a :: "'w app"
  have "store_step op (ap_store a) = map_sum id snd (statement (ap_store a))" by (simp add: assms(1))
  then have "ap_store (snd (store_call D statement a)) = store_do op (ap_store a)"
    "snd (store_call D statement a) = a\<lparr>ap_store := ap_store (snd (store_call D statement a))\<rparr>"
    by (auto simp: store_call_def store_do_def split: sum.split prod.split)
  with evolves_op [OF assms(2), of D a] show "evolves D a (snd (store_call D statement a))" by simp
qed

lemma within_statements [within_intros]:
  "within (evolves D) (store_write D (start_lesson pid lid now))"
  "within (evolves D) (store_write D (record_lesson_attempt pid lid now))"
  "within (evolves D) (store_write D (add_hint_used pid lid now))"
  "within (evolves D) (store_write D (set_setting pid key val))"
  "within (evolves D) (store_call D (complete_lesson pid lid m h q now))"
  "within (evolves D) (store_call D (record_task_attempt t))"
  "within (evolves D) (store_call D (record_command pid s c now))"
  "within (evolves D) (store_call D (\<lambda>db. Inr (prune_command_history pid s now db)))"
  "within (evolves D) (store_call D (record_snapshot pid n d v b now))"
  "within (evolves D) (store_call D (bump_metric pid key by_seconds))"
proof -
  show "within (evolves D) (store_write D (start_lesson pid lid now))"
    by (rule within_store_write [of _ "OpStart pid lid now"]) (simp_all add: is_reset_def)
  show "within (evolves D) (store_write D (record_lesson_attempt pid lid now))"
    by (rule within_store_write [of _ "OpLessonAttempt pid lid now"]) (simp_all add: is_reset_def)
  show "within (evolves D) (store_write D (add_hint_used pid lid now))"
    by (rule within_store_write [of _ "OpHint pid lid now"]) (simp_all add: is_reset_def)
  show "within (evolves D) (store_write D (set_setting pid key val))"
    by (rule within_store_write [of _ "OpSetting pid key val"]) (simp_all add: is_reset_def)
  show "within (evolves D) (store_call D (complete_lesson pid lid m h q now))"
    by (rule within_store_call [of _ "OpComplete pid lid m h q now"]) (simp_all add: is_reset_def)
  show "within (evolves D) (store_call D (record_task_attempt t))"
    by (rule within_store_call [of _ "OpTaskAttempt t"]) (simp_all add: is_reset_def)
  show "within (evolves D) (store_call D (record_command pid s c now))"
    by (rule within_store_call [of _ "OpCommand pid s c now"]) (simp_all add: is_reset_def)
  show "within (evolves D) (store_call D (\<lambda>db. Inr (prune_command_history pid s now db)))"
    by (rule within_store_call [of _ "OpPrune pid s now"]) (simp_all add: is_reset_def)
  show "within (evolves D) (store_call D (record_snapshot pid n d v b now))"
    by (rule within_store_call [of _ "OpSnapshot pid n d v b now"]) (simp_all add: is_reset_def)
  show "within (evolves D) (store_call D (bump_metric pid key by_seconds))"
    by (rule within_store_call [of _ "OpMetric pid key by_seconds"]) (simp_all add: is_reset_def)
qed

section \<open>Sample data\<close>

text \<open>A desktop with one lesson, whose guest is ready and passes the first check.\<close>

definition sample_validation :: task_validation where
  "sample_validation =
     \<lparr>tv_lesson_id = ''nav.a'', tv_task_id = ''t1'', tv_passed = True, tv_outcomes = [],
      tv_completion_percent = 100, tv_primary_failure = None, tv_errored = False\<rparr>"

definition sample_host :: "string list host" where
  "sample_host =
     \<lparr>dk_net = scripted_net,
      dk_decode = (\<lambda>line. if line = ''pass'' then Some \<lparr>rs_id = 1, rs_response = TaskValidated sample_validation\<rparr> else None),
      dk_debug = (\<lambda>_. ''reply''), dk_store_message = (\<lambda>_. ''store''), dk_lower = (\<lambda>s. s), dk_lossy = (\<lambda>s. s),
      dk_exit_status = (\<lambda>_. ''exit''), dk_registry = sample_registry\<rparr>"

definition sample_layout :: layout where
  "sample_layout = layout_at ''0.1.0'' ''/res'' ''/d''"

definition sample_desk :: "string list desk" where
  "sample_desk =
     host.extend sample_host (desk.fields sample_layout
       (empty_catalog\<lparr>cat_lessons := [(''nav.a'', sample_lesson ''nav.a'' ''nav'' [])]\<rparr>) 1 ''s1'')"

definition sample_app :: "string list \<Rightarrow> string list app" where
  "sample_app net =
     snd (app_new sample_host sample_paths (accel_software ''test'') Map.empty ''s1'' None net sample_layout
       empty_catalog (store_run [OpProfile ''student'' 1] (empty_tables latest_version)) 1 False)"

definition ready_app :: "string list \<Rightarrow> string list app" where
  "ready_app net =
     (sample_app net)\<lparr>ap_vm := sample_world\<lparr>w_vm := (w_vm sample_world)\<lparr>vm_current := VmReady\<rparr>\<rparr>,
       ap_agent := Some (client_new 4003 ''token'')\<rparr>"

end
