(* ===== verification/Redact.thy ===== *)
theory Redact
  imports Prelude
begin

text \<open>
  Transcript redaction (crates/progress-store/src/redact.rs). The scan's byte index is the
  suffix of the line still to be read; Rust's \<^verbatim>\<open>char\<close>s are the encoded scalars of the suffix.
\<close>

definition sensitive_keys :: "string list" where
  "sensitive_keys =
     [''password='', ''passwd='', ''token='', ''secret='', ''api_key='', ''apikey='',
      ''authorization:'', ''auth_token='', ''private_key='']"

definition mask :: string where
  "mask = ''***redacted***''"

definition key_at :: "string \<Rightarrow> string \<Rightarrow> bool" where
  "key_at rest key \<longleftrightarrow> length key \<le> length rest \<and> eq_ignore_ascii_case (take (length key) rest) key"

definition is_header :: "string \<Rightarrow> bool" where
  "is_header key \<longleftrightarrow> last key = CHR '':''"

definition ends_value :: "bool \<Rightarrow> string \<Rightarrow> bool" where
  "ends_value header ch \<longleftrightarrow>
     ch \<in> {[CHR 0x22], [CHR 0x27], '';'', ''&'', ''|''} \<or> (\<not> header \<and> is_whitespace ch)"

text \<open>The text from the key's end: the blanks kept after a header, the value, what follows.\<close>

definition leading_space :: "string \<Rightarrow> string \<Rightarrow> string" where
  "leading_space key after =
     (if is_header key then concat (takeWhile is_whitespace (utf8_chars after)) else [])"

definition value_text :: "string \<Rightarrow> string \<Rightarrow> string" where
  "value_text key tail = concat (takeWhile (\<lambda>ch. \<not> ends_value (is_header key) ch) (utf8_chars tail))"

lemma found_key_length: "List.find P sensitive_keys = Some key \<Longrightarrow> 0 < length key"
  by (drule find_SomeD) (auto simp: sensitive_keys_def)

function redact_line :: "string \<Rightarrow> string" where
  "redact_line [] = []"
| "redact_line (c # cs) =
     (case List.find (key_at (c # cs)) sensitive_keys of
        Some key \<Rightarrow>
          let after = drop (length key) (c # cs);
              lead = leading_space key after;
              tail = drop (length lead) after;
              val = value_text key tail
          in take (length key) (c # cs) @ lead @ (if val = [] then [] else mask)
             @ redact_line (drop (length val) tail)
      | None \<Rightarrow> take (utf8_len c) (c # cs) @ redact_line (drop (utf8_len c) (c # cs)))"
  by pat_completeness auto
termination
  by (relation "measure length") (auto dest: found_key_length simp: Let_def)

definition redact_transcript :: "string \<Rightarrow> string" where
  "redact_transcript transcript = join [CHR 0x0A] (map redact_line (lines transcript))"

definition is_lab_password :: "string \<Rightarrow> bool" where
  "is_lab_password val \<longleftrightarrow> val = ''linuxlab''"

text \<open>The examples of the source's tests.\<close>

lemma redact_examples:
  "redact_line ''app --password=a --token=b'' = ''app --password=***redacted*** --token=***redacted***''"
  "redact_line ''prompt: password='' = ''prompt: password=''"
  "redact_line ''curl -H authorization: Bearer xyz'' = ''curl -H authorization: ***redacted***''"
  by code_simp+

section \<open>Complete scalars\<close>

text \<open>A string whose last scalar is not cut short; every Rust string is one.\<close>

definition utf8_complete :: "string \<Rightarrow> bool" where
  "utf8_complete s \<longleftrightarrow> list_all (\<lambda>ch. length ch = utf8_len (hd ch)) (utf8_chars s)"

lemma utf8_complete_ascii: "\<forall>c\<in>set s. is_ascii c \<Longrightarrow> utf8_complete s"
  by (auto simp: utf8_complete_def utf8_chars_ascii list_all_iff utf8_len_ascii)

text \<open>A complete scalar at the front of a string.\<close>

definition scalar :: "string \<Rightarrow> bool" where
  "scalar ch \<longleftrightarrow> ch \<noteq> [] \<and> length ch = utf8_len (hd ch)"

lemma utf8_chars_scalar: "scalar ch \<Longrightarrow> utf8_chars (ch @ s) = ch # utf8_chars s"
proof -
  assume sc: "scalar ch"
  then obtain c cs where ch: "ch = c # cs" by (cases ch) (auto simp: scalar_def)
  with sc have n: "utf8_len c = length (c # cs)" by (simp add: scalar_def)
  have "utf8_chars (c # (cs @ s)) =
      take (utf8_len c) ((c # cs) @ s) # utf8_chars (drop (utf8_len c) ((c # cs) @ s))" by simp
  also have "\<dots> = (c # cs) # utf8_chars s" unfolding n by simp
  finally show ?thesis using ch by simp
qed

lemma utf8_chars_scalars:
  "list_all scalar chs \<Longrightarrow> utf8_chars (concat chs @ s) = chs @ utf8_chars s"
  by (induction chs) (simp_all add: utf8_chars_scalar)

lemma utf8_complete_scalars: "utf8_complete s \<longleftrightarrow> list_all scalar (utf8_chars s)"
  using utf8_chars_nonempty by (auto simp: utf8_complete_def scalar_def list_all_iff)

lemma utf8_chars_append: "utf8_complete s \<Longrightarrow> utf8_chars (s @ t) = utf8_chars s @ utf8_chars t"
  using utf8_chars_scalars [of "utf8_chars s" t] by (simp add: utf8_complete_scalars)

lemma whitespace_scalar: "is_whitespace ch \<Longrightarrow> scalar ch"
  by (auto simp: scalar_def is_whitespace_def utf8_len_def Let_def split: list.splits)

section \<open>What is masked\<close>

text \<open>No key starts anywhere in the line.\<close>

fun keyless :: "string \<Rightarrow> bool" where
  "keyless [] = True"
| "keyless (c # cs) = (list_all (\<lambda>key. \<not> key_at (c # cs) key) sensitive_keys \<and> keyless cs)"

lemma keyless_drop: "keyless s \<Longrightarrow> keyless (drop n s)"
proof (induction s arbitrary: n)
  case (Cons c s)
  then show ?case by (cases n) auto
qed simp

lemma redact_keyless: "keyless s \<Longrightarrow> redact_line s = s"
proof (induction s rule: redact_line.induct)
  case (2 c cs)
  then have "List.find (key_at (c # cs)) sensitive_keys = None"
    by (auto simp: find_None_iff_all list_all_iff)
  moreover from this have "redact_line (drop (utf8_len c) (c # cs)) = drop (utf8_len c) (c # cs)"
    using "2.IH"(1) "2.prems" keyless_drop by blast
  ultimately show ?case by simp
qed simp

text \<open>
  A value that follows an assignment key at the scan's position, up to the first delimiter or
  the end, is replaced by the mask.
\<close>

definition hidden_value :: "string \<Rightarrow> string \<Rightarrow> bool" where
  "hidden_value key val \<longleftrightarrow> utf8_complete val
     \<and> list_all (\<lambda>ch. \<not> ends_value (is_header key) ch) (utf8_chars val)"

definition value_ends :: "string \<Rightarrow> string \<Rightarrow> bool" where
  "value_ends key rest \<longleftrightarrow> rest = [] \<or> ends_value (is_header key) (hd (utf8_chars rest))"

lemma value_text_hidden:
  assumes "hidden_value key val" "value_ends key rest"
  shows "value_text key (val @ rest) = val"
proof -
  let ?p = "\<lambda>ch. \<not> ends_value (is_header key) ch"
  have "takeWhile ?p (utf8_chars rest) = []"
    using assms(2) by (cases "utf8_chars rest") (auto simp: value_ends_def)
  moreover have "\<forall>ch\<in>set (utf8_chars val). ?p ch"
    using assms(1) by (simp add: hidden_value_def list_all_iff)
  ultimately have "takeWhile ?p (utf8_chars val @ utf8_chars rest) = utf8_chars val"
    by (simp add: takeWhile_append2)
  then show ?thesis using assms(1) by (simp add: value_text_def hidden_value_def utf8_chars_append)
qed

text \<open>The key the scan finds: the first of the list that matches.\<close>

definition found_key :: "string \<Rightarrow> string option" where
  "found_key rest = List.find (key_at rest) sensitive_keys"

lemma redact_line_found:
  assumes "found_key (k @ lead @ val @ rest) = Some key" "length k = length key"
    and "leading_space key (lead @ val @ rest) = lead"
    and "hidden_value key val" "value_ends key rest"
  shows "redact_line (k @ lead @ val @ rest) =
           k @ lead @ (if val = [] then [] else mask) @ redact_line rest"
proof -
  have pos: "0 < length key" using assms(1) found_key_length by (simp add: found_key_def)
  then obtain c cs where cs: "k @ lead @ val @ rest = c # cs" using assms(2) by (cases k) auto
  have drop: "drop (length key) (c # cs) = lead @ val @ rest" "take (length key) (c # cs) = k"
    unfolding cs [symmetric] using assms(2) by simp_all
  show ?thesis
    using assms(1,3) value_text_hidden [OF assms(4,5)] drop unfolding cs
    by (simp add: found_key_def Let_def)
qed

lemma redact_line_skip:
  assumes "found_key (c # cs) = None"
  shows "redact_line (c # cs) = take (utf8_len c) (c # cs) @ redact_line (drop (utf8_len c) (c # cs))"
  using assms by (simp add: found_key_def)

section \<open>A key ends at its separator\<close>

definition separator :: "char \<Rightarrow> bool" where
  "separator c \<longleftrightarrow> c = CHR ''='' \<or> c = CHR '':''"

lemma keys_separator:
  "key \<in> set sensitive_keys \<Longrightarrow> separator (last key) \<and> (\<forall>c\<in>set (butlast key). \<not> separator c)"
proof -
  have "list_all (\<lambda>key. separator (last key) \<and> list_all (\<lambda>c. \<not> separator c) (butlast key)) sensitive_keys"
    by code_simp
  then show "key \<in> set sensitive_keys \<Longrightarrow> ?thesis" by (simp add: list_all_iff)
qed

lemma to_ascii_lower_separator: "separator (to_ascii_lower c) \<longleftrightarrow> separator c"
proof (cases "is_ascii_upper c")
  case True
  then have "byte c \<noteq> 61" "byte c \<noteq> 58" "97 \<le> byte c + 32" "byte c + 32 < 256"
    by (simp_all add: is_ascii_upper_def)
  moreover from this have "byte (char_of (byte c + 32)) = byte c + 32"
    by (simp add: byte_def)
  moreover have "byte (CHR ''='') = 61" "byte (CHR '':'') = 58" by (simp_all add: byte_def)
  ultimately show ?thesis using True by (auto simp: separator_def to_ascii_lower_def)
qed (simp add: to_ascii_lower_def)

lemma key_at_nth:
  "key_at s key \<Longrightarrow> j < length key \<Longrightarrow> to_ascii_lower (s ! j) = to_ascii_lower (key ! j)"
proof -
  assume k: "key_at s key" and j: "j < length key"
  then have "map to_ascii_lower (take (length key) s) ! j = map to_ascii_lower key ! j"
    by (simp add: key_at_def eq_ignore_ascii_case_def)
  with k j show ?thesis by (simp add: key_at_def)
qed

text \<open>A key that starts in \<open>u\<close> cannot run past a separator that ends \<open>u\<close>.\<close>

lemma key_at_local:
  assumes "key \<in> set sensitive_keys" "u \<noteq> []" "separator (last u)"
  shows "key_at (u @ v) key \<longleftrightarrow> key_at u key"
proof (cases "length key \<le> length u")
  case False
  have "\<not> key_at (u @ v) key"
  proof
    assume k: "key_at (u @ v) key"
    define j where "j = length u - 1"
    have j: "j < length key - 1" "(u @ v) ! j = last u"
      using False assms(2) by (cases u; auto simp: j_def last_conv_nth nth_append)+
    then have "separator (to_ascii_lower (key ! j))"
      using key_at_nth [OF k, of j] assms(3) to_ascii_lower_separator [of "last u"] by simp
    then have "separator (key ! j)" by (simp add: to_ascii_lower_separator)
    moreover have "key ! j \<in> set (butlast key)"
      using j(1) by (metis length_butlast nth_butlast nth_mem)
    ultimately show False using keys_separator [OF assms(1)] by blast
  qed
  moreover have "\<not> key_at u key" using False by (simp add: key_at_def)
  ultimately show ?thesis by simp
qed (simp add: key_at_def)

lemma find_cong_mem: "(\<And>x. x \<in> set xs \<Longrightarrow> P x \<longleftrightarrow> Q x) \<Longrightarrow> List.find P xs = List.find Q xs"
  by (induction xs) auto

lemma found_key_local: "u \<noteq> [] \<Longrightarrow> separator (last u) \<Longrightarrow> found_key (u @ v) = found_key u"
  unfolding found_key_def by (rule find_cong_mem) (rule key_at_local)

lemma found_key_separator:
  assumes "found_key s = Some key"
  shows "take (length key) s \<noteq> []" "length (take (length key) s) = length key"
    "separator (last (take (length key) s))"
proof -
  have key: "key \<in> set sensitive_keys" "key_at s key"
    using assms by (auto simp: found_key_def dest: find_SomeD)
  then have pos: "0 < length key" "length key \<le> length s"
    using assms found_key_length by (auto simp: found_key_def key_at_def)
  then show ne: "take (length key) s \<noteq> []" "length (take (length key) s) = length key" by auto
  have "last (take (length key) s) = s ! (length key - 1)"
    unfolding last_conv_nth [OF ne(1)] ne(2) using pos by simp
  moreover have "to_ascii_lower (s ! (length key - 1)) = to_ascii_lower (last key)"
    using key_at_nth [OF key(2), of "length key - 1"] pos by (simp add: last_conv_nth)
  ultimately show "separator (last (take (length key) s))"
    using keys_separator [OF key(1)] to_ascii_lower_separator by metis
qed

section \<open>Redacting twice\<close>

text \<open>The redacted line agrees with the line up to the first separator of a key.\<close>

lemma redact_line_prefix:
  "redact_line s = s \<or> (\<exists>u v w. s = u @ v \<and> redact_line s = u @ w \<and> u \<noteq> [] \<and> separator (last u))"
proof (induction s rule: redact_line.induct)
  case (2 c cs)
  show ?case
  proof (cases "found_key (c # cs)")
    case None
    let ?p = "take (utf8_len c) (c # cs)" and ?r = "drop (utf8_len c) (c # cs)"
    have eq: "redact_line (c # cs) = ?p @ redact_line ?r" "c # cs = ?p @ ?r"
      using None by (simp_all add: found_key_def)
    from "2.IH"(1) None consider "redact_line ?r = ?r"
      | u v w where "?r = u @ v" "redact_line ?r = u @ w" "u \<noteq> []" "separator (last u)"
      unfolding found_key_def by blast
    then show ?thesis
    proof cases
      case 2
      then have "c # cs = (?p @ u) @ v" "redact_line (c # cs) = (?p @ u) @ w"
        "?p @ u \<noteq> []" "separator (last (?p @ u))" using eq by auto
      then show ?thesis by blast
    qed (use eq in simp)
  next
    case (Some key)
    then obtain w where "redact_line (c # cs) = take (length key) (c # cs) @ w"
      by (simp add: found_key_def Let_def)
    then show ?thesis
      using found_key_separator [OF Some] append_take_drop_id [of "length key" "c # cs", symmetric]
      by blast
  qed
qed simp

lemma found_key_redact: "found_key (redact_line s) = found_key s"
  using redact_line_prefix [of s] found_key_local by auto

lemma utf8_chars_split:
  "utf8_chars s = xs @ ys \<Longrightarrow>
     s = concat xs @ concat ys \<and> utf8_chars (concat ys) = ys \<and> (ys \<noteq> [] \<longrightarrow> list_all scalar xs)"
proof (induction xs arbitrary: s)
  case Nil
  then show ?case by auto
next
  case (Cons x xs)
  then obtain c cs where s: "s = c # cs" by (cases s) auto
  with Cons.prems have x: "x = take (utf8_len c) s" and r: "utf8_chars (drop (utf8_len c) s) = xs @ ys"
    by auto
  from Cons.IH [OF r] have IH: "drop (utf8_len c) s = concat xs @ concat ys"
    "utf8_chars (concat ys) = ys" "ys \<noteq> [] \<longrightarrow> list_all scalar xs" by auto
  have "scalar x" if "ys \<noteq> []"
  proof -
    from that r have "drop (utf8_len c) s \<noteq> []" by auto
    then have "length x = utf8_len c" using x by simp
    then show ?thesis using x s by (cases x) (auto simp: scalar_def take_Cons')
  qed
  moreover have "s = x @ drop (utf8_len c) s" using x by simp
  ultimately show ?case using IH by simp
qed

text \<open>A delimiter is a scalar no key starts with, and no part of the mask.\<close>

lemma ends_value_scalar: "ends_value header ch \<Longrightarrow> scalar ch"
proof -
  have "scalar ch" if "ch \<in> {[CHR 0x22], [CHR 0x27], '';'', ''&'', ''|''}"
    using that by (auto simp: scalar_def utf8_len_def byte_def)
  then show "ends_value header ch \<Longrightarrow> scalar ch" using whitespace_scalar by (auto simp: ends_value_def)
qed

definition key_initial :: "char \<Rightarrow> bool" where
  "key_initial c \<longleftrightarrow> c \<in> set ''ptsa''"

lemma keys_initial: "key \<in> set sensitive_keys \<Longrightarrow> key_initial (to_ascii_lower (hd key))"
proof -
  have "list_all (\<lambda>key. key_initial (to_ascii_lower (hd key))) sensitive_keys" by code_simp
  then show "key \<in> set sensitive_keys \<Longrightarrow> ?thesis" by (simp add: list_all_iff)
qed

lemma key_initial_bytes:
  "key_initial (to_ascii_lower c) \<Longrightarrow> 65 \<le> byte c \<and> byte c < 128 \<and> byte c \<noteq> 124"
proof (cases "is_ascii_upper c")
  case False
  then show "key_initial (to_ascii_lower c) \<Longrightarrow> ?thesis"
    by (auto simp: key_initial_def to_ascii_lower_def byte_def)
qed (auto simp: is_ascii_upper_def)

lemma ends_value_bytes:
  "ends_value header ch \<Longrightarrow> byte (hd ch) < 65 \<or> 128 \<le> byte (hd ch) \<or> byte (hd ch) = 124"
  by (auto simp: ends_value_def is_whitespace_def byte_def split: list.splits)

lemma ends_value_no_key: "ends_value header ch \<Longrightarrow> found_key (ch @ s) = None"
proof -
  assume e: "ends_value header ch"
  then have ne: "ch \<noteq> []" using ends_value_scalar by (auto simp: scalar_def)
  have "\<not> key_at (ch @ s) key" if key: "key \<in> set sensitive_keys" for key
  proof
    assume k: "key_at (ch @ s) key"
    have "key \<noteq> []" using key by (auto simp: sensitive_keys_def)
    then have "to_ascii_lower (hd ch) = to_ascii_lower (hd key)"
      using key_at_nth [OF k, of 0] ne by (simp add: hd_conv_nth nth_append)
    then have "key_initial (to_ascii_lower (hd ch))" using keys_initial [OF key] by simp
    then show False using key_initial_bytes ends_value_bytes [OF e] by fastforce
  qed
  then show ?thesis by (auto simp: found_key_def find_None_iff_all)
qed

lemma value_ends_redact: "value_ends key rest \<Longrightarrow> value_ends key (redact_line rest)
    \<and> (rest \<noteq> [] \<longrightarrow> hd (utf8_chars (redact_line rest)) = hd (utf8_chars rest))
    \<and> (redact_line rest = [] \<longleftrightarrow> rest = [])"
proof (cases rest)
  case (Cons c cs)
  let ?ch = "take (utf8_len c) rest"
  assume "value_ends key rest"
  with Cons have e: "ends_value (is_header key) ?ch" by (simp add: value_ends_def)
  then have "found_key rest = None"
    using ends_value_no_key [OF e, of "drop (utf8_len c) rest"] by simp
  then have "redact_line rest = ?ch @ redact_line (drop (utf8_len c) rest)"
    using Cons redact_line_skip by blast
  with e Cons utf8_chars_scalar [OF ends_value_scalar [OF e]] show ?thesis
    by (auto simp: value_ends_def)
qed (simp add: value_ends_def)

lemma hidden_mask: "key \<in> set sensitive_keys \<Longrightarrow> hidden_value key mask \<and> \<not> is_whitespace (hd (utf8_chars mask))"
proof -
  have "list_all (\<lambda>key. hidden_value key mask) sensitive_keys" "\<not> is_whitespace (hd (utf8_chars mask))"
    by code_simp+
  then show "key \<in> set sensitive_keys \<Longrightarrow> ?thesis" by (simp add: list_all_iff)
qed

text \<open>The parts of a line from a key on.\<close>

lemma value_text_split:
  "tail = value_text key tail @ drop (length (value_text key tail)) tail
   \<and> value_ends key (drop (length (value_text key tail)) tail)"
proof -
  let ?p = "\<lambda>ch. \<not> ends_value (is_header key) ch"
  have "utf8_chars tail = takeWhile ?p (utf8_chars tail) @ dropWhile ?p (utf8_chars tail)" by simp
  from utf8_chars_split [OF this]
  have tail: "tail = value_text key tail @ concat (dropWhile ?p (utf8_chars tail))"
    "utf8_chars (concat (dropWhile ?p (utf8_chars tail))) = dropWhile ?p (utf8_chars tail)"
    by (auto simp: value_text_def)
  then have "drop (length (value_text key tail)) tail = concat (dropWhile ?p (utf8_chars tail))"
    by (metis append_eq_conv_conj)
  moreover have "value_ends key (concat (dropWhile ?p (utf8_chars tail)))"
  proof (cases "dropWhile ?p (utf8_chars tail) = []")
    case False
    then show ?thesis
      using hd_dropWhile [of ?p "utf8_chars tail"] unfolding value_ends_def tail(2) by blast
  next
    case True
    show ?thesis unfolding value_ends_def True by simp
  qed
  ultimately show ?thesis using tail(1) by simp
qed

lemma leading_space_split:
  "after = leading_space key after @ drop (length (leading_space key after)) after
   \<and> (is_header key \<longrightarrow> drop (length (leading_space key after)) after \<noteq> [] \<longrightarrow>
        \<not> is_whitespace (hd (utf8_chars (drop (length (leading_space key after)) after))))"
proof (cases "is_header key")
  case True
  let ?ws = "takeWhile is_whitespace (utf8_chars after)"
    and ?ds = "dropWhile is_whitespace (utf8_chars after)"
  have "utf8_chars after = ?ws @ ?ds" by simp
  from utf8_chars_split [OF this]
  have after: "after = concat ?ws @ concat ?ds" "utf8_chars (concat ?ds) = ?ds" by auto
  have lead: "leading_space key after = concat ?ws" using True by (simp add: leading_space_def)
  have "drop (length (concat ?ws)) after = concat ?ds" using after(1) by (metis append_eq_conv_conj)
  then show ?thesis
    using after lead hd_dropWhile [of is_whitespace "utf8_chars after"]
    by (cases ?ds) auto
qed (simp add: leading_space_def)

lemma leading_space_again:
  assumes "X = [] \<or> \<not> is_whitespace (hd (utf8_chars X))"
  shows "leading_space key (leading_space key after @ X) = leading_space key after"
proof (cases "is_header key")
  case True
  let ?ws = "takeWhile is_whitespace (utf8_chars after)"
  have "list_all scalar ?ws"
    using whitespace_scalar set_takeWhileD by (fastforce simp: list_all_iff)
  then have "utf8_chars (concat ?ws @ X) = ?ws @ utf8_chars X" by (rule utf8_chars_scalars)
  moreover have "takeWhile is_whitespace (?ws @ utf8_chars X) = ?ws @ takeWhile is_whitespace (utf8_chars X)"
    by (rule takeWhile_append2) (auto dest: set_takeWhileD)
  moreover have "takeWhile is_whitespace (utf8_chars X) = []"
    using assms by (cases "utf8_chars X") auto
  ultimately show ?thesis using True by (simp add: leading_space_def)
qed (simp add: leading_space_def)

lemma mask_nonempty [simp]: "mask \<noteq> []"
  by (simp add: mask_def)

lemma redact_line_twice: "redact_line (redact_line s) = redact_line s"
proof (induction s rule: redact_line.induct)
  case (2 c cs)
  show ?case
  proof (cases "found_key (c # cs)")
    case None
    let ?n = "utf8_len c"
    have eq: "redact_line (c # cs) = take ?n (c # cs) @ redact_line (drop ?n (c # cs))"
      using None by (rule redact_line_skip)
    have IH: "redact_line (redact_line (drop ?n (c # cs))) = redact_line (drop ?n (c # cs))"
      using "2.IH"(1) None unfolding found_key_def .
    obtain ds where ds: "take ?n (c # cs) @ redact_line (drop ?n (c # cs)) = c # ds"
      by (cases ?n) auto
    have "found_key (c # ds) = None" using found_key_redact [of "c # cs"] None eq ds by simp
    then have "redact_line (c # ds) = take ?n (c # ds) @ redact_line (drop ?n (c # ds))"
      by (rule redact_line_skip)
    moreover have "take ?n (c # ds) = take ?n (c # cs) \<and> drop ?n (c # ds) = redact_line (drop ?n (c # cs))"
    proof (cases "?n \<le> length (c # cs)")
      case True
      then have "length (take ?n (c # cs)) = ?n" by simp
      then show ?thesis unfolding ds [symmetric] by (metis append_eq_conv_conj)
    next
      case False
      then show ?thesis using ds by auto
    qed
    ultimately show ?thesis using eq ds IH by simp
  next
    case (Some key)
    define k where "k = take (length key) (c # cs)"
    define after where "after = drop (length key) (c # cs)"
    define lead where "lead = leading_space key after"
    define tail where "tail = drop (length lead) after"
    define val where "val = value_text key tail"
    define R where "R = redact_line (drop (length val) tail)"
    define m where "m = (if val = [] then [] else mask)"
    have key: "key \<in> set sensitive_keys" using Some by (auto simp: found_key_def dest: find_SomeD)
    have eq: "redact_line (c # cs) = k @ lead @ m @ R"
      unfolding k_def after_def lead_def tail_def val_def R_def m_def
      by (simp only: redact_line.simps Some [unfolded found_key_def] option.case Let_def)
    have IH: "redact_line R = R"
      unfolding R_def val_def tail_def lead_def after_def
      by (rule "2.IH"(2) [OF Some [unfolded found_key_def] refl refl refl refl])
    have ends: "value_ends key (drop (length val) tail)"
      using value_text_split [of tail key] by (simp add: val_def)
    note R = value_ends_redact [OF ends, folded R_def]
    have m: "hidden_value key m" using hidden_mask [OF key] by (auto simp: m_def hidden_value_def utf8_complete_def)
    have "m @ R = [] \<or> \<not> is_whitespace (hd (utf8_chars (m @ R)))" if "is_header key"
    proof (cases "val = []")
      case True
      then show ?thesis
        using R leading_space_split [of after key] that by (auto simp: m_def tail_def lead_def)
    next
      case False
      have "utf8_chars (mask @ R) = utf8_chars mask @ utf8_chars R"
        using hidden_mask [OF key] by (simp add: hidden_value_def utf8_chars_append)
      then show ?thesis using False hidden_mask [OF key] by (simp add: m_def hd_append)
    qed
    then have "leading_space key (lead @ m @ R) = lead"
      using leading_space_again [of "m @ R" key after]
      by (cases "is_header key") (auto simp: lead_def leading_space_def)
    moreover have "found_key (k @ lead @ m @ R) = Some key"
      using found_key_redact [of "c # cs"] Some eq by simp
    ultimately have "redact_line (k @ lead @ m @ R) = k @ lead @ (if m = [] then [] else mask) @ redact_line R"
      using redact_line_found [of k lead m R key] m R found_key_separator(2) [OF Some]
      by (simp add: k_def)
    then show ?thesis using eq IH by (simp add: m_def)
  qed
qed simp

lemma redact_line_skips:
  "list_all scalar chs \<Longrightarrow> \<forall>i<length (concat chs). found_key (drop i (concat chs @ s)) = None \<Longrightarrow>
     redact_line (concat chs @ s) = concat chs @ redact_line s"
proof (induction chs)
  case (Cons ch chs)
  obtain c cs where ch: "ch = c # cs" using Cons.prems(1) by (cases ch) (auto simp: scalar_def)
  have len: "length ch = utf8_len c" using Cons.prems(1) ch by (simp add: scalar_def)
  have "found_key (c # (cs @ concat chs @ s)) = None"
    using Cons.prems(2) [rule_format, of 0] ch by simp
  from redact_line_skip [OF this]
  have step: "redact_line (ch @ concat chs @ s) = ch @ redact_line (concat chs @ s)"
    using ch len [symmetric] by (simp del: redact_line.simps)
  have "found_key (drop i (concat chs @ s)) = None" if "i < length (concat chs)" for i
  proof -
    have "drop (length ch + i) (concat (ch # chs) @ s) = drop i (concat chs @ s)" by simp
    then show ?thesis using Cons.prems(2) [rule_format, of "length ch + i"] that by simp
  qed
  with Cons.IH Cons.prems(1) step show ?case by simp
qed simp

text \<open>
  The quotes around a quoted value end it before it starts, so such a value is not masked.
\<close>

lemma quoted_value_kept:
  "redact_line ''password='' = ''password=''"
  "redact_line (''password='' @ [CHR 0x22] @ ''hunter2'' @ [CHR 0x22]) = ''password='' @ [CHR 0x22] @ ''hunter2'' @ [CHR 0x22]"
  by code_simp+

section \<open>Properties\<close>



text \<open>Redaction is stable. A line without a sensitive key is returned unchanged, and redacting
  an already redacted line changes nothing, so a mask is never masked again.\<close>

theorem redaction_stable:
  "(keyless s \<longrightarrow> redact_line s = s) \<and> redact_line (redact_line s) = redact_line s"
  by (simp add: redact_keyless redact_line_twice)

lemma redaction_stable_witness:
  "redact_line ''total 8'' = ''total 8''"
  using redaction_stable [of "''total 8''"] by (simp add: keyless.simps; code_simp)

end
