(* ===== verification/Desktop_Lessons.thy ===== *)
theory Desktop_Lessons
  imports Desktop_State Redact
begin

text \<open>
  The lesson, review, progress and panel commands of the desktop
  (apps/desktop/src-tauri/src/commands.rs), each as one action on the application's state.
\<close>

section \<open>Lookup\<close>

definition find_lesson :: "'w desk \<Rightarrow> string \<Rightarrow> ('w app, lesson) action" where
  "find_lesson D lesson_id = lift (try_lesson (dk_catalog D) lesson_id)"

definition find_task :: "string \<Rightarrow> lesson \<Rightarrow> string \<Rightarrow> ('w app, task) action" where
  "find_task lesson_id l task_id =
     (case List.find (\<lambda>t. t_id t = task_id) (l_tasks l) of
        Some t \<Rightarrow> return t
      | None \<Rightarrow> bail (''lesson '' @ lesson_id @ '' has no task '' @ task_id))"

definition cmd_get_lesson :: "'w desk \<Rightarrow> string \<Rightarrow> ('w app, lesson_view) action" where
  "cmd_get_lesson D lesson_id =
     act_bind (find_lesson D lesson_id) (\<lambda>l. act_bind (inspect ap_mode) (\<lambda>mode. return (from_lesson l mode)))"

definition cmd_set_progression_mode :: "'w desk \<Rightarrow> progression_mode \<Rightarrow> ('w app, unit) action" where
  "cmd_set_progression_mode D mode =
     act_bind (update (\<lambda>a. a\<lparr>ap_mode := mode\<rparr>)) (\<lambda>_.
       store_write D (set_setting (dk_profile_id D) ''progression.mode'' (mode_str mode)))"

definition cmd_command_reference :: "'w desk \<Rightarrow> (string \<times> (string \<times> string) list) list" where
  "cmd_command_reference D =
     sort_key fst (map (\<lambda>c. (c, map (\<lambda>l. (l_id l, l_title l)) (lessons_for_command (dk_catalog D) c)))
       (all_commands (dk_catalog D)))"

section \<open>Preparing a lesson\<close>

definition prepare_request :: "string \<Rightarrow> lesson \<Rightarrow> agent_request" where
  "prepare_request lesson_id l =
     (let e = l_environment l
      in PrepareLesson lesson_id (e_setup_script e) (e_fixtures e) (e_namespaces e) (e_sudo_allowed e))"

definition prepared_warnings :: "'w desk \<Rightarrow> agent_response \<Rightarrow> ('w app, string list) action" where
  "prepared_warnings D reply =
     (case reply of
        LessonPrepared _ warnings \<Rightarrow> return warnings
      | other \<Rightarrow> unexpected D ''unexpected reply while preparing the lesson: '' other)"

definition cmd_prepare_lesson :: "'w desk \<Rightarrow> int \<Rightarrow> string \<Rightarrow> ('w app, string list) action" where
  "cmd_prepare_lesson D now lesson_id =
     act_bind require_ready (\<lambda>_.
     act_bind (find_lesson D lesson_id) (\<lambda>l.
     act_bind (ask D (prepare_request lesson_id l)) (\<lambda>response.
     act_bind (lift (expect_ok response)) (\<lambda>reply.
     act_bind (prepared_warnings D reply) (\<lambda>warnings.
     act_bind (store_write D (start_lesson (dk_profile_id D) lesson_id now)) (\<lambda>_.
       return warnings))))))"

section \<open>Checking a task\<close>

definition check_request :: "string \<Rightarrow> string \<Rightarrow> validation_request \<Rightarrow> agent_request" where
  "check_request lesson_id task_id r =
     ValidateTask lesson_id task_id (r_validators r) (r_subject_user r) (r_attempt_started_at r)"

definition validated :: "'w desk \<Rightarrow> agent_response \<Rightarrow> ('w app, task_validation) action" where
  "validated D reply =
     (case reply of
        TaskValidated v \<Rightarrow> return v
      | other \<Rightarrow> unexpected D ''unexpected reply while checking the task: '' other)"

definition failure_of :: "task_validation \<Rightarrow> failure_category option" where
  "failure_of v = Option.bind (tv_primary_failure v) o_failure_category"

definition record_outcome :: "task_validation \<Rightarrow> attempt_state \<Rightarrow> attempt_state \<times> (u32 \<times> failure_category option)" where
  "record_outcome v attempt =
     (let attempt' = (if tv_passed v then record_pass attempt else record_failure (failure_of v) attempt)
      in (attempt', (word_of_nat (a_hints_revealed attempt'), failure_of v)))"

definition passed_in_sitting :: "attempt_state list \<Rightarrow> task \<Rightarrow> bool" where
  "passed_in_sitting attempts t \<longleftrightarrow> list_ex (\<lambda>a. a_task_id a = t_id t \<and> a_passed a) attempts"

definition all_required_passed :: "lesson \<Rightarrow> attempt_state list \<Rightarrow> bool" where
  "all_required_passed l attempts \<longleftrightarrow>
     (let required = required_tasks l;
          passed_required = length (filter (passed_in_sitting attempts) required)
      in passed_required = length required \<and> required \<noteq> [])"

definition complete_when_done ::
  "'w desk \<Rightarrow> int \<Rightarrow> string \<Rightarrow> lesson \<Rightarrow> check_result \<Rightarrow> ('w app, check_result) action" where
  "complete_when_done D now lesson_id l result =
     act_bind (inspect (lesson_attempts lesson_id)) (\<lambda>attempts.
       if all_required_passed l attempts then
         act_bind (store_call D (complete_lesson (dk_profile_id D) lesson_id
                      (lesson_mastery attempts (hides_hints (l_type l))) (total_hints attempts)
                      (list_ex a_solution_revealed attempts) now)) (\<lambda>best.
           return (result\<lparr>ck_lesson_complete := True, ck_mastery := Some best\<rparr>))
       else return result)"

definition record_check ::
  "'w desk \<Rightarrow> int \<Rightarrow> int \<Rightarrow> string \<Rightarrow> string \<Rightarrow> lesson \<Rightarrow> task \<Rightarrow> task_validation \<Rightarrow> ('w app, check_result) action" where
  "record_check D started_at now lesson_id task_id l t v =
     (let result = check_result_new v (shape_feedback v) in
      act_bind (with_attempt lesson_id task_id (record_outcome v)) (\<lambda>(hints_used, category).
      act_bind (store_call D (record_task_attempt
          \<lparr>ta_profile_id = dk_profile_id D, ta_lesson_id = lesson_id, ta_task_id = task_id,
           ta_passed = tv_passed v, ta_failure_category = category, ta_hints_used = hints_used,
           ta_created_at = started_at\<rparr>)) (\<lambda>_.
        if tv_passed v then
          complete_when_done D now lesson_id l (result\<lparr>ck_diagnosis := t_diagnosis t\<rparr>)
        else
          act_bind (store_write D (record_lesson_attempt (dk_profile_id D) lesson_id now)) (\<lambda>_. return result))))"

definition cmd_check_task ::
  "'w desk \<Rightarrow> int \<Rightarrow> int \<Rightarrow> string \<Rightarrow> string \<Rightarrow> ('w app, check_result) action" where
  "cmd_check_task D started_at now lesson_id task_id =
     act_bind require_ready (\<lambda>_.
     act_bind (find_lesson D lesson_id) (\<lambda>l.
     act_bind (find_task lesson_id l task_id) (\<lambda>t.
     act_bind (lift (check_task_validators (dk_registry D) t)) (\<lambda>_.
     act_bind (ask D (check_request lesson_id task_id (build_validation_request l t started_at))) (\<lambda>response.
     act_bind (lift (expect_ok response)) (\<lambda>reply.
     act_bind (validated D reply) (\<lambda>v.
       record_check D started_at now lesson_id task_id l t v)))))))"

section \<open>Hints and solutions\<close>

datatype hint_response = HintShown nat string nat bool | SolutionIsNext | NoHint string

definition hint_shown :: "'w desk \<Rightarrow> int \<Rightarrow> string \<Rightarrow> hint_outcome \<Rightarrow> ('w app, hint_response) action" where
  "hint_shown D now lesson_id outcome =
     (case outcome of
        Hint h \<Rightarrow> act_bind (store_write D (add_hint_used (dk_profile_id D) lesson_id now)) (\<lambda>_.
           return (HintShown (h_index h) (h_text h) (h_remaining h) (h_solution_next h)))
      | SolutionAvailable \<Rightarrow> return SolutionIsNext
      | Unavailable reason \<Rightarrow> return (NoHint reason))"

definition cmd_reveal_hint :: "'w desk \<Rightarrow> int \<Rightarrow> string \<Rightarrow> string \<Rightarrow> ('w app, hint_response) action" where
  "cmd_reveal_hint D now lesson_id task_id =
     act_bind (find_lesson D lesson_id) (\<lambda>l.
     act_bind (find_task lesson_id l task_id) (\<lambda>t.
     act_bind (inspect ap_mode) (\<lambda>mode.
     act_bind (with_attempt lesson_id task_id (reveal_next_hint t (hints_offered l mode))) (\<lambda>outcome.
       hint_shown D now lesson_id outcome))))"

record solution_response =
  so_solution :: "string option"
  so_reason :: "string option"

definition cmd_reveal_solution :: "'w desk \<Rightarrow> string \<Rightarrow> string \<Rightarrow> ('w app, solution_response) action" where
  "cmd_reveal_solution D lesson_id task_id =
     act_bind (find_lesson D lesson_id) (\<lambda>l.
     act_bind (find_task lesson_id l task_id) (\<lambda>t.
     act_bind (inspect ap_mode) (\<lambda>mode.
     act_bind (with_attempt lesson_id task_id (reveal_solution (hints_offered l mode))) (\<lambda>refusal.
       return (case refusal of
           Some reason \<Rightarrow> \<lparr>so_solution = None, so_reason = Some reason\<rparr>
         | None \<Rightarrow> \<lparr>so_solution = t_suggested_solution t, so_reason = None\<rparr>)))))"

section \<open>Review questions\<close>

definition answer_correct ::
  "(string \<Rightarrow> string) \<Rightarrow> review_question \<Rightarrow> nat list option \<Rightarrow> string option \<Rightarrow> bool" where
  "answer_correct lower q selected text \<longleftrightarrow>
     (case q_type q of
        MultipleChoice \<Rightarrow>
          Option.bind selected (\<lambda>s. case s of [] \<Rightarrow> None | i # _ \<Rightarrow> Some i) = q_correct_answer q
      | MultipleSelect \<Rightarrow>
          remdups_adj (sort (case selected of Some s \<Rightarrow> s | None \<Rightarrow> [])) = sort (q_correct_answers q)
      | _ \<Rightarrow> accepts_text lower q (case text of Some t \<Rightarrow> t | None \<Rightarrow> []))"

definition cmd_grade_review_question ::
  "'w desk \<Rightarrow> string \<Rightarrow> nat \<Rightarrow> nat list option \<Rightarrow> string option \<Rightarrow> ('w app, review_grade) action" where
  "cmd_grade_review_question D lesson_id index selected text =
     act_bind (find_lesson D lesson_id) (\<lambda>l.
       if index < length (l_review_questions l) then
         let q = l_review_questions l ! index
         in return \<lparr>gr_correct = answer_correct (dk_lower D) q selected text, gr_explanation = q_explanation q\<rparr>
       else bail (''lesson '' @ lesson_id @ '' has no review question '' @ dec index))"

section \<open>Other requests to the guest\<close>

definition cmd_reset_lesson :: "'w desk \<Rightarrow> string \<Rightarrow> ('w app, unit) action" where
  "cmd_reset_lesson D lesson_id =
     act_bind require_ready (\<lambda>_.
     act_bind (find_lesson D lesson_id) (\<lambda>l.
     act_bind (ask D (ResetLesson lesson_id (e_reset_script (l_environment l)))) (\<lambda>response.
     act_bind (lift (expect_ok response)) (\<lambda>_. return ()))))"

definition cmd_guest_diagnostics :: "'w desk \<Rightarrow> ('w app, guest_diagnostics) action" where
  "cmd_guest_diagnostics D =
     act_bind require_ready (\<lambda>_.
     act_bind (ask D Diagnostics) (\<lambda>response.
       case response of
         DiagnosticsReport g \<Rightarrow> return g
       | AgentError message _ \<Rightarrow> bail message
       | other \<Rightarrow> unexpected D ''unexpected reply: '' other))"

definition cmd_list_directory :: "'w desk \<Rightarrow> string \<Rightarrow> bool \<Rightarrow> ('w app, dir_entry_info list) action" where
  "cmd_list_directory D path include_hidden =
     act_bind require_ready (\<lambda>_.
     act_bind (ask D (ListDirectory path include_hidden)) (\<lambda>response.
       case response of
         DirectoryListing _ entries \<Rightarrow> return entries
       | AgentError message _ \<Rightarrow> bail message
       | other \<Rightarrow> unexpected D ''unexpected reply: '' other))"

definition cmd_terminal_resize :: "'w desk \<Rightarrow> u16 \<Rightarrow> u16 \<Rightarrow> ('w app, unit) action" where
  "cmd_terminal_resize D rows cols =
     act_bind agent_of (\<lambda>client.
     act_bind (attempting (send_request D (SetTerminalSize rows cols) client)) (\<lambda>reply.
       case reply of Inr (AgentError message _) \<Rightarrow> bail message | _ \<Rightarrow> return ()))"

definition cmd_terminal_write :: "string + unit \<Rightarrow> ('w app, unit) action" where
  "cmd_terminal_write outcome = act_bind (inspect ap_console) (\<lambda>c. lift (console_write outcome c))"

section \<open>Progress and settings\<close>

definition cmd_record_command :: "'w desk \<Rightarrow> int \<Rightarrow> string \<Rightarrow> ('w app, bool) action" where
  "cmd_record_command D now command =
     (let trimmed = trim command in
      if trimmed = [] then return False
      else store_call D (record_command (dk_profile_id D) (dk_session_id D) trimmed now))"

definition cmd_export_transcript :: "string \<Rightarrow> string" where
  "cmd_export_transcript transcript = redact_transcript transcript"

record progress_report =
  pg_lessons_attempted :: nat
  pg_lessons_passed :: nat
  pg_lessons_mastered :: nat
  pg_needs_review :: nat
  pg_hints_used :: u32
  pg_commands_mastered :: "string list"
  pg_common_failures :: "(string \<times> nat) list"
  pg_achievements :: "(string \<times> int) list"
  pg_practice_seconds :: int

definition mastered_commands :: "catalog \<Rightarrow> lesson_progress list \<Rightarrow> string list" where
  "mastered_commands C rows =
     (let solid = filter (\<lambda>r. case p_mastery r of Some m \<Rightarrow> \<not> needs_revisiting m | None \<Rightarrow> False) rows
      in remdups_adj (sort (concat (map l_commands
           (List.map_filter (\<lambda>r. catalog_lesson C (p_lesson_id r)) solid)))))"

definition cmd_progress_report :: "'w desk \<Rightarrow> ('w app, progress_report) action" where
  "cmd_progress_report D =
     act_bind (store_read D (all_lesson_progress (dk_profile_id D))) (\<lambda>rows.
     act_bind (inspect ap_store) (\<lambda>db.
       return
         \<lparr>pg_lessons_attempted = length rows,
          pg_lessons_passed = length (filter (\<lambda>r. p_status r \<in> {StatusPassed, StatusNeedsReview}) rows),
          pg_lessons_mastered = length (filter (\<lambda>r. p_mastery r = Some Mastered) rows),
          pg_needs_review = length (filter (\<lambda>r. p_status r = StatusNeedsReview) rows),
          pg_hints_used = sum_list (map p_hints_used rows),
          pg_commands_mastered = mastered_commands (dk_catalog D) rows,
          pg_common_failures = common_failures (dk_profile_id D) 8 db,
          pg_achievements = achievements (dk_profile_id D) db,
          pg_practice_seconds = metric (dk_profile_id D) ''practice.seconds'' db\<rparr>))"

definition cmd_get_setting :: "'w desk \<Rightarrow> string \<Rightarrow> ('w app, string option) action" where
  "cmd_get_setting D key = inspect (\<lambda>a. setting (dk_profile_id D) key (ap_store a))"

definition cmd_set_setting :: "'w desk \<Rightarrow> int \<Rightarrow> string \<Rightarrow> string \<Rightarrow> ('w app, unit) action" where
  "cmd_set_setting D now key val =
     act_bind (store_write D (set_setting (dk_profile_id D) key val)) (\<lambda>_.
       if key = ''history.retention'' then
         act_bind (store_call D (\<lambda>db. Inr (prune_command_history (dk_profile_id D) (dk_session_id D) now db)))
           (\<lambda>_. return ())
       else return ())"

definition cmd_bump_practice_time :: "'w desk \<Rightarrow> int \<Rightarrow> ('w app, int) action" where
  "cmd_bump_practice_time D seconds =
     store_call D (bump_metric (dk_profile_id D) ''practice.seconds'' (min 3600 (max 0 seconds)))"

section \<open>Effects\<close>

text \<open>Every command changes the store by the store's own statements, and leaves the machine alone.\<close>

lemma within_lookup [within_intros]:
  "within (evolves D) (find_lesson D lesson_id)" "within (evolves D) (find_task lesson_id l task_id)"
  unfolding find_lesson_def find_task_def by (auto intro!: within_intros split: option.split)

lemma within_replies [within_intros]:
  "within (evolves D) (prepared_warnings D reply)" "within (evolves D) (validated D reply)"
  unfolding prepared_warnings_def validated_def
  by (auto intro!: within_intros split: agent_response.split)

lemma find_lesson_Inr: "find_lesson D lesson_id a = (Inr l, a') \<longleftrightarrow> try_lesson (dk_catalog D) lesson_id = Inr l \<and> a' = a"
  by (auto simp: find_lesson_def)

lemma find_task_Inr:
  "find_task lesson_id l task_id a = (Inr t, a') \<longleftrightarrow> List.find (\<lambda>t. t_id t = task_id) (l_tasks l) = Some t \<and> a' = a"
  by (auto simp: find_task_def split: option.splits)

lemma record_outcome_step:
  "fst (record_outcome v entry) = attempt_step t allowed (if tv_passed v then PassedCheck else Failed (failure_of v)) entry"
  by (simp add: record_outcome_def Let_def)

lemma within_complete [within_intros]: "within (evolves D) (complete_when_done D now lesson_id l result)"
  unfolding complete_when_done_def by (auto intro!: within_intros)

lemma within_record_check:
  assumes "try_lesson (dk_catalog D) lesson_id = Inr l" "t \<in> set (l_tasks l)" "t_id t = task_id"
  shows "within (evolves D) (record_check D started_at now lesson_id task_id l t v)"
proof -
  have "within (evolves D) (with_attempt lesson_id task_id (record_outcome v))"
    by (rule within_with_attempt [OF assms, of False]) (simp, rule record_outcome_step)
  then show ?thesis
    unfolding record_check_def Let_def by (auto intro!: within_intros split: prod.split)
qed

lemma within_check [within_intros]: "within (evolves D) (cmd_check_task D started_at now lesson_id task_id)"
  unfolding cmd_check_task_def
  by (rule host_effect.within_bind, rule within_guards,
      rule host_effect.within_bind_result, rule within_lookup,
      rule host_effect.within_bind_result, rule within_lookup,
      intro within_intros within_record_check)
    (auto simp: find_lesson_Inr find_task_Inr dest: find_SomeD)

lemma within_lesson_commands [within_intros]:
  "within (evolves D) (cmd_get_lesson D lesson_id)"
  "within (evolves D) (cmd_set_progression_mode D mode)"
  "within (evolves D) (cmd_prepare_lesson D now lesson_id)"
  "within (evolves D) (cmd_reset_lesson D lesson_id)"
  unfolding cmd_get_lesson_def cmd_set_progression_mode_def cmd_prepare_lesson_def cmd_reset_lesson_def
  by (intro within_intros within_update evolves_same; simp)+

lemma hints_offered_shown: "hints_offered l mode \<Longrightarrow> \<not> hides_hints (l_type l)"
  by (simp add: hints_offered_def)

lemma within_hints [within_intros]:
  "within (evolves D) (hint_shown D now lesson_id outcome)"
  "within (evolves D) (cmd_reveal_hint D now lesson_id task_id)"
  "within (evolves D) (cmd_reveal_solution D lesson_id task_id)"
proof -
  show shown: "within (evolves D) (hint_shown D now lesson_id outcome)" for outcome
    unfolding hint_shown_def by (auto intro!: within_intros split: hint_outcome.split)
  note lookup = host_effect.within_bind_result [OF within_lookup(1)] host_effect.within_bind_result [OF within_lookup(2)]
    host_effect.within_bind [OF host_effect.within_pure(3)]
  show "within (evolves D) (cmd_reveal_hint D now lesson_id task_id)"
    unfolding cmd_reveal_hint_def
  proof (rule lookup, rule lookup, rule lookup)
    fix s x s' u t u' mode
    assume "find_lesson D lesson_id s = (Inr x, s')" "find_task lesson_id x task_id u = (Inr t, u')"
    then have "within (evolves D) (with_attempt lesson_id task_id (reveal_next_hint t (hints_offered x mode)))"
      by (intro within_with_attempt [where e = AskHint and allowed = "hints_offered x mode"])
        (auto simp: find_lesson_Inr find_task_Inr hints_offered_shown dest: find_SomeD)
    then show "within (evolves D) (act_bind (with_attempt lesson_id task_id
        (reveal_next_hint t (hints_offered x mode))) (hint_shown D now lesson_id))"
      by (intro within_intros shown)
  qed
  show "within (evolves D) (cmd_reveal_solution D lesson_id task_id)"
    unfolding cmd_reveal_solution_def
  proof (rule lookup, rule lookup, rule lookup)
    fix s x s' u t u' mode
    assume "find_lesson D lesson_id s = (Inr x, s')" "find_task lesson_id x task_id u = (Inr t, u')"
    then have "within (evolves D) (with_attempt lesson_id task_id (reveal_solution (hints_offered x mode)))"
      by (intro within_with_attempt [where e = AskSolution and allowed = "hints_offered x mode" and t = t])
        (auto simp: find_lesson_Inr find_task_Inr hints_offered_shown dest: find_SomeD)
    then show "within (evolves D) (act_bind (with_attempt lesson_id task_id
        (reveal_solution (hints_offered x mode))) (\<lambda>refusal. return (case refusal of
           Some reason \<Rightarrow> \<lparr>so_solution = None, so_reason = Some reason\<rparr>
         | None \<Rightarrow> \<lparr>so_solution = t_suggested_solution t, so_reason = None\<rparr>)))"
      by (intro within_intros)
  qed
qed

lemma within_panels [within_intros]:
  "within (evolves D) (cmd_grade_review_question D lesson_id index selected text)"
  "within (evolves D) (cmd_guest_diagnostics D)"
  "within (evolves D) (cmd_list_directory D path include_hidden)"
  "within (evolves D) (cmd_terminal_resize D rows cols)"
  "within (evolves D) (cmd_terminal_write outcome)"
  unfolding cmd_grade_review_question_def cmd_guest_diagnostics_def cmd_list_directory_def
    cmd_terminal_resize_def cmd_terminal_write_def Let_def
  by (auto intro!: within_intros split: agent_response.split sum.split)

lemma within_progress [within_intros]:
  "within (evolves D) (cmd_record_command D now command)"
  "within (evolves D) (cmd_progress_report D)"
  "within (evolves D) (cmd_get_setting D key)"
  "within (evolves D) (cmd_set_setting D now key val)"
  "within (evolves D) (cmd_bump_practice_time D seconds)"
  unfolding cmd_record_command_def cmd_progress_report_def cmd_get_setting_def cmd_set_setting_def
    cmd_bump_practice_time_def Let_def
  by (auto intro!: within_intros)

section \<open>Results\<close>

lemma require_ready_Inr: "require_ready a = (Inr u, a') \<longleftrightarrow> accepts_commands (vm_current (w_vm (ap_vm a))) \<and> a' = a"
  by (auto simp: require_ready_def Let_def)

lemma inquires_guards [simp]:
  "inquires require_ready a" "inquires (find_lesson D lesson_id) a" "inquires (find_task lesson_id l task_id) a"
  by (simp_all add: inquires_def require_ready_def find_lesson_def find_task_def action_defs Let_def split: option.split)

lemma agent_of_Inr: "agent_of a = (Inr client, a') \<longleftrightarrow> ap_agent a = Some client \<and> a' = a"
  by (auto simp: agent_of_def split: option.splits)

lemma ask_Inr:
  "ask D request a = (Inr response, a') \<longleftrightarrow>
     (\<exists>client. ap_agent a = Some client \<and> send_request D request client a = (Inr response, a'))"
  by (auto simp: ask_def act_bind_Inr_iff agent_of_Inr)

lemma send_request_frame:
  "send_request D request client a = (r, a') \<Longrightarrow>
     ap_attempts a' = ap_attempts a \<and> ap_store a' = ap_store a \<and> ap_vm a' = ap_vm a"
  by (auto simp: send_request_def split: prod.splits)

lemma expect_ok_Inr: "expect_ok response = Inr reply \<longleftrightarrow> reply = response \<and> (\<forall>m b. response \<noteq> AgentError m b)"
  by (auto simp: expect_ok_def split: agent_response.splits)

lemma validated_Inr: "validated D reply a = (Inr v, a') \<longleftrightarrow> reply = TaskValidated v \<and> a' = a"
  by (auto simp: validated_def unexpected_def split: agent_response.splits)

lemmas action_Inr = act_bind_Inr_iff require_ready_Inr find_lesson_Inr find_task_Inr ask_Inr expect_ok_Inr validated_Inr

lemma store_call_Inr:
  "store_call D statement a = (Inr x, a') \<longleftrightarrow>
     (\<exists>db. statement (ap_store a) = Inr (x, db) \<and> a' = a\<lparr>ap_store := db\<rparr>)"
  by (auto simp: store_call_def split: sum.splits)

lemma store_write_Inr:
  "store_write D statement a = (Inr u, a') \<longleftrightarrow>
     (\<exists>db. statement (ap_store a) = Inr db \<and> a' = a\<lparr>ap_store := db\<rparr>)"
  by (auto simp: store_write_def split: sum.splits)

lemma with_attempt_Inr:
  "with_attempt lesson_id task_id f a = (Inr x, a') \<longleftrightarrow>
     x = snd (f (attempt_entry lesson_id task_id a))
     \<and> a' = a\<lparr>ap_attempts := bt_insert (attempt_key lesson_id task_id)
                 (fst (f (attempt_entry lesson_id task_id a))) (ap_attempts a)\<rparr>"
  by (auto simp: with_attempt_def split: prod.split)

lemma all_required_passed_iff:
  "all_required_passed l attempts \<longleftrightarrow>
     required_tasks l \<noteq> [] \<and> list_all (passed_in_sitting attempts) (required_tasks l)"
proof -
  have "length (filter p xs) = length xs \<longleftrightarrow> list_all p xs" for p and xs :: "task list"
    by (metis filter_False filter_id_conv length_filter_less less_irrefl list_all_iff)
  then show ?thesis by (auto simp: all_required_passed_def Let_def)
qed

text \<open>The row a completion leaves.\<close>

lemma complete_lesson_row:
  assumes "complete_lesson pid lid m h q now db = Inr (best, db')"
  shows "m \<le> best \<and> (\<exists>r. bt_get (db_lessons db') (pid, lid) = Some r \<and> lr_mastery r = Some (mastery_str best)
     \<and> lr_status r = status_str (completion_status best) \<and> lr_completed_at r \<noteq> None)"
  using assms
  by (rule complete_lesson_Inr)
    (auto simp: upsert_lesson_def bt_get_insert completion_row_def complete_row_def
      split: option.splits if_splits)

definition completed_as :: "database \<Rightarrow> int \<Rightarrow> string \<Rightarrow> mastery_status \<Rightarrow> bool" where
  "completed_as db pid lid best \<longleftrightarrow>
     (\<exists>r. bt_get (db_lessons db) (pid, lid) = Some r \<and> lr_mastery r = Some (mastery_str best)
        \<and> lr_status r = status_str (completion_status best) \<and> lr_completed_at r \<noteq> None)"

lemma complete_when_done_Inr:
  assumes "complete_when_done D now lid l result a = (Inr result', a')" "\<not> ck_lesson_complete result"
  shows "ap_attempts a' = ap_attempts a \<and> ap_net a' = ap_net a \<and> ck_validation result' = ck_validation result
    \<and> (ck_lesson_complete result' \<longleftrightarrow> all_required_passed l (lesson_attempts lid a))
    \<and> (ck_lesson_complete result' \<longrightarrow> (\<exists>best. ck_mastery result' = Some best
          \<and> lesson_mastery (lesson_attempts lid a) (hides_hints (l_type l)) \<le> best
          \<and> completed_as (ap_store a') (dk_profile_id D) lid best))"
  using assms
  by (auto simp: complete_when_done_def act_bind_Inr_iff store_call_Inr completed_as_def
      dest!: complete_lesson_row split: if_splits)

lemma record_check_Inr:
  assumes "record_check D started_at now lid tid l t v a = (Inr result, a')"
  shows "ck_validation result = v \<and> ap_net a' = ap_net a
    \<and> ap_attempts a' = bt_insert (attempt_key lid tid) (fst (record_outcome v (attempt_entry lid tid a))) (ap_attempts a)
    \<and> (ck_lesson_complete result \<longleftrightarrow> tv_passed v \<and> all_required_passed l (lesson_attempts lid a'))
    \<and> (ck_lesson_complete result \<longrightarrow> (\<exists>best. ck_mastery result = Some best
          \<and> lesson_mastery (lesson_attempts lid a') (hides_hints (l_type l)) \<le> best
          \<and> completed_as (ap_store a') (dk_profile_id D) lid best))"
proof -
  let ?entry = "fst (record_outcome v (attempt_entry lid tid a))"
  let ?a1 = "a\<lparr>ap_attempts := bt_insert (attempt_key lid tid) ?entry (ap_attempts a)\<rparr>"
  from assms obtain db where db: "if tv_passed v
      then complete_when_done D now lid l ((check_result_new v (shape_feedback v))\<lparr>ck_diagnosis := t_diagnosis t\<rparr>)
             (?a1\<lparr>ap_store := db\<rparr>) = (Inr result, a')
      else result = check_result_new v (shape_feedback v) \<and> ap_attempts a' = ap_attempts ?a1 \<and> ap_net a' = ap_net a"
    by (auto simp: record_check_def Let_def act_bind_Inr_iff with_attempt_Inr store_call_Inr store_write_Inr
        split: prod.splits if_splits)
  have frame: "lesson_attempts lid (b\<lparr>ap_store := d\<rparr>) = lesson_attempts lid b"
    "b = c \<Longrightarrow> lesson_attempts lid b = lesson_attempts lid c" for b c d
    by (simp_all add: lesson_attempts_def)
  show ?thesis
  proof (cases "tv_passed v")
    case True
    with db have finished: "complete_when_done D now lid l
        ((check_result_new v (shape_feedback v))\<lparr>ck_diagnosis := t_diagnosis t\<rparr>) (?a1\<lparr>ap_store := db\<rparr>) = (Inr result, a')"
      by simp
    from complete_when_done_Inr [OF finished] True show ?thesis
      by (simp add: check_result_new_def lesson_attempts_def)
  next
    case False
    with db show ?thesis by (auto simp: check_result_new_def)
  qed
qed

section \<open>Properties\<close>

text \<open>C9: A check counts what the guest found, and nothing else. A check that returns a result found the
  lesson and the task, every validator of the task legal, and a connected guest that answered the
  validation request with exactly the verdict reported. The attempt of the task records that verdict;
  the lesson is complete exactly when the verdict is a pass and every required task has been passed
  in this sitting, and then its row in the store is completed with a mastery that is at least the one
  the attempts earn.\<close>

theorem check_counts_the_verdict:
  assumes "cmd_check_task D started_at now lid tid a = (Inr result, a')"
  shows "\<exists>l t client v.
      try_lesson (dk_catalog D) lid = Inr l \<and> t \<in> set (l_tasks l) \<and> t_id t = tid
      \<and> list_all (legal (dk_registry D)) (t_validators t)
      \<and> vm_current (w_vm (ap_vm a)) = VmReady \<and> ap_agent a = Some client
      \<and> fst (client_request (dk_net D) (dk_decode D)
               (ValidateTask lid tid (t_validators t) ''student'' (Some started_at)) (client, ap_net a))
          = Inr (TaskValidated v)
      \<and> ck_validation result = v
      \<and> ap_attempts a' = bt_insert (attempt_key lid tid)
            (if tv_passed v then record_pass (attempt_entry lid tid a)
             else record_failure (failure_of v) (attempt_entry lid tid a)) (ap_attempts a)
      \<and> (ck_lesson_complete result \<longleftrightarrow> tv_passed v \<and> required_tasks l \<noteq> []
            \<and> list_all (passed_in_sitting (lesson_attempts lid a')) (required_tasks l))
      \<and> (ck_lesson_complete result \<longrightarrow> (\<exists>best. ck_mastery result = Some best
            \<and> lesson_mastery (lesson_attempts lid a') (hides_hints (l_type l)) \<le> best
            \<and> completed_as (ap_store a') (dk_profile_id D) lid best))"
proof -
  from assms obtain l t b v client where found: "try_lesson (dk_catalog D) lid = Inr l"
      "List.find (\<lambda>t. t_id t = tid) (l_tasks l) = Some t"
    and ready: "accepts_commands (vm_current (w_vm (ap_vm a)))"
    and valid: "check_task_validators (dk_registry D) t = Inr ()"
    and guest: "ap_agent a = Some client"
      "send_request D (check_request lid tid (build_validation_request l t started_at)) client a = (Inr (TaskValidated v), b)"
    and rec: "record_check D started_at now lid tid l t v b = (Inr result, a')"
    unfolding cmd_check_task_def by (auto simp: action_Inr)
  have same: "ap_attempts b = ap_attempts a" "attempt_entry lid tid b = attempt_entry lid tid a"
    using send_request_frame [OF guest(2)] by (simp_all add: attempt_entry_in)
  have reply: "fst (client_request (dk_net D) (dk_decode D)
       (ValidateTask lid tid (t_validators t) ''student'' (Some started_at)) (client, ap_net a)) = Inr (TaskValidated v)"
    using guest(2) by (auto simp: send_request_def check_request_def build_validation_request_def split: prod.splits)
  from record_check_Inr [OF rec] same have "ck_validation result = v"
    "ap_attempts a' = bt_insert (attempt_key lid tid)
        (if tv_passed v then record_pass (attempt_entry lid tid a)
         else record_failure (failure_of v) (attempt_entry lid tid a)) (ap_attempts a)"
    by (auto simp: record_outcome_def Let_def)
  with record_check_Inr [OF rec] found(1) find_SomeD [OF found(2)] valid ready guest(1) reply show ?thesis
    by (auto simp: check_task_validators_iff list_all_iff accepts_commands_def all_required_passed_iff)
qed

definition sample_check :: "(string + check_result) \<times> string list app" where
  "sample_check = cmd_check_task sample_desk 5 6 ''nav.a'' ''t1'' (ready_app [''pass''])"

lemma check_counts_the_verdict_witness:
  "\<exists>result a'. sample_check = (Inr result, a') \<and> ck_lesson_complete result
     \<and> ap_attempts a' = [(''nav.a/t1'', record_pass (attempt_new ''nav.a'' ''t1''))]"
proof -
  have "\<not> isl (fst sample_check)" and complete: "ck_lesson_complete (projr (fst sample_check))" by code_simp+
  then have r: "sample_check = (Inr (projr (fst sample_check)), snd sample_check)"
    by (simp add: sum.collapse(2))
  have "ap_attempts (ready_app [''pass'']) = []" "attempt_key ''nav.a'' ''t1'' = ''nav.a/t1''"
    by (simp_all add: ready_app_def sample_app_def app_new_def attempt_key_def)
  with check_counts_the_verdict [OF r [unfolded sample_check_def], folded sample_check_def] complete
  have "ap_attempts (snd sample_check) = [(''nav.a/t1'', record_pass (attempt_new ''nav.a'' ''t1''))]"
    by (auto simp: attempt_entry_in attempt_in_def)
  with r complete show ?thesis by blast
qed



text \<open>A setting takes effect at once and for good. After the retention of the command history is set, no
  command of the profile remains that the new policy does not retain; and after the progression mode
  is set, it is the mode in force and the one the next start of the application reads.\<close>

theorem settings_take_effect:
  "(cmd_set_setting D now ''history.retention'' policy a = (Inr (), a') \<longrightarrow>
      list_all (retained (parse_retention policy) (dk_session_id D) now) (commands_of (dk_profile_id D) (ap_store a')))
   \<and> (cmd_set_progression_mode D mode a = (Inr (), a') \<longrightarrow>
      ap_mode a' = mode \<and> startup_mode (dk_profile_id D) (ap_store a') = mode)"
proof (intro conjI impI)
  assume "cmd_set_setting D now ''history.retention'' policy a = (Inr (), a')"
  then obtain db where db: "set_setting (dk_profile_id D) ''history.retention'' policy (ap_store a) = Inr db"
    "ap_store a' = snd (prune_command_history (dk_profile_id D) (dk_session_id D) now db)"
    by (auto simp: cmd_set_setting_def act_bind_Inr_iff store_write_Inr store_call_Inr)
  then have "history_retention_of (dk_profile_id D) db = parse_retention policy"
    by (auto simp: set_setting_def history_retention_of_def setting_def bt_get_insert split: if_splits)
  then show "list_all (retained (parse_retention policy) (dk_session_id D) now) (commands_of (dk_profile_id D) (ap_store a'))"
    unfolding db(2) commands_of_def prune_commands by (auto simp: list_all_iff)
next
  assume "cmd_set_progression_mode D mode a = (Inr (), a')"
  then obtain db where "a' = a\<lparr>ap_mode := mode, ap_store := db\<rparr>"
    "set_setting (dk_profile_id D) ''progression.mode'' (mode_str mode) (ap_store a) = Inr db"
    by (auto simp: cmd_set_progression_mode_def act_bind_Inr_iff store_write_Inr update_def)
  then show "ap_mode a' = mode" "startup_mode (dk_profile_id D) (ap_store a') = mode"
    by (auto simp: set_setting_def startup_mode_def setting_def bt_get_insert mode_text.decode_encode split: if_splits)
qed

definition set_history_off :: "(string + unit) \<times> string list app" where
  "set_history_off = cmd_set_setting sample_desk 9 ''history.retention'' ''none'' (sample_app [])"

lemma settings_take_effect_witness: "commands_of 1 (ap_store (snd set_history_off)) = []"
proof -
  have "fst set_history_off = Inr ()" by code_simp
  then have "cmd_set_setting sample_desk 9 ''history.retention'' ''none'' (sample_app []) = (Inr (), snd set_history_off)"
    unfolding set_history_off_def by (metis prod.collapse)
  moreover have "dk_profile_id sample_desk = 1"
    by (simp add: sample_desk_def host.extend_def desk.fields_def sample_host_def)
  moreover have "parse_retention ''none'' = DoNotSave" using parse_as_setting [of DoNotSave] by simp
  ultimately show ?thesis
    using settings_take_effect [of sample_desk 9 "''none''" "sample_app []" "snd set_history_off" GuidedPath]
    by (simp add: list_all_iff retained_def)
qed

lemma distinct_remdups_adj_sorted: "sorted xs \<Longrightarrow> distinct (remdups_adj xs)"
  by (induction xs rule: remdups_adj.induct) (auto dest: order.antisym)

lemma remdups_adj_sort: "remdups_adj (sort xs) = sorted_list_of_set (set xs)" for xs :: "nat list"
  using sorted_list_of_set.idem_if_sorted_distinct [of "remdups_adj (sort xs)"]
  by (simp add: distinct_remdups_adj_sorted sorted_remdups_adj)

text \<open>Review questions are graded by what was chosen, not by how it was given. Where the answer key of a
  multiple select question names each answer once, an answer is correct exactly when it selects that
  set, in any order and however often; a multiple choice question with a key accepts exactly the answer
  whose first choice is the key; and a text is accepted if it has the words of an accepted answer.\<close>

theorem grading_exact:
  "(q_type q = MultipleSelect \<longrightarrow> distinct (q_correct_answers q) \<longrightarrow>
      (answer_correct lower q (Some chosen) text \<longleftrightarrow> set chosen = set (q_correct_answers q)))
   \<and> (q_type q = MultipleChoice \<longrightarrow> q_correct_answer q = Some i \<longrightarrow>
      (answer_correct lower q selected text \<longleftrightarrow> (\<exists>rest. selected = Some (i # rest))))
   \<and> (q_type q \<notin> {MultipleChoice, MultipleSelect} \<longrightarrow> c \<in> set (q_accepted_answers q) \<longrightarrow>
      split_whitespace given = split_whitespace c \<longrightarrow> answer_correct lower q selected (Some given))"
proof (intro conjI impI)
  assume "q_type q = MultipleSelect" "distinct (q_correct_answers q)"
  then show "answer_correct lower q (Some chosen) text \<longleftrightarrow> set chosen = set (q_correct_answers q)"
    using sorted_list_of_set.idem_if_sorted_distinct [of "sort (q_correct_answers q)"]
    by (simp add: answer_correct_def remdups_adj_sort) (metis List.finite_set sorted_list_of_set_inject)
next
  assume "q_type q = MultipleChoice" "q_correct_answer q = Some i"
  then show "answer_correct lower q selected text \<longleftrightarrow> (\<exists>rest. selected = Some (i # rest))"
    by (cases selected) (auto simp: answer_correct_def split: list.splits)
next
  assume "q_type q \<notin> {MultipleChoice, MultipleSelect}" "c \<in> set (q_accepted_answers q)"
    "split_whitespace given = split_whitespace c"
  then show "answer_correct lower q selected (Some given)"
    by (cases "q_type q") (auto simp: answer_correct_def accepts_text_def normalise_answer_def list_ex_iff)
qed

definition sample_select :: review_question where
  "sample_select =
     \<lparr>q_type = MultipleSelect, q_question = [], q_answers = [''a'', ''b'', ''c''], q_correct_answer = None,
      q_correct_answers = [2, 0], q_accepted_answers = [], q_explanation = None\<rparr>"

lemma grading_exact_witness: "answer_correct id sample_select (Some [0, 2, 0]) None"
  using grading_exact [of sample_select id "[0, 2, 0]" None 0 None "[]" "[]"]
  by (auto simp: sample_select_def)

end
