(* ===== verification/Desktop_Session.thy ===== *)
theory Desktop_Session
  imports Desktop_Lessons
begin

text \<open>
  The commands of the desktop that start, stop and repair the machine
  (apps/desktop/src-tauri/src/commands.rs): sessions, snapshots, the checks of the runtime and the
  first screen. What the operating system answers is an argument, as in \<open>Vm_Manager\<close> and \<open>Runtime\<close>.
\<close>

section \<open>Calls to the manager\<close>

definition vm_call :: "(vm_world \<Rightarrow> (string + 'a) \<times> vm_world) \<Rightarrow> ('w app, 'a) action" where
  "vm_call f a = (let (r, w) = f (ap_vm a) in (r, a\<lparr>ap_vm := w\<rparr>))"

definition manager_update :: "(vm_manager \<Rightarrow> vm_manager) \<Rightarrow> ('w app, unit) action" where
  "manager_update f = update (\<lambda>a. a\<lparr>ap_vm := (ap_vm a)\<lparr>w_vm := f (w_vm (ap_vm a))\<rparr>\<rparr>)"

definition files_call :: "(fs \<Rightarrow> (string + 'a) \<times> fs) \<Rightarrow> ('w app, 'a) action" where
  "files_call f a = (let (r, files) = f (w_fs (ap_vm a)) in (r, a\<lparr>ap_vm := (ap_vm a)\<lparr>w_fs := files\<rparr>\<rparr>))"

definition drop_agent :: "('w app, unit) action" where
  "drop_agent = update (\<lambda>a. a\<lparr>ap_agent := None\<rparr>)"

definition detach_console :: "('w app, unit) action" where
  "detach_console = update (\<lambda>a. a\<lparr>ap_console := console_detach (ap_console a)\<rparr>)"

definition cmd_vm_status :: "('w app, vm_status) action" where
  "cmd_vm_status = inspect (\<lambda>a. manager_status (w_vm (ap_vm a)))"

section \<open>Installing the runtime\<close>

record installer =
  in_sha :: "string \<Rightarrow> string"
  in_parse :: "string \<Rightarrow> string + manifest"
  in_zstd :: "string \<Rightarrow> string option"
  in_io :: install_io
  in_bundled :: "bundle_list option"

definition cmd_install_runtime :: "'w desk \<Rightarrow> installer \<Rightarrow> bool \<Rightarrow> ('w app, bool) action" where
  "cmd_install_runtime D I force a =
     (let (r, live) = install_runtime (in_sha I) (in_parse I) (in_zstd I) (in_io I) (dk_layout D)
                        (in_bundled I) force (ap_runtime a)
      in (map_sum id (\<lambda>outcome. outcome = Installed) r, a\<lparr>ap_runtime := live\<rparr>))"

definition loaded_manifest :: "installer \<Rightarrow> 'w app \<Rightarrow> string + manifest" where
  "loaded_manifest I a = manifest_load (in_parse I) (Option.bind (ap_runtime a) (\<lambda>d. d ''checksums.json''))"

definition runtime_files :: "'w app \<Rightarrow> directory" where
  "runtime_files a = (case ap_runtime a of None \<Rightarrow> Map.empty | Some d \<Rightarrow> d)"

definition cmd_verify_runtime :: "installer \<Rightarrow> ('w app, string list) action" where
  "cmd_verify_runtime I =
     act_bind (inspect runtime_files) (\<lambda>root.
     act_bind (inspect (loaded_manifest I)) (\<lambda>loaded.
     act_bind (lift loaded) (\<lambda>m. return (problems (verify (in_sha I) m root)))))"

section \<open>Waiting for the guest\<close>

text \<open>
  What happens during one wait: what the console prints, the attempts to reach the guest (the
  milliseconds left at each, within the budget), and whether the watcher of the process sees it
  exit, or fails, before an attempt succeeds.
\<close>

record guest_wait =
  gw_output :: "string list"
  gw_clock :: "nat \<Rightarrow> nat list"
  gw_exit :: "wait_outcome option"

definition last_vm_log_line :: "string option \<Rightarrow> string option" where
  "last_vm_log_line contents =
     (case contents of
        None \<Rightarrow> None
      | Some text \<Rightarrow>
          map_option (first_chars 500)
            (List.find (\<lambda>line. line \<noteq> [] \<and> line \<noteq> ''**'') (map trim (rev (lines text)))))"

definition stopped_message :: "'w desk \<Rightarrow> int \<Rightarrow> fs \<Rightarrow> string" where
  "stopped_message D status files =
     ''Linux stopped before it finished starting ('' @ dk_exit_status D status @ '').''
     @ (case last_vm_log_line (files (ly_vm_log (dk_layout D))) of
          Some line \<Rightarrow> '' The VM log says: '' @ line | None \<Rightarrow> [])
     @ '' Try Check practice environment; if the problem remains, reinstall the runtime.''"

definition hear_console :: "string list \<Rightarrow> ('w app, unit) action" where
  "hear_console chunks =
     update (\<lambda>a. if cs_attached (ap_console a) then a\<lparr>ap_console := console_run chunks (ap_console a)\<rparr> else a)"

definition await_ready :: "'w desk \<Rightarrow> nat list \<Rightarrow> agent_client \<Rightarrow> ('w app, agent_response) action" where
  "await_ready D clock client a =
     (let (reply, client', net) = wait_until_ready (dk_net D) (dk_decode D) (dk_debug D) clock None (client, ap_net a)
      in (reply, a\<lparr>ap_agent := Some client', ap_net := net\<rparr>))"

definition wait_for_guest :: "'w desk \<Rightarrow> guest_wait \<Rightarrow> nat \<Rightarrow> agent_client \<Rightarrow> ('w app, agent_response) action" where
  "wait_for_guest D G budget client =
     act_bind (hear_console (gw_output G)) (\<lambda>_.
     act_bind (attempting (await_ready D (gw_clock G budget) client)) (\<lambda>reply.
       case gw_exit G of
         None \<Rightarrow> lift reply
       | Some outcome \<Rightarrow>
           act_bind (vm_call (poll_exited outcome)) (\<lambda>exited.
             case exited of
               None \<Rightarrow> lift reply
             | Some status \<Rightarrow>
                 act_bind (inspect (\<lambda>a. w_fs (ap_vm a))) (\<lambda>files. bail (stopped_message D status files)))))"

section \<open>Starting a session\<close>

record boot_answers =
  bo_prepare :: prepare_env
  bo_start :: start_env
  bo_console :: bool
  bo_wait :: guest_wait

record session_answers =
  sa_installer :: installer
  sa_exe_of :: "u32 \<Rightarrow> string option"
  sa_terminated :: bool
  sa_first :: boot_answers
  sa_second :: boot_answers
  sa_ready_at :: nat

definition session_plan :: "'w desk \<Rightarrow> string option \<Rightarrow> ('w app, session_kind \<times> network_mode \<times> u32 option) action" where
  "session_plan D lesson_id =
     (case lesson_id of
        None \<Rightarrow> return (FreePractice, NetworkDisabled, None)
      | Some lid \<Rightarrow>
          act_bind (find_lesson D lid) (\<lambda>l.
            return (LessonSession lid, e_network_mode (l_environment l), e_memory_mb (l_environment l))))"

definition boot :: "boot_answers \<Rightarrow> session_kind \<Rightarrow> network_mode \<Rightarrow> u32 option \<Rightarrow> ('w app, vm_config) action" where
  "boot B kind mode memory_mb =
     act_bind (vm_call (prepare (bo_prepare B) kind mode memory_mb)) (\<lambda>config.
     act_bind (vm_call (vm_start (bo_start B) config)) (\<lambda>_. return config))"

definition connect :: "vm_config \<Rightarrow> ('w app, agent_client) action" where
  "connect config =
     (let client = client_new (cf_agent_port config) (cf_control_token config)
      in act_bind (update (\<lambda>a. a\<lparr>ap_agent := Some client\<rparr>)) (\<lambda>_. return client))"

definition attach_console :: "bool \<Rightarrow> ('w app, unit) action" where
  "attach_console accepted = update (\<lambda>a. a\<lparr>ap_console := snd (console_attach accepted (ap_console a))\<rparr>)"

definition whpx_detail :: string where
  "whpx_detail = ''WHPX could not boot the guest''"

definition retry_in_software ::
  "'w desk \<Rightarrow> boot_answers \<Rightarrow> session_kind \<Rightarrow> network_mode \<Rightarrow> u32 option \<Rightarrow> ('w app, string + agent_response) action" where
  "retry_in_software D B kind mode memory_mb =
     act_bind detach_console (\<lambda>_.
     act_bind drop_agent (\<lambda>_.
     act_bind (vm_call vm_stop) (\<lambda>_.
     act_bind (manager_update (use_software_acceleration whpx_detail)) (\<lambda>_.
     act_bind (boot B kind mode memory_mb) (\<lambda>config.
     act_bind (connect config) (\<lambda>client.
     act_bind (attach_console (bo_console B)) (\<lambda>_.
       attempting (wait_for_guest D (bo_wait B) 120000 client))))))))"

text \<open>Giving up: no client remains, the machine is stopped and marked as failed.\<close>

definition abandon :: "string \<Rightarrow> ('w app, 'a) action" where
  "abandon detail =
     act_bind drop_agent (\<lambda>_.
     act_bind detach_console (\<lambda>_.
     act_bind (vm_call vm_stop) (\<lambda>_.
     act_bind (manager_update (mark_failed detail)) (\<lambda>_. bail detail))))"

definition console_summary :: "'w desk \<Rightarrow> ('w app, string option) action" where
  "console_summary D = inspect (\<lambda>a. summarise_console (dk_lossy D) (cs_tail (ap_console a)))"

definition conclude :: "'w desk \<Rightarrow> nat \<Rightarrow> string + agent_response \<Rightarrow> ('w app, vm_status) action" where
  "conclude D now ready =
     (case ready of
        Inr (Pong version release img up) \<Rightarrow>
          act_bind (manager_update (mark_ready now)) (\<lambda>_.
          act_bind cmd_vm_status (\<lambda>status.
            return (status\<lparr>st_guest_kernel := Some release, st_image_version := Some img\<rparr>)))
      | Inr other \<Rightarrow> abandon (''Linux returned an unexpected startup response: '' @ dk_debug D other)
      | Inl err \<Rightarrow>
          act_bind (console_summary D) (\<lambda>shown.
            abandon (err @ (case shown of Some text \<Rightarrow> '' Linux console: '' @ text | None \<Rightarrow> []))))"

definition first_budget :: "vm_config \<Rightarrow> nat" where
  "first_budget config = (if cf_accel config = Whpx then 30000 else 120000)"

definition remember_session :: "session_kind \<Rightarrow> ('w app, unit) action" where
  "remember_session kind = update (\<lambda>a. a\<lparr>ap_session := Some kind\<rparr>)"

definition run_session ::
  "'w desk \<Rightarrow> session_answers \<Rightarrow> session_kind \<Rightarrow> network_mode \<Rightarrow> u32 option \<Rightarrow> ('w app, vm_status) action" where
  "run_session D S kind mode memory_mb =
     act_bind (boot (sa_first S) kind mode memory_mb) (\<lambda>config.
     act_bind (connect config) (\<lambda>client.
     act_bind (remember_session kind) (\<lambda>_.
     act_bind (attach_console (bo_console (sa_first S))) (\<lambda>_.
     act_bind (attempting (wait_for_guest D (bo_wait (sa_first S)) (first_budget config) client)) (\<lambda>ready.
     act_bind (if isl ready \<and> cf_accel config = Whpx
               then retry_in_software D (sa_second S) kind mode memory_mb else return ready) (\<lambda>ready.
       conclude D (sa_ready_at S) ready))))))"

definition start_session_inner :: "'w desk \<Rightarrow> session_answers \<Rightarrow> string option \<Rightarrow> ('w app, vm_status) action" where
  "start_session_inner D S lesson_id =
     act_bind (cmd_install_runtime D (sa_installer S) False) (\<lambda>_.
     act_bind (attempting (vm_call (reap_stale_process (sa_exe_of S) (sa_terminated S)))) (\<lambda>_.
     act_bind (session_plan D lesson_id) (\<lambda>(kind, mode, memory_mb).
       run_session D S kind mode memory_mb)))"

section \<open>Stopping and restarting\<close>

definition farewell :: "'w desk \<Rightarrow> ('w app, unit) action" where
  "farewell D =
     act_bind (attempting agent_of) (\<lambda>client.
       case client of
         Inl _ \<Rightarrow> return ()
       | Inr c \<Rightarrow> act_bind (attempting (send_request D Shutdown c)) (\<lambda>_. return ()))"

definition stop_session_inner :: "'w desk \<Rightarrow> ('w app, unit) action" where
  "stop_session_inner D =
     act_bind (farewell D) (\<lambda>_.
     act_bind detach_console (\<lambda>_.
     act_bind drop_agent (\<lambda>_. vm_call vm_stop)))"

definition cmd_restart_vm :: "'w desk \<Rightarrow> session_answers \<Rightarrow> ('w app, vm_status) action" where
  "cmd_restart_vm D S =
     act_bind (inspect ap_session) (\<lambda>session.
     act_bind (stop_session_inner D) (\<lambda>_.
       start_session_inner D S (case session of Some (LessonSession lid) \<Rightarrow> Some lid | _ \<Rightarrow> None)))"

definition cmd_restart_lesson :: "'w desk \<Rightarrow> session_answers \<Rightarrow> int \<Rightarrow> string \<Rightarrow> ('w app, vm_status) action" where
  "cmd_restart_lesson D S now lesson_id =
     act_bind (clear_lesson_attempts lesson_id) (\<lambda>_.
     act_bind (stop_session_inner D) (\<lambda>_.
     act_bind (start_session_inner D S (Some lesson_id)) (\<lambda>status.
     act_bind (cmd_prepare_lesson D now lesson_id) (\<lambda>_. return status))))"

section \<open>Snapshots and recovery\<close>

definition live_disk :: "'w desk \<Rightarrow> string" where
  "live_disk D = ly_free_practice_overlay (dk_layout D)"

definition disk_exists :: "string \<Rightarrow> ('w app, bool) action" where
  "disk_exists path = inspect (\<lambda>a. path_exists (w_fs (ap_vm a)) path)"

definition overlays_of :: "'w app \<Rightarrow> overlay_manager" where
  "overlays_of a = vm_overlays (w_vm (ap_vm a))"

definition file_length :: "string \<Rightarrow> ('w app, u64) action" where
  "file_length path = inspect (\<lambda>a. case w_fs (ap_vm a) path of Some d \<Rightarrow> word_of_nat (length d) | None \<Rightarrow> 0)"

definition cmd_create_snapshot :: "'w desk \<Rightarrow> bool \<Rightarrow> copy_outcome \<Rightarrow> int \<Rightarrow> string \<Rightarrow> ('w app, string) action" where
  "cmd_create_snapshot D dir_ok copy now name =
     act_bind (disk_exists (live_disk D)) (\<lambda>there.
       if \<not> there then bail ''There is no Free Practice environment to snapshot yet.''
       else
         act_bind (inspect overlays_of) (\<lambda>om.
         act_bind (files_call (take_snapshot om dir_ok copy (live_disk D) name)) (\<lambda>path.
         act_bind (file_length path) (\<lambda>size_bytes.
         act_bind (store_call D (record_snapshot (dk_profile_id D) name path
                     (ly_runtime_version (dk_layout D)) size_bytes now)) (\<lambda>_. return path)))))"

definition cmd_list_snapshots :: "'w desk \<Rightarrow> ('w app, (int \<times> string \<times> string \<times> int) list) action" where
  "cmd_list_snapshots D = inspect (\<lambda>a. snapshots (dk_profile_id D) (ap_store a))"

definition cmd_restore_snapshot :: "'w desk \<Rightarrow> restore_io \<Rightarrow> int \<Rightarrow> ('w app, unit) action" where
  "cmd_restore_snapshot D io snapshot_id =
     act_bind (stop_session_inner D) (\<lambda>_.
     act_bind (cmd_list_snapshots D) (\<lambda>rows.
       case List.find (\<lambda>(sid, _). sid = snapshot_id) rows of
         None \<Rightarrow> bail ''That snapshot no longer exists.''
       | Some (_, _, disk_path, _) \<Rightarrow> files_call (overlay_restore io disk_path (live_disk D))))"

definition remove_live :: "bool \<Rightarrow> string \<Rightarrow> fs \<Rightarrow> (string + unit) \<times> fs" where
  "remove_live ok live files =
     (if ok then (Inr (), files(live := None)) else (Inl ''could not remove the practice environment'', files))"

definition cmd_factory_reset_practice :: "'w desk \<Rightarrow> bool \<Rightarrow> copy_outcome \<Rightarrow> bool \<Rightarrow> ('w app, unit) action" where
  "cmd_factory_reset_practice D dir_ok copy remove_ok =
     act_bind (stop_session_inner D) (\<lambda>_.
     act_bind (disk_exists (live_disk D)) (\<lambda>there.
       if \<not> there then return ()
       else
         act_bind (inspect overlays_of) (\<lambda>om.
         act_bind (attempting (files_call (take_snapshot om dir_ok copy (live_disk D) ''before-factory-reset''))) (\<lambda>_.
           files_call (remove_live remove_ok (live_disk D))))))"

section \<open>Health\<close>

definition health_of :: "'w desk \<Rightarrow> installer \<Rightarrow> u64 option \<Rightarrow> bool \<Rightarrow> 'w app \<Rightarrow> health_report" where
  "health_of D I free_bytes quick a =
     run_with_unclean_shutdown (in_sha I) (loaded_manifest I a) (runtime_files a) free_bytes quick
       (ap_unclean_shutdown a)"

definition machine_is_down :: "'w app \<Rightarrow> bool" where
  "machine_is_down a \<longleftrightarrow> vm_current (w_vm (ap_vm a)) \<in> {VmStopped, VmFailed, VmUnbootable}"

definition repair_overlay :: "'w desk \<Rightarrow> qemu_img \<Rightarrow> bool \<Rightarrow> ('w app, unit) action" where
  "repair_overlay D img dir_ok =
     act_bind (inspect (\<lambda>a. free_practice_spec (overlays_of a) (ly_base_image (dk_layout D)))) (\<lambda>spec.
     act_bind (disk_exists (os_path spec)) (\<lambda>there.
     act_bind (if there then files_call (overlay_ensure img dir_ok spec) else return ()) (\<lambda>_.
       update (\<lambda>a. a\<lparr>ap_unclean_shutdown := False\<rparr>))))"

definition cmd_health_check :: "'w desk \<Rightarrow> installer \<Rightarrow> qemu_img \<Rightarrow> bool \<Rightarrow> u64 option \<Rightarrow> ('w app, health_report) action" where
  "cmd_health_check D I img dir_ok free_bytes =
     act_bind (inspect (\<lambda>a. ap_unclean_shutdown a \<and> machine_is_down a)) (\<lambda>due.
     act_bind (if due then repair_overlay D img dir_ok else return ()) (\<lambda>_.
       inspect (health_of D I free_bytes False)))"

section \<open>The first screen\<close>

definition progress_index_of :: "lesson_progress list \<Rightarrow> progress_index" where
  "progress_index_of rows =
     map_of (rev (map (\<lambda>r. (p_lesson_id r, \<lparr>ls_status = p_status r, ls_mastery = p_mastery r\<rparr>)) rows))"

definition cmd_bootstrap :: "'w desk \<Rightarrow> installer \<Rightarrow> string \<Rightarrow> u64 option \<Rightarrow> ('w app, bootstrap_view) action" where
  "cmd_bootstrap D I app_version free_bytes =
     act_bind (store_read D (all_lesson_progress (dk_profile_id D))) (\<lambda>rows.
       inspect (\<lambda>a.
         let pi = progress_index_of rows; C = dk_catalog D; m = w_vm (ap_vm a) in
         \<lparr>bs_app_version = app_version, bs_runtime_version = ly_runtime_version (dk_layout D),
          bs_profile_id = dk_profile_id D, bs_mode = ap_mode a,
          bs_modules = module_views C rows (\<lambda>lid. availability_of C (ap_mode a) lid pi),
          bs_core_lesson_count = core_lesson_count C,
          bs_completed_core_lessons = completed_core_lessons C pi,
          bs_mastery_percent = mastery_percent C pi, bs_next_lesson_id = next_lesson C pi,
          bs_review_lesson_ids = review_recommendations C pi 5,
          bs_recent_commands = command_history (dk_profile_id D) 20 (ap_store a),
          bs_vm = manager_status m, bs_acceleration = ad_reason (vm_accel m),
          bs_health = health_of D I free_bytes True a, bs_catalog_warnings = cat_warnings C\<rparr>))"

section \<open>Effects\<close>

lemma within_vm_call: "(\<And>w. vm_step w (snd (f w))) \<Longrightarrow> within (evolves D) (vm_call f)"
  by (rule withinI) (simp add: vm_call_def evolves_vm_step Let_def split_def)

lemma within_manager_update:
  "(\<And>w. vm_step w (w\<lparr>w_vm := f (w_vm w)\<rparr>)) \<Longrightarrow> within (evolves D) (manager_update f)"
  unfolding manager_update_def by (intro within_update evolves_vm_step)

lemma within_files_call [within_intros]: "within (evolves D) (files_call f)"
  by (rule withinI) (simp add: files_call_def evolves_fs Let_def split_def)

lemma within_machine [within_intros]:
  "within (evolves D) (vm_call (reap_stale_process exe_of terminated))"
  "within (evolves D) (vm_call (prepare env kind mode memory_mb))"
  "within (evolves D) (vm_call (poll_exited outcome))"
  "within (evolves D) (vm_call vm_stop)"
  "within (evolves D) (manager_update (mark_ready now))"
  "within (evolves D) (manager_update (mark_failed detail))"
  "within (evolves D) (manager_update (use_software_acceleration detail))"
  by (rule within_vm_call within_manager_update, rule vm_step.intros)+

lemma within_local [within_intros]:
  "within (evolves D) drop_agent" "within (evolves D) detach_console" "within (evolves D) cmd_vm_status"
  "within (evolves D) (hear_console chunks)" "within (evolves D) (attach_console accepted)"
  "within (evolves D) (remember_session kind)" "within (evolves D) (disk_exists path)"
  "within (evolves D) (file_length path)" "within (evolves D) (console_summary D)" "within (evolves D) (connect config)"
  "within (evolves D) (cmd_install_runtime D I force)" "within (evolves D) (await_ready D clock client)"
  by (rule withinI; simp add: drop_agent_def detach_console_def cmd_vm_status_def hear_console_def
      attach_console_def remember_session_def disk_exists_def file_length_def console_summary_def connect_def
      cmd_install_runtime_def await_ready_def action_defs Let_def split_def evolves_same)+

text \<open>A machine is started with the configuration its manager has just prepared.\<close>

lemma within_boot [within_intros]: "within (evolves D) (boot B kind mode memory_mb)"
proof (rule withinI)
  fix a :: "'a app"
  let ?prep = "prepare (bo_prepare B) kind mode memory_mb (ap_vm a)"
  obtain r w where p: "?prep = (r, w)" by fastforce
  have step: "evolves D a (a\<lparr>ap_vm := w\<rparr>)"
    using evolves_vm_step [of a "snd ?prep"] vm_step.prepare p by (metis snd_conv)
  show "evolves D a (snd (boot B kind mode memory_mb a))"
  proof (cases r)
    case (Inr config)
    with prepare_config(6) [of "bo_prepare B" kind mode memory_mb "ap_vm a" config] p
    have "vm_configured (w_vm w) \<noteq> None" by simp
    then have "vm_step w (snd (vm_start (bo_start B) config w))" by (rule vm_step.start)
    with evolves_vm_step [of "a\<lparr>ap_vm := w\<rparr>"]
    have "evolves D (a\<lparr>ap_vm := w\<rparr>) (a\<lparr>ap_vm := snd (vm_start (bo_start B) config w)\<rparr>)" by simp
    with step have "evolves D a (a\<lparr>ap_vm := snd (vm_start (bo_start B) config w)\<rparr>)"
      by (rule host_effect.rel_trans)
    then show ?thesis
      using p Inr by (auto simp: boot_def vm_call_def action_defs split: prod.split sum.split)
  qed (use p step in \<open>simp add: boot_def vm_call_def action_defs\<close>)
qed

lemma within_sessions [within_intros]:
  "within (evolves D) (wait_for_guest D G budget client)"
  "within (evolves D) (session_plan D lesson_id)"
  "within (evolves D) (abandon detail)"
  "within (evolves D) (farewell D)"
  unfolding wait_for_guest_def session_plan_def abandon_def farewell_def
  by (auto intro!: within_intros split: option.split sum.split)

lemma within_start_stop [within_intros]:
  "within (evolves D) (retry_in_software D B kind mode memory_mb)"
  "within (evolves D) (conclude D now ready)"
  "within (evolves D) (stop_session_inner D)"
proof -
  show "within (evolves D) (retry_in_software D B kind mode memory_mb)"
    unfolding retry_in_software_def by (intro within_intros)
  show "within (evolves D) (conclude D now ready)"
    unfolding conclude_def by (auto intro!: within_intros split: sum.split agent_response.split)
  show "within (evolves D) (stop_session_inner D)"
    unfolding stop_session_inner_def by (intro within_intros)
qed

lemma within_start_session [within_intros]: "within (evolves D) (start_session_inner D S lesson_id)"
proof -
  have run: "within (evolves D) (run_session D S kind mode memory_mb)" for kind mode memory_mb
    unfolding run_session_def by (auto intro!: within_intros)
  show ?thesis
    unfolding start_session_inner_def by (intro within_intros) (auto intro!: run split: prod.split)
qed

lemma within_session_commands [within_intros]:
  "within (evolves D) (cmd_restart_vm D S)"
  "within (evolves D) (cmd_restart_lesson D S now lesson_id)"
  "within (evolves D) (cmd_verify_runtime I)"
  "within (evolves D) (cmd_create_snapshot D dir_ok copy now name)"
  "within (evolves D) (cmd_list_snapshots D)"
  "within (evolves D) (cmd_restore_snapshot D io snapshot_id)"
  "within (evolves D) (cmd_factory_reset_practice D dir_ok copy remove_ok)"
  "within (evolves D) (cmd_bootstrap D I app_version free_bytes)"
  unfolding cmd_restart_vm_def cmd_restart_lesson_def cmd_verify_runtime_def cmd_create_snapshot_def
    cmd_list_snapshots_def cmd_restore_snapshot_def cmd_factory_reset_practice_def cmd_bootstrap_def
  by (auto intro!: within_intros split: option.split prod.split)

lemma within_health_check [within_intros]:
  "within (evolves D) (cmd_health_check D I img dir_ok free_bytes)"
proof -
  have "within (evolves D) (update (\<lambda>a. a\<lparr>ap_unclean_shutdown := False\<rparr>))"
    by (rule within_update) (simp add: evolves_same)
  then have "within (evolves D) (repair_overlay D img dir_ok)"
    unfolding repair_overlay_def by (auto intro!: within_intros)
  then show ?thesis
    unfolding cmd_health_check_def by (auto intro!: within_intros)
qed

end
