(* ===== verification/Desktop_Outcomes.thy ===== *)
theory Desktop_Outcomes
  imports Desktop_Session
begin

text \<open>
  How the session commands of \<open>Desktop_Session\<close> end: what is left of the machine, the client and the
  terminal after a start, a stop and a recovery, on every branch.
\<close>

section \<open>Results\<close>

lemma vm_call_iff: "vm_call f a = (r, a') \<longleftrightarrow> r = fst (f (ap_vm a)) \<and> a' = a\<lparr>ap_vm := snd (f (ap_vm a))\<rparr>"
  by (auto simp: vm_call_def Let_def split_def)

lemma attempting_iff: "attempting m a = (r, a') \<longleftrightarrow> r = Inr (fst (m a)) \<and> a' = snd (m a)"
  by (auto simp: attempting_def)

lemma update_iff: "update f a = (r, a') \<longleftrightarrow> r = Inr () \<and> a' = f a"
  by (auto simp: update_def)

text \<open>Booting leaves the rest of the application alone, and when it succeeds the manager's configuration
  is the one returned.\<close>

lemma boot_frame:
  "boot B kind mode memory_mb a = (r, b) \<Longrightarrow>
     \<exists>w. b = a\<lparr>ap_vm := w\<rparr> \<and> (\<forall>config. r = Inr config \<longrightarrow> vm_configured (w_vm w) = Some config)"
  using prepare_config(6) [of "bo_prepare B" kind mode memory_mb "ap_vm a"]
  by (auto simp: boot_def act_bind_def vm_call_def return_def start_config Let_def split_def split: sum.splits)

text \<open>A client keeps its port and its token.\<close>

definition same_end :: "agent_client \<Rightarrow> agent_client \<Rightarrow> bool" where
  "same_end c c' \<longleftrightarrow> cl_port c' = cl_port c \<and> cl_token c' = cl_token c"

lemma wait_until_ready_end:
  "wait_until_ready N decode debug clock previous (c, w) = (r, c', w') \<Longrightarrow> same_end c c'"
proof (induction clock arbitrary: previous c w)
  case (Cons remaining clock)
  obtain q c1 w1 where tried: "try_request N decode Ping remaining (c, w) = (q, c1, w1)"
    by (metis prod_cases3)
  then have "same_end c (c1\<lparr>cl_connected := False\<rparr>)" "same_end c c1"
    using try_request_client by (fastforce simp: same_end_def)+
  with Cons.prems tried show ?case
    by (auto simp: same_end_def split: option.splits dest!: Cons.IH)
qed (simp add: same_end_def)

lemma hear_console_frame:
  "ap_vm (snd (hear_console chunks a)) = ap_vm a" "ap_session (snd (hear_console chunks a)) = ap_session a"
  by (simp_all add: hear_console_def update_def)

definition connected :: "vm_config \<Rightarrow> session_kind \<Rightarrow> 'w app \<Rightarrow> bool" where
  "connected config kind a \<longleftrightarrow>
     vm_configured (w_vm (ap_vm a)) = Some config \<and> ap_session a = Some kind
     \<and> (\<exists>c. ap_agent a = Some c \<and> same_end (client_new (cf_agent_port config) (cf_control_token config)) c)"

lemma wait_for_guest_connected:
  assumes "wait_for_guest D G budget client a = (r, b)"
    and "vm_configured (w_vm (ap_vm a)) = Some config" "ap_session a = Some kind"
    and "same_end (client_new (cf_agent_port config) (cf_control_token config)) client"
  shows "connected config kind b"
proof -
  let ?heard = "snd (hear_console (gw_output G) a)"
  obtain reply c net where ready: "wait_until_ready (dk_net D) (dk_decode D) (dk_debug D) (gw_clock G budget) None (client, ap_net ?heard) = (reply, c, net)"
    by (metis prod_cases3)
  let ?waited = "?heard\<lparr>ap_agent := Some c, ap_net := net\<rparr>"
  have "connected config kind (?waited\<lparr>ap_vm := w\<rparr>)" if "vm_configured (w_vm w) = Some config" for w
    using wait_until_ready_end [OF ready] assms(3,4) that
    by (auto simp: connected_def same_end_def hear_console_frame)
  moreover have "\<exists>w. vm_configured (w_vm w) = Some config \<and> b = ?waited\<lparr>ap_vm := w\<rparr>"
    using assms(1,2) ready poll_config
    by (auto simp: wait_for_guest_def act_bind_def hear_console_def attempting_def await_ready_def vm_call_def
        update_def action_defs Let_def split_def split: option.splits sum.splits)
      (metis app.surjective app.update_convs(2))+
  ultimately show ?thesis by auto
qed

section \<open>Up and down\<close>

text \<open>A machine is up when its one process runs and waits for the guest, down when nothing runs.\<close>

definition up :: "vm_config \<Rightarrow> vm_world \<Rightarrow> bool" where
  "up config w \<longleftrightarrow>
     vm_configured (w_vm w) = Some config \<and> vm_current (w_vm w) = VmBootingGuest
     \<and> (\<exists>pid. vm_supervised (w_vm w) = Some pid \<and> w_procs w = [pid])"

definition down :: "vm_world \<Rightarrow> bool" where
  "down w \<longleftrightarrow> vm_supervised (w_vm w) = None \<and> w_procs w = [] \<and> \<not> accepts_commands (vm_current (w_vm w))"

definition untracked_is_gone :: "vm_world \<Rightarrow> bool" where
  "untracked_is_gone w \<longleftrightarrow> (case vm_supervised (w_vm w) of None \<Rightarrow> w_procs w = [] | Some pid \<Rightarrow> w_procs w \<in> {[], [pid]})"

lemma untracked_is_goneI: "vm_inv w \<Longrightarrow> untracked_is_gone w" "down w \<Longrightarrow> untracked_is_gone w"
  by (auto simp: vm_inv_def untracked_is_gone_def down_def split: option.splits)

lemma prepare_frame:
  "vm_supervised (w_vm (snd (prepare env kind mode memory_mb w))) = vm_supervised (w_vm w)"
  "vm_current (w_vm (snd (prepare env kind mode memory_mb w))) = vm_current (w_vm w)"
  "w_procs (snd (prepare env kind mode memory_mb w)) = w_procs w"
  by (simp_all add: prepare_def Let_def split: sum.splits prod.splits)

lemma poll_up:
  "up config w \<Longrightarrow> poll_exited outcome w = (r, w') \<Longrightarrow>
     (case r of Inr (Some _) \<Rightarrow> down w' | _ \<Rightarrow> w' = w)"
  by (auto simp: up_def down_def poll_exited_def mark_exited_def clear_pid_file_def drop_supervised_def Let_def
      accepts_commands_def split: wait_outcome.splits)

lemma stop_down: "up config w \<or> down w \<Longrightarrow> down (snd (vm_stop w))"
  by (auto simp: up_def down_def vm_stop_def clear_pid_file_def drop_supervised_def Let_def accepts_commands_def)

lemma start_up:
  assumes "vm_start env config w = (Inr status, w')" "vm_configured (w_vm w) = Some config" "untracked_is_gone w"
  shows "up config w'"
  using assms
  by (auto simp: vm_start_def up_def untracked_is_gone_def poll_exited_def mark_exited_def clear_pid_file_def drop_supervised_def Let_def
      split: wait_outcome.splits sum.splits if_splits option.splits)

lemma start_down: "isl (fst (vm_start env config w)) \<Longrightarrow> down w \<Longrightarrow> down (snd (vm_start env config w))"
  by (auto simp: vm_start_def down_def accepts_commands_def Let_def split: sum.splits)

lemma boot_up:
  assumes "boot B kind mode memory_mb a = (Inr config, b)" "untracked_is_gone (ap_vm a)"
  shows "up config (ap_vm b) \<and> cf_network_mode config = mode"
proof -
  let ?prep = "prepare (bo_prepare B) kind mode memory_mb (ap_vm a)"
  from assms(1) obtain status where c: "fst ?prep = Inr config" "vm_start (bo_start B) config (snd ?prep) = (Inr status, ap_vm b)"
    by (auto simp: boot_def act_bind_Inr_iff vm_call_iff simp flip: prod.collapse) (metis prod.collapse)
  have "untracked_is_gone (snd ?prep)" using assms(2) by (simp add: untracked_is_gone_def prepare_frame split: option.splits)
  with start_up [OF c(2)] prepare_config [OF c(1)] show ?thesis by simp
qed

lemma boot_down:
  assumes "boot B kind mode memory_mb a = (Inl e, b)" "down (ap_vm a)"
  shows "down (ap_vm b)"
proof -
  have "down (snd (prepare (bo_prepare B) kind mode memory_mb (ap_vm a)))"
    using assms(2) by (simp add: down_def prepare_frame)
  with assms(1) start_down show ?thesis
    by (auto simp: boot_def act_bind_def vm_call_def return_def Let_def split_def isl_def split: sum.splits)
qed

text \<open>After the wait a client belongs to the machine, which is up, or the wait failed because it ended.\<close>

definition waited :: "string + 'a \<Rightarrow> vm_config \<Rightarrow> session_kind \<Rightarrow> 'w app \<Rightarrow> bool" where
  "waited ready config kind a \<longleftrightarrow> connected config kind a \<and> (up config (ap_vm a) \<or> isl ready \<and> down (ap_vm a))"

definition halted :: "'w app \<Rightarrow> bool" where
  "halted a \<longleftrightarrow> down (ap_vm a) \<and> ap_agent a = None \<and> \<not> cs_attached (ap_console a)"

definition serving :: "vm_config \<Rightarrow> session_kind \<Rightarrow> 'w app \<Rightarrow> bool" where
  "serving config kind a \<longleftrightarrow> connected config kind a \<and> vm_current (w_vm (ap_vm a)) = VmReady
     \<and> (\<exists>pid. vm_supervised (w_vm (ap_vm a)) = Some pid \<and> w_procs (ap_vm a) = [pid])"

lemma wait_for_guest_vm:
  "ap_vm (snd (wait_for_guest D G budget client a)) =
     (case gw_exit G of None \<Rightarrow> ap_vm a | Some outcome \<Rightarrow> snd (poll_exited outcome (ap_vm a)))"
  "gw_exit G = Some outcome \<Longrightarrow> fst (poll_exited outcome (ap_vm a)) \<noteq> Inr None \<Longrightarrow>
     isl (fst (wait_for_guest D G budget client a))"
  by (auto simp: wait_for_guest_def act_bind_def hear_console_def attempting_def await_ready_def vm_call_def update_def
      lift_def bail_def inspect_def Let_def split_def isl_def split: option.splits sum.splits)

lemma wait_for_guest_end:
  assumes "wait_for_guest D G budget client a = (r, b)" "up config (ap_vm a)" "ap_session a = Some kind"
    and "same_end (client_new (cf_agent_port config) (cf_control_token config)) client"
  shows "waited r config kind b"
proof -
  have "connected config kind b"
    using wait_for_guest_connected [OF assms(1)] assms(2-) by (simp add: up_def)
  moreover have "up config (ap_vm b) \<or> isl r \<and> down (ap_vm b)"
  proof (cases "gw_exit G")
    case None
    then show ?thesis using wait_for_guest_vm(1) [of D G budget client a] assms(1,2) by simp
  next
    case (Some outcome)
    obtain polled w where p: "poll_exited outcome (ap_vm a) = (polled, w)" by fastforce
    with Some wait_for_guest_vm [where D = D and G = G and budget = budget and client = client and a = a] assms(1)
    have b: "ap_vm b = w" "polled \<noteq> Inr None \<Longrightarrow> isl r" by simp_all
    with poll_up [OF assms(2) p] assms(2) show ?thesis by (auto split: sum.splits option.splits)
  qed
  ultimately show ?thesis by (simp add: waited_def)
qed

lemma launch_end:
  assumes "up config (ap_vm a)" "ap_session a = Some kind"
    and "act_bind (attach_console accepted) (\<lambda>_. attempting (wait_for_guest D G budget client)) a = (r, b)"
    and "same_end (client_new (cf_agent_port config) (cf_control_token config)) client"
  shows "\<exists>ready. r = Inr ready \<and> waited ready config kind b"
proof -
  let ?a = "a\<lparr>ap_console := snd (console_attach accepted (ap_console a))\<rparr>"
  have "r = Inr (fst (wait_for_guest D G budget client ?a))" "b = snd (wait_for_guest D G budget client ?a)"
    using assms(3) by (auto simp: attach_console_def act_bind_def update_def attempting_def)
  with wait_for_guest_end [of D G budget client ?a, OF prod.collapse [symmetric]] assms(1,2,4) show ?thesis by simp
qed

lemma stop_machine_halts:
  assumes "act_bind drop_agent (\<lambda>_. act_bind detach_console (\<lambda>_. vm_call vm_stop)) a = (r, b)"
    and "up config (ap_vm a) \<or> down (ap_vm a)"
  shows "r = Inr () \<and> halted b \<and> ap_session b = ap_session a"
  using assms(1) stop_down [OF assms(2)]
  by (auto simp: drop_agent_def detach_console_def act_bind_def update_def vm_call_def halted_def console_detach_def Let_def split_def)

lemma retry_end:
  assumes "retry_in_software D B kind mode memory_mb a = (r, b)"
    and "up config (ap_vm a) \<or> down (ap_vm a)" "ap_session a = Some kind"
  shows "case r of Inl _ \<Rightarrow> halted b
         | Inr ready \<Rightarrow> \<exists>config'. cf_network_mode config' = mode \<and> waited ready config' kind b"
proof -
  let ?detached = "snd (drop_agent (snd (detach_console a)))"
  let ?s = "?detached\<lparr>ap_vm := snd (vm_stop (ap_vm a))\<rparr>"
  let ?soft = "snd (manager_update (use_software_acceleration whpx_detail) ?s)"
  have soft: "halted ?soft" "ap_session ?soft = Some kind"
    using stop_down [OF assms(2)] assms(3)
    by (auto simp: halted_def down_def drop_agent_def detach_console_def manager_update_def update_def console_detach_def
        use_software_acceleration_def)
  have run: "retry_in_software D B kind mode memory_mb a =
      act_bind (boot B kind mode memory_mb) (\<lambda>config. act_bind (connect config) (\<lambda>client.
        act_bind (attach_console (bo_console B)) (\<lambda>_. attempting (wait_for_guest D (bo_wait B) 120000 client)))) ?soft"
    by (simp add: retry_in_software_def act_bind_def detach_console_def drop_agent_def update_def vm_call_def manager_update_def
        Let_def split_def split: sum.split)
  obtain q c where booted: "boot B kind mode memory_mb ?soft = (q, c)" by fastforce
  then obtain w where c: "c = ?soft\<lparr>ap_vm := w\<rparr>" using boot_frame by blast
  show ?thesis
  proof (cases q)
    case (Inl e)
    with booted have "r = Inl e" "b = c" using run assms(1) by (simp_all add: act_bind_def)
    then show ?thesis
      using boot_down [OF booted [unfolded Inl]] soft(1) c by (simp add: halted_def)
  next
    case (Inr config')
    have up: "up config' (ap_vm c)" "cf_network_mode config' = mode"
      using boot_up [OF booted [unfolded Inr]] soft(1) untracked_is_goneI(2) by (auto simp: halted_def)
    let ?client = "client_new (cf_agent_port config') (cf_control_token config')"
    have "act_bind (attach_console (bo_console B)) (\<lambda>_. attempting (wait_for_guest D (bo_wait B) 120000 ?client))
        (c\<lparr>ap_agent := Some ?client\<rparr>) = (r, b)"
      using run booted Inr assms(1) by (simp add: act_bind_def connect_def update_def return_def Let_def)
    from launch_end [of config' _ kind, OF _ _ this] up soft(2) c show ?thesis by (auto simp: same_end_def)
  qed
qed

lemma conclude_end:
  assumes "conclude D now ready a = (r, b)" "waited ready config kind a"
  shows "case r of Inl _ \<Rightarrow> halted b | Inr status \<Rightarrow> st_state status = VmReady \<and> serving config kind b"
proof (cases "\<exists>v release im n. ready = Inr (Pong v release im n)")
  case True
  with assms show ?thesis
    by (auto simp: conclude_def act_bind_def manager_update_def cmd_vm_status_def inspect_def update_def return_def
        waited_def connected_def up_def serving_def mark_ready_def manager_status_def)
next
  case False
  have "r' = Inl detail \<and> halted b'" if "abandon detail a' = (r', b')" "ap_vm a' = ap_vm a" for detail a' r' b'
    using that assms(2) stop_down [of config "ap_vm a"]
    by (auto simp: abandon_def act_bind_def drop_agent_def detach_console_def vm_call_def manager_update_def update_def bail_def
        mark_failed_def waited_def halted_def down_def console_detach_def accepts_commands_def Let_def split_def)
  with False assms(1) show ?thesis
    by (auto simp: conclude_def act_bind_def console_summary_def inspect_def split: sum.splits agent_response.splits)
qed

section \<open>Properties\<close>


text \<open>A start that nobody answers.\<close>

definition silent_boot :: boot_answers where
  "silent_boot =
     \<lparr>bo_prepare = sample_prepare,
      bo_start = \<lparr>se_wait = StillRunning, se_now = 0, se_spawn = Inr 42, se_pid_write = True\<rparr>,
      bo_console = True, bo_wait = \<lparr>gw_output = [''Linux version 6''], gw_clock = (\<lambda>_. []), gw_exit = None\<rparr>\<rparr>"

definition silent_session :: session_answers where
  "silent_session =
     \<lparr>sa_installer = \<lparr>in_sha = (\<lambda>s. s), in_parse = (\<lambda>_. Inl ''unused''), in_zstd = (\<lambda>_. None),
        in_io = sample_io, in_bundled = None\<rparr>,
      sa_exe_of = (\<lambda>_. None), sa_terminated = False, sa_first = silent_boot, sa_second = silent_boot, sa_ready_at = 0\<rparr>"

definition bootable_app :: "string list app" where
  "bootable_app = (sample_app [])\<lparr>ap_vm := sample_world\<rparr>"


section \<open>Recovery\<close>

definition stopped :: "'w app \<Rightarrow> bool" where
  "stopped a \<longleftrightarrow> w_procs (ap_vm a) = [] \<and> vm_supervised (w_vm (ap_vm a)) = None
     \<and> ap_agent a = None \<and> \<not> cs_attached (ap_console a)"

lemma farewell_frame:
  "farewell D a = (r, b) \<Longrightarrow> r = Inr () \<and> ap_vm b = ap_vm a \<and> ap_store b = ap_store a"
  by (auto simp: farewell_def act_bind_def attempting_def agent_of_def send_request_def return_def
      split: sum.splits option.splits prod.splits)

lemma vm_stop_files: "w_fs (snd (vm_stop w)) p = w_fs w p \<or> p = pid_path (rp_data_dir (vm_paths (w_vm w)))"
  by (simp add: vm_stop_def clear_pid_file_def drop_supervised_def pid_clear_def Let_def split: option.split)

text \<open>Stopping always succeeds, and leaves nothing running and every file but the process file as it was.\<close>

lemma stop_session_stops:
  assumes "stop_session_inner D a = (r, b)" "vm_inv (ap_vm a)"
  shows "r = Inr ()" "stopped b" "ap_store b = ap_store a"
    and "p \<noteq> pid_path (rp_data_dir (vm_paths (w_vm (ap_vm a)))) \<Longrightarrow> w_fs (ap_vm b) p = w_fs (ap_vm a) p"
proof -
  obtain q c where bye: "farewell D a = (q, c)" by fastforce
  note c = farewell_frame [OF bye]
  have run: "r = Inr () \<and> b = c\<lparr>ap_console := console_detach (ap_console c), ap_agent := None, ap_vm := snd (vm_stop (ap_vm c))\<rparr>"
    using assms(1) bye c
    by (auto simp: stop_session_inner_def act_bind_def detach_console_def drop_agent_def update_def vm_call_def Let_def split_def)
  then show "r = Inr ()" "ap_store b = ap_store a" using c by simp_all
  show "stopped b"
    using run c vm_stop_ends [OF assms(2)] by (simp add: stopped_def console_detach_def)
  show "w_fs (ap_vm b) p = w_fs (ap_vm a) p" if "p \<noteq> pid_path (rp_data_dir (vm_paths (w_vm (ap_vm a))))"
    using that run c vm_stop_files [of "ap_vm a" p] by auto
qed

lemma files_call_stopped: "files_call f a = (r, b) \<Longrightarrow> r = fst (f (w_fs (ap_vm a))) \<and> w_fs (ap_vm b) = snd (f (w_fs (ap_vm a)))
    \<and> ap_store b = ap_store a \<and> (stopped b \<longleftrightarrow> stopped a)"
  by (auto simp: files_call_def stopped_def Let_def split_def)


definition practised_app :: "string list app" where
  "practised_app = (sample_app [])\<lparr>
     ap_vm := sample_world\<lparr>w_fs := [live_disk sample_desk \<mapsto> ''mine'', ''/s/a.qcow2'' \<mapsto> ''then'']\<rparr>,
     ap_store := store_run [OpProfile ''student'' 1, OpSnapshot 1 ''a'' ''/s/a.qcow2'' ''0.1.0'' 4 5] (empty_tables latest_version)\<rparr>"

definition steady_io :: restore_io where
  "steady_io = \<lparr>ri_rename = True, ri_salvage = CopyDone, ri_remove = True, ri_copy = CopyDone\<rparr>"


text \<open>The snapshot a factory reset keeps is not recorded, so the list of snapshots is the old one.\<close>

lemma automatic_snapshot_is_not_listed:
  assumes "vm_inv (ap_vm a)"
  shows "ap_store (snd (cmd_factory_reset_practice D dir_ok copy remove_ok a)) = ap_store a"
proof -
  obtain q c where stop: "stop_session_inner D a = (q, c)" by fastforce
  note c = stop_session_stops [OF stop assms]
  then show ?thesis
    using stop
    by (simp add: cmd_factory_reset_practice_def act_bind_def attempting_def disk_exists_def inspect_def return_def
        files_call_def Let_def split_def split: sum.split)
qed

text \<open>A second start fails while a machine runs, but the manager then describes the second configuration.\<close>

lemma starting_twice_forgets_the_first:
  assumes "vm_supervised (w_vm (ap_vm a)) = Some pid" "se_wait (bo_start B) = StillRunning"
    and "fst (prepare (bo_prepare B) kind mode memory_mb (ap_vm a)) = Inr config"
    and "boot B kind mode memory_mb a = (r, b)"
  shows "r = Inl ''a virtual machine is already running'' \<and> vm_configured (w_vm (ap_vm b)) = Some config
    \<and> vm_supervised (w_vm (ap_vm b)) = Some pid"
  using assms prepare_config(6) [OF assms(3)] prepare_frame
  by (auto simp: boot_def act_bind_def vm_call_def vm_start_def poll_exited_def Let_def split_def)

end
