(* ===== verification/Desktop_Runs.thy ===== *)
theory Desktop_Runs
  imports Desktop_Outcomes Machines
begin

text \<open>
  Sequences of commands: what the user interface can send to the desktop (the handlers registered in
  apps/desktop/src-tauri/src/lib.rs), each with what the outside world answers while it runs, and what
  holds after any of them.
\<close>

section \<open>Commands\<close>

datatype desktop_command =
    Bootstrap installer string "u64 option"
  | InstallRuntime installer bool
  | GetLesson string
  | SetProgressionMode progression_mode
  | CommandReference
  | StartSession session_answers "string option"
  | VmStatus
  | StopSession
  | RestartVm session_answers
  | TerminalWrite "string + unit"
  | TerminalResize u16 u16
  | RecordCommand int string
  | ExportTranscript string
  | PrepareLesson int string
  | CheckTask int int string string
  | RevealHint int string string
  | RevealSolution string string
  | GradeReviewQuestion string nat "nat list option" "string option"
  | ResetLesson string
  | RestartLesson session_answers int string
  | GuestDiagnostics
  | ListDirectory string bool
  | CreateSnapshot bool copy_outcome int string
  | ListSnapshots
  | RestoreSnapshot restore_io int
  | FactoryResetPractice bool copy_outcome bool
  | VerifyRuntime installer
  | HealthCheck installer qemu_img bool "u64 option"
  | ProgressReport
  | GetSetting string
  | SetSetting int string string
  | BumpPracticeTime int

text \<open>The state after a command, whatever its result.\<close>

primrec desktop_step :: "'w desk \<Rightarrow> desktop_command \<Rightarrow> 'w app \<Rightarrow> 'w app" where
  "desktop_step D (Bootstrap I app_version free_bytes) a = snd (cmd_bootstrap D I app_version free_bytes a)"
| "desktop_step D (InstallRuntime I force) a = snd (cmd_install_runtime D I force a)"
| "desktop_step D (GetLesson lid) a = snd (cmd_get_lesson D lid a)"
| "desktop_step D (SetProgressionMode mode) a = snd (cmd_set_progression_mode D mode a)"
| "desktop_step D CommandReference a = a"
| "desktop_step D (StartSession S lesson_id) a = snd (start_session_inner D S lesson_id a)"
| "desktop_step D VmStatus a = snd (cmd_vm_status a)"
| "desktop_step D StopSession a = snd (stop_session_inner D a)"
| "desktop_step D (RestartVm S) a = snd (cmd_restart_vm D S a)"
| "desktop_step D (TerminalWrite outcome) a = snd (cmd_terminal_write outcome a)"
| "desktop_step D (TerminalResize rows cols) a = snd (cmd_terminal_resize D rows cols a)"
| "desktop_step D (RecordCommand now command) a = snd (cmd_record_command D now command a)"
| "desktop_step D (ExportTranscript transcript) a = a"
| "desktop_step D (PrepareLesson now lid) a = snd (cmd_prepare_lesson D now lid a)"
| "desktop_step D (CheckTask started_at now lid tid) a = snd (cmd_check_task D started_at now lid tid a)"
| "desktop_step D (RevealHint now lid tid) a = snd (cmd_reveal_hint D now lid tid a)"
| "desktop_step D (RevealSolution lid tid) a = snd (cmd_reveal_solution D lid tid a)"
| "desktop_step D (GradeReviewQuestion lid index selected answer) a =
     snd (cmd_grade_review_question D lid index selected answer a)"
| "desktop_step D (ResetLesson lid) a = snd (cmd_reset_lesson D lid a)"
| "desktop_step D (RestartLesson S now lid) a = snd (cmd_restart_lesson D S now lid a)"
| "desktop_step D GuestDiagnostics a = snd (cmd_guest_diagnostics D a)"
| "desktop_step D (ListDirectory path hidden) a = snd (cmd_list_directory D path hidden a)"
| "desktop_step D (CreateSnapshot dir_ok copy now name) a = snd (cmd_create_snapshot D dir_ok copy now name a)"
| "desktop_step D ListSnapshots a = snd (cmd_list_snapshots D a)"
| "desktop_step D (RestoreSnapshot io sid) a = snd (cmd_restore_snapshot D io sid a)"
| "desktop_step D (FactoryResetPractice dir_ok copy remove_ok) a =
     snd (cmd_factory_reset_practice D dir_ok copy remove_ok a)"
| "desktop_step D (VerifyRuntime I) a = snd (cmd_verify_runtime I a)"
| "desktop_step D (HealthCheck I img dir_ok free_bytes) a = snd (cmd_health_check D I img dir_ok free_bytes a)"
| "desktop_step D ProgressReport a = snd (cmd_progress_report D a)"
| "desktop_step D (GetSetting key) a = snd (cmd_get_setting D key a)"
| "desktop_step D (SetSetting now key val) a = snd (cmd_set_setting D now key val a)"
| "desktop_step D (BumpPracticeTime seconds) a = snd (cmd_bump_practice_time D seconds a)"

definition desktop_run :: "'w desk \<Rightarrow> desktop_command list \<Rightarrow> 'w app \<Rightarrow> 'w app" where
  "desktop_run D commands = fold (desktop_step D) commands"

section \<open>Every run stays within its effects\<close>

lemmas command_effects =
  within_lesson_commands within_hints within_panels within_progress within_check within_local
  within_start_stop within_start_session within_session_commands within_health_check

lemma desktop_step_evolves: "evolves D a (desktop_step D c a)"
  by (cases c; simp only: desktop_step.simps; (rule host_effect.rel_refl | rule command_effects [THEN within_snd]))

lemma desktop_run_evolves: "evolves D a (desktop_run D commands a)"
  unfolding desktop_run_def
  by (induction commands arbitrary: a)
    (auto intro: desktop_step_evolves host_effect.rel_trans host_effect.rel_refl)

definition app_sound :: "'w app \<Rightarrow> bool" where
  "app_sound a \<longleftrightarrow> store_inv (ap_store a) \<and> vm_inv (ap_vm a)"

interpretation desktop: audited_machine "desktop_step D" app_sound "\<lambda>_. True"
    "\<lambda>a a'. rows_kept (ap_store a) (ap_store a')" for D
proof unfold_locales
  show "app_sound (desktop_step D c a)" if "app_sound a" for c a
    using that evolves_invariants [OF desktop_step_evolves] by (auto simp: app_sound_def)
  show "rows_kept (ap_store a) (ap_store (desktop_step D c a))" if "app_sound a" for c a
    using that evolves_invariants(1) [OF desktop_step_evolves] by (auto simp: app_sound_def)
qed (auto intro: credit.later_refl credit.later_trans)

section \<open>Opening the application\<close>

lemma apply_migrations_inv:
  assumes "apply_migrations db = Inr (v, db')" "store_inv db"
  shows "store_inv db'" "db_version db = latest_version \<Longrightarrow> db' = db"
  using assms store_inv_empty [of 0]
  by (auto simp: apply_migrations_def migrations_def latest_version_def store_inv_def profile_exists_def Let_def
      split: if_splits)

text \<open>What the start does to the database is two of the store's statements after the migration.\<close>

lemma setup_app_Inr:
  assumes "setup_app H load_message S ly net = Inr (D, a)"
  obtains v db where "apply_migrations (su_opened S) = Inr (v, db)"
    and "ap_store a = store_run [OpProfile ''student'' (su_now S),
           OpPrune (dk_profile_id D) (dec (unat (su_process_id S)) @ ''-startup'') (su_pruned_at S)] db"
    and "ap_vm a = vm_initial (su_paths S) (su_accel S) (su_fs S)" "ap_attempts a = []"
    and "load (dk_registry H) (su_packages S) = Inr (dk_catalog D)"
  using assms
  by (auto simp: setup_app_def app_new_def store_run_def store_do_def desk.defs host.defs Let_def split_def
      split: sum.splits dest!: store_open_Inr)

lemma setup_app_sound:
  assumes "setup_app H load_message S ly net = Inr (D, a)" "store_inv (su_opened S)"
  shows "app_sound a" "db_version (su_opened S) = latest_version \<Longrightarrow> rows_kept (su_opened S) (ap_store a)"
proof -
  from assms(1) obtain v db where db: "apply_migrations (su_opened S) = Inr (v, db)"
    and run: "ap_store a = store_run [OpProfile ''student'' (su_now S),
        OpPrune (dk_profile_id D) (dec (unat (su_process_id S)) @ ''-startup'') (su_pruned_at S)] db"
    and vm: "ap_vm a = vm_initial (su_paths S) (su_accel S) (su_fs S)"
    by (rule setup_app_Inr)
  note migrated = apply_migrations_inv [OF db assms(2)]
  then show "app_sound a"
    using run vm by (simp add: app_sound_def store_run_inv vm_inv_initial)
  show "rows_kept (su_opened S) (ap_store a)" if "db_version (su_opened S) = latest_version"
    using migrated(2) [OF that] assms(2) run
      credit.run_later [of db "[OpProfile ''student'' (su_now S),
        OpPrune (dk_profile_id D) (dec (unat (su_process_id S)) @ ''-startup'') (su_pruned_at S)]"]
    by (simp add: store_run_def is_reset_def)
qed

section \<open>Attempts at a lesson that hides its hints\<close>

definition unaided :: "attempt_state \<Rightarrow> bool" where
  "unaided entry \<longleftrightarrow> a_hints_revealed entry = 0 \<and> \<not> a_solution_revealed entry"

definition unaided_in :: "string \<Rightarrow> (string, attempt_state) btree_map \<Rightarrow> bool" where
  "unaided_in lid m \<longleftrightarrow> (\<forall>(key, entry) \<in> set m. starts_with key (lid @ ''/'') \<longrightarrow> unaided entry)"

text \<open>Keys of different lessons are told apart when no lesson id has a slash.\<close>

definition plain_ids :: "catalog \<Rightarrow> bool" where
  "plain_ids C \<longleftrightarrow> list_all (\<lambda>lid. CHR ''/'' \<notin> set lid) (bt_keys (cat_lessons C))"

lemma plain_idsD: "plain_ids C \<Longrightarrow> try_lesson C lid = Inr l \<Longrightarrow> CHR ''/'' \<notin> set lid"
  using bt_get_mem [of "cat_lessons C" lid l]
  by (force simp: plain_ids_def try_lesson_def list_all_iff split: option.splits)

lemma takeWhile_slash: "CHR ''/'' \<notin> set xs \<Longrightarrow> takeWhile (\<lambda>c. c \<noteq> CHR ''/'') (xs @ ''/'' @ ys) = xs"
  by (induction xs) auto

lemma attempt_key_lesson:
  assumes "starts_with (attempt_key lid' tid) (lid @ ''/'')" "CHR ''/'' \<notin> set lid" "CHR ''/'' \<notin> set lid'"
  shows "lid' = lid"
proof -
  from assms(1) obtain rest where "lid' @ ''/'' @ tid = lid @ ''/'' @ rest"
    by (auto simp: starts_with_iff attempt_key_def)
  then show ?thesis using takeWhile_slash assms(2,3) by metis
qed

lemma unaided_step: "\<not> allowed \<Longrightarrow> unaided entry \<Longrightarrow> unaided (attempt_step t allowed e entry)"
  by (cases e) (auto simp: unaided_def attempt_ops Let_def split: option.splits)

lemma attempts_move_unaided:
  assumes "attempts_move C m m'" "plain_ids C" "try_lesson C lid = Inr l" "hides_hints (l_type l)" "unaided_in lid m"
  shows "unaided_in lid m'"
  using assms(1)
proof cases
  case (event lid' l' t tid allowed e)
  have "unaided (attempt_step t allowed e (attempt_in m lid' tid))" if "starts_with (attempt_key lid' tid) (lid @ ''/'')"
  proof -
    have "lid' = lid" using attempt_key_lesson [OF that] plain_idsD assms(2,3) event(2) by blast
    then have "\<not> allowed" using event(2,5) assms(3,4) by auto
    moreover have "unaided (attempt_in m lid' tid)"
      using assms(5) that bt_get_mem [of m "attempt_key lid' tid"]
      by (auto simp: attempt_in_def unaided_in_def unaided_def attempt_new_def split: option.splits)
    ultimately show ?thesis by (rule unaided_step)
  qed
  with assms(5) event(1) show ?thesis
    by (fastforce simp: unaided_in_def dest!: bt_insert_mem)
qed (use assms(5) in \<open>auto simp: unaided_in_def\<close>)

lemma attempts_moves_unaided:
  "(attempts_move C)\<^sup>*\<^sup>* m m' \<Longrightarrow> plain_ids C \<Longrightarrow> try_lesson C lid = Inr l \<Longrightarrow> hides_hints (l_type l) \<Longrightarrow>
     unaided_in lid m \<Longrightarrow> unaided_in lid m'"
  by (induction rule: rtranclp_induct) (auto intro: attempts_move_unaided)

lemma unaided_lesson_attempts: "unaided_in lid (ap_attempts a) \<longleftrightarrow> list_all unaided (lesson_attempts lid a)"
  by (auto simp: unaided_in_def lesson_attempts_def list_all_iff)

lemma unaided_total: "list_all unaided es \<Longrightarrow> total_hints es = 0"
  by (induction es) (auto simp: total_hints_def unaided_def)

section \<open>Properties\<close>

text \<open>The desktop stays sound over its life. From the start on any database the store itself wrote,
  after any commands whatever the operating system, the guest and QEMU answer: the database is
  consistent, at most one QEMU process runs, and no credit is lost, neither what a learner earned
  before this start nor what they had at an earlier moment of the run.\<close>

theorem desktop_always_sound:
  assumes "setup_app H load_message S ly net = Inr (D, a)" "store_inv (su_opened S)"
  shows "store_inv (ap_store (desktop_run D commands a))
    \<and> length (w_procs (ap_vm (desktop_run D commands a))) \<le> 1
    \<and> rows_kept (ap_store (desktop_run D commands a)) (ap_store (desktop_run D (commands @ further) a))
    \<and> (db_version (su_opened S) = latest_version \<longrightarrow>
         rows_kept (su_opened S) (ap_store (desktop_run D commands a)))"
proof -
  note start = setup_app_sound [OF assms]
  have sound: "app_sound (desktop_run D commands a)"
    unfolding desktop_run_def using start(1) by (rule desktop.run_keeps) (simp add: list_all_iff)
  moreover have "rows_kept (ap_store (desktop_run D commands a)) (ap_store (desktop_run D (commands @ further) a))"
    unfolding desktop_run_def using start(1) by (rule desktop.prefix_later) (simp add: list_all_iff)
  moreover have "rows_kept (ap_store a) (ap_store (desktop_run D commands a))"
    unfolding desktop_run_def using start(1) by (rule desktop.run_later) (simp add: list_all_iff)
  ultimately show ?thesis
    using start(2) credit.later_trans by (auto simp: app_sound_def vm_inv_def split: option.splits)
qed


definition sample_startup :: startup where
  "sample_startup =
     \<lparr>su_paths = sample_paths, su_accel = accel_software ''test'', su_fs = Map.empty, su_runtime = None,
      su_process_id = 7, su_seconds = 8, su_now = 9, su_pruned_at = 10, su_session_lock = False,
      su_packages = sample_source,
      su_store_io = \<lparr>si_create_dir = None, si_open = None, si_configure = None\<rparr>, su_opened = empty_tables latest_version\<rparr>"

lemma desktop_always_sound_witness:
  "\<exists>D a. setup_app sample_host (\<lambda>_. ''load'') sample_startup sample_layout [] = Inr (D, a)
     \<and> length (w_procs (ap_vm (desktop_run D [StartSession silent_session None, StopSession] a))) \<le> 1"
proof -
  have "\<not> isl (setup_app sample_host (\<lambda>_. ''load'') sample_startup sample_layout [])" by code_simp
  then obtain D a where start: "setup_app sample_host (\<lambda>_. ''load'') sample_startup sample_layout [] = Inr (D, a)"
    by (cases "setup_app sample_host (\<lambda>_. ''load'') sample_startup sample_layout []") auto
  have "store_inv (su_opened sample_startup)" by (simp add: sample_startup_def store_inv_empty)
  from desktop_always_sound [OF start this, of "[StartSession silent_session None, StopSession]"] start
  show ?thesis by blast
qed

definition exam_desk :: "string list desk" where
  "exam_desk =
     host.extend sample_host (desk.fields sample_layout
       (empty_catalog\<lparr>cat_lessons := [(''nav.a'', (sample_lesson ''nav.a'' ''nav'' [])\<lparr>l_type := Assessment\<rparr>)]\<rparr>) 1 ''s1'')"


end
