(* ===== verification/Desktop_Launch.thy ===== *)
theory Desktop_Launch
  imports Desktop_Runs
begin

text \<open>
  The session lock (crates/runtime-manager/src/health.rs) over the launches of the application
  (try_run and the window event in apps/desktop/src-tauri/src/lib.rs): the file that a run which did not
  close leaves behind. The lock is the content of the file, \<open>None\<close> when there is none.
\<close>

section \<open>The lock\<close>

datatype lock_write = LockWritten | LockRefused | LockCutShort string

definition has_session_lock :: "string option \<Rightarrow> bool" where
  "has_session_lock lock \<longleftrightarrow> lock \<noteq> None"

definition acquire_session_lock :: "lock_write \<Rightarrow> u32 \<Rightarrow> string option \<Rightarrow> (string + unit) \<times> string option" where
  "acquire_session_lock outcome process_id lock =
     (case outcome of
        LockWritten \<Rightarrow> (Inr (), Some (''pid='' @ dec (unat process_id)))
      | LockRefused \<Rightarrow> (Inl ''the session lock could not be written'', lock)
      | LockCutShort part \<Rightarrow> (Inl ''the session lock could not be written'', Some part))"

definition release_session_lock :: "bool \<Rightarrow> string option \<Rightarrow> string option" where
  "release_session_lock removed lock = (if removed then None else lock)"

text \<open>The check without an application, which reads the lock itself.\<close>

definition health_run ::
  "(string \<Rightarrow> string) \<Rightarrow> string + manifest \<Rightarrow> directory \<Rightarrow> string option \<Rightarrow> u64 option \<Rightarrow> bool \<Rightarrow> health_report" where
  "health_run sha manifest_read root lock free_bytes quick =
     run_with_unclean_shutdown sha manifest_read root free_bytes quick (has_session_lock lock)"

section \<open>Launches\<close>

text \<open>The lock of an earlier run is read before it is replaced; a failure to write it is ignored.\<close>

definition launch ::
  "'w host \<Rightarrow> (load_error \<Rightarrow> string) \<Rightarrow> startup \<Rightarrow> layout \<Rightarrow> 'w \<Rightarrow> lock_write \<Rightarrow> string option
     \<Rightarrow> (string + ('w desk \<times> 'w app)) \<times> string option" where
  "launch H load_message S ly net outcome lock =
     (let unclean = has_session_lock lock;
          lock = snd (acquire_session_lock outcome (su_process_id S) lock)
      in (setup_app H load_message (S\<lparr>su_session_lock := unclean\<rparr>) ly net, lock))"

text \<open>
  The whole start: the resource folder Tauri finds, the layout from the environment, the folders the
  application writes to, then the launch. \<open>created\<close> tells whether a folder is there or could be made. An
  error before the launch leaves the lock alone; every error is printed and ends the process with code 1.
\<close>

definition ensure_writable_dirs :: "(string \<Rightarrow> bool) \<Rightarrow> layout \<Rightarrow> string + unit" where
  "ensure_writable_dirs created ly =
     (case List.find (\<lambda>dir. \<not> created dir) (writable_dirs ly) of
        Some dir \<Rightarrow> Inl (''could not create '' @ dir) | None \<Rightarrow> Inr ())"

record 'w surroundings =
  sr_resource_dir :: "string option"
  sr_is_file :: "string \<Rightarrow> bool"
  sr_environment :: environment
  sr_created :: "string \<Rightarrow> bool"
  sr_lock_write :: lock_write
  sr_net :: 'w

definition try_run ::
  "'w host \<Rightarrow> (load_error \<Rightarrow> string) \<Rightarrow> string \<Rightarrow> 'w surroundings \<Rightarrow> startup \<Rightarrow> string option
     \<Rightarrow> (string + ('w desk \<times> 'w app)) \<times> string option" where
  "try_run H load_message version E S lock =
     (case sr_resource_dir E of
        None \<Rightarrow> (Inl ''could not find the application resource directory'', lock)
      | Some resource_dir \<Rightarrow>
          (case discover (sr_is_file E) (sr_environment E) version resource_dir of
             Inl e \<Rightarrow> (Inl e, lock)
           | Inr ly \<Rightarrow>
               (case ensure_writable_dirs (sr_created E) ly of
                  Inl e \<Rightarrow> (Inl e, lock)
                | Inr _ \<Rightarrow> launch H load_message S ly (sr_net E) (sr_lock_write E) lock)))"

definition exit_report :: "string + 'a \<Rightarrow> (nat \<times> string) option" where
  "exit_report outcome = (case outcome of Inl e \<Rightarrow> Some (1, ''Linux Practice Lab could not start: '' @ e) | Inr _ \<Rightarrow> None)"

text \<open>A run ends when its window is destroyed, with the lock removed if the system lets it be, or it is
  killed. A start that fails exits the process without either.\<close>

datatype run_end = WindowDestroyed bool | Killed | StartFailed

record past_run =
  pr_process_id :: u32
  pr_lock :: lock_write
  pr_end :: run_end

definition lock_after_run :: "past_run \<Rightarrow> string option \<Rightarrow> string option" where
  "lock_after_run r lock =
     (let lock = snd (acquire_session_lock (pr_lock r) (pr_process_id r) lock)
      in case pr_end r of WindowDestroyed removed \<Rightarrow> release_session_lock removed lock | _ \<Rightarrow> lock)"

definition lock_after :: "past_run list \<Rightarrow> string option \<Rightarrow> string option" where
  "lock_after runs = fold lock_after_run runs"

definition leaves_lock :: "past_run \<Rightarrow> bool" where
  "leaves_lock r \<longleftrightarrow> pr_end r \<noteq> WindowDestroyed True"

section \<open>Properties\<close>

text \<open>A lock is there at the next launch iff some run left one and no run since then removed it.\<close>

lemma lock_after_last: "pr_end r = WindowDestroyed True \<Longrightarrow> lock_after (runs @ [r]) lock = None"
  by (simp add: lock_after_def lock_after_run_def release_session_lock_def Let_def)

lemma lock_after_kept:
  "list_all leaves_lock later \<Longrightarrow> leaves_lock r \<Longrightarrow> pr_lock r \<noteq> LockRefused \<Longrightarrow> lock_after (runs @ r # later) lock \<noteq> None"
proof -
  have keep: "list_all leaves_lock later \<Longrightarrow> l \<noteq> None \<Longrightarrow> fold lock_after_run later l \<noteq> None" for l
    by (induction later arbitrary: l)
      (auto simp: leaves_lock_def lock_after_run_def release_session_lock_def acquire_session_lock_def Let_def
        split: run_end.splits lock_write.splits)
  assume "list_all leaves_lock later" "leaves_lock r" "pr_lock r \<noteq> LockRefused"
  with keep show ?thesis
    by (auto simp: lock_after_def leaves_lock_def lock_after_run_def release_session_lock_def acquire_session_lock_def Let_def
        split: run_end.splits lock_write.splits)
qed

lemma try_run_Inr:
  assumes "try_run H load_message version E S lock = (Inr (D, a), lock')"
  obtains ly where "launch H load_message S ly (sr_net E) (sr_lock_write E) lock = (Inr (D, a), lock')"
    and "list_all (sr_created E) (writable_dirs ly)"
  using assms
  by (auto simp: try_run_def ensure_writable_dirs_def find_None_iff list_all_iff split: option.splits sum.splits)

text \<open>C32: A crash is noticed, once and by the next launch. If an earlier run wrote its lock and was killed,
  and no run since closed cleanly, the launched application knows, its health report says so with a
  repair to offer, and this alone does not keep it from starting. If the last run closed cleanly nothing
  is reported, whatever happened before. A start that succeeds has every folder it writes to and has
  replaced the lock by its own.\<close>

theorem crashes_are_noticed:
  assumes "try_run H load_message version E S (lock_after runs None) = (Inr (D, a), lock)"
    and "sr_lock_write E = LockWritten"
  shows "(\<forall>before r later. runs = before @ r # later \<longrightarrow> list_all leaves_lock later \<longrightarrow>
            pr_lock r \<noteq> LockRefused \<longrightarrow> pr_end r = Killed \<longrightarrow>
            ap_unclean_shutdown a
            \<and> (\<exists>f \<in> set (hr_findings (health_of D I free_bytes quick a)). fi_action f = RepairUserOverlay \<and> fi_severity f = Warning))
    \<and> (runs \<noteq> [] \<longrightarrow> pr_end (last runs) = WindowDestroyed True \<longrightarrow> \<not> ap_unclean_shutdown a)
    \<and> (can_start (health_of D I free_bytes quick a) \<longleftrightarrow>
         can_start (health_of D I free_bytes quick (a\<lparr>ap_unclean_shutdown := False\<rparr>)))
    \<and> list_all (sr_created E) (writable_dirs (dk_layout D))
    \<and> lock = Some (''pid='' @ dec (unat (su_process_id S)))"
proof (intro conjI allI impI)
  from assms(1) obtain ly where started: "launch H load_message S ly (sr_net E) (sr_lock_write E) (lock_after runs None) = (Inr (D, a), lock)"
    and dirs: "list_all (sr_created E) (writable_dirs ly)" by (rule try_run_Inr)
  have flag: "ap_unclean_shutdown a \<longleftrightarrow> lock_after runs None \<noteq> None" and ly: "dk_layout D = ly"
    using started
    by (auto simp: launch_def setup_app_def app_new_def has_session_lock_def desk.defs host.defs Let_def split_def split: sum.splits)
  show "list_all (sr_created E) (writable_dirs (dk_layout D))" using dirs ly by simp
  show "lock = Some (''pid='' @ dec (unat (su_process_id S)))"
    using started assms(2) by (auto simp: launch_def acquire_session_lock_def Let_def)
  show "ap_unclean_shutdown a"
    if "runs = before @ r # later" "list_all leaves_lock later" "pr_lock r \<noteq> LockRefused" "pr_end r = Killed" for before r later
    unfolding flag that(1) using that by (intro lock_after_kept) (auto simp: leaves_lock_def)
  then show "\<exists>f \<in> set (hr_findings (health_of D I free_bytes quick a)). fi_action f = RepairUserOverlay \<and> fi_severity f = Warning"
    if "runs = before @ r # later" "list_all leaves_lock later" "pr_lock r \<noteq> LockRefused" "pr_end r = Killed" for before r later
    using that by (simp add: health_of_def run_with_unclean_shutdown_def Let_def)
  show "\<not> ap_unclean_shutdown a" if "runs \<noteq> []" "pr_end (last runs) = WindowDestroyed True"
    unfolding flag using lock_after_last [OF that(2), of "butlast runs" None] that(1) by simp
  show "can_start (health_of D I free_bytes quick a) \<longleftrightarrow>
      can_start (health_of D I free_bytes quick (a\<lparr>ap_unclean_shutdown := False\<rparr>))"
    by (simp add: health_of_def run_with_unclean_shutdown_def can_start_def runtime_files_def loaded_manifest_def Let_def)
qed

definition sample_surroundings :: "string list surroundings" where
  "sample_surroundings =
     \<lparr>sr_resource_dir = Some ''/res'', sr_is_file = (\<lambda>p. p = ''/res/portable.mode''),
      sr_environment = \<lparr>en_data_dir = None, en_local_app_data = None, en_xdg_data_home = None, en_home = None\<rparr>,
      sr_created = (\<lambda>_. True), sr_lock_write = LockWritten, sr_net = []\<rparr>"

definition killed_run :: past_run where
  "killed_run = \<lparr>pr_process_id = 5, pr_lock = LockWritten, pr_end = Killed\<rparr>"

lemma crashes_are_noticed_witness:
  "\<exists>D a lock. try_run sample_host (\<lambda>_. ''load'') ''0.1.0'' sample_surroundings sample_startup (lock_after [killed_run] None) = (Inr (D, a), lock)
     \<and> ap_unclean_shutdown a"
proof -
  let ?run = "try_run sample_host (\<lambda>_. ''load'') ''0.1.0'' sample_surroundings sample_startup (lock_after [killed_run] None)"
  have "\<not> isl (fst ?run)" by code_simp
  then obtain D a lock where run: "?run = (Inr (D, a), lock)"
    by (cases "?run"; cases "fst ?run") auto
  from crashes_are_noticed [OF this] run show ?thesis
    by (force simp: killed_run_def sample_surroundings_def)
qed

text \<open>A start that fails, on a catalogue that cannot be loaded for instance, leaves its lock, so the next
  launch speaks of a session that never was.\<close>

lemma failed_start_counts_as_crash:
  "lock_after [\<lparr>pr_process_id = pid, pr_lock = LockWritten, pr_end = StartFailed\<rparr>] None \<noteq> None"
  by (simp add: lock_after_def lock_after_run_def acquire_session_lock_def Let_def)

end
