(* ===== verification/Interleaving.thy ===== *)
theory Interleaving
  imports Actions
begin

text \<open>
  Asynchronous commands: a thread is what is left of a command, one atomic piece after the other. A piece
  is what the code does under one lock, and other threads may run between two pieces. The first part is
  the language of threads, the second their runs under any schedule, the third the rule by which a
  relation that every piece keeps, whatever ran before it, relates all states of such a run.
\<close>

section \<open>Tasks\<close>

datatype ('s, 'a) thread = Result "string + 'a" | Atomic "'s \<Rightarrow> ('s, 'a) thread \<times> 's"

definition atomically :: "('s, 'a) action \<Rightarrow> ('s, 'a) thread" where
  "atomically m = Atomic (\<lambda>s. (Result (fst (m s)), snd (m s)))"

primrec thread_bind :: "('s, 'a) thread \<Rightarrow> ('a \<Rightarrow> ('s, 'b) thread) \<Rightarrow> ('s, 'b) thread" where
  "thread_bind (Result r) f = (case r of Inl e \<Rightarrow> Result (Inl e) | Inr x \<Rightarrow> f x)"
| "thread_bind (Atomic g) f = Atomic (map_prod (\<lambda>t. thread_bind t f) id \<circ> g)"

text \<open>The result of a thread as a value, errors included.\<close>

primrec thread_attempt :: "('s, 'a) thread \<Rightarrow> ('s, string + 'a) thread" where
  "thread_attempt (Result r) = Result (Inr r)"
| "thread_attempt (Atomic g) = Atomic (map_prod thread_attempt id \<circ> g)"

definition thread_done :: "('s, 'a) thread \<Rightarrow> ('s, unit) thread" where
  "thread_done t = thread_bind (thread_attempt t) (\<lambda>_. Result (Inr ()))"

text \<open>A thread that nothing interrupts is an action.\<close>

primrec run_alone :: "('s, 'a) thread \<Rightarrow> ('s, 'a) action" where
  "run_alone (Result r) = lift r"
| "run_alone (Atomic g) = (\<lambda>s. (\<lambda>(run, s'). run s') (map_prod run_alone id (g s)))"

lemma run_alone_atomically [simp]: "run_alone (atomically m) = m"
  by (rule ext) (simp add: atomically_def lift_def)

lemma run_alone_bind [simp]: "run_alone (thread_bind t f) = act_bind (run_alone t) (\<lambda>x. run_alone (f x))"
proof (induction t)
  case (Result r)
  show ?case by (rule ext) (simp add: act_bind_def lift_def split: sum.split)
next
  case (Atomic g)
  show ?case
  proof (rule ext)
    fix s
    have "fst (g s) \<in> Basic_BNFs.fsts (g s)" by (simp add: fsts.simps)
    from Atomic.IH [OF rangeI this] show "run_alone (thread_bind (Atomic g) f) s = act_bind (run_alone (Atomic g)) (\<lambda>x. run_alone (f x)) s"
      by (simp add: act_bind_def split_def)
  qed
qed

lemma run_alone_attempt [simp]: "run_alone (thread_attempt t) = attempting (run_alone t)"
proof (induction t)
  case (Result r)
  show ?case by (rule ext) (simp add: attempting_def lift_def)
next
  case (Atomic g)
  show ?case
  proof (rule ext)
    fix s
    have "fst (g s) \<in> Basic_BNFs.fsts (g s)" by (simp add: fsts.simps)
    from Atomic.IH [OF rangeI this] show "run_alone (thread_attempt (Atomic g)) s = attempting (run_alone (Atomic g)) s"
      by (simp add: attempting_def split_def)
  qed
qed

lemma run_alone_done [simp]: "snd (run_alone (thread_done t) s) = snd (run_alone t s)"
  by (simp add: thread_done_def act_bind_def attempting_def lift_def)

section \<open>Schedules\<close>

text \<open>What happens next: a command arrives, or a thread that has not ended does its next piece.\<close>

datatype 's event = Arrives "('s, unit) thread" | Runs nat

fun advance :: "('s, unit) thread \<Rightarrow> 's \<Rightarrow> ('s, unit) thread \<times> 's" where
  "advance (Result r) s = (Result r, s)"
| "advance (Atomic g) s = g s"

fun happen :: "'s event \<Rightarrow> 's \<times> ('s, unit) thread list \<Rightarrow> 's \<times> ('s, unit) thread list" where
  "happen (Arrives t) (s, ts) = (s, ts @ [t])"
| "happen (Runs i) (s, ts) =
     (if i < length ts then let (t, s') = advance (ts ! i) s in (s', ts[i := t]) else (s, ts))"

definition schedule :: "'s event list \<Rightarrow> 's \<times> ('s, unit) thread list \<Rightarrow> 's \<times> ('s, unit) thread list" where
  "schedule events = fold happen events"

fun arrivals :: "'s event list \<Rightarrow> ('s, unit) thread list" where
  "arrivals [] = []"
| "arrivals (Arrives t # events) = t # arrivals events"
| "arrivals (Runs i # events) = arrivals events"

lemma schedule_append: "schedule (events @ more) st = schedule more (schedule events st)"
  by (simp add: schedule_def)

lemma schedule_Cons: "schedule (e # events) st = schedule events (happen e st)"
  by (simp add: schedule_def)

lemma arrivals_append: "arrivals (events @ more) = arrivals events @ arrivals more"
  by (induction events rule: arrivals.induct) simp_all

lemma arrivals_runs: "arrivals (replicate n (Runs i)) = []"
  by (induction n) simp_all

lemma schedule_length: "length (snd (schedule events st)) = length (snd st) + length (arrivals events)"
proof (induction events arbitrary: st)
  case (Cons e events)
  show ?case by (cases st; cases e) (simp_all add: schedule_Cons Cons.IH Let_def split_def)
qed (simp add: schedule_def)

text \<open>A thread that is run often enough ends, as if it had run alone from there.\<close>

lemma runs_to_end:
  "ts ! i = t \<Longrightarrow> i < length ts \<Longrightarrow> \<exists>n. schedule (replicate n (Runs i)) (s, ts) =
     (snd (run_alone t s), ts[i := Result (fst (run_alone t s))])"
proof (induction t arbitrary: s ts)
  case (Result r)
  then have "ts[i := Result r] = ts" by (metis list_update_id)
  then show ?case by (intro exI [of _ 0]) (simp add: schedule_def lift_def)
next
  case (Atomic g)
  obtain t' s' where g: "g s = (t', s')" by fastforce
  have "t' \<in> Basic_BNFs.fsts (g s)" using g by (simp add: fsts.simps)
  from Atomic.IH [OF rangeI this, of "ts[i := t']" s'] Atomic.prems(2) obtain n
    where n: "schedule (replicate n (Runs i)) (s', ts[i := t']) = (snd (run_alone t' s'), ts[i := Result (fst (run_alone t' s'))])"
    by auto
  moreover have "happen (Runs i) (s, ts) = (s', ts[i := t'])" using Atomic.prems g by simp
  moreover have "run_alone (Atomic g) s = run_alone t' s'" using g by simp
  ultimately show ?case by (intro exI [of _ "Suc n"]) (simp add: schedule_Cons)
qed

primrec ended :: "('s, 'a) thread \<Rightarrow> bool" where
  "ended (Result r) = True"
| "ended (Atomic g) = False"

lemma all_end: "\<exists>more. arrivals more = [] \<and> list_all ended (snd (schedule more (s, ts)))"
proof -
  have "\<exists>more. arrivals more = [] \<and> (\<forall>i<k. ended (snd (schedule more (s, ts)) ! i))" if "k \<le> length ts" for k
    using that
  proof (induction k)
    case (Suc k)
    then obtain more where more: "arrivals more = []" "\<forall>i<k. ended (snd (schedule more (s, ts)) ! i)" by auto
    obtain s1 ts1 where st: "schedule more (s, ts) = (s1, ts1)" by fastforce
    then have "k < length ts1" using Suc.prems more(1) schedule_length [of more "(s, ts)"] by simp
    from runs_to_end [OF refl this, of s1] obtain n where "schedule (replicate n (Runs k)) (s1, ts1) =
        (snd (run_alone (ts1 ! k) s1), ts1[k := Result (fst (run_alone (ts1 ! k) s1))])" by blast
    with more st \<open>k < length ts1\<close> show ?case
      by (intro exI [of _ "more @ replicate n (Runs k)"])
        (auto simp: arrivals_append arrivals_runs schedule_append less_Suc_eq)
  qed (auto intro: exI [of _ "[]"])
  from this [of "length ts"] obtain more where "arrivals more = []" "\<forall>i<length ts. ended (snd (schedule more (s, ts)) ! i)" by auto
  then show ?thesis
    using schedule_length [of more "(s, ts)"] by (auto simp: list_all_length)
qed

section \<open>Relying on a relation\<close>

text \<open>From \<open>s\<close> on, if others only move within \<open>rel\<close>, every piece of the thread moves within it too.\<close>

primrec keeps :: "('s \<Rightarrow> 's \<Rightarrow> bool) \<Rightarrow> ('s, 'a) thread \<Rightarrow> 's \<Rightarrow> bool" where
  "keeps rel (Result r) = (\<lambda>s. True)"
| "keeps rel (Atomic g) = (\<lambda>s. \<forall>s'. rel s s' \<longrightarrow> rel s' (snd (g s')) \<and> (\<lambda>(k, t). k t) (map_prod (keeps rel) id (g s')))"

lemma keeps_Atomic: "keeps rel (Atomic g) s \<longleftrightarrow> (\<forall>s'. rel s s' \<longrightarrow> rel s' (snd (g s')) \<and> keeps rel (fst (g s')) (snd (g s')))"
  by (simp add: split_def)

declare keeps.simps(2) [simp del]

text \<open>A relation several threads rely on.\<close>

locale shared_effect = effect_relation rel for rel :: "'s \<Rightarrow> 's \<Rightarrow> bool"
begin

lemma keeps_later: "keeps rel t s \<Longrightarrow> rel s s' \<Longrightarrow> keeps rel t s'"
  by (cases t) (auto simp: keeps_Atomic intro: rel_trans)

lemma keeps_atomically: "within rel m \<Longrightarrow> keeps rel (atomically m) s"
  by (simp add: keeps_Atomic atomically_def within_def)

lemma keeps_bind:
  assumes "keeps rel t s" "\<And>x s'. rel s s' \<Longrightarrow> keeps rel (f x) s'"
  shows "keeps rel (thread_bind t f) s"
  using assms
proof (induction t arbitrary: s)
  case (Result r)
  then show ?case by (cases r) (auto intro: rel_refl)
next
  case (Atomic g)
  show ?case
    unfolding thread_bind.simps keeps_Atomic
  proof (intro allI impI)
    fix s'
    assume s': "rel s s'"
    with Atomic.prems(1) have step: "rel s' (snd (g s'))" "keeps rel (fst (g s')) (snd (g s'))"
      unfolding keeps_Atomic by auto
    have "fst (g s') \<in> Basic_BNFs.fsts (g s')" by (simp add: fsts.simps)
    from Atomic.IH [OF rangeI this step(2)] Atomic.prems(2) s' step(1)
    have "keeps rel (thread_bind (fst (g s')) f) (snd (g s'))" by (blast intro: rel_trans)
    with step(1) show "rel s' (snd ((map_prod (\<lambda>t. thread_bind t f) id \<circ> g) s'))
        \<and> keeps rel (fst ((map_prod (\<lambda>t. thread_bind t f) id \<circ> g) s')) (snd ((map_prod (\<lambda>t. thread_bind t f) id \<circ> g) s'))"
      by simp
  qed
qed

text \<open>What follows an atomic piece may rely on its result.\<close>

lemma keeps_after:
  assumes "within rel m" "\<And>x s' s''. rel s s' \<Longrightarrow> m s' = (Inr x, s'') \<Longrightarrow> keeps rel (f x) s''"
  shows "keeps rel (thread_bind (atomically m) f) s"
  unfolding atomically_def thread_bind.simps keeps_Atomic
proof (intro allI impI)
  fix s'
  assume s': "rel s s'"
  obtain r s'' where m: "m s' = (r, s'')" by fastforce
  with assms(1) have "rel s' s''" by (rule withinD)
  with assms(2) [OF s'] m show "rel s' (snd ((map_prod (\<lambda>t. thread_bind t f) id \<circ> (\<lambda>s. (Result (fst (m s)), snd (m s)))) s'))
    \<and> keeps rel (fst ((map_prod (\<lambda>t. thread_bind t f) id \<circ> (\<lambda>s. (Result (fst (m s)), snd (m s)))) s'))
        (snd ((map_prod (\<lambda>t. thread_bind t f) id \<circ> (\<lambda>s. (Result (fst (m s)), snd (m s)))) s'))"
    by (cases r) auto
qed

lemma keeps_attempt: "keeps rel t s \<Longrightarrow> keeps rel (thread_attempt t) s"
proof (induction t arbitrary: s)
  case (Atomic g)
  show ?case
    unfolding thread_attempt.simps keeps_Atomic
  proof (intro allI impI)
    fix s'
    assume "rel s s'"
    with Atomic.prems have step: "rel s' (snd (g s'))" "keeps rel (fst (g s')) (snd (g s'))"
      unfolding keeps_Atomic by auto
    have "fst (g s') \<in> Basic_BNFs.fsts (g s')" by (simp add: fsts.simps)
    from Atomic.IH [OF rangeI this step(2)] step(1)
    show "rel s' (snd ((map_prod thread_attempt id \<circ> g) s'))
        \<and> keeps rel (fst ((map_prod thread_attempt id \<circ> g) s')) (snd ((map_prod thread_attempt id \<circ> g) s'))" by simp
  qed
qed simp

lemma keeps_done: "keeps rel t s \<Longrightarrow> keeps rel (thread_done t) s"
  unfolding thread_done_def by (rule keeps_bind) (auto intro: keeps_attempt)

lemma keeps_advance:
  assumes "keeps rel t s"
  shows "rel s (snd (advance t s)) \<and> keeps rel (fst (advance t s)) (snd (advance t s))"
  using assms by (cases t) (auto simp: keeps_Atomic intro: rel_refl)

text \<open>Whatever the schedule, the relation holds between any two states of a run.\<close>

lemma schedule_keeps:
  assumes "\<forall>t \<in> set ts. keeps rel t s" "\<And>t s. t \<in> set (arrivals events) \<Longrightarrow> keeps rel t s"
    and "schedule events (s, ts) = (s', ts')"
  shows "rel s s' \<and> (\<forall>t \<in> set ts'. keeps rel t s')"
  using assms
proof (induction events arbitrary: s ts)
  case Nil
  then show ?case by (simp add: schedule_def rel_refl)
next
  case (Cons e events)
  have next': "schedule events (happen e (s, ts)) = (s', ts')" using Cons.prems(3) by (simp add: schedule_def)
  show ?case
  proof (cases e)
    case (Arrives t)
    with Cons.IH [of "ts @ [t]" s] Cons.prems next' show ?thesis by auto
  next
    case (Runs i)
    show ?thesis
    proof (cases "i < length ts")
      case True
      obtain t s1 where adv: "advance (ts ! i) s = (t, s1)" by fastforce
      then have step: "rel s s1" "keeps rel t s1"
        using keeps_advance [of "ts ! i" s] Cons.prems(1) True by auto
      have "\<forall>u \<in> set (ts[i := t]). keeps rel u s1"
        using set_update_subset_insert [of ts i t] Cons.prems(1) step by (auto intro: keeps_later)
      from Cons.IH [OF this] Cons.prems(2) next' Runs True adv step(1) show ?thesis
        by (auto intro: rel_trans)
    qed (use Cons.IH [of ts s] Cons.prems next' Runs in auto)
  qed
qed

end

end
