(* ===== verification/Desktop_Threads.thy ===== *)
theory Desktop_Threads
  imports Desktop_Runs Interleaving
begin

text \<open>
  The commands of apps/desktop/src-tauri/src/commands.rs as threads: one atomic piece for what the code
  does under one lock of \<^verbatim>\<open>AppState\<close> (the manager, the store, the attempts, the client, the session, the
  mode, the console) or under the connection lock of a client, in the order it takes them. Commands that
  read only, or that take one lock, are one piece. The first part says what the pieces are, the second
  that a thread which nothing interrupts is the command of \<open>Desktop_Lessons\<close> and \<open>Desktop_Session\<close>, the
  third that every piece stays within the effects of the sequential commands.
\<close>

section \<open>The guest's channel\<close>

text \<open>
  A client is shared by everyone who has it, as an \<^verbatim>\<open>Arc\<close>: what one call leaves of it is what the next
  finds. Clients are told apart by port and token, which every session draws anew. One that the
  application no longer holds is private to the commands that still do.
\<close>

definition client_call ::
  "(agent_client \<times> 'w \<Rightarrow> 'r \<times> agent_client \<times> 'w) \<Rightarrow> agent_client \<Rightarrow> ('w app, 'r \<times> agent_client) action" where
  "client_call f client a =
     (let shared = (case ap_agent a of Some c \<Rightarrow> same_end client c | None \<Rightarrow> False);
          current = (case ap_agent a of Some c \<Rightarrow> if same_end client c then c else client | None \<Rightarrow> client);
          (reply, client', net) = f (current, ap_net a)
      in (Inr (reply, client'), a\<lparr>ap_agent := (if shared then Some client' else ap_agent a), ap_net := net\<rparr>))"

definition send_once ::
  "'w desk \<Rightarrow> agent_request \<Rightarrow> nat \<Rightarrow> agent_client \<Rightarrow> ('w app, (string + agent_response) \<times> agent_client) action" where
  "send_once D request timeout = client_call (try_request (dk_net D) (dk_decode D) request timeout)"

definition disconnect :: "agent_client \<Rightarrow> ('w app, unit \<times> agent_client) action" where
  "disconnect = client_call (\<lambda>(c, w). ((), c\<lparr>cl_connected := False\<rparr>, w))"

text \<open>The connection lock is given back between a failed attempt, the drop of the connection and the
  second attempt.\<close>

definition request_thread :: "'w desk \<Rightarrow> agent_request \<Rightarrow> agent_client \<Rightarrow> ('w app, agent_response) thread" where
  "request_thread D request client =
     thread_bind (atomically (send_once D request 180000 client)) (\<lambda>(reply, client).
       if isl reply then
         thread_bind (atomically (disconnect client)) (\<lambda>(_, client).
         thread_bind (atomically (send_once D request 180000 client)) (\<lambda>(reply, _). Result reply))
       else Result reply)"

definition ask_thread :: "'w desk \<Rightarrow> agent_request \<Rightarrow> ('w app, agent_response) thread" where
  "ask_thread D request = thread_bind (atomically agent_of) (request_thread D request)"

primrec ping_thread :: "'w desk \<Rightarrow> nat list \<Rightarrow> string option \<Rightarrow> agent_client \<Rightarrow> ('w app, agent_response) thread" where
  "ping_thread D [] last_error client = Result (Inl (not_in_time last_error))"
| "ping_thread D (remaining # clock) last_error client =
     thread_bind (atomically (send_once D Ping remaining client)) (\<lambda>(reply, client).
       case ping_failure (dk_debug D) reply of
         None \<Rightarrow> Result reply
       | Some detail \<Rightarrow>
           thread_bind (atomically (disconnect client)) (\<lambda>(_, client). ping_thread D clock (Some detail) client))"

section \<open>Lessons\<close>

definition set_progression_mode_thread :: "'w desk \<Rightarrow> progression_mode \<Rightarrow> ('w app, unit) thread" where
  "set_progression_mode_thread D mode =
     thread_bind (atomically (update (\<lambda>a. a\<lparr>ap_mode := mode\<rparr>))) (\<lambda>_.
       atomically (store_write D (set_setting (dk_profile_id D) ''progression.mode'' (mode_str mode))))"

definition prepare_lesson_thread :: "'w desk \<Rightarrow> int \<Rightarrow> string \<Rightarrow> ('w app, string list) thread" where
  "prepare_lesson_thread D now lesson_id =
     thread_bind (atomically require_ready) (\<lambda>_.
     thread_bind (atomically (find_lesson D lesson_id)) (\<lambda>l.
     thread_bind (ask_thread D (prepare_request lesson_id l)) (\<lambda>response.
     thread_bind (Result (expect_ok response)) (\<lambda>reply.
     thread_bind (atomically (prepared_warnings D reply)) (\<lambda>warnings.
     thread_bind (atomically (store_write D (start_lesson (dk_profile_id D) lesson_id now))) (\<lambda>_.
       Result (Inr warnings)))))))"

definition complete_thread ::
  "'w desk \<Rightarrow> int \<Rightarrow> string \<Rightarrow> lesson \<Rightarrow> check_result \<Rightarrow> ('w app, check_result) thread" where
  "complete_thread D now lesson_id l result =
     thread_bind (atomically (inspect (lesson_attempts lesson_id))) (\<lambda>attempts.
       if all_required_passed l attempts then
         thread_bind (atomically (store_call D (complete_lesson (dk_profile_id D) lesson_id
                      (lesson_mastery attempts (hides_hints (l_type l))) (total_hints attempts)
                      (list_ex a_solution_revealed attempts) now))) (\<lambda>best.
           Result (Inr (result\<lparr>ck_lesson_complete := True, ck_mastery := Some best\<rparr>)))
       else Result (Inr result))"

definition record_check_thread ::
  "'w desk \<Rightarrow> int \<Rightarrow> int \<Rightarrow> string \<Rightarrow> string \<Rightarrow> lesson \<Rightarrow> task \<Rightarrow> task_validation \<Rightarrow> ('w app, check_result) thread" where
  "record_check_thread D started_at now lesson_id task_id l t v =
     (let result = check_result_new v (shape_feedback v) in
      thread_bind (atomically (with_attempt lesson_id task_id (record_outcome v))) (\<lambda>(hints_used, category).
      thread_bind (atomically (store_call D (record_task_attempt
          \<lparr>ta_profile_id = dk_profile_id D, ta_lesson_id = lesson_id, ta_task_id = task_id,
           ta_passed = tv_passed v, ta_failure_category = category, ta_hints_used = hints_used,
           ta_created_at = started_at\<rparr>))) (\<lambda>_.
        if tv_passed v then
          complete_thread D now lesson_id l (result\<lparr>ck_diagnosis := t_diagnosis t\<rparr>)
        else
          thread_bind (atomically (store_write D (record_lesson_attempt (dk_profile_id D) lesson_id now)))
            (\<lambda>_. Result (Inr result)))))"

definition check_task_thread :: "'w desk \<Rightarrow> int \<Rightarrow> int \<Rightarrow> string \<Rightarrow> string \<Rightarrow> ('w app, check_result) thread" where
  "check_task_thread D started_at now lesson_id task_id =
     thread_bind (atomically require_ready) (\<lambda>_.
     thread_bind (atomically (find_lesson D lesson_id)) (\<lambda>l.
     thread_bind (atomically (find_task lesson_id l task_id)) (\<lambda>t.
     thread_bind (Result (check_task_validators (dk_registry D) t)) (\<lambda>_.
     thread_bind (ask_thread D (check_request lesson_id task_id (build_validation_request l t started_at))) (\<lambda>response.
     thread_bind (Result (expect_ok response)) (\<lambda>reply.
     thread_bind (atomically (validated D reply)) (\<lambda>v.
       record_check_thread D started_at now lesson_id task_id l t v)))))))"

definition reveal_hint_thread :: "'w desk \<Rightarrow> int \<Rightarrow> string \<Rightarrow> string \<Rightarrow> ('w app, hint_response) thread" where
  "reveal_hint_thread D now lesson_id task_id =
     thread_bind (atomically (find_lesson D lesson_id)) (\<lambda>l.
     thread_bind (atomically (find_task lesson_id l task_id)) (\<lambda>t.
     thread_bind (atomically (inspect ap_mode)) (\<lambda>mode.
     thread_bind (atomically (with_attempt lesson_id task_id (reveal_next_hint t (hints_offered l mode)))) (\<lambda>outcome.
       atomically (hint_shown D now lesson_id outcome)))))"

definition reveal_solution_thread :: "'w desk \<Rightarrow> string \<Rightarrow> string \<Rightarrow> ('w app, solution_response) thread" where
  "reveal_solution_thread D lesson_id task_id =
     thread_bind (atomically (find_lesson D lesson_id)) (\<lambda>l.
     thread_bind (atomically (find_task lesson_id l task_id)) (\<lambda>t.
     thread_bind (atomically (inspect ap_mode)) (\<lambda>mode.
     thread_bind (atomically (with_attempt lesson_id task_id (reveal_solution (hints_offered l mode)))) (\<lambda>refusal.
       Result (Inr (case refusal of
           Some reason \<Rightarrow> \<lparr>so_solution = None, so_reason = Some reason\<rparr>
         | None \<Rightarrow> \<lparr>so_solution = t_suggested_solution t, so_reason = None\<rparr>))))))"

definition reset_lesson_thread :: "'w desk \<Rightarrow> string \<Rightarrow> ('w app, unit) thread" where
  "reset_lesson_thread D lesson_id =
     thread_bind (atomically require_ready) (\<lambda>_.
     thread_bind (atomically (find_lesson D lesson_id)) (\<lambda>l.
     thread_bind (ask_thread D (agent_request.ResetLesson lesson_id (e_reset_script (l_environment l)))) (\<lambda>response.
     thread_bind (Result (expect_ok response)) (\<lambda>_. Result (Inr ())))))"

section \<open>Panels\<close>

definition guest_diagnostics_thread :: "'w desk \<Rightarrow> ('w app, guest_diagnostics) thread" where
  "guest_diagnostics_thread D =
     thread_bind (atomically require_ready) (\<lambda>_.
     thread_bind (ask_thread D Diagnostics) (\<lambda>response.
       atomically (case response of
         DiagnosticsReport g \<Rightarrow> return g
       | AgentError message _ \<Rightarrow> bail message
       | other \<Rightarrow> unexpected D ''unexpected reply: '' other)))"

definition list_directory_thread :: "'w desk \<Rightarrow> string \<Rightarrow> bool \<Rightarrow> ('w app, dir_entry_info list) thread" where
  "list_directory_thread D path include_hidden =
     thread_bind (atomically require_ready) (\<lambda>_.
     thread_bind (ask_thread D (agent_request.ListDirectory path include_hidden)) (\<lambda>response.
       atomically (case response of
         DirectoryListing _ entries \<Rightarrow> return entries
       | AgentError message _ \<Rightarrow> bail message
       | other \<Rightarrow> unexpected D ''unexpected reply: '' other)))"

definition terminal_resize_thread :: "'w desk \<Rightarrow> u16 \<Rightarrow> u16 \<Rightarrow> ('w app, unit) thread" where
  "terminal_resize_thread D rows cols =
     thread_bind (atomically agent_of) (\<lambda>client.
     thread_bind (thread_attempt (request_thread D (SetTerminalSize rows cols) client)) (\<lambda>reply.
       atomically (case reply of Inr (AgentError message _) \<Rightarrow> bail message | _ \<Rightarrow> return ())))"

section \<open>Sessions\<close>

definition wait_thread :: "'w desk \<Rightarrow> guest_wait \<Rightarrow> nat \<Rightarrow> agent_client \<Rightarrow> ('w app, agent_response) thread" where
  "wait_thread D G budget client =
     thread_bind (atomically (hear_console (gw_output G))) (\<lambda>_.
     thread_bind (thread_attempt (ping_thread D (gw_clock G budget) None client)) (\<lambda>reply.
       case gw_exit G of
         None \<Rightarrow> Result reply
       | Some outcome \<Rightarrow>
           thread_bind (atomically (vm_call (poll_exited outcome))) (\<lambda>exited.
             case exited of
               None \<Rightarrow> Result reply
             | Some status \<Rightarrow>
                 thread_bind (atomically (inspect (\<lambda>a. w_fs (ap_vm a)))) (\<lambda>files.
                   Result (Inl (stopped_message D status files))))))"

text \<open>The first start prepares under one lock of the manager and starts under the next.\<close>

definition boot_thread :: "boot_answers \<Rightarrow> session_kind \<Rightarrow> network_mode \<Rightarrow> u32 option \<Rightarrow> ('w app, vm_config) thread" where
  "boot_thread B kind mode memory_mb =
     thread_bind (atomically (vm_call (prepare (bo_prepare B) kind mode memory_mb))) (\<lambda>config.
     thread_bind (atomically (vm_call (vm_start (bo_start B) config))) (\<lambda>_. Result (Inr config)))"

text \<open>The retry stops, changes the acceleration, prepares and starts under one lock.\<close>

definition restart_in_software ::
  "boot_answers \<Rightarrow> session_kind \<Rightarrow> network_mode \<Rightarrow> u32 option \<Rightarrow> ('w app, vm_config) action" where
  "restart_in_software B kind mode memory_mb =
     act_bind (vm_call vm_stop) (\<lambda>_.
     act_bind (manager_update (use_software_acceleration whpx_detail)) (\<lambda>_. boot B kind mode memory_mb))"

definition retry_thread ::
  "'w desk \<Rightarrow> boot_answers \<Rightarrow> session_kind \<Rightarrow> network_mode \<Rightarrow> u32 option \<Rightarrow> ('w app, string + agent_response) thread" where
  "retry_thread D B kind mode memory_mb =
     thread_bind (atomically detach_console) (\<lambda>_.
     thread_bind (atomically drop_agent) (\<lambda>_.
     thread_bind (atomically (restart_in_software B kind mode memory_mb)) (\<lambda>config.
     thread_bind (atomically (connect config)) (\<lambda>client.
     thread_bind (atomically (attach_console (bo_console B))) (\<lambda>_.
       thread_attempt (wait_thread D (bo_wait B) 120000 client))))))"

definition abandon_thread :: "string \<Rightarrow> ('w app, 'a) thread" where
  "abandon_thread detail =
     thread_bind (atomically drop_agent) (\<lambda>_.
     thread_bind (atomically detach_console) (\<lambda>_.
       atomically (act_bind (vm_call vm_stop) (\<lambda>_. act_bind (manager_update (mark_failed detail)) (\<lambda>_. bail detail)))))"

definition conclude_thread :: "'w desk \<Rightarrow> nat \<Rightarrow> string + agent_response \<Rightarrow> ('w app, vm_status) thread" where
  "conclude_thread D now ready =
     (case ready of
        Inr (Pong version release img uptime) \<Rightarrow>
          atomically (act_bind (manager_update (mark_ready now)) (\<lambda>_.
            act_bind cmd_vm_status (\<lambda>status.
              return (status\<lparr>st_guest_kernel := Some release, st_image_version := Some img\<rparr>))))
      | Inr other \<Rightarrow> abandon_thread (''Linux returned an unexpected startup response: '' @ dk_debug D other)
      | Inl err \<Rightarrow>
          thread_bind (atomically (console_summary D)) (\<lambda>shown.
            abandon_thread (err @ (case shown of Some text \<Rightarrow> '' Linux console: '' @ text | None \<Rightarrow> []))))"

definition run_session_thread ::
  "'w desk \<Rightarrow> session_answers \<Rightarrow> session_kind \<Rightarrow> network_mode \<Rightarrow> u32 option \<Rightarrow> ('w app, vm_status) thread" where
  "run_session_thread D S kind mode memory_mb =
     thread_bind (boot_thread (sa_first S) kind mode memory_mb) (\<lambda>config.
     thread_bind (atomically (connect config)) (\<lambda>client.
     thread_bind (atomically (remember_session kind)) (\<lambda>_.
     thread_bind (atomically (attach_console (bo_console (sa_first S)))) (\<lambda>_.
     thread_bind (thread_attempt (wait_thread D (bo_wait (sa_first S)) (first_budget config) client)) (\<lambda>ready.
     thread_bind (if isl ready \<and> cf_accel config = Whpx
                then retry_thread D (sa_second S) kind mode memory_mb else Result (Inr ready)) (\<lambda>ready.
       conclude_thread D (sa_ready_at S) ready))))))"

definition start_session_thread :: "'w desk \<Rightarrow> session_answers \<Rightarrow> string option \<Rightarrow> ('w app, vm_status) thread" where
  "start_session_thread D S lesson_id =
     thread_bind (atomically (cmd_install_runtime D (sa_installer S) False)) (\<lambda>_.
     thread_bind (thread_attempt (atomically (vm_call (reap_stale_process (sa_exe_of S) (sa_terminated S))))) (\<lambda>_.
     thread_bind (atomically (session_plan D lesson_id)) (\<lambda>(kind, mode, memory_mb).
       run_session_thread D S kind mode memory_mb)))"

definition farewell_thread :: "'w desk \<Rightarrow> ('w app, unit) thread" where
  "farewell_thread D =
     thread_bind (thread_attempt (atomically agent_of)) (\<lambda>client.
       case client of
         Inl _ \<Rightarrow> Result (Inr ())
       | Inr c \<Rightarrow> thread_bind (thread_attempt (request_thread D Shutdown c)) (\<lambda>_. Result (Inr ())))"

definition stop_session_thread :: "'w desk \<Rightarrow> ('w app, unit) thread" where
  "stop_session_thread D =
     thread_bind (farewell_thread D) (\<lambda>_.
     thread_bind (atomically detach_console) (\<lambda>_.
     thread_bind (atomically drop_agent) (\<lambda>_. atomically (vm_call vm_stop))))"

definition restart_vm_thread :: "'w desk \<Rightarrow> session_answers \<Rightarrow> ('w app, vm_status) thread" where
  "restart_vm_thread D S =
     thread_bind (atomically (inspect ap_session)) (\<lambda>session.
     thread_bind (stop_session_thread D) (\<lambda>_.
       start_session_thread D S (case session of Some (LessonSession lid) \<Rightarrow> Some lid | _ \<Rightarrow> None)))"

definition restart_lesson_thread :: "'w desk \<Rightarrow> session_answers \<Rightarrow> int \<Rightarrow> string \<Rightarrow> ('w app, vm_status) thread" where
  "restart_lesson_thread D S now lesson_id =
     thread_bind (atomically (clear_lesson_attempts lesson_id)) (\<lambda>_.
     thread_bind (stop_session_thread D) (\<lambda>_.
     thread_bind (start_session_thread D S (Some lesson_id)) (\<lambda>status.
     thread_bind (prepare_lesson_thread D now lesson_id) (\<lambda>_. Result (Inr status)))))"

section \<open>Disks\<close>

definition create_snapshot_thread :: "'w desk \<Rightarrow> bool \<Rightarrow> copy_outcome \<Rightarrow> int \<Rightarrow> string \<Rightarrow> ('w app, string) thread" where
  "create_snapshot_thread D dir_ok copy now name =
     thread_bind (atomically (disk_exists (live_disk D))) (\<lambda>there.
       if \<not> there then Result (Inl ''There is no Free Practice environment to snapshot yet.'')
       else
         thread_bind (atomically (act_bind (inspect overlays_of) (\<lambda>om.
           files_call (take_snapshot om dir_ok copy (live_disk D) name)))) (\<lambda>path.
         thread_bind (atomically (file_length path)) (\<lambda>size_bytes.
         thread_bind (atomically (store_call D (record_snapshot (dk_profile_id D) name path
                     (ly_runtime_version (dk_layout D)) size_bytes now))) (\<lambda>_. Result (Inr path)))))"

definition restore_snapshot_thread :: "'w desk \<Rightarrow> restore_io \<Rightarrow> int \<Rightarrow> ('w app, unit) thread" where
  "restore_snapshot_thread D io snapshot_id =
     thread_bind (stop_session_thread D) (\<lambda>_.
     thread_bind (atomically (cmd_list_snapshots D)) (\<lambda>rows.
       case List.find (\<lambda>(sid, _). sid = snapshot_id) rows of
         None \<Rightarrow> Result (Inl ''That snapshot no longer exists.'')
       | Some (_, _, disk_path, _) \<Rightarrow> atomically (files_call (overlay_restore io disk_path (live_disk D)))))"

definition factory_reset_thread :: "'w desk \<Rightarrow> bool \<Rightarrow> copy_outcome \<Rightarrow> bool \<Rightarrow> ('w app, unit) thread" where
  "factory_reset_thread D dir_ok copy remove_ok =
     thread_bind (stop_session_thread D) (\<lambda>_.
     thread_bind (atomically (disk_exists (live_disk D))) (\<lambda>there.
       if \<not> there then Result (Inr ())
       else
         thread_bind (thread_attempt (atomically (act_bind (inspect overlays_of) (\<lambda>om.
           files_call (take_snapshot om dir_ok copy (live_disk D) ''before-factory-reset''))))) (\<lambda>_.
           atomically (files_call (remove_live remove_ok (live_disk D))))))"

text \<open>The flag is read without a lock; the repair holds that of the manager from its look at the state on.\<close>

definition repair_if_down :: "'w desk \<Rightarrow> qemu_img \<Rightarrow> bool \<Rightarrow> ('w app, unit) action" where
  "repair_if_down D img dir_ok =
     act_bind (inspect machine_is_down) (\<lambda>down. if down then repair_overlay D img dir_ok else return ())"

definition health_check_thread :: "'w desk \<Rightarrow> installer \<Rightarrow> qemu_img \<Rightarrow> bool \<Rightarrow> u64 option \<Rightarrow> ('w app, health_report) thread" where
  "health_check_thread D I img dir_ok free_bytes =
     thread_bind (atomically (inspect ap_unclean_shutdown)) (\<lambda>unclean.
     thread_bind (if unclean then atomically (repair_if_down D img dir_ok) else Result (Inr ())) (\<lambda>_.
       atomically (inspect (health_of D I free_bytes False))))"

section \<open>Commands\<close>

definition one_piece :: "('w app \<Rightarrow> 'w app) \<Rightarrow> ('w app, unit) thread" where
  "one_piece f = atomically (update f)"

primrec desktop_thread :: "'w desk \<Rightarrow> desktop_command \<Rightarrow> ('w app, unit) thread" where
  "desktop_thread D (Bootstrap I app_version free_bytes) = one_piece (desktop_step D (Bootstrap I app_version free_bytes))"
| "desktop_thread D (InstallRuntime I force) = one_piece (desktop_step D (InstallRuntime I force))"
| "desktop_thread D (GetLesson lid) = one_piece (desktop_step D (GetLesson lid))"
| "desktop_thread D (SetProgressionMode mode) = thread_done (set_progression_mode_thread D mode)"
| "desktop_thread D CommandReference = Result (Inr ())"
| "desktop_thread D (StartSession S lesson_id) = thread_done (start_session_thread D S lesson_id)"
| "desktop_thread D VmStatus = one_piece (desktop_step D VmStatus)"
| "desktop_thread D StopSession = thread_done (stop_session_thread D)"
| "desktop_thread D (RestartVm S) = thread_done (restart_vm_thread D S)"
| "desktop_thread D (TerminalWrite outcome) = one_piece (desktop_step D (TerminalWrite outcome))"
| "desktop_thread D (TerminalResize rows cols) = thread_done (terminal_resize_thread D rows cols)"
| "desktop_thread D (RecordCommand now command) = one_piece (desktop_step D (RecordCommand now command))"
| "desktop_thread D (ExportTranscript transcript) = Result (Inr ())"
| "desktop_thread D (PrepareLesson now lid) = thread_done (prepare_lesson_thread D now lid)"
| "desktop_thread D (CheckTask started_at now lid tid) = thread_done (check_task_thread D started_at now lid tid)"
| "desktop_thread D (RevealHint now lid tid) = thread_done (reveal_hint_thread D now lid tid)"
| "desktop_thread D (RevealSolution lid tid) = thread_done (reveal_solution_thread D lid tid)"
| "desktop_thread D (GradeReviewQuestion lid index selected answer) =
     one_piece (desktop_step D (GradeReviewQuestion lid index selected answer))"
| "desktop_thread D (ResetLesson lid) = thread_done (reset_lesson_thread D lid)"
| "desktop_thread D (RestartLesson S now lid) = thread_done (restart_lesson_thread D S now lid)"
| "desktop_thread D GuestDiagnostics = thread_done (guest_diagnostics_thread D)"
| "desktop_thread D (ListDirectory path hidden) = thread_done (list_directory_thread D path hidden)"
| "desktop_thread D (CreateSnapshot dir_ok copy now name) = thread_done (create_snapshot_thread D dir_ok copy now name)"
| "desktop_thread D ListSnapshots = one_piece (desktop_step D ListSnapshots)"
| "desktop_thread D (RestoreSnapshot io sid) = thread_done (restore_snapshot_thread D io sid)"
| "desktop_thread D (FactoryResetPractice dir_ok copy remove_ok) = thread_done (factory_reset_thread D dir_ok copy remove_ok)"
| "desktop_thread D (VerifyRuntime I) = one_piece (desktop_step D (VerifyRuntime I))"
| "desktop_thread D (HealthCheck I img dir_ok free_bytes) = thread_done (health_check_thread D I img dir_ok free_bytes)"
| "desktop_thread D ProgressReport = one_piece (desktop_step D ProgressReport)"
| "desktop_thread D (GetSetting key) = one_piece (desktop_step D (GetSetting key))"
| "desktop_thread D (SetSetting now key val) = one_piece (desktop_step D (SetSetting now key val))"
| "desktop_thread D (BumpPracticeTime seconds) = one_piece (desktop_step D (BumpPracticeTime seconds))"

section \<open>A thread alone\<close>

lemmas alone_cases =
  if_distrib [of run_alone] sum.case_distrib [of run_alone] option.case_distrib [of run_alone] prod.case_distrib [of run_alone]

lemma lift_Result [simp]: "lift (Inr x) = return x" "lift (Inl e) = bail e"
  by (simp_all add: fun_eq_iff lift_def return_def bail_def)

lemma agent_kept: "ap_agent a = Some client \<Longrightarrow> a\<lparr>ap_agent := Some client\<rparr> = a"
  by (cases a) simp

lemma request_alone:
  assumes "ap_agent a = Some client"
  shows "run_alone (request_thread D request client) a = send_request D request client a"
proof -
  obtain r c w where first: "try_request (dk_net D) (dk_decode D) request 180000 (client, ap_net a) = (r, c, w)"
    by (metis prod_cases3)
  obtain r' c' w' where second: "try_request (dk_net D) (dk_decode D) request 180000 (c\<lparr>cl_connected := False\<rparr>, w) = (r', c', w')"
    by (metis prod_cases3)
  show ?thesis
    using assms first second
    by (cases r) (simp_all add: request_thread_def act_bind_def send_once_def disconnect_def client_call_def send_request_def
        client_request_def request_with_timeout_def same_end_def return_def bail_def lift_def)
qed

lemma ask_alone: "run_alone (ask_thread D request) = ask D request"
  by (rule ext) (auto simp: ask_thread_def ask_def act_bind_def agent_of_def request_alone split: option.split)

lemma ping_alone:
  "ap_agent a = Some client \<Longrightarrow>
     run_alone (ping_thread D clock last_error client) a =
       (let (reply, client', net) = wait_until_ready (dk_net D) (dk_decode D) (dk_debug D) clock last_error (client, ap_net a)
        in (reply, a\<lparr>ap_agent := Some client', ap_net := net\<rparr>))"
proof (induction clock arbitrary: last_error client a)
  case (Cons remaining clock)
  obtain r c w where first: "try_request (dk_net D) (dk_decode D) Ping remaining (client, ap_net a) = (r, c, w)"
    by (metis prod_cases3)
  show ?case
  proof (cases "ping_failure (dk_debug D) r")
    case None
    then show ?thesis
      using Cons.prems first by (simp add: act_bind_def send_once_def client_call_def same_end_def lift_def)
  next
    case (Some detail)
    then show ?thesis
      using Cons.prems first
      by (simp add: Cons.IH act_bind_def send_once_def disconnect_def client_call_def same_end_def)
  qed
qed (simp add: bail_def agent_kept)

lemma await_alone:
  "ap_agent a = Some client \<Longrightarrow> run_alone (ping_thread D clock None client) a = await_ready D clock client a"
  by (simp add: ping_alone await_ready_def)

lemma wait_alone:
  assumes "ap_agent a = Some client"
  shows "run_alone (wait_thread D G budget client) a = wait_for_guest D G budget client a"
proof -
  have heard: "ap_agent s = Some client" if "hear_console (gw_output G) a = (Inr (), s)" for s
    using that assms by (auto simp: hear_console_def update_def split: if_splits)
  show ?thesis
    unfolding wait_thread_def wait_for_guest_def run_alone_bind run_alone_atomically run_alone_attempt
    by (intro act_bind_cong_state refl, use heard in \<open>simp add: attempting_def await_alone\<close>)
      (auto simp: alone_cases split: option.split intro!: act_bind_cong_state)
qed

lemma boot_alone: "run_alone (boot_thread B kind mode memory_mb) = boot B kind mode memory_mb"
  by (simp add: boot_thread_def boot_def)

lemma retry_alone: "run_alone (retry_thread D B kind mode memory_mb) = retry_in_software D B kind mode memory_mb"
proof -
  have launch: "act_bind (connect config) (\<lambda>client. act_bind (attach_console accepted) (\<lambda>_.
        attempting (run_alone (wait_thread D G budget client)))) =
      act_bind (connect config) (\<lambda>client. act_bind (attach_console accepted) (\<lambda>_.
        attempting (wait_for_guest D G budget client)))" for config accepted G budget
    by (rule ext) (simp add: connect_def attach_console_def act_bind_def update_def return_def attempting_def wait_alone Let_def)
  show ?thesis
    by (simp add: retry_thread_def retry_in_software_def restart_in_software_def act_bind_assoc launch)
qed

lemma abandon_alone: "run_alone (abandon_thread detail) = abandon detail"
  by (simp add: abandon_thread_def abandon_def)

lemma conclude_alone: "run_alone (conclude_thread D now ready) = conclude D now ready"
  by (auto simp: conclude_thread_def conclude_def abandon_alone split: sum.split agent_response.split)

lemma run_session_alone: "run_alone (run_session_thread D S kind mode memory_mb) = run_session D S kind mode memory_mb"
proof -
  have launch: "act_bind (connect config) (\<lambda>client. act_bind (remember_session kind) (\<lambda>_.
        act_bind (attach_console accepted) (\<lambda>_. act_bind (attempting (run_alone (wait_thread D G budget client))) f))) =
      act_bind (connect config) (\<lambda>client. act_bind (remember_session kind) (\<lambda>_.
        act_bind (attach_console accepted) (\<lambda>_. act_bind (attempting (wait_for_guest D G budget client)) f)))"
    for config accepted G budget and f :: "_ \<Rightarrow> ('a app, vm_status) action"
    by (rule ext) (simp add: connect_def remember_session_def attach_console_def act_bind_def update_def return_def
        attempting_def wait_alone Let_def)
  show ?thesis
    by (simp add: run_session_thread_def run_session_def boot_alone retry_alone conclude_alone launch alone_cases cong: if_cong)
qed

lemma start_session_alone: "run_alone (start_session_thread D S lesson_id) = start_session_inner D S lesson_id"
  by (simp add: start_session_thread_def start_session_inner_def run_session_alone split_def)

lemma farewell_alone: "run_alone (farewell_thread D) = farewell D"
  by (rule ext)
    (auto simp: farewell_thread_def farewell_def act_bind_def attempting_def agent_of_def request_alone split: option.split)

lemma stop_session_alone: "run_alone (stop_session_thread D) = stop_session_inner D"
  by (simp add: stop_session_thread_def stop_session_inner_def farewell_alone)

lemma lesson_commands_alone:
  "run_alone (set_progression_mode_thread D mode) = cmd_set_progression_mode D mode"
  "run_alone (prepare_lesson_thread D now lid) = cmd_prepare_lesson D now lid"
  "run_alone (check_task_thread D started_at now lid tid) = cmd_check_task D started_at now lid tid"
  "run_alone (reveal_hint_thread D now lid tid) = cmd_reveal_hint D now lid tid"
  "run_alone (reveal_solution_thread D lid tid) = cmd_reveal_solution D lid tid"
  "run_alone (reset_lesson_thread D lid) = cmd_reset_lesson D lid"
proof -
  show "run_alone (set_progression_mode_thread D mode) = cmd_set_progression_mode D mode"
    by (simp add: set_progression_mode_thread_def cmd_set_progression_mode_def)
  show "run_alone (prepare_lesson_thread D now lid) = cmd_prepare_lesson D now lid"
    by (simp add: prepare_lesson_thread_def cmd_prepare_lesson_def ask_alone del: thread_bind.simps)
  show "run_alone (check_task_thread D started_at now lid tid) = cmd_check_task D started_at now lid tid"
    by (simp add: check_task_thread_def cmd_check_task_def record_check_thread_def record_check_def complete_thread_def
        complete_when_done_def ask_alone alone_cases Let_def split_def cong: if_cong del: thread_bind.simps)
  show "run_alone (reveal_hint_thread D now lid tid) = cmd_reveal_hint D now lid tid"
    by (simp add: reveal_hint_thread_def cmd_reveal_hint_def)
  show "run_alone (reveal_solution_thread D lid tid) = cmd_reveal_solution D lid tid"
    by (simp add: reveal_solution_thread_def cmd_reveal_solution_def)
  show "run_alone (reset_lesson_thread D lid) = cmd_reset_lesson D lid"
    by (simp add: reset_lesson_thread_def cmd_reset_lesson_def ask_alone del: thread_bind.simps)
qed

lemma panel_commands_alone:
  "run_alone (guest_diagnostics_thread D) = cmd_guest_diagnostics D"
  "run_alone (list_directory_thread D path hidden) = cmd_list_directory D path hidden"
  "run_alone (terminal_resize_thread D rows cols) = cmd_terminal_resize D rows cols"
proof -
  show "run_alone (guest_diagnostics_thread D) = cmd_guest_diagnostics D"
    by (simp add: guest_diagnostics_thread_def cmd_guest_diagnostics_def ask_alone)
  show "run_alone (list_directory_thread D path hidden) = cmd_list_directory D path hidden"
    by (simp add: list_directory_thread_def cmd_list_directory_def ask_alone)
  show "run_alone (terminal_resize_thread D rows cols) = cmd_terminal_resize D rows cols"
    by (rule ext)
      (auto simp: terminal_resize_thread_def cmd_terminal_resize_def act_bind_def attempting_def agent_of_def request_alone
        split: option.split)
qed

lemma restarts_alone:
  "run_alone (restart_vm_thread D S) = cmd_restart_vm D S"
  "run_alone (restart_lesson_thread D S now lid) = cmd_restart_lesson D S now lid"
  by (simp_all add: restart_vm_thread_def cmd_restart_vm_def restart_lesson_thread_def cmd_restart_lesson_def
      stop_session_alone start_session_alone lesson_commands_alone)

lemma disk_commands_alone:
  "run_alone (create_snapshot_thread D dir_ok copy now name) = cmd_create_snapshot D dir_ok copy now name"
  "run_alone (restore_snapshot_thread D io sid) = cmd_restore_snapshot D io sid"
  "run_alone (factory_reset_thread D dir_ok copy remove_ok) = cmd_factory_reset_practice D dir_ok copy remove_ok"
proof -
  have overlays: "act_bind (attempting (act_bind (inspect overlays_of) f)) g =
      act_bind (inspect overlays_of) (\<lambda>om. act_bind (attempting (f om)) g)"
    for f :: "_ \<Rightarrow> ('a app, 'b) action" and g :: "_ \<Rightarrow> ('a app, unit) action"
    by (rule ext) (simp add: act_bind_def attempting_def inspect_def)
  show "run_alone (create_snapshot_thread D dir_ok copy now name) = cmd_create_snapshot D dir_ok copy now name"
    by (simp add: create_snapshot_thread_def cmd_create_snapshot_def act_bind_assoc alone_cases cong: if_cong)
  show "run_alone (restore_snapshot_thread D io sid) = cmd_restore_snapshot D io sid"
    unfolding restore_snapshot_thread_def cmd_restore_snapshot_def
    by (auto simp: stop_session_alone alone_cases fun_eq_iff act_bind_def split: option.split sum.split prod.split)
  show "run_alone (factory_reset_thread D dir_ok copy remove_ok) = cmd_factory_reset_practice D dir_ok copy remove_ok"
    by (simp add: factory_reset_thread_def cmd_factory_reset_practice_def stop_session_alone overlays alone_cases cong: if_cong)
qed

lemma health_check_alone: "run_alone (health_check_thread D I img dir_ok free_bytes) = cmd_health_check D I img dir_ok free_bytes"
  by (rule ext)
    (simp add: health_check_thread_def cmd_health_check_def repair_if_down_def act_bind_def inspect_def alone_cases return_def)

lemmas alone =
  lesson_commands_alone panel_commands_alone start_session_alone stop_session_alone restarts_alone disk_commands_alone
  health_check_alone

lemma desktop_thread_alone: "snd (run_alone (desktop_thread D c) a) = desktop_step D c a"
  by (cases c; simp only: desktop_thread.simps run_alone_done alone; simp add: one_piece_def update_def return_def)

section \<open>Every piece stays within the effects\<close>

interpretation pieces: shared_effect "evolves D" for D
  by unfold_locales

named_theorems keeps_intros \<open>threads whose pieces stay within the effects\<close>

lemmas [keeps_intros] = pieces.keeps_bind pieces.keeps_attempt pieces.keeps_done pieces.keeps_atomically

lemma keeps_cases [keeps_intros]:
  "(\<And>x. o1 = Some x \<Longrightarrow> keeps rel (t x) s) \<Longrightarrow> (o1 = None \<Longrightarrow> keeps rel u s) \<Longrightarrow> keeps rel (case o1 of None \<Rightarrow> u | Some x \<Rightarrow> t x) s"
  "(\<And>x y. p = (x, y) \<Longrightarrow> keeps rel (f x y) s) \<Longrightarrow> keeps rel (case p of (x, y) \<Rightarrow> f x y) s"
  "(b \<Longrightarrow> keeps rel t' s) \<Longrightarrow> (\<not> b \<Longrightarrow> keeps rel u' s) \<Longrightarrow> keeps rel (if b then t' else u') s"
  "keeps rel (Result r) s"
  by (simp_all split: option.split prod.split)

lemma within_client_call:
  "within (evolves D) (client_call f client)" "within (evolves D) (send_once D request timeout client)"
  "within (evolves D) (disconnect client)"
proof -
  show call: "within (evolves D) (client_call f client)" for f :: "agent_client \<times> 'a \<Rightarrow> 'b \<times> agent_client \<times> 'a"
    by (rule withinI) (simp add: client_call_def evolves_same Let_def split: prod.split)
  show "within (evolves D) (send_once D request timeout client)" "within (evolves D) (disconnect client)"
    unfolding send_once_def disconnect_def by (rule withinI; simp add: client_call_def evolves_same Let_def split: prod.split)+
qed

lemma keeps_requests [keeps_intros]:
  "keeps (evolves D) (request_thread D request client) a"
  "keeps (evolves D) (ask_thread D request) a"
  "keeps (evolves D) (ping_thread D clock last_error client) a"
proof -
  show req: "keeps (evolves D) (request_thread D request client) a" for client a
    unfolding request_thread_def by (intro keeps_intros within_client_call)
  show "keeps (evolves D) (ask_thread D request) a"
    unfolding ask_thread_def by (intro keeps_intros within_guards req)
  show "keeps (evolves D) (ping_thread D clock last_error client) a"
  proof (induction clock arbitrary: last_error client a)
    case (Cons remaining clock)
    show ?case unfolding ping_thread.simps by (intro keeps_intros within_client_call Cons.IH)
  qed simp
qed

text \<open>An attempt is recorded for the task that was looked up.\<close>

lemma keeps_lookup:
  assumes "\<And>l t a. try_lesson (dk_catalog D) lid = Inr l \<Longrightarrow> t \<in> set (l_tasks l) \<Longrightarrow> t_id t = tid \<Longrightarrow> keeps (evolves D) (f l t) a"
  shows "keeps (evolves D) (thread_bind (atomically (find_lesson D lid)) (\<lambda>l. thread_bind (atomically (find_task lid l tid)) (f l))) a"
  by (intro pieces.keeps_after within_lookup assms) (auto simp: find_lesson_Inr find_task_Inr dest: find_SomeD)

lemma keeps_lesson_commands [keeps_intros]:
  "keeps (evolves D) (set_progression_mode_thread D mode) a"
  "keeps (evolves D) (prepare_lesson_thread D now lid) a"
  "keeps (evolves D) (check_task_thread D started_at now lid tid) a"
  "keeps (evolves D) (reveal_hint_thread D now lid tid) a"
  "keeps (evolves D) (reveal_solution_thread D lid tid) a"
  "keeps (evolves D) (reset_lesson_thread D lid) a"
proof -
  show "keeps (evolves D) (set_progression_mode_thread D mode) a"
    unfolding set_progression_mode_thread_def by (intro keeps_intros within_statements within_update evolves_same) simp_all
  show "keeps (evolves D) (prepare_lesson_thread D now lid) a"
    unfolding prepare_lesson_thread_def by (intro keeps_intros within_intros)
  show "keeps (evolves D) (reset_lesson_thread D lid) a"
    unfolding reset_lesson_thread_def by (intro keeps_intros within_intros)
  have complete: "keeps (evolves D) (complete_thread D now lid l result) a" for l result a
    unfolding complete_thread_def by (intro keeps_intros within_intros)
  have rec: "keeps (evolves D) (record_check_thread D started_at now lid tid l t v) a"
    if "try_lesson (dk_catalog D) lid = Inr l" "t \<in> set (l_tasks l)" "t_id t = tid" for l t v a
  proof -
    have "within (evolves D) (with_attempt lid tid (record_outcome v))"
      by (rule within_with_attempt [OF that, of False]) (simp, rule record_outcome_step)
    then show ?thesis
      unfolding record_check_thread_def Let_def by (intro keeps_intros within_statements complete)
  qed
  show "keeps (evolves D) (check_task_thread D started_at now lid tid) a"
    unfolding check_task_thread_def
    by (rule pieces.keeps_bind, rule pieces.keeps_atomically, rule within_guards, rule keeps_lookup)
      (intro keeps_intros within_replies rec)
  show "keeps (evolves D) (reveal_hint_thread D now lid tid) a"
    unfolding reveal_hint_thread_def
  proof (rule keeps_lookup)
    fix l t a
    assume found: "try_lesson (dk_catalog D) lid = Inr l" "t \<in> set (l_tasks l)" "t_id t = tid"
    have "within (evolves D) (with_attempt lid tid (reveal_next_hint t (hints_offered l mode)))" for mode
      by (rule within_with_attempt [OF found, where e = AskHint]) (simp_all add: hints_offered_shown)
    then show "keeps (evolves D) (thread_bind (atomically (inspect ap_mode)) (\<lambda>mode.
        thread_bind (atomically (with_attempt lid tid (reveal_next_hint t (hints_offered l mode)))) (\<lambda>outcome.
          atomically (hint_shown D now lid outcome)))) a"
      by (intro keeps_intros within_intros)
  qed
  show "keeps (evolves D) (reveal_solution_thread D lid tid) a"
    unfolding reveal_solution_thread_def
  proof (rule keeps_lookup)
    fix l t a
    assume found: "try_lesson (dk_catalog D) lid = Inr l" "t \<in> set (l_tasks l)" "t_id t = tid"
    have "within (evolves D) (with_attempt lid tid (reveal_solution (hints_offered l mode)))" for mode
      by (rule within_with_attempt [OF found, where e = AskSolution]) (simp_all add: hints_offered_shown)
    then show "keeps (evolves D) (thread_bind (atomically (inspect ap_mode)) (\<lambda>mode.
        thread_bind (atomically (with_attempt lid tid (reveal_solution (hints_offered l mode)))) (\<lambda>refusal.
          Result (Inr (case refusal of
             Some reason \<Rightarrow> \<lparr>so_solution = None, so_reason = Some reason\<rparr>
           | None \<Rightarrow> \<lparr>so_solution = t_suggested_solution t, so_reason = None\<rparr>))))) a"
      by (intro keeps_intros within_intros)
  qed
qed

lemma keeps_panel_commands [keeps_intros]:
  "keeps (evolves D) (guest_diagnostics_thread D) a"
  "keeps (evolves D) (list_directory_thread D path hidden) a"
  "keeps (evolves D) (terminal_resize_thread D rows cols) a"
  unfolding guest_diagnostics_thread_def list_directory_thread_def terminal_resize_thread_def
  by (intro keeps_intros within_guards; auto intro!: within_intros split: agent_response.split sum.split)+

text \<open>What starts was prepared; another command may have prepared since.\<close>

lemma keeps_boot [keeps_intros]: "keeps (evolves (D :: ('w, 'z) desk_scheme)) (boot_thread B kind mode memory_mb) a"
  unfolding boot_thread_def
proof (rule pieces.keeps_after, rule within_machine)
  fix config and s' s'' :: "'w app"
  assume "vm_call (prepare (bo_prepare B) kind mode memory_mb) s' = (Inr config, s'')"
  then have prepared: "vm_configured (w_vm (ap_vm s'')) \<noteq> None"
    using prepare_config(6) [of "bo_prepare B" kind mode memory_mb "ap_vm s'" config] by (auto simp: vm_call_iff)
  have started: "evolves D t (snd (vm_call (vm_start (bo_start B) config) t))" if "evolves D s'' t" for t
  proof -
    have "vm_configured (w_vm (ap_vm t)) \<noteq> None" using that prepared vm_moves_config by (auto simp: evolves_def)
    then have "vm_step (ap_vm t) (snd (vm_start (bo_start B) config (ap_vm t)))" by (rule vm_step.start)
    then show ?thesis by (simp add: vm_call_def evolves_vm_step Let_def split_def)
  qed
  show "keeps (evolves D) (thread_bind (atomically (vm_call (vm_start (bo_start B) config))) (\<lambda>_. Result (Inr config))) s''"
    by (rule pieces.keeps_bind) (simp_all add: keeps_Atomic atomically_def started)
qed

lemma keeps_sessions [keeps_intros]:
  "keeps (evolves D) (wait_thread D G budget client) a"
  "keeps (evolves D) (retry_thread D B kind mode memory_mb) a"
  "keeps (evolves D) (abandon_thread detail) a"
  "keeps (evolves D) (stop_session_thread D) a"
proof -
  show wait: "keeps (evolves D) (wait_thread D G budget client) a" for G budget client a
    unfolding wait_thread_def by (intro keeps_intros within_intros)
  show "keeps (evolves D) (retry_thread D B kind mode memory_mb) a"
    unfolding retry_thread_def restart_in_software_def by (intro keeps_intros within_intros wait)
  show abandon: "keeps (evolves D) (abandon_thread detail :: ('a app, 'b) thread) a" for detail a
    unfolding abandon_thread_def by (intro keeps_intros within_intros)
  show "keeps (evolves D) (stop_session_thread D) a"
    unfolding stop_session_thread_def farewell_thread_def
    by (intro keeps_intros within_intros) (auto intro!: keeps_intros split: sum.split)
qed

lemma keeps_conclude [keeps_intros]: "keeps (evolves D) (conclude_thread D now ready) a"
  unfolding conclude_thread_def
  by (auto intro!: keeps_intros within_intros split: sum.split agent_response.split)

lemma keeps_start_session [keeps_intros]: "keeps (evolves D) (start_session_thread D S lesson_id) a"
  unfolding start_session_thread_def run_session_thread_def by (intro keeps_intros within_intros)

lemma keeps_restarts [keeps_intros]:
  "keeps (evolves D) (restart_vm_thread D S) a"
  "keeps (evolves D) (restart_lesson_thread D S now lid) a"
  unfolding restart_vm_thread_def restart_lesson_thread_def by (intro keeps_intros within_intros)+

lemma keeps_disks [keeps_intros]:
  "keeps (evolves D) (create_snapshot_thread D dir_ok copy now name) a"
  "keeps (evolves D) (restore_snapshot_thread D io sid) a"
  "keeps (evolves D) (factory_reset_thread D dir_ok copy remove_ok) a"
  unfolding create_snapshot_thread_def restore_snapshot_thread_def factory_reset_thread_def
  by (intro keeps_intros within_intros within_session_commands)+

lemma keeps_health_check [keeps_intros]: "keeps (evolves D) (health_check_thread D I img dir_ok free_bytes) a"
proof -
  have "within (evolves D) (update (\<lambda>a. a\<lparr>ap_unclean_shutdown := False\<rparr>))"
    by (rule within_update) (simp add: evolves_same)
  then have "within (evolves D) (repair_if_down D img dir_ok)"
    unfolding repair_if_down_def repair_overlay_def by (auto intro!: within_intros)
  then show ?thesis
    unfolding health_check_thread_def by (intro keeps_intros within_intros)
qed

lemma desktop_thread_keeps: "keeps (evolves D) (desktop_thread D c) a"
proof -
  have "keeps (evolves D) (one_piece (desktop_step D c)) a" for c a
    unfolding one_piece_def by (intro keeps_intros within_update desktop_step_evolves)
  then show ?thesis
    by (cases c; simp only: desktop_thread.simps) (intro keeps_intros)+
qed

end
