(* ===== verification/Desktop_Schedules.thy ===== *)
theory Desktop_Schedules
  imports Desktop_Threads
begin

text \<open>
  Commands that run at the same time: what holds whatever the order of their pieces, that running them
  one after the other is one of these orders, and two orders after which the machine is not what the
  user interface was told.
\<close>

section \<open>One after the other\<close>

lemma serial_schedule:
  "\<exists>events rs. arrivals events = map (desktop_thread D) commands
     \<and> schedule events (a, ts) = (desktop_run D commands a, ts @ rs) \<and> list_all ended rs"
proof (induction commands arbitrary: a ts)
  case Nil
  show ?case by (intro exI [of _ "[]"]) (simp add: schedule_def desktop_run_def)
next
  case (Cons c commands)
  let ?t = "desktop_thread D c"
  let ?last = "Result (fst (run_alone ?t a)) :: ('a app, unit) thread"
  from runs_to_end [of "ts @ [?t]" "length ts", OF nth_append_length] obtain n where
    "schedule (replicate n (Runs (length ts))) (a, ts @ [?t]) = (desktop_step D c a, ts @ [?last])"
    by (metis desktop_thread_alone length_append_singleton lessI list_update_length)
  then have first: "schedule (Arrives ?t # replicate n (Runs (length ts))) (a, ts) = (desktop_step D c a, ts @ [?last])"
    by (simp add: schedule_Cons)
  from Cons.IH [of "desktop_step D c a" "ts @ [?last]"] obtain events rs where
    rest: "arrivals events = map (desktop_thread D) commands" "list_all ended rs"
    "schedule events (desktop_step D c a, ts @ [?last]) = (desktop_run D commands (desktop_step D c a), (ts @ [?last]) @ rs)"
    by blast
  have "schedule ((Arrives ?t # replicate n (Runs (length ts))) @ events) (a, ts) =
      (desktop_run D (c # commands) a, ts @ ?last # rs)"
    unfolding schedule_append first rest(3) by (simp add: desktop_run_def)
  with rest(1,2) show ?case
    by (intro exI [of _ "(Arrives ?t # replicate n (Runs (length ts))) @ events"] exI [of _ "?last # rs"])
      (simp add: arrivals_append arrivals_runs)
qed

section \<open>Whatever the order\<close>

lemma schedule_later:
  assumes "arrivals (events @ further) = map (desktop_thread D) commands"
    and "schedule events (a, []) = (b, ts)" "schedule further (b, ts) = (c, us)"
  shows "evolves D a b" "evolves D b c"
proof -
  from assms(1) have all: "set (arrivals events) \<union> set (arrivals further) \<subseteq> range (desktop_thread D)"
    by (metis arrivals_append set_append set_map subset_UNIV image_mono)
  have first: "evolves D a b \<and> (\<forall>t \<in> set ts. keeps (evolves D) t b)"
    by (rule pieces.schedule_keeps [OF _ _ assms(2)]) (use all in \<open>auto intro: desktop_thread_keeps\<close>)
  then show "evolves D a b" ..
  have "evolves D b c \<and> (\<forall>t \<in> set us. keeps (evolves D) t c)"
    by (rule pieces.schedule_keeps [OF _ _ assms(3)]) (use all first in \<open>auto intro: desktop_thread_keeps\<close>)
  then show "evolves D b c" ..
qed

section \<open>Properties\<close>



text \<open>A desktop whose runtime is installed, with a disk of free practice, a snapshot of it and a guest that
  answers every request the same.\<close>

definition answering_desk :: "string list desk" where
  "answering_desk = sample_desk\<lparr>dk_decode := (\<lambda>_. Some \<lparr>rs_id = 0, rs_response = Pong ''1'' ''6.1'' ''img'' 3\<rparr>)\<rparr>"

definition keeping_installer :: installer where
  "keeping_installer =
     \<lparr>in_sha = sample_sha, in_parse = (\<lambda>_. Inr (sample_manifest\<lparr>mf_files := []\<rparr>)), in_zstd = (\<lambda>_. None),
      in_io = sample_io, in_bundled = None\<rparr>"

definition answered_boot :: boot_answers where
  "answered_boot = silent_boot\<lparr>bo_wait := \<lparr>gw_output = [], gw_clock = (\<lambda>_. [1000]), gw_exit = None\<rparr>\<rparr>"

definition session_with :: "boot_answers \<Rightarrow> session_answers" where
  "session_with B = silent_session\<lparr>sa_installer := keeping_installer, sa_first := B, sa_second := B\<rparr>"

definition installed_app :: "string list app" where
  "installed_app = practised_app\<lparr>ap_net := [''a'', ''b''], ap_runtime := Some [''checksums.json'' \<mapsto> Readable ''m''],
     ap_vm := (ap_vm practised_app)\<lparr>w_fs := (w_fs (ap_vm practised_app))(''/r/base.raw'' \<mapsto> ''B'')\<rparr>\<rparr>"

definition arriving :: "desktop_command list \<Rightarrow> string list app event list" where
  "arriving commands = map (\<lambda>c. Arrives (desktop_thread answering_desk c)) commands"

definition machine_after :: "string list app event list \<Rightarrow> vm_state \<times> u32 list \<times> string option" where
  "machine_after events =
     (let a = fst (schedule events (installed_app, []))
      in (vm_current (w_vm (ap_vm a)), w_procs (ap_vm a), w_fs (ap_vm a) (live_disk answering_desk)))"

text \<open>A start whose guest is silent, a stop, and a second start that ends well. When the first start gives
  up it stops the machine of the second, which was ready.\<close>

definition two_starts :: "string list app event list" where
  "two_starts =
     arriving [StartSession (session_with silent_boot) None, StopSession, StartSession (session_with answered_boot) None]
     @ replicate 9 (Runs 0) @ replicate 5 (Runs 1) @ replicate 11 (Runs 2)"

lemma late_failure_stops_the_next_session:
  "machine_after two_starts = (VmReady, [42], Some ''mine'')"
  "machine_after (two_starts @ replicate 4 (Runs 0)) = (VmFailed, [], Some ''mine'')"
  by code_simp+

text \<open>A start that comes between the stop and the copy of a restore: the disk is replaced under the guest.\<close>

definition restore_and_start :: "string list app event list" where
  "restore_and_start =
     arriving [RestoreSnapshot steady_io 1, StartSession (session_with answered_boot) None]
     @ replicate 4 (Runs 0) @ replicate 11 (Runs 1)"

lemma disk_replaced_under_a_running_guest:
  "machine_after restore_and_start = (VmReady, [42], Some ''mine'')"
  "machine_after (restore_and_start @ replicate 2 (Runs 0)) = (VmReady, [42], Some ''then'')"
  by code_simp+


end
