(* ===== verification/Guest_Sys.thy ===== *)
theory Guest_Sys
  imports Registry
begin

unbundle bit_operations_syntax

text \<open>
  What the guest agent sees of Linux (guest/linuxlab-agent/src/sys.rs): a snapshot of the file
  system as the operations the agent calls answer it, external commands with their possible
  outcomes, and the parsers of \<^verbatim>\<open>/etc/passwd\<close>, \<^verbatim>\<open>/etc/group\<close> and \<^verbatim>\<open>/proc\<close>.

  File contents are kept as the text \<^verbatim>\<open>from_utf8_lossy\<close> makes of the bytes, with a flag that
  tells whether they were valid UTF-8 (\<^verbatim>\<open>read_to_string\<close> fails otherwise). A command may change the
  guest, so running one returns the state after it.
\<close>

section \<open>The guest\<close>

datatype io_error = IoError (io_denied: bool) (io_text: string)

record metadata =
  md_mode :: u32
  md_size :: u64
  md_uid :: u32
  md_gid :: u32
  md_ino :: u64
  md_modified :: "int option"

record guest =
  gu_stat :: "string \<Rightarrow> metadata option"
  gu_lstat :: "string \<Rightarrow> metadata option"
  gu_read :: "string \<Rightarrow> io_error + (string \<times> bool)"
  gu_dir :: "string \<Rightarrow> io_error + string list"
  gu_link :: "string \<Rightarrow> string option"
  gu_canon :: "string \<Rightarrow> string option"
  gu_agent_pid :: u32
  gu_now :: int

definition read_to_string :: "guest \<Rightarrow> string \<Rightarrow> string option" where
  "read_to_string g path = (case gu_read g path of Inr (text, True) \<Rightarrow> Some text | _ \<Rightarrow> None)"

text \<open>\<^verbatim>\<open>Path::join\<close> on Unix.\<close>

definition unix_join :: "string \<Rightarrow> string \<Rightarrow> string" where
  "unix_join dir name =
     (if starts_with name ''/'' then name
      else if dir = [] \<or> last dir = CHR ''/'' then dir @ name
      else dir @ ''/'' @ name)"

section \<open>Commands\<close>

record command_output =
  co_status :: int
  co_stdout :: string
  co_stderr :: string
  co_timed_out :: bool

definition command_success :: "command_output \<Rightarrow> bool" where
  "command_success out \<longleftrightarrow> co_status out = 0 \<and> \<not> co_timed_out out"

definition stdout_trimmed :: "command_output \<Rightarrow> string" where
  "stdout_trimmed out = trim (co_stdout out)"

record exec_request =
  ex_program :: string
  ex_args :: "string list"
  ex_millis :: nat
  ex_dir :: "string option"
  ex_stdin :: "string option"

text \<open>What the operating system answers: the exit code is absent after a signal.\<close>

datatype child_result = SpawnFailed | WaitFailed | Exited "int option" string string | DeadlinePassed

text \<open>Code that is not in the repository: the kernel running a command, the regex crate and
  Unicode lower-casing.\<close>

record regex_options =
  rx_case_insensitive :: bool
  rx_multi_line :: bool

record externals =
  x_run :: "exec_request \<Rightarrow> guest \<Rightarrow> child_result \<times> guest"
  x_regex :: "regex_options \<Rightarrow> string \<Rightarrow> string + (string \<Rightarrow> bool)"
  x_lower :: "string \<Rightarrow> string"

definition default_timeout :: nat where
  "default_timeout = 10000"

definition run_with ::
  "externals \<Rightarrow> string \<Rightarrow> string list \<Rightarrow> nat option \<Rightarrow> string option \<Rightarrow> string option \<Rightarrow> guest
     \<Rightarrow> (string + command_output) \<times> guest" where
  "run_with X program args timeout dir stdin g =
     (let millis = (case timeout of Some ms \<Rightarrow> ms | None \<Rightarrow> default_timeout);
          (result, g') = x_run X \<lparr>ex_program = program, ex_args = args, ex_millis = millis,
                                   ex_dir = dir, ex_stdin = stdin\<rparr> g
      in ((case result of
             SpawnFailed \<Rightarrow> Inl (''could not run '' @ program)
           | WaitFailed \<Rightarrow> Inl (program @ '' failed to run'')
           | Exited code out err \<Rightarrow>
               Inr \<lparr>co_status = (case code of Some c \<Rightarrow> c | None \<Rightarrow> -1), co_stdout = out,
                    co_stderr = err, co_timed_out = False\<rparr>
           | DeadlinePassed \<Rightarrow>
               Inr \<lparr>co_status = -1, co_stdout = [],
                    co_stderr = ''timed out after '' @ dec (millis div 1000) @ ''s'',
                    co_timed_out = True\<rparr>), g'))"

definition run_command ::
  "externals \<Rightarrow> string \<Rightarrow> string list \<Rightarrow> nat option \<Rightarrow> guest \<Rightarrow> (string + command_output) \<times> guest" where
  "run_command X program args timeout = run_with X program args timeout None None"

definition run_shell ::
  "externals \<Rightarrow> string \<Rightarrow> string option \<Rightarrow> string option \<Rightarrow> nat option \<Rightarrow> guest
     \<Rightarrow> (string + command_output) \<times> guest" where
  "run_shell X command user dir timeout =
     (if user = None \<or> user = Some ''root''
      then run_with X ''/bin/bash'' [''-lc'', command] timeout dir None
      else run_with X ''runuser'' [''-u'', the user, ''--'', ''/bin/bash'', ''-lc'', command] timeout dir None)"

definition run_with_stdin ::
  "externals \<Rightarrow> string \<Rightarrow> string list \<Rightarrow> string \<Rightarrow> nat option \<Rightarrow> string option \<Rightarrow> guest
     \<Rightarrow> (string + command_output) \<times> guest" where
  "run_with_stdin X program args stdin timeout dir = run_with X program args timeout dir (Some stdin)"

definition run_in_namespace ::
  "externals \<Rightarrow> string \<Rightarrow> string \<Rightarrow> string list \<Rightarrow> nat option \<Rightarrow> guest \<Rightarrow> (string + command_output) \<times> guest" where
  "run_in_namespace X namespace program args timeout =
     run_command X ''ip'' ([''netns'', ''exec'', namespace, program] @ args) timeout"

section \<open>Users and groups\<close>

record passwd_entry =
  pw_name :: string
  pw_uid :: u32
  pw_gid :: u32
  pw_home :: string
  pw_shell :: string

definition parse_u32 :: "string \<Rightarrow> u32 option" where
  "parse_u32 s = map_option word_of_nat (parse_unsigned 10 (2 ^ 32) s)"

definition skipped_line :: "string \<Rightarrow> bool" where
  "skipped_line line \<longleftrightarrow> trim line = [] \<or> starts_with line ''#''"

definition passwd_line :: "string \<Rightarrow> passwd_entry option" where
  "passwd_line line =
     (if skipped_line line then None
      else
        let fields = split_on (\<lambda>c. c = CHR '':'') line in
        if length fields < 7 then None
        else case (parse_u32 (fields ! 2), parse_u32 (fields ! 3)) of
          (Some uid, Some gid) \<Rightarrow>
            Some \<lparr>pw_name = fields ! 0, pw_uid = uid, pw_gid = gid, pw_home = fields ! 5, pw_shell = fields ! 6\<rparr>
        | _ \<Rightarrow> None)"

definition parse_passwd :: "string \<Rightarrow> passwd_entry list" where
  "parse_passwd content = List.map_filter passwd_line (lines content)"

definition read_passwd :: "guest \<Rightarrow> passwd_entry list option" where
  "read_passwd g = map_option parse_passwd (read_to_string g ''/etc/passwd'')"

record group_entry =
  gr_name :: string
  gr_gid :: u32
  gr_members :: "string list"

definition group_line :: "string \<Rightarrow> group_entry option" where
  "group_line line =
     (if skipped_line line then None
      else
        let fields = split_on (\<lambda>c. c = CHR '':'') line in
        if length fields < 4 then None
        else case parse_u32 (fields ! 2) of
          Some gid \<Rightarrow>
            Some \<lparr>gr_name = fields ! 0, gr_gid = gid,
                  gr_members = filter (\<lambda>m. m \<noteq> []) (split_on (\<lambda>c. c = CHR '','') (fields ! 3))\<rparr>
        | None \<Rightarrow> None)"

definition parse_groups :: "string \<Rightarrow> group_entry list" where
  "parse_groups content = List.map_filter group_line (lines content)"

definition read_groups :: "guest \<Rightarrow> group_entry list option" where
  "read_groups g = map_option parse_groups (read_to_string g ''/etc/group'')"

definition find_user :: "string \<Rightarrow> passwd_entry list \<Rightarrow> passwd_entry option" where
  "find_user user entries = List.find (\<lambda>e. pw_name e = user) entries"

definition uid_for :: "guest \<Rightarrow> string \<Rightarrow> u32 option" where
  "uid_for g user = Option.bind (read_passwd g) (\<lambda>es. map_option pw_uid (find_user user es))"

definition user_for_uid :: "guest \<Rightarrow> u32 \<Rightarrow> string option" where
  "user_for_uid g uid =
     Option.bind (read_passwd g) (\<lambda>es. map_option pw_name (List.find (\<lambda>e. pw_uid e = uid) es))"

definition group_for_gid :: "guest \<Rightarrow> u32 \<Rightarrow> string option" where
  "group_for_gid g gid =
     Option.bind (read_groups g) (\<lambda>es. map_option gr_name (List.find (\<lambda>e. gr_gid e = gid) es))"

definition groups_for_user :: "guest \<Rightarrow> string \<Rightarrow> string list option" where
  "groups_for_user g user =
     Option.bind (read_passwd g) (\<lambda>passwd. Option.bind (read_groups g) (\<lambda>groups.
       let primary_gid = map_option pw_gid (find_user user passwd);
           names = map gr_name (filter (\<lambda>gr. user \<in> set (gr_members gr) \<or> Some (gr_gid gr) = primary_gid) groups)
       in Some (remdups_adj (sort names))))"

section \<open>File metadata\<close>

datatype file_kind = Regular | Directory | Symlink | Fifo | Socket | Block | CharDevice | UnknownKind

primrec kind_str :: "file_kind \<Rightarrow> string" where
  "kind_str Regular = ''regular''"
| "kind_str Directory = ''directory''"
| "kind_str Symlink = ''symlink''"
| "kind_str Fifo = ''fifo''"
| "kind_str Socket = ''socket''"
| "kind_str Block = ''block''"
| "kind_str CharDevice = ''char''"
| "kind_str UnknownKind = ''unknown''"

text \<open>The file type bits are \<^verbatim>\<open>0o170000\<close>, the permission bits \<^verbatim>\<open>0o7777\<close>.\<close>

definition kind_from_mode :: "u32 \<Rightarrow> file_kind" where
  "kind_from_mode mode =
     (let t = mode AND 0xF000 in
      if t = 0x8000 then Regular else if t = 0x4000 then Directory
      else if t = 0xA000 then Symlink else if t = 0x1000 then Fifo
      else if t = 0xC000 then Socket else if t = 0x6000 then Block
      else if t = 0x2000 then CharDevice else UnknownKind)"

record file_facts =
  ff_kind :: file_kind
  ff_permissions :: u32
  ff_size :: u64
  ff_uid :: u32
  ff_gid :: u32
  ff_inode :: u64

definition all_mode_bits :: u32 where
  "all_mode_bits = 0xFFF"

definition facts_of :: "metadata \<Rightarrow> file_facts" where
  "facts_of m =
     \<lparr>ff_kind = kind_from_mode (md_mode m), ff_permissions = md_mode m AND all_mode_bits,
      ff_size = md_size m, ff_uid = md_uid m, ff_gid = md_gid m, ff_inode = md_ino m\<rparr>"

definition lstat :: "guest \<Rightarrow> string \<Rightarrow> file_facts option" where
  "lstat g path = map_option facts_of (gu_lstat g path)"

definition stat :: "guest \<Rightarrow> string \<Rightarrow> file_facts option" where
  "stat g path = map_option facts_of (gu_stat g path)"

definition is_dir :: "guest \<Rightarrow> string \<Rightarrow> bool" where
  "is_dir g path \<longleftrightarrow> (case stat g path of Some f \<Rightarrow> ff_kind f = Directory | None \<Rightarrow> False)"

definition format_mode :: "u32 \<Rightarrow> string" where
  "format_mode mode =
     (let n = unat (mode AND all_mode_bits)
      in map digit_char [n div 512, n div 64 mod 8, n div 8 mod 8, n mod 8])"

definition parse_mode :: "json \<Rightarrow> u32 option" where
  "parse_mode j =
     (case j of
        JString s \<Rightarrow> map_option word_of_nat (parse_unsigned 8 (2 ^ 32) (strip_octal_prefix (trim s)))
      | JNumber n \<Rightarrow> map_option word_of_nat (as_u64 (JNumber n))
      | _ \<Rightarrow> None)"

section \<open>Lemmas\<close>

text \<open>A text without white space is its own trimmed form.\<close>

lemma trim_plain:
  assumes "\<forall>c\<in>set s. is_ascii c \<and> \<not> is_whitespace [c]"
  shows "trim s = s"
proof -
  have chars: "utf8_chars s = map (\<lambda>c. [c]) s" using assms by (intro utf8_chars_ascii) blast
  have drop: "dropWhile is_whitespace (map (\<lambda>c. [c]) xs) = map (\<lambda>c. [c]) xs"
    if "\<forall>c\<in>set xs. \<not> is_whitespace [c]" for xs
    using that by (cases xs) simp_all
  have "dropWhile is_whitespace (map (\<lambda>c. [c]) s) = map (\<lambda>c. [c]) s"
    "dropWhile is_whitespace (map (\<lambda>c. [c]) (rev s)) = map (\<lambda>c. [c]) (rev s)"
    using assms by (intro drop; simp)+
  then show ?thesis by (simp add: trim_def chars rev_map)
qed

lemma digit_value_plain: "digit_value c = Some d \<Longrightarrow> is_ascii c \<and> \<not> is_whitespace [c]"
  by (auto simp: digit_value_def is_ascii_digit_def is_ascii_lower_def is_ascii_upper_def
      is_ascii_def is_whitespace_def split: if_splits)

lemma radix_digits_plain:
  "radix_digits r acc s = Some v \<Longrightarrow> c \<in> set s \<Longrightarrow> is_ascii c \<and> \<not> is_whitespace [c]"
  by (induction s arbitrary: acc) (auto split: option.splits if_splits dest: digit_value_plain)

lemma plain_marks: "is_ascii (CHR ''+'')" "\<not> is_whitespace [CHR ''+'']" "is_ascii (CHR ''0'')"
  "\<not> is_whitespace [CHR ''0'']" "is_ascii (CHR ''o'')" "\<not> is_whitespace [CHR ''o'']"
  by code_simp+

lemma parse_unsigned_plain:
  assumes "parse_unsigned r b s = Some v" "c \<in> set s"
  shows "is_ascii c \<and> \<not> is_whitespace [c]"
proof (cases s)
  case (Cons d ds)
  then have "radix_digits r 0 (if d = CHR ''+'' then ds else s) = Some v"
    using assms(1) by (auto simp: parse_unsigned_def Let_def split: if_splits option.splits)
  moreover have "set s \<subseteq> insert CHR ''+'' (set (if d = CHR ''+'' then ds else s))" using Cons by auto
  ultimately obtain ws where "radix_digits r 0 ws = Some v" "set s \<subseteq> insert CHR ''+'' (set ws)" by blast
  with assms(2) show ?thesis using radix_digits_plain plain_marks by blast
qed (use assms(2) in simp)

lemma strip_octal_prefix_plain:
  "\<forall>c\<in>set (strip_octal_prefix s). is_ascii c \<and> \<not> is_whitespace [c] \<Longrightarrow>
     \<forall>c\<in>set s. is_ascii c \<and> \<not> is_whitespace [c]"
  by (induction s rule: strip_octal_prefix.induct) (auto simp: plain_marks split: if_splits)

text \<open>A mode that the registry accepts as text is one the agent reads, as the same number.\<close>

lemma parse_mode_agrees: "octal_mode s = Some n \<Longrightarrow> parse_mode (JString s) = Some (word_of_nat n)"
proof -
  assume n: "octal_mode s = Some n"
  then have "trim s = s"
    unfolding octal_mode_def using parse_unsigned_plain strip_octal_prefix_plain trim_plain by metis
  with n show ?thesis by (simp add: parse_mode_def octal_mode_def)
qed

end
