(* ===== verification/Guest_Proc.thy ===== *)
theory Guest_Proc
  imports Guest_Sys
begin

text \<open>
  The readers of \<^verbatim>\<open>/proc\<close> in guest/linuxlab-agent/src/sys.rs: processes, the learner's login shell,
  listening sockets and the figures of the diagnostics panel.
\<close>

section \<open>Processes\<close>

record process_facts =
  pr_pid :: u32
  pr_ppid :: u32
  pr_uid :: u32
  pr_cmdline :: string
  pr_comm :: string
  pr_session_id :: u32
  pr_tpgid :: int
  pr_pgrp :: u32

definition match_text :: "process_facts \<Rightarrow> string" where
  "match_text p = (if trim (pr_cmdline p) = [] then pr_comm p else pr_cmdline p)"

text \<open>\<^verbatim>\<open>str::parse::<i32>\<close>, and \<^verbatim>\<open>rfind\<close> as a search from the end.\<close>

definition parse_i32 :: "string \<Rightarrow> int option" where
  "parse_i32 s =
     (case s of
        c # cs \<Rightarrow> if c = CHR ''-'' then
            (if cs \<noteq> [] \<and> hd cs = CHR ''+'' then None
             else map_option (\<lambda>n. - int n) (parse_unsigned 10 (2 ^ 31 + 1) cs))
          else map_option int (parse_unsigned 10 (2 ^ 31) s)
      | [] \<Rightarrow> None)"

definition rposition :: "('a \<Rightarrow> bool) \<Rightarrow> 'a list \<Rightarrow> nat option" where
  "rposition p xs = map_option (\<lambda>i. length xs - Suc i) (position p (rev xs))"

definition split_proc_stat :: "string \<Rightarrow> (string \<times> string) option" where
  "split_proc_stat s =
     (case (position (\<lambda>c. c = CHR ''('') s, rposition (\<lambda>c. c = CHR '')'') s) of
        (Some open_at, Some close_at) \<Rightarrow>
          if close_at < open_at then None
          else Some (take (close_at - Suc open_at) (drop (Suc open_at) s), trim_start (drop (Suc close_at) s))
      | _ \<Rightarrow> None)"

definition nth_field :: "string list \<Rightarrow> nat \<Rightarrow> string option" where
  "nth_field cols i = (if i < length cols then Some (cols ! i) else None)"

definition parse_status_uid :: "string \<Rightarrow> u32 option" where
  "parse_status_uid status =
     Option.bind (List.find (\<lambda>line. starts_with line ''Uid:'') (lines status)) (\<lambda>line.
     Option.bind (nth_field (split_whitespace line) 1) parse_u32)"

definition proc_path :: "u32 \<Rightarrow> string \<Rightarrow> string" where
  "proc_path pid name = ''/proc/'' @ dec (unat pid) @ ''/'' @ name"

definition read_cmdline :: "guest \<Rightarrow> u32 \<Rightarrow> string" where
  "read_cmdline g pid =
     (case gu_read g (proc_path pid ''cmdline'') of
        Inr (text, _) \<Rightarrow> join '' '' (filter (\<lambda>part. part \<noteq> []) (split_on (\<lambda>c. c = CHR 0x00) text))
      | Inl _ \<Rightarrow> [])"

definition read_process :: "guest \<Rightarrow> u32 \<Rightarrow> process_facts option" where
  "read_process g pid =
     Option.bind (read_to_string g (proc_path pid ''stat'')) (\<lambda>stat_raw.
     Option.bind (split_proc_stat stat_raw) (\<lambda>(comm, rest).
       let fields = split_whitespace rest in
       Option.bind (nth_field fields 0) (\<lambda>_.
       Option.bind (nth_field fields 1) (\<lambda>ppid.
       Option.bind (nth_field fields 2) (\<lambda>pgrp.
       Option.bind (nth_field fields 3) (\<lambda>session.
       Option.bind (nth_field fields 5) (\<lambda>tpgid.
         let number = (\<lambda>s. case parse_u32 s of Some n \<Rightarrow> n | None \<Rightarrow> 0) in
         Some \<lparr>pr_pid = pid, pr_ppid = number ppid,
               pr_uid = (case Option.bind (read_to_string g (proc_path pid ''status'')) parse_status_uid of
                           Some uid \<Rightarrow> uid | None \<Rightarrow> 0),
               pr_cmdline = read_cmdline g pid, pr_comm = comm, pr_session_id = number session,
               pr_tpgid = (case parse_i32 tpgid of Some t \<Rightarrow> t | None \<Rightarrow> -1),
               pr_pgrp = number pgrp\<rparr>)))))))"

definition read_processes :: "guest \<Rightarrow> process_facts list" where
  "read_processes g =
     (case gu_dir g ''/proc'' of
        Inl _ \<Rightarrow> []
      | Inr names \<Rightarrow> List.map_filter (\<lambda>name. Option.bind (parse_u32 name) (read_process g)) names)"

definition is_shell :: "string \<Rightarrow> bool" where
  "is_shell comm \<longleftrightarrow> comm \<in> {''bash'', ''sh'', ''dash'', ''-bash''}"

text \<open>\<^verbatim>\<open>Iterator::max_by_key\<close>: of several greatest elements the last.\<close>

fun max_by_key :: "('a \<Rightarrow> 'b::linorder) \<Rightarrow> 'a list \<Rightarrow> 'a option" where
  "max_by_key f [] = None"
| "max_by_key f (x # xs) =
     (case max_by_key f xs of None \<Rightarrow> Some x | Some y \<Rightarrow> if f y < f x then Some x else Some y)"

definition find_login_shell :: "guest \<Rightarrow> string \<Rightarrow> process_facts option" where
  "find_login_shell g user =
     Option.bind (uid_for g user) (\<lambda>uid.
       let shells = filter (\<lambda>p. pr_uid p = uid \<and> is_shell (pr_comm p)) (read_processes g)
       in case List.find (\<lambda>p. pr_pid p = pr_session_id p) shells of
            Some p \<Rightarrow> Some p
          | None \<Rightarrow> max_by_key pr_pid shells)"

definition process_cwd :: "guest \<Rightarrow> u32 \<Rightarrow> string option" where
  "process_cwd g pid = gu_link g (proc_path pid ''cwd'')"

section \<open>Sockets\<close>

record socket_facts =
  so_address :: string
  so_port :: u16
  so_listening :: bool
  so_inode :: u64

definition le_octets :: "nat \<Rightarrow> nat list" where
  "le_octets n = [n mod 256, n div 256 mod 256, n div 65536 mod 256, n div 16777216 mod 256]"

fun hex_text :: "nat \<Rightarrow> string" where
  "hex_text n =
     (let digit = (\<lambda>d. if d < 10 then digit_char d else char_of (87 + d))
      in if n < 16 then [digit n] else hex_text (n div 16) @ [digit (n mod 16)])"

declare hex_text.simps [simp del]

definition hex_words :: "string \<Rightarrow> nat list option" where
  "hex_words hex =
     (let ws = map (\<lambda>w. parse_unsigned 16 (2 ^ 32) (take 8 (drop (w * 8) hex))) [0..<4]
      in if list_all (\<lambda>w. w \<noteq> None) ws then Some (map the ws) else None)"

fun pairs_text :: "nat list \<Rightarrow> string list" where
  "pairs_text (a # b # bs) = hex_text (a * 256 + b) # pairs_text bs"
| "pairs_text _ = []"

definition decode_hex_address :: "string \<Rightarrow> string" where
  "decode_hex_address hex =
     (if length hex = 8 then
        (case parse_unsigned 16 (2 ^ 32) hex of
           None \<Rightarrow> hex
         | Some raw \<Rightarrow> join ''.'' (map dec (le_octets raw)))
      else if length hex = 32 then
        (case hex_words hex of
           None \<Rightarrow> hex
         | Some ws \<Rightarrow>
             let bytes = concat (map le_octets ws) in
             if list_all (\<lambda>b. b = 0) bytes then ''::'' else join '':'' (pairs_text bytes))
      else hex)"

definition split_once :: "char \<Rightarrow> string \<Rightarrow> (string \<times> string) option" where
  "split_once c s = map_option (\<lambda>i. (take i s, drop (Suc i) s)) (position (\<lambda>d. d = c) s)"

definition socket_line :: "bool \<Rightarrow> string \<Rightarrow> socket_facts option" where
  "socket_line is_udp line =
     (let fields = split_whitespace line in
      if length fields < 10 then None
      else case split_once CHR '':'' (fields ! 1) of
        None \<Rightarrow> None
      | Some (address_hex, port_hex) \<Rightarrow>
          (case parse_unsigned 16 (2 ^ 16) port_hex of
             None \<Rightarrow> None
           | Some port \<Rightarrow>
               Some \<lparr>so_address = decode_hex_address address_hex, so_port = word_of_nat port,
                     so_listening = (is_udp \<or> eq_ignore_ascii_case (fields ! 3) ''0A''),
                     so_inode = (case parse_unsigned 10 (2 ^ 64) (fields ! 9) of
                                   Some n \<Rightarrow> word_of_nat n | None \<Rightarrow> 0)\<rparr>))"

definition parse_proc_net :: "string \<Rightarrow> bool \<Rightarrow> socket_facts list" where
  "parse_proc_net content is_udp = List.map_filter (socket_line is_udp) (drop 1 (lines content))"

definition read_sockets :: "guest \<Rightarrow> string \<Rightarrow> socket_facts list" where
  "read_sockets g protocol =
     (let files = (if protocol = ''udp'' then [''/proc/net/udp'', ''/proc/net/udp6'']
                   else [''/proc/net/tcp'', ''/proc/net/tcp6''])
      in concat (map (\<lambda>f. case read_to_string g f of
           None \<Rightarrow> [] | Some content \<Rightarrow> parse_proc_net content (protocol = ''udp'')) files))"

section \<open>System facts\<close>

definition hostname :: "guest \<Rightarrow> string" where
  "hostname g = (case read_to_string g ''/etc/hostname'' of Some s \<Rightarrow> trim s | None \<Rightarrow> ''linuxlab'')"

definition kernel_release :: "guest \<Rightarrow> string" where
  "kernel_release g = (case read_to_string g ''/proc/sys/kernel/osrelease'' of Some s \<Rightarrow> trim s | None \<Rightarrow> [])"

definition image_version :: "guest \<Rightarrow> string" where
  "image_version g = (case read_to_string g ''/opt/linuxlab/image-version'' of Some s \<Rightarrow> trim s | None \<Rightarrow> ''unknown'')"

definition meminfo_value :: "string \<Rightarrow> string \<Rightarrow> u64" where
  "meminfo_value content key =
     (case Option.bind (List.find (\<lambda>line. starts_with line key) (lines content)) (\<lambda>line.
           Option.bind (nth_field (split_whitespace line) 1) (parse_unsigned 10 (2 ^ 64))) of
        Some n \<Rightarrow> word_of_nat n | None \<Rightarrow> 0)"

definition meminfo :: "guest \<Rightarrow> u64 \<times> u64" where
  "meminfo g =
     (case read_to_string g ''/proc/meminfo'' of
        None \<Rightarrow> (0, 0)
      | Some content \<Rightarrow> (meminfo_value content ''MemTotal:'', meminfo_value content ''MemAvailable:''))"

section \<open>Lemmas\<close>

lemma position_append_skip: "\<forall>x\<in>set xs. \<not> p x \<Longrightarrow> p y \<Longrightarrow> position p (xs @ y # ys) = Some (length xs)"
  by (induction xs) auto

lemma rposition_append_skip: "\<forall>x\<in>set ys. \<not> p x \<Longrightarrow> p y \<Longrightarrow> rposition p (xs @ y # ys) = Some (length xs)"
  using position_append_skip [of "rev ys" p y "rev xs"] by (simp add: rposition_def)

lemma split_proc_stat_shape:
  assumes "CHR ''('' \<notin> set pre" "CHR '')'' \<notin> set rest"
  shows "split_proc_stat (pre @ ''('' @ comm @ '')'' @ rest) = Some (comm, trim_start rest)"
proof -
  have "position (\<lambda>c. c = CHR ''('') (pre @ CHR ''('' # comm @ CHR '')'' # rest) = Some (length pre)"
    using assms(1) by (intro position_append_skip) auto
  moreover have "rposition (\<lambda>c. c = CHR '')'') ((pre @ CHR ''('' # comm) @ CHR '')'' # rest)
      = Some (length (pre @ CHR ''('' # comm))"
    using assms(2) by (intro rposition_append_skip) auto
  ultimately show ?thesis by (simp add: split_proc_stat_def)
qed

text \<open>A name field cannot be forged: the fields after the comm field do not depend on what a
  process calls itself.\<close>

lemma max_by_key_Some: "max_by_key f xs = Some x \<Longrightarrow> x \<in> set xs \<and> (\<forall>y\<in>set xs. f y \<le> f x)"
proof (induction xs arbitrary: x)
  case (Cons z zs)
  show ?case
  proof (cases "max_by_key f zs")
    case None
    then have "zs = []" by (cases zs) (auto split: option.splits if_splits)
    with Cons.prems show ?thesis by simp
  next
    case (Some y)
    with Cons.IH have "y \<in> set zs" "\<forall>w\<in>set zs. f w \<le> f y" by blast+
    with Some Cons.prems show ?thesis by (auto split: if_splits intro: order.trans less_imp_le)
  qed
qed simp

lemma max_by_key_None [simp]: "max_by_key f xs = None \<longleftrightarrow> xs = []"
  by (cases xs) (auto split: option.splits if_splits)

lemma find_login_shell_Some:
  assumes "find_login_shell g user = Some p"
  shows "p \<in> set (read_processes g)" "uid_for g user = Some (pr_uid p)" "is_shell (pr_comm p)"
proof -
  obtain uid where uid: "uid_for g user = Some uid" using assms by (cases "uid_for g user") (auto simp: find_login_shell_def)
  let ?shells = "filter (\<lambda>p. pr_uid p = uid \<and> is_shell (pr_comm p)) (read_processes g)"
  have "p \<in> set ?shells"
  proof (cases "List.find (\<lambda>p. pr_pid p = pr_session_id p) ?shells")
    case None
    with assms uid have "max_by_key pr_pid ?shells = Some p" by (simp add: find_login_shell_def Let_def)
    then show ?thesis by (rule max_by_key_Some [THEN conjunct1])
  next
    case (Some q)
    with assms uid have "q = p" by (simp add: find_login_shell_def Let_def)
    with find_SomeD [OF Some] show ?thesis by blast
  qed
  with uid show "p \<in> set (read_processes g)" "uid_for g user = Some (pr_uid p)" "is_shell (pr_comm p)" by auto
qed

text \<open>The little-endian word of an IPv4 address.\<close>

lemma le_octets_value:
  assumes "a < 256" "b < 256" "c < 256" "d < 256"
  shows "le_octets (a + 256 * (b + 256 * (c + 256 * d))) = [a, b, c, d]"
proof -
  have s: "(x + 256 * y) mod 256 = x" "(x + 256 * y) div 256 = y" if "x < 256" for x y :: nat
    using that by simp_all
  have "n div 65536 = n div 256 div 256" "n div 16777216 = n div 256 div 256 div 256" for n :: nat
    by (simp_all add: div_mult2_eq [symmetric])
  with assms show ?thesis by (simp only: le_octets_def s mod_less)
qed

section \<open>Properties\<close>

text \<open>A process cannot forge its status line. Whatever name it gives itself, spaces and closing
  parentheses included, the fields after the name are read from the right place, as long as they
  are the kernel's numbers and letters.\<close>

theorem process_name_cannot_forge_fields:
  assumes "CHR ''('' \<notin> set before" and "CHR '')'' \<notin> set after"
  shows "split_proc_stat (before @ ''('' @ name @ '')'' @ after) = Some (name, trim_start after)"
  using assms by (rule split_proc_stat_shape)

lemma process_name_cannot_forge_fields_witness:
  "split_proc_stat ''42 (evil) 1 (x) S 1 42'' = Some (''evil) 1 (x'', ''S 1 42'')"
proof -
  have "trim_start '' S 1 42'' = ''S 1 42''" by code_simp
  with process_name_cannot_forge_fields [of "''42 ''" "'' S 1 42''" "''evil) 1 (x''"] show ?thesis by simp
qed

end
