(* ===== verification/Guest_Args.thy ===== *)
theory Guest_Args
  imports Guest_Proc Validation
begin

text \<open>
  The parameters of a validator as the agent reads them
  (guest/linuxlab-agent/src/validators/args.rs) and the context of a request with the lesson's
  folder (validators/mod.rs). The laws every validator relies on, and what the author's overrides
  may change in an outcome.
\<close>

section \<open>Text\<close>

text \<open>\<^verbatim>\<open>str::contains\<close>, \<^verbatim>\<open>trim_matches('.')\<close>, \<^verbatim>\<open>trim_end_matches\<close>, \<^verbatim>\<open>trim_end\<close>.\<close>

definition has_text :: "string \<Rightarrow> string \<Rightarrow> bool" where
  "has_text text needle \<longleftrightarrow> sublist needle text"

definition trim_char :: "char \<Rightarrow> string \<Rightarrow> string" where
  "trim_char c s = rev (dropWhile (\<lambda>d. d = c) (rev (dropWhile (\<lambda>d. d = c) s)))"

definition trim_char_end :: "char \<Rightarrow> string \<Rightarrow> string" where
  "trim_char_end c s = rev (dropWhile (\<lambda>d. d = c) (rev s))"

definition trim_end :: "string \<Rightarrow> string" where
  "trim_end s = concat (rev (dropWhile is_whitespace (rev (utf8_chars s))))"

definition nonempty_lines :: "string \<Rightarrow> string list" where
  "nonempty_lines s = filter (\<lambda>l. l \<noteq> []) (map trim (lines s))"

definition or_text :: "string list \<Rightarrow> string \<Rightarrow> string \<Rightarrow> string" where
  "or_text items sep fallback = (if items = [] then fallback else join sep items)"

text \<open>The characters a name from a lesson package may keep; every other byte is dropped.\<close>

definition kept_char :: "char \<Rightarrow> bool" where
  "kept_char c \<longleftrightarrow> is_ascii_alphanumeric c \<or> c = CHR ''-'' \<or> c = CHR ''_'' \<or> c = CHR ''.''"

definition safe_component :: "string \<Rightarrow> string" where
  "safe_component s = trim_char CHR ''.'' (filter kept_char s)"

section \<open>Context\<close>

record ctx =
  cx_subject_user :: string
  cx_attempt_started_at :: "int option"
  cx_default_namespace :: "string option"
  cx_lesson_root :: string

definition lesson_root_for :: "string \<Rightarrow> string" where
  "lesson_root_for lid =
     (let safe = safe_component lid
      in unix_join ''/opt/linuxlab/lessons'' (if safe = [] then ''unknown'' else safe))"

definition ctx_new :: "string \<Rightarrow> string \<Rightarrow> ctx" where
  "ctx_new subject lid =
     \<lparr>cx_subject_user = subject, cx_attempt_started_at = None, cx_default_namespace = None,
      cx_lesson_root = lesson_root_for lid\<rparr>"

definition namespace_for :: "ctx \<Rightarrow> validator \<Rightarrow> string option" where
  "namespace_for cx v = (case str_param v ''namespace'' of Some s \<Rightarrow> Some s | None \<Rightarrow> cx_default_namespace cx)"

definition attempt_since_expression :: "ctx \<Rightarrow> string" where
  "attempt_since_expression cx =
     (case cx_attempt_started_at cx of Some seconds \<Rightarrow> ''@'' @ dec_int seconds | None \<Rightarrow> ''-10min'')"

section \<open>Parameters\<close>

type_synonym 'a arg_result = "check_outcome + 'a"

definition missing_arg :: "validator \<Rightarrow> string \<Rightarrow> check_outcome" where
  "missing_arg v param =
     outcome_error (v_kind v) (''internal error: validator '' @ quoted (v_kind v)
       @ '' reached the agent without its '' @ quoted param @ '' parameter'')"

definition arg_string :: "validator \<Rightarrow> string \<Rightarrow> string arg_result" where
  "arg_string v param = (case str_param v param of Some s \<Rightarrow> Inr s | None \<Rightarrow> Inl (missing_arg v param))"

definition arg_path :: "validator \<Rightarrow> string \<Rightarrow> string arg_result" where
  "arg_path v param = arg_string v param"

definition arg_flag :: "validator \<Rightarrow> string \<Rightarrow> bool" where
  "arg_flag v param = (case bool_param v param of Some b \<Rightarrow> b | None \<Rightarrow> False)"

definition arg_flag_or :: "validator \<Rightarrow> string \<Rightarrow> bool \<Rightarrow> bool" where
  "arg_flag_or v param fallback = (case bool_param v param of Some b \<Rightarrow> b | None \<Rightarrow> fallback)"

definition optional_string :: "validator \<Rightarrow> string \<Rightarrow> string option" where
  "optional_string v param = str_param v param"

definition optional_integer :: "validator \<Rightarrow> string \<Rightarrow> int option" where
  "optional_integer v param = i64_param v param"

definition arg_string_list :: "validator \<Rightarrow> string \<Rightarrow> string list arg_result" where
  "arg_string_list v param =
     (case Option.bind (bt_get (v_params v) param) as_array of
        None \<Rightarrow> Inl (missing_arg v param)
      | Some items \<Rightarrow> Inr (List.map_filter as_str items))"

text \<open>In milliseconds, capped at two minutes.\<close>

definition arg_timeout :: "validator \<Rightarrow> nat option" where
  "arg_timeout v =
     (case i64_param v ''timeoutMs'' of
        Some ms \<Rightarrow> if 0 < ms then Some (min (nat ms) 120000) else None
      | None \<Rightarrow> None)"

record bounds =
  bd_equals :: "int option"
  bd_min :: "int option"
  bd_max :: "int option"

definition bounds_read :: "validator \<Rightarrow> bounds" where
  "bounds_read v =
     \<lparr>bd_equals = i64_param v ''equals'', bd_min = i64_param v ''min'', bd_max = i64_param v ''max''\<rparr>"

definition satisfied_by :: "bounds \<Rightarrow> int \<Rightarrow> bool" where
  "satisfied_by b actual =
     (if (case bd_equals b of Some e \<Rightarrow> actual \<noteq> e | None \<Rightarrow> False) then False
      else if (case bd_min b of Some m \<Rightarrow> actual < m | None \<Rightarrow> False) then False
      else if (case bd_max b of Some m \<Rightarrow> m < actual | None \<Rightarrow> False) then False
      else True)"

definition bounds_describe :: "bounds \<Rightarrow> string" where
  "bounds_describe b =
     (case (bd_equals b, bd_min b, bd_max b) of
        (Some e, _, _) \<Rightarrow> ''exactly '' @ dec_int e
      | (None, Some lo, Some hi) \<Rightarrow> ''between '' @ dec_int lo @ '' and '' @ dec_int hi
      | (None, Some lo, None) \<Rightarrow> ''at least '' @ dec_int lo
      | (None, None, Some hi) \<Rightarrow> ''at most '' @ dec_int hi
      | (None, None, None) \<Rightarrow> ''any value'')"

text \<open>
  The \<^verbatim>\<open>arg!\<close> macro: an error outcome is returned as the result of the validator. \<open>with_arg_at\<close> is
  the same for a validator that runs commands.
\<close>

definition with_arg :: "'a arg_result \<Rightarrow> ('a \<Rightarrow> check_outcome) \<Rightarrow> check_outcome" where
  "with_arg r f = (case r of Inl c \<Rightarrow> c | Inr x \<Rightarrow> f x)"

definition with_arg_at ::
  "'a arg_result \<Rightarrow> ('a \<Rightarrow> guest \<Rightarrow> check_outcome \<times> guest) \<Rightarrow> guest \<Rightarrow> check_outcome \<times> guest" where
  "with_arg_at r f g = (case r of Inl c \<Rightarrow> (c, g) | Inr x \<Rightarrow> f x g)"

text \<open>Running a command and turning a failure to run it into an error outcome.\<close>

definition with_output ::
  "string \<Rightarrow> (string + command_output) \<times> guest \<Rightarrow> (command_output \<Rightarrow> check_outcome) \<Rightarrow> check_outcome \<times> guest" where
  "with_output kind result f =
     (case result of (Inl err, g) \<Rightarrow> (outcome_error kind err, g) | (Inr out, g) \<Rightarrow> (f out, g))"

section \<open>Overrides\<close>

definition override_failure :: "validator \<Rightarrow> check_outcome \<Rightarrow> check_outcome" where
  "override_failure v c =
     (let c = (case str_param v ''message'' of Some m \<Rightarrow> c\<lparr>o_message := m\<rparr> | None \<Rightarrow> c)
      in case Option.bind (str_param v ''failureCategory'') parse_failure_category of
           Some category \<Rightarrow> c\<lparr>o_failure_category := Some category\<rparr>
         | None \<Rightarrow> c)"

definition apply_overrides :: "validator \<Rightarrow> check_outcome \<Rightarrow> check_outcome" where
  "apply_overrides v c =
     (let c = (if \<not> o_passed c \<and> \<not> o_errored c then override_failure v c else c)
      in case i64_param v ''weight'' of
           Some w \<Rightarrow> c\<lparr>o_weight := word_of_int (max 1 (min 100 w))\<rparr>
         | None \<Rightarrow> c)"

section \<open>Lemmas\<close>

named_theorems outcome_checks \<open>what an outcome says about its check\<close>

lemma outcome_fields [simp]:
  "o_passed (outcome_pass k m) = True" "o_errored (outcome_pass k m) = False" "o_weight (outcome_pass k m) = 1"
  "o_passed (outcome_fail k m c) = False" "o_errored (outcome_fail k m c) = False" "o_weight (outcome_fail k m c) = 1"
  "o_passed (outcome_error k m) = False" "o_errored (outcome_error k m) = True" "o_weight (outcome_error k m) = 1"
  "o_passed (with_observed s c') = o_passed c'" "o_errored (with_observed s c') = o_errored c'"
  "o_weight (with_observed s c') = o_weight c'"
  "o_passed (with_expected s c') = o_passed c'" "o_errored (with_expected s c') = o_errored c'"
  "o_weight (with_expected s c') = o_weight c'"
  "wf_outcome (missing_arg v p)" "o_passed (missing_arg v p) = False" "o_errored (missing_arg v p) = True"
  "o_weight (missing_arg v p) = 1"
  by (simp_all add: outcome_pass_def outcome_fail_def outcome_error_def with_observed_def
      with_expected_def missing_arg_def wf_outcome_def)

lemma arg_results:
  "arg_string v p = Inl c \<Longrightarrow> c = missing_arg v p \<and> str_param v p = None"
  "arg_string v p = Inr s \<Longrightarrow> str_param v p = Some s"
  "arg_string_list v p = Inl c \<Longrightarrow> c = missing_arg v p"
  by (auto simp: arg_string_def arg_string_list_def split: option.splits)

text \<open>What every validator returns before the overrides: well formed, with weight one.\<close>

definition fresh :: "check_outcome \<Rightarrow> bool" where
  "fresh c \<longleftrightarrow> wf_outcome c \<and> o_weight c = 1"

lemma fresh_outcomes [simp]:
  "fresh (outcome_pass k m)" "fresh (outcome_fail k m c)" "fresh (outcome_error k m)" "fresh (missing_arg v p)"
  "fresh c' \<Longrightarrow> fresh (with_observed s c')" "fresh c' \<Longrightarrow> fresh (with_expected s c')"
  by (auto simp: fresh_def)

lemma arg_errors_fresh [simp]:
  "arg_string v p = Inl c \<Longrightarrow> fresh c" "arg_path v p = Inl c \<Longrightarrow> fresh c" "arg_string_list v p = Inl c \<Longrightarrow> fresh c"
  by (auto simp: arg_path_def dest!: arg_results)

lemma fresh_with_arg [simp]:
  "(\<And>c. r = Inl c \<Longrightarrow> fresh c) \<Longrightarrow> (\<And>x. r = Inr x \<Longrightarrow> fresh (f x)) \<Longrightarrow> fresh (with_arg r f)"
  by (cases r) (simp_all add: with_arg_def)

lemma fresh_with_arg_at [simp]:
  "(\<And>c. r = Inl c \<Longrightarrow> fresh c) \<Longrightarrow> (\<And>x. r = Inr x \<Longrightarrow> fresh (fst (f x g))) \<Longrightarrow> fresh (fst (with_arg_at r f g))"
  by (cases r) (simp_all add: with_arg_at_def)

lemma fresh_with_output [simp]:
  "(\<And>out g. res = (Inr out, g) \<Longrightarrow> fresh (f out)) \<Longrightarrow> fresh (fst (with_output k res f))"
  by (cases res) (auto simp: with_output_def split: sum.splits)

text \<open>The same for each way to put an outcome together; what is left are the outcomes a \<open>let\<close> names.\<close>

named_theorems fresh_intros \<open>outcomes that are fresh by their shape\<close>

lemmas [fresh_intros] = fresh_outcomes fresh_with_output

lemma fresh_arguments [fresh_intros]:
  "(\<And>x. arg_string v p = Inr x \<Longrightarrow> fresh (f x)) \<Longrightarrow> fresh (with_arg (arg_string v p) f)"
  "(\<And>x. arg_path v p = Inr x \<Longrightarrow> fresh (f x)) \<Longrightarrow> fresh (with_arg (arg_path v p) f)"
  "(\<And>xs. arg_string_list v p = Inr xs \<Longrightarrow> fresh (h xs)) \<Longrightarrow> fresh (with_arg (arg_string_list v p) h)"
  "(\<And>x. arg_string v p = Inr x \<Longrightarrow> fresh (fst (k x g))) \<Longrightarrow> fresh (fst (with_arg_at (arg_string v p) k g))"
  "(\<And>x. arg_path v p = Inr x \<Longrightarrow> fresh (fst (k x g))) \<Longrightarrow> fresh (fst (with_arg_at (arg_path v p) k g))"
  by simp_all

lemma fresh_cases [fresh_intros]:
  "fresh a \<Longrightarrow> fresh b \<Longrightarrow> fresh (if c then a else b)"
  "(x = None \<Longrightarrow> fresh a) \<Longrightarrow> (\<And>y. x = Some y \<Longrightarrow> fresh (f y)) \<Longrightarrow> fresh (case x of None \<Rightarrow> a | Some y \<Rightarrow> f y)"
  "(\<And>l. r = Inl l \<Longrightarrow> fresh (h l)) \<Longrightarrow> (\<And>y. r = Inr y \<Longrightarrow> fresh (k y)) \<Longrightarrow> fresh (case r of Inl l \<Rightarrow> h l | Inr y \<Rightarrow> k y)"
  "(\<And>y z. q = (y, z) \<Longrightarrow> fresh (m y z)) \<Longrightarrow> fresh (case q of (y, z) \<Rightarrow> m y z)"
  "(\<And>y. y = t \<Longrightarrow> fresh (n y)) \<Longrightarrow> fresh (let y = t in n y)"
  by (simp_all split: option.split sum.split prod.split)

lemma fresh_fst_cases [fresh_intros]:
  "fresh (fst a) \<Longrightarrow> fresh (fst b) \<Longrightarrow> fresh (fst (if c then a else b))"
  "(x = None \<Longrightarrow> fresh (fst a)) \<Longrightarrow> (\<And>y. x = Some y \<Longrightarrow> fresh (fst (f y))) \<Longrightarrow> fresh (fst (case x of None \<Rightarrow> a | Some y \<Rightarrow> f y))"
  "(\<And>l. r = Inl l \<Longrightarrow> fresh (fst (h l))) \<Longrightarrow> (\<And>y. r = Inr y \<Longrightarrow> fresh (fst (k y))) \<Longrightarrow>
     fresh (fst (case r of Inl l \<Rightarrow> h l | Inr y \<Rightarrow> k y))"
  "(\<And>y z. q = (y, z) \<Longrightarrow> fresh (fst (m y z))) \<Longrightarrow> fresh (fst (case q of (y, z) \<Rightarrow> m y z))"
  "(\<And>y. y = t \<Longrightarrow> fresh (fst (n y))) \<Longrightarrow> fresh (fst (let y = t in n y))"
  "fresh d \<Longrightarrow> fresh (fst (d, g))"
  by (simp_all split: option.split sum.split prod.split)

text \<open>A dispatch is a chain of comparisons with the names of the validators.\<close>

lemma dispatch_elim:
  "(if k then Some q else rest) = Some r \<Longrightarrow> fresh (fst q) \<Longrightarrow> (rest = Some r \<Longrightarrow> fresh (fst r)) \<Longrightarrow> fresh (fst r)"
  by (simp split: if_splits)

text \<open>When a validator with parameters passes.\<close>

lemma passed_with_arg [outcome_checks]:
  "(\<And>c. r = Inl c \<Longrightarrow> \<not> o_passed c) \<Longrightarrow>
     o_passed (with_arg r f) \<longleftrightarrow> (\<exists>x. r = Inr x \<and> o_passed (f x))"
  by (cases r) (simp_all add: with_arg_def)

lemma arg_errors_fail [simp]:
  "arg_string v p = Inl c \<Longrightarrow> \<not> o_passed c" "arg_path v p = Inl c \<Longrightarrow> \<not> o_passed c"
  "arg_string_list v p = Inl c \<Longrightarrow> \<not> o_passed c"
  by (auto simp: arg_path_def dest!: arg_results)

lemma arg_Inr_iff [outcome_checks]:
  "arg_string v p = Inr s \<longleftrightarrow> str_param v p = Some s"
  "arg_path v p = Inr s \<longleftrightarrow> str_param v p = Some s"
  "arg_string_list v p = Inr ss \<longleftrightarrow> (\<exists>js. bt_get (v_params v) p = Some (JArray js) \<and> ss = List.map_filter as_str js)"
  by (auto simp: arg_path_def arg_string_def arg_string_list_def bind_eq_Some_conv split: option.splits)

lemma satisfied_by_iff:
  "satisfied_by b n \<longleftrightarrow>
     bd_equals b \<in> {None, Some n} \<and> (case bd_min b of None \<Rightarrow> True | Some m \<Rightarrow> m \<le> n)
     \<and> (case bd_max b of None \<Rightarrow> True | Some m \<Rightarrow> n \<le> m)"
  by (auto simp: satisfied_by_def split: option.splits)

lemma override_failure_keeps [simp]:
  "o_passed (override_failure v c) = o_passed c" "o_errored (override_failure v c) = o_errored c"
  "o_weight (override_failure v c) = o_weight c"
  by (auto simp: override_failure_def Let_def split: option.splits)

lemma apply_overrides_keeps [simp]:
  "o_passed (apply_overrides v c) = o_passed c" "o_errored (apply_overrides v c) = o_errored c"
  by (auto simp: apply_overrides_def Let_def split: option.splits)

lemma weight_clamp: "unat (word_of_int (max 1 (min 100 w)) :: u32) = nat (max 1 (min 100 w))"
proof -
  have "uint (word_of_int (max 1 (min 100 w)) :: u32) = max 1 (min 100 w) mod 2 ^ 32"
    by (simp add: uint_word_of_int)
  also have "\<dots> = max 1 (min 100 w)" by (rule mod_pos_pos_trivial) auto
  finally show ?thesis by (simp only: unat_eq_nat_uint)
qed

lemma apply_overrides_weight:
  assumes "o_weight c = 1"
  shows "1 \<le> unat (o_weight (apply_overrides v c)) \<and> unat (o_weight (apply_overrides v c)) \<le> 100"
proof (cases "i64_param v ''weight''")
  case (Some w)
  have "o_weight (apply_overrides v c) = word_of_int (max 1 (min 100 w))"
    by (simp add: apply_overrides_def Let_def Some)
  then show ?thesis by (simp only: weight_clamp) auto
qed (auto simp: apply_overrides_def Let_def assms)

lemma wf_apply_overrides: "wf_outcome c \<Longrightarrow> o_weight c = 1 \<Longrightarrow> wf_outcome (apply_overrides v c)"
proof -
  assume wf: "wf_outcome c" and w: "o_weight c = 1"
  have "0 < o_weight (apply_overrides v c)" using apply_overrides_weight [OF w, of v] by (simp add: unat_gt_0 [symmetric] word_gt_0)
  moreover have "o_passed (apply_overrides v c) \<Longrightarrow> o_failure_category (apply_overrides v c) = None"
    using wf by (auto simp: apply_overrides_def wf_outcome_def Let_def split: option.splits if_splits)
  ultimately show ?thesis using wf by (simp add: wf_outcome_def)
qed

text \<open>A sanitised name is a single path component below the folder it is joined to.\<close>

lemma safe_component_chars: "list_all kept_char (safe_component s)"
  by (auto simp: safe_component_def trim_char_def list_all_iff dest!: set_dropWhileD)

lemma dropWhile_end: "dropWhile p xs \<noteq> [] \<Longrightarrow> \<not> p (hd (dropWhile p xs))"
  using hd_dropWhile by blast

lemma trim_char_ends: "trim_char c s \<noteq> [] \<Longrightarrow> last (trim_char c s) \<noteq> c"
  using dropWhile_end [where p = "\<lambda>d. d = c"] by (auto simp: trim_char_def last_rev simp del: dropWhile_eq_Nil_conv)

lemma safe_component_no_slash: "CHR ''/'' \<notin> set (safe_component s)"
proof -
  have "\<not> kept_char CHR ''/''" by code_simp
  with safe_component_chars [of s] show ?thesis by (auto simp: list_all_iff)
qed

lemma lesson_root_below:
  "\<exists>name. lesson_root_for lid = ''/opt/linuxlab/lessons/'' @ name \<and> name \<noteq> [] \<and> CHR ''/'' \<notin> set name
     \<and> last name \<noteq> CHR ''.''"
proof -
  let ?safe = "safe_component lid"
  have "\<not> starts_with ?safe ''/''" using safe_component_no_slash [of lid] by (cases ?safe) (auto simp: starts_with_def)
  moreover have "?safe \<noteq> [] \<Longrightarrow> last ?safe \<noteq> CHR ''.''" by (simp add: safe_component_def trim_char_ends)
  ultimately show ?thesis using safe_component_no_slash [of lid]
    by (cases "?safe = []") (auto simp: lesson_root_for_def unix_join_def starts_with_def Let_def)
qed

end
