(* ===== verification/Guest_Files.thy ===== *)
theory Guest_Files
  imports Guest_Args
begin

text \<open>
  The filesystem validators (guest/linuxlab-agent/src/validators/filesystem.rs). Each inspects the
  snapshot of the guest; \<open>file_checksum\<close> runs \<^verbatim>\<open>sha256sum\<close>. \<open>io_reason\<close> is the text of an error.
\<close>

section \<open>Paths\<close>

text \<open>\<^verbatim>\<open>Path::parent\<close>: trailing separators and dots are no components.\<close>

fun strip_tail :: "string \<Rightarrow> string" where
  "strip_tail (c # cs) =
     (if c = CHR ''/'' then strip_tail cs
      else if c = CHR ''.'' \<and> cs \<noteq> [] \<and> hd cs = CHR ''/'' then strip_tail cs
      else c # cs)"
| "strip_tail [] = []"

definition unix_parent :: "string \<Rightarrow> string option" where
  "unix_parent path =
     (let r = strip_tail (rev path) in
      if r = [] then None
      else let rest = dropWhile (\<lambda>c. c \<noteq> CHR ''/'') r in
           if rest = [] then Some []
           else let q = strip_tail rest in Some (if q = [] then ''/'' else rev q))"

text \<open>Equality of paths compares components.\<close>

definition unix_components :: "string \<Rightarrow> bool \<times> string list" where
  "unix_components path =
     (let absolute = starts_with path ''/'';
          parts = filter (\<lambda>p. p \<noteq> []) (split_on (\<lambda>c. c = CHR ''/'') path)
      in (absolute,
          if \<not> absolute \<and> parts \<noteq> [] \<and> hd parts = ''.'' then ''.'' # filter (\<lambda>p. p \<noteq> ''.'') parts
          else filter (\<lambda>p. p \<noteq> ''.'') parts))"

definition same_path :: "string \<Rightarrow> string \<Rightarrow> bool" where
  "same_path a b \<longleftrightarrow> unix_components a = unix_components b"

lemma strip_tail_length: "length (strip_tail s) \<le> length s"
  by (induction s rule: strip_tail.induct) auto

lemma unix_parent_shorter: "unix_parent path = Some p \<Longrightarrow> length p < length path"
proof -
  assume p: "unix_parent path = Some p"
  let ?r = "strip_tail (rev path)"
  let ?rest = "dropWhile (\<lambda>c. c \<noteq> CHR ''/'') ?r"
  have r: "?r \<noteq> []" "length ?r \<le> length path"
    using p strip_tail_length [of "rev path"] by (auto simp: unix_parent_def)
  have hd: "strip_tail s = [] \<or> hd (strip_tail s) \<noteq> CHR ''/''" for s
    by (induction s rule: strip_tail.induct) auto
  obtain c cs where c: "?r = c # cs" "c \<noteq> CHR ''/''" using r(1) hd [of "rev path"] by (cases ?r) auto
  then have "?rest = dropWhile (\<lambda>c. c \<noteq> CHR ''/'') cs" by simp
  with c(1) have rest: "length ?rest < length ?r" by (simp only: length_dropWhile_le length_Cons less_Suc_eq_le)
  show ?thesis
  proof (cases "?rest = []")
    case True
    with p r(1) have "p = []" by (simp only: unix_parent_def Let_def if_False if_True option.inject simp_thms)
    with r show ?thesis by (simp only: length_greater_0_conv [symmetric] list.size)
  next
    case False
    with p r(1) have "p = (if strip_tail ?rest = [] then ''/'' else rev (strip_tail ?rest))"
      by (simp only: unix_parent_def Let_def if_False option.inject simp_thms)
    then have "length p \<le> max 1 (length ?rest)" using strip_tail_length [of ?rest] by (cases "strip_tail ?rest = []") simp_all
    moreover from False have "1 \<le> length ?rest" by (cases ?rest) auto
    ultimately show ?thesis using r(2) rest by linarith
  qed
qed

function deepest_dir :: "guest \<Rightarrow> string \<Rightarrow> string option" where
  "deepest_dir g current =
     (if is_dir g current then Some current
      else case unix_parent current of None \<Rightarrow> None | Some p \<Rightarrow> deepest_dir g p)"
  by pat_completeness auto
termination deepest_dir
  by (relation "measure (\<lambda>(g, p). length p)") (auto intro: unix_parent_shorter)

declare deepest_dir.simps [simp del]

definition deepest_existing_parent :: "guest \<Rightarrow> string \<Rightarrow> string option" where
  "deepest_existing_parent g path = Option.bind (unix_parent path) (deepest_dir g)"

section \<open>Existence and kind\<close>

definition wrong_path :: "validator \<Rightarrow> string \<Rightarrow> check_outcome" where
  "wrong_path v message = outcome_fail (v_kind v) message WrongPath"

definition file_exists :: "guest \<Rightarrow> validator \<Rightarrow> check_outcome" where
  "file_exists g v =
     with_arg (arg_path v ''path'') (\<lambda>path.
       case stat g path of
         Some facts \<Rightarrow>
           if ff_kind facts = Regular then outcome_pass (v_kind v) (path @ '' exists.'')
           else with_observed (kind_str (ff_kind facts)) (with_expected ''regular file''
             (outcome_fail (v_kind v) (path @ '' exists but is a '' @ kind_str (ff_kind facts) @ '', not a file.'')
                WrongFileType))
       | None \<Rightarrow> wrong_path v (path @ '' does not exist.''))"

definition file_missing :: "guest \<Rightarrow> validator \<Rightarrow> check_outcome" where
  "file_missing g v =
     with_arg (arg_path v ''path'') (\<lambda>path.
       if lstat g path = None then outcome_pass (v_kind v) (path @ '' is gone.'')
       else outcome_fail (v_kind v) (path @ '' still exists.'') FileAlreadyExists)"

definition directory_exists :: "guest \<Rightarrow> validator \<Rightarrow> check_outcome" where
  "directory_exists g v =
     with_arg (arg_path v ''path'') (\<lambda>path.
       case stat g path of
         Some facts \<Rightarrow>
           if ff_kind facts = Directory then outcome_pass (v_kind v) (''The directory '' @ path @ '' exists.'')
           else with_observed (kind_str (ff_kind facts)) (with_expected ''directory''
             (outcome_fail (v_kind v)
                (path @ '' exists but is a '' @ kind_str (ff_kind facts) @ '', not a directory.'') WrongFileType))
       | None \<Rightarrow>
           let hint = (case deepest_existing_parent g path of
                 Some p \<Rightarrow> '' The closest existing directory is '' @ p @ ''.'' | None \<Rightarrow> [])
           in wrong_path v (''The directory '' @ path @ '' does not exist.'' @ hint))"

definition directory_missing :: "guest \<Rightarrow> validator \<Rightarrow> check_outcome" where
  "directory_missing g v =
     with_arg (arg_path v ''path'') (\<lambda>path.
       if (case lstat g path of Some facts \<Rightarrow> ff_kind facts = Directory | None \<Rightarrow> False)
       then outcome_fail (v_kind v) (''The directory '' @ path @ '' still exists.'') FileAlreadyExists
       else outcome_pass (v_kind v) (path @ '' is not a directory.''))"

definition symbolic_link_exists :: "guest \<Rightarrow> validator \<Rightarrow> check_outcome" where
  "symbolic_link_exists g v =
     with_arg (arg_path v ''path'') (\<lambda>path.
       case lstat g path of
         None \<Rightarrow> wrong_path v (path @ '' does not exist.'')
       | Some facts \<Rightarrow>
           if ff_kind facts \<noteq> Symlink then
             with_observed (kind_str (ff_kind facts)) (with_expected ''symbolic link''
               (outcome_fail (v_kind v)
                  (path @ '' exists but is a '' @ kind_str (ff_kind facts) @ '', not a symbolic link.'') WrongFileType))
           else case optional_string v ''target'' of
             None \<Rightarrow> outcome_pass (v_kind v) (path @ '' is a symbolic link.'')
           | Some expected_target \<Rightarrow>
               (case (if arg_flag v ''resolved'' then gu_canon g path else gu_link g path) of
                  Some actual \<Rightarrow>
                    if actual = expected_target
                    then outcome_pass (v_kind v) (path @ '' points at '' @ expected_target @ ''.'')
                    else with_observed actual (with_expected expected_target
                      (outcome_fail (v_kind v) (path @ '' points somewhere else.'') WrongPath))
                | None \<Rightarrow> outcome_fail (v_kind v) (path @ '' is a broken symbolic link.'') WrongPath))"

definition hard_link_exists :: "guest \<Rightarrow> validator \<Rightarrow> check_outcome" where
  "hard_link_exists g v =
     with_arg (arg_path v ''path'') (\<lambda>path. with_arg (arg_path v ''linkTo'') (\<lambda>link_to.
       case (lstat g path, lstat g link_to) of
         (Some a, Some b) \<Rightarrow>
           if ff_inode a = ff_inode b
           then outcome_pass (v_kind v) (path @ '' and '' @ link_to @ '' are the same file (inode ''
                  @ dec (unat (ff_inode a)) @ '').'')
           else with_observed (''inodes '' @ dec (unat (ff_inode a)) @ '' and '' @ dec (unat (ff_inode b)))
             (with_expected ''one shared inode''
               (outcome_fail (v_kind v) (path @ '' and '' @ link_to
                  @ '' are separate files rather than hard links to one inode. A copy is not a link.'') WrongFileType))
       | _ \<Rightarrow> wrong_path v (path @ '' and '' @ link_to @ '' must both exist for a hard link to be checked.'')))"

definition file_type :: "guest \<Rightarrow> validator \<Rightarrow> check_outcome" where
  "file_type g v =
     with_arg (arg_path v ''path'') (\<lambda>path. with_arg (arg_string v ''fileType'') (\<lambda>expected.
       case (if expected = ''symlink'' then lstat g path else stat g path) of
         Some facts \<Rightarrow>
           if kind_str (ff_kind facts) = expected
           then outcome_pass (v_kind v) (path @ '' is a '' @ expected @ ''.'')
           else with_observed (kind_str (ff_kind facts)) (with_expected expected
             (outcome_fail (v_kind v) (path @ '' is the wrong kind of object.'') WrongFileType))
       | None \<Rightarrow> wrong_path v (path @ '' does not exist.'')))"

section \<open>Size, owner, group and mode\<close>

text \<open>The size is cast to \<^verbatim>\<open>i64\<close>.\<close>

definition file_size :: "guest \<Rightarrow> validator \<Rightarrow> check_outcome" where
  "file_size g v =
     with_arg (arg_path v ''path'') (\<lambda>path.
       let bounds = bounds_read v in
       case stat g path of
         Some facts \<Rightarrow>
           if satisfied_by bounds (sint (ff_size facts))
           then outcome_pass (v_kind v) (path @ '' is '' @ dec (unat (ff_size facts)) @ '' bytes.'')
           else with_observed (dec (unat (ff_size facts)) @ '' bytes'') (with_expected (bounds_describe bounds @ '' bytes'')
             (outcome_fail (v_kind v) (path @ '' is not the expected size.'') WrongFileContents))
       | None \<Rightarrow> wrong_path v (path @ '' does not exist.''))"

definition file_owner :: "guest \<Rightarrow> validator \<Rightarrow> check_outcome" where
  "file_owner g v =
     with_arg (arg_path v ''path'') (\<lambda>path. with_arg (arg_string v ''owner'') (\<lambda>expected.
       case stat g path of
         None \<Rightarrow> wrong_path v (path @ '' does not exist.'')
       | Some facts \<Rightarrow>
           let actual = (case user_for_uid g (ff_uid facts) of Some u \<Rightarrow> u | None \<Rightarrow> dec (unat (ff_uid facts))) in
           if actual = expected then outcome_pass (v_kind v) (path @ '' is owned by '' @ expected @ ''.'')
           else with_observed actual (with_expected expected
             (outcome_fail (v_kind v) (path @ '' has the wrong owner.'') WrongOwnership))))"

definition file_group :: "guest \<Rightarrow> validator \<Rightarrow> check_outcome" where
  "file_group g v =
     with_arg (arg_path v ''path'') (\<lambda>path. with_arg (arg_string v ''group'') (\<lambda>expected.
       case stat g path of
         None \<Rightarrow> wrong_path v (path @ '' does not exist.'')
       | Some facts \<Rightarrow>
           let actual = (case group_for_gid g (ff_gid facts) of Some n \<Rightarrow> n | None \<Rightarrow> dec (unat (ff_gid facts))) in
           if actual = expected then outcome_pass (v_kind v) (path @ '' belongs to group '' @ expected @ ''.'')
           else with_observed actual (with_expected expected
             (outcome_fail (v_kind v) (path @ '' has the wrong group.'') WrongOwnership))))"

definition mode_param :: "validator \<Rightarrow> string \<Rightarrow> u32 option" where
  "mode_param v p = Option.bind (bt_get (v_params v) p) parse_mode"

definition file_mode :: "guest \<Rightarrow> validator \<Rightarrow> check_outcome" where
  "file_mode g v =
     with_arg (arg_path v ''path'') (\<lambda>path.
       case mode_param v ''mode'' of
         None \<Rightarrow> outcome_error (v_kind v) ''the mode parameter is not a valid octal mode''
       | Some expected \<Rightarrow>
           let mask = (case mode_param v ''mask'' of Some m \<Rightarrow> m | None \<Rightarrow> all_mode_bits) in
           (case stat g path of
              None \<Rightarrow> wrong_path v (path @ '' does not exist.'')
            | Some facts \<Rightarrow>
                if ff_permissions facts AND mask = expected AND mask
                then outcome_pass (v_kind v) (path @ '' has permissions '' @ format_mode (ff_permissions facts) @ ''.'')
                else with_observed (format_mode (ff_permissions facts))
                  (with_expected (if mask = all_mode_bits then format_mode expected
                                  else format_mode expected @ '' in the bits '' @ format_mode mask)
                    (outcome_fail (v_kind v) (path @ '' does not have the required permissions.'') WrongPermissions))))"

section \<open>Contents\<close>

definition read_text :: "guest \<Rightarrow> string \<Rightarrow> string arg_result" where
  "read_text g path =
     (case gu_read g path of
        Inr (text, _) \<Rightarrow> Inr text
      | Inl err \<Rightarrow> Inl (outcome_fail ''read'' (path @ '' could not be read ('' @ io_text err @ '').'')
                          (if io_denied err then PermissionDenied else WrongPath)))"

definition normalise_text :: "externals \<Rightarrow> bool \<Rightarrow> bool \<Rightarrow> string \<Rightarrow> string" where
  "normalise_text X trimmed case_sensitive text =
     (let text = (if trimmed then join [CHR 0x0A] (map trim (lines text)) else text)
      in if case_sensitive then text else x_lower X text)"

definition file_contains :: "externals \<Rightarrow> guest \<Rightarrow> validator \<Rightarrow> check_outcome" where
  "file_contains X g v =
     with_arg (arg_path v ''path'') (\<lambda>path. with_arg (arg_string v ''text'') (\<lambda>needle.
     with_arg (read_text g path) (\<lambda>content.
       let normalise = normalise_text X (arg_flag v ''trim'') (arg_flag_or v ''caseSensitive'' True) in
       if has_text (normalise content) (normalise needle)
       then outcome_pass (v_kind v) (path @ '' contains the expected text.'')
       else with_expected needle
         (outcome_fail (v_kind v) (path @ '' does not contain the expected text.'') WrongFileContents))))"

definition file_matches_regex :: "externals \<Rightarrow> guest \<Rightarrow> validator \<Rightarrow> check_outcome" where
  "file_matches_regex X g v =
     with_arg (arg_path v ''path'') (\<lambda>path. with_arg (arg_string v ''pattern'') (\<lambda>pattern.
     with_arg (read_text g path) (\<lambda>content.
       case x_regex X \<lparr>rx_case_insensitive = \<not> arg_flag_or v ''caseSensitive'' True,
                        rx_multi_line = arg_flag_or v ''multiline'' True\<rparr> pattern of
         Inl err \<Rightarrow> outcome_error (v_kind v) (''the pattern is not a valid regex: '' @ err)
       | Inr matches \<Rightarrow>
           if matches content then outcome_pass (v_kind v) (path @ '' matches the expected pattern.'')
           else with_expected pattern
             (outcome_fail (v_kind v) (path @ '' does not match the expected pattern.'') WrongFileContents))))"

definition file_line_count :: "guest \<Rightarrow> validator \<Rightarrow> check_outcome" where
  "file_line_count g v =
     with_arg (arg_path v ''path'') (\<lambda>path. with_arg (read_text g path) (\<lambda>content.
       let bounds = bounds_read v; actual = int (length (lines content)) in
       if satisfied_by bounds actual then outcome_pass (v_kind v) (path @ '' has '' @ dec_int actual @ '' lines.'')
       else with_observed (dec_int actual) (with_expected (bounds_describe bounds)
         (outcome_fail (v_kind v) (path @ '' does not have the expected number of lines.'') WrongFileContents))))"

definition file_checksum :: "externals \<Rightarrow> validator \<Rightarrow> guest \<Rightarrow> check_outcome \<times> guest" where
  "file_checksum X v =
     with_arg_at (arg_path v ''path'') (\<lambda>path. with_arg_at (arg_string v ''sha256'') (\<lambda>expected g.
       with_output (v_kind v) (run_command X ''sha256sum'' [''--'', path] None g) (\<lambda>out.
         if \<not> command_success out then wrong_path v (path @ '' could not be hashed. Does it exist?'')
         else
           let actual = (case split_whitespace (stdout_trimmed out) of w # _ \<Rightarrow> w | [] \<Rightarrow> []) in
           if eq_ignore_ascii_case actual expected
           then outcome_pass (v_kind v) (path @ '' has the expected contents.'')
           else with_observed actual (with_expected expected
             (outcome_fail (v_kind v) (path @ '' does not have the expected contents.'') WrongFileContents)))))"

section \<open>Directories\<close>

definition list_entries :: "guest \<Rightarrow> string \<Rightarrow> bool \<Rightarrow> string list arg_result" where
  "list_entries g path include_hidden =
     (case gu_dir g path of
        Inl err \<Rightarrow> Inl (outcome_fail ''read_dir'' (path @ '' could not be listed ('' @ io_text err @ '').'')
                          (if io_denied err then PermissionDenied else WrongPath))
      | Inr names \<Rightarrow> Inr (sort (filter (\<lambda>name. include_hidden \<or> \<not> starts_with name ''.'') names)))"

definition directory_contains :: "guest \<Rightarrow> validator \<Rightarrow> check_outcome" where
  "directory_contains g v =
     with_arg (arg_path v ''path'') (\<lambda>path. with_arg (arg_string_list v ''entries'') (\<lambda>expected.
     with_arg (list_entries g path (arg_flag_or v ''includeHidden'' True)) (\<lambda>actual.
       let missing = filter (\<lambda>e. e \<notin> set actual) expected;
           extra = filter (\<lambda>a. a \<notin> set expected) actual in
       if missing \<noteq> [] then
         with_observed (or_text actual '', '' ''an empty directory'') (with_expected (join '', '' expected)
           (outcome_fail (v_kind v) (path @ '' is missing '' @ join '', '' missing @ ''.'') TaskPartiallyCompleted))
       else if arg_flag v ''exact'' \<and> extra \<noteq> [] then
         with_observed (join '', '' actual) (with_expected (''only '' @ join '', '' expected)
           (outcome_fail (v_kind v)
              (path @ '' also contains '' @ join '', '' extra @ '', which should not be there.'') TaskPartiallyCompleted))
       else outcome_pass (v_kind v) (path @ '' contains everything the task asked for.''))))"

definition directory_empty :: "guest \<Rightarrow> validator \<Rightarrow> check_outcome" where
  "directory_empty g v =
     with_arg (arg_path v ''path'') (\<lambda>path.
     with_arg (list_entries g path (arg_flag_or v ''includeHidden'' True)) (\<lambda>actual.
       if actual = [] then outcome_pass (v_kind v) (path @ '' is empty.'')
       else with_observed (join '', '' actual)
         (outcome_fail (v_kind v) (path @ '' is not empty yet.'') TaskPartiallyCompleted)))"

definition canonical_or :: "guest \<Rightarrow> string \<Rightarrow> string" where
  "canonical_or g path = (case gu_canon g path of Some p \<Rightarrow> p | None \<Rightarrow> path)"

definition current_directory :: "ctx \<Rightarrow> guest \<Rightarrow> validator \<Rightarrow> check_outcome" where
  "current_directory cx g v =
     with_arg (arg_path v ''path'') (\<lambda>expected.
       case find_login_shell g (cx_subject_user cx) of
         None \<Rightarrow> outcome_error (v_kind v)
           (''could not find an interactive shell for '' @ cx_subject_user cx @ '' to inspect'')
       | Some shell \<Rightarrow>
           (case process_cwd g (pr_pid shell) of
              None \<Rightarrow> outcome_error (v_kind v)
                (''could not read the working directory of process '' @ dec (unat (pr_pid shell)))
            | Some actual \<Rightarrow>
                let same = (if arg_flag_or v ''resolveSymlinks'' True
                      then same_path (canonical_or g expected) (canonical_or g actual)
                      else same_path expected actual) in
                if same then outcome_pass (v_kind v) (''Your shell is in '' @ actual @ ''.'')
                else with_observed actual (with_expected expected
                  (outcome_fail (v_kind v)
                     ''Your shell is not in the directory the task asked for. Run pwd to see where you are.''
                     WrongWorkingDirectory))))"

section \<open>Dispatch\<close>

definition file_dispatch :: "externals \<Rightarrow> ctx \<Rightarrow> validator \<Rightarrow> guest \<Rightarrow> (check_outcome \<times> guest) option" where
  "file_dispatch X cx v g =
     (let kind = v_kind v; pure = (\<lambda>c. Some (c, g)) in
      if kind = ''file_exists'' then pure (file_exists g v)
      else if kind = ''file_missing'' then pure (file_missing g v)
      else if kind = ''directory_exists'' then pure (directory_exists g v)
      else if kind = ''directory_missing'' then pure (directory_missing g v)
      else if kind = ''symbolic_link_exists'' then pure (symbolic_link_exists g v)
      else if kind = ''hard_link_exists'' then pure (hard_link_exists g v)
      else if kind = ''file_type'' then pure (file_type g v)
      else if kind = ''file_size'' then pure (file_size g v)
      else if kind = ''file_owner'' then pure (file_owner g v)
      else if kind = ''file_group'' then pure (file_group g v)
      else if kind = ''file_mode'' then pure (file_mode g v)
      else if kind = ''file_contains'' then pure (file_contains X g v)
      else if kind = ''file_matches_regex'' then pure (file_matches_regex X g v)
      else if kind = ''file_line_count'' then pure (file_line_count g v)
      else if kind = ''file_checksum'' then Some (file_checksum X v g)
      else if kind = ''directory_contains'' then pure (directory_contains g v)
      else if kind = ''directory_empty'' then pure (directory_empty g v)
      else if kind = ''current_directory'' then pure (current_directory cx g v)
      else None)"

section \<open>Lemmas\<close>

lemma read_text_fresh [simp]: "read_text g path = Inl c \<Longrightarrow> fresh c" "read_text g path = Inl c \<Longrightarrow> \<not> o_passed c"
  by (auto simp: read_text_def split: sum.splits prod.splits)

lemma list_entries_fresh [simp]:
  "list_entries g path h = Inl c \<Longrightarrow> fresh c" "list_entries g path h = Inl c \<Longrightarrow> \<not> o_passed c"
  by (auto simp: list_entries_def split: sum.splits)

lemma fresh_wrong_path [simp]: "fresh (wrong_path v m)" "\<not> o_passed (wrong_path v m)"
  by (simp_all add: wrong_path_def)

lemma file_arguments_fresh [fresh_intros]:
  "(\<And>text. read_text g path = Inr text \<Longrightarrow> fresh (f text)) \<Longrightarrow> fresh (with_arg (read_text g path) f)"
  "(\<And>es. list_entries g path b = Inr es \<Longrightarrow> fresh (h es)) \<Longrightarrow> fresh (with_arg (list_entries g path b) h)"
  "fresh (wrong_path v m)"
  by simp_all

lemmas existence_checks = file_exists_def file_missing_def directory_exists_def directory_missing_def
  symbolic_link_exists_def hard_link_exists_def file_type_def
lemmas metadata_checks = file_size_def file_owner_def file_group_def file_mode_def
lemmas content_checks = file_contains_def file_matches_regex_def file_line_count_def
lemmas directory_checks = directory_contains_def directory_empty_def current_directory_def

lemma file_checks_fresh:
  "fresh (file_exists g v)" "fresh (file_missing g v)" "fresh (directory_exists g v)"
  "fresh (directory_missing g v)" "fresh (symbolic_link_exists g v)" "fresh (hard_link_exists g v)"
  "fresh (file_type g v)" "fresh (file_size g v)" "fresh (file_owner g v)" "fresh (file_group g v)"
  "fresh (file_mode g v)" "fresh (file_contains X g v)" "fresh (file_matches_regex X g v)"
  "fresh (file_line_count g v)" "fresh (fst (file_checksum X v g))" "fresh (directory_contains g v)"
  "fresh (directory_empty g v)" "fresh (current_directory cx g v)"
  unfolding existence_checks metadata_checks content_checks directory_checks file_checksum_def
  by (intro fresh_intros; simp)+

lemma file_dispatch_fresh: "file_dispatch X cx v g = Some r \<Longrightarrow> fresh (fst r)"
  unfolding file_dispatch_def Let_def by (elim dispatch_elim; simp add: file_checks_fresh)

section \<open>Properties\<close>

lemma directory_contains_iff:
  assumes "str_param v ''path'' = Some path" "bt_get (v_params v) ''entries'' = Some (JArray (map JString es))"
  shows "o_passed (directory_contains g v) \<longleftrightarrow>
     (\<exists>names. list_entries g path (arg_flag_or v ''includeHidden'' True) = Inr names \<and> set es \<subseteq> set names
        \<and> (arg_flag v ''exact'' \<longrightarrow> set names \<subseteq> set es))"
proof -
  have "List.map_filter as_str (map JString es) = es" by (induction es) (simp_all add: List.map_filter_simps)
  then have "arg_string_list v ''entries'' = Inr es" using assms(2) by (simp add: arg_string_list_def)
  moreover have "arg_path v ''path'' = Inr path" using assms(1) by (simp add: outcome_checks)
  ultimately show ?thesis
    by (cases "list_entries g path (arg_flag_or v ''includeHidden'' True)")
      (auto simp: directory_contains_def with_arg_def Let_def filter_empty_conv)
qed

text \<open>C21: The filesystem validators decide the state of the guest, not the way to it: a regular file,
  nothing at the path, a directory or none, the required bits of a mode under its mask, a name for
  the same inode, and exactly the listed entries, or at least those.\<close>

theorem file_checks_exact:
  assumes "str_param v ''path'' = Some path"
  shows "(o_passed (file_exists g v) \<longleftrightarrow> map_option ff_kind (stat g path) = Some Regular)
    \<and> (o_passed (file_missing g v) \<longleftrightarrow> gu_lstat g path = None)
    \<and> (o_passed (directory_exists g v) \<longleftrightarrow> is_dir g path)
    \<and> (o_passed (directory_missing g v) \<longleftrightarrow> map_option ff_kind (lstat g path) \<noteq> Some Directory)
    \<and> (mode_param v ''mode'' = Some m \<longrightarrow> mode_param v ''mask'' = Some msk \<longrightarrow>
         (o_passed (file_mode g v) \<longleftrightarrow>
            (\<exists>md. gu_stat g path = Some md \<and> (md_mode md AND all_mode_bits) AND msk = m AND msk)))
    \<and> (str_param v ''linkTo'' = Some other \<longrightarrow>
         (o_passed (hard_link_exists g v) \<longleftrightarrow>
            (\<exists>a b. gu_lstat g path = Some a \<and> gu_lstat g other = Some b \<and> md_ino a = md_ino b)))
    \<and> (bt_get (v_params v) ''entries'' = Some (JArray (map JString es)) \<longrightarrow>
         (o_passed (directory_contains g v) \<longleftrightarrow>
            (\<exists>names. list_entries g path (arg_flag_or v ''includeHidden'' True) = Inr names \<and> set es \<subseteq> set names
               \<and> (arg_flag v ''exact'' \<longrightarrow> set names \<subseteq> set es))))"
proof -
  have path: "arg_path v ''path'' = Inr path" using assms by (simp add: outcome_checks)
  have "o_passed (file_exists g v) \<longleftrightarrow> map_option ff_kind (stat g path) = Some Regular"
    "o_passed (file_missing g v) \<longleftrightarrow> gu_lstat g path = None"
    "o_passed (directory_exists g v) \<longleftrightarrow> is_dir g path"
    "o_passed (directory_missing g v) \<longleftrightarrow> map_option ff_kind (lstat g path) \<noteq> Some Directory"
    by (auto simp: existence_checks path with_arg_def is_dir_def lstat_def Let_def split: option.split)
  moreover have "o_passed (file_mode g v) \<longleftrightarrow>
      (\<exists>md. gu_stat g path = Some md \<and> (md_mode md AND all_mode_bits) AND msk = m AND msk)"
    if "mode_param v ''mode'' = Some m" "mode_param v ''mask'' = Some msk"
    using that by (cases "gu_stat g path") (auto simp: file_mode_def path with_arg_def stat_def facts_of_def)
  moreover have "o_passed (hard_link_exists g v) \<longleftrightarrow>
      (\<exists>a b. gu_lstat g path = Some a \<and> gu_lstat g other = Some b \<and> md_ino a = md_ino b)"
    if "str_param v ''linkTo'' = Some other"
  proof -
    have "arg_path v ''linkTo'' = Inr other" using that by (simp add: outcome_checks)
    then show ?thesis by (cases "gu_lstat g path"; cases "gu_lstat g other")
      (simp_all add: hard_link_exists_def path with_arg_def lstat_def facts_of_def)
  qed
  ultimately show ?thesis using directory_contains_iff [OF assms] by blast
qed

definition sample_guest :: guest where
  "sample_guest =
     \<lparr>gu_stat = (\<lambda>p. if p = ''/home/student/notes'' then
         Some \<lparr>md_mode = 0x81A4, md_size = 12, md_uid = 1000, md_gid = 1000, md_ino = 7, md_modified = None\<rparr> else None),
      gu_lstat = (\<lambda>p. None), gu_read = (\<lambda>p. Inl (IoError False ''not found'')),
      gu_dir = (\<lambda>p. Inl (IoError False ''not found'')), gu_link = (\<lambda>p. None), gu_canon = (\<lambda>p. None),
      gu_agent_pid = 1, gu_now = 0\<rparr>"

lemma file_checks_exact_witness:
  "o_passed (file_exists sample_guest (validator_with ''path'' (JString ''/home/student/notes'') (validator_new ''file_exists'')))"
proof -
  let ?v = "validator_with ''path'' (JString ''/home/student/notes'') (validator_new ''file_exists'')"
  have "str_param ?v ''path'' = Some ''/home/student/notes''" by code_simp
  moreover have "map_option ff_kind (stat sample_guest ''/home/student/notes'') = Some Regular"
    by (simp add: stat_def sample_guest_def facts_of_def kind_from_mode_def)
  ultimately show ?thesis using file_checks_exact [of ?v "''/home/student/notes''" sample_guest, THEN conjunct1] by simp
qed

end
