(* ===== verification/Guest_Services.thy ===== *)
theory Guest_Services
  imports Guest_Args
begin

text \<open>
  The systemd, journal and port validators (guest/linuxlab-agent/src/validators/service.rs) and the
  package validators (validators/package.rs). The tools they ask are commands with any outcome.
\<close>

section \<open>Units\<close>

definition unit_char :: "char \<Rightarrow> bool" where
  "unit_char c \<longleftrightarrow> is_ascii_alphanumeric c \<or> c \<in> {CHR ''.'', CHR ''-'', CHR ''_'', CHR ''@'', CHR '':'', CHR 0x5C}"

definition safe_unit :: "validator \<Rightarrow> string arg_result" where
  "safe_unit v =
     res_bind (arg_string v ''unit'') (\<lambda>unit.
       if unit \<noteq> [] \<and> \<not> starts_with unit ''-'' \<and> list_all unit_char unit then Inr unit
       else Inl (outcome_error (v_kind v) (quoted unit @ '' is not a valid systemd unit name'')))"

definition service_state :: "externals \<Rightarrow> validator \<Rightarrow> string \<Rightarrow> string \<Rightarrow> bool \<Rightarrow> guest \<Rightarrow> check_outcome \<times> guest" where
  "service_state X v subcommand positive want_positive =
     with_arg_at (safe_unit v) (\<lambda>unit g.
       with_output (v_kind v) (run_command X ''systemctl'' [subcommand, ''--'', unit] None g) (\<lambda>out.
         if co_timed_out out then outcome_error (v_kind v) (''systemctl '' @ subcommand @ '' timed out'')
         else
           let state = (if stdout_trimmed out = [] then trim (co_stderr out) else stdout_trimmed out);
               is_positive = (state = positive) in
           if is_positive = want_positive
           then with_observed state (outcome_pass (v_kind v) (unit @ '' is '' @ state @ ''.''))
           else with_observed state (with_expected (if want_positive then positive else ''not '' @ positive)
             (outcome_fail (v_kind v) (unit @ '' is '' @ state @ ''. Check `systemctl status '' @ unit
                @ ''` and `journalctl -u '' @ unit @ ''`.'') ServiceNotActive))))"

definition service_failed :: "externals \<Rightarrow> validator \<Rightarrow> guest \<Rightarrow> check_outcome \<times> guest" where
  "service_failed X v =
     with_arg_at (safe_unit v) (\<lambda>unit g.
       with_output (v_kind v)
         (run_command X ''systemctl'' [''show'', ''-p'', ''ActiveState'', ''--value'', ''--'', unit] None g) (\<lambda>out.
         let state = stdout_trimmed out in
         if state = ''failed'' then outcome_pass (v_kind v) (unit @ '' is in the failed state.'')
         else with_observed state (with_expected ''failed''
           (outcome_fail (v_kind v) (unit @ '' is '' @ state @ '', not failed.'') ServiceNotActive))))"

definition unit_file_valid :: "externals \<Rightarrow> validator \<Rightarrow> guest \<Rightarrow> check_outcome \<times> guest" where
  "unit_file_valid X v =
     with_arg_at (safe_unit v) (\<lambda>unit g.
       with_output (v_kind v) (run_command X ''systemd-analyze'' [''verify'', ''--'', unit] None g) (\<lambda>out.
         let complaints = nonempty_lines (co_stderr out) in
         if command_success out \<and> complaints = []
         then outcome_pass (v_kind v) (''The unit file for '' @ unit @ '' is valid.'')
         else with_observed (join ''; '' complaints)
           (outcome_fail (v_kind v) (''The unit file for '' @ unit @ '' has problems.'') ScriptSyntaxFailure)))"

section \<open>Journal and ports\<close>

definition journal_args :: "validator \<Rightarrow> string \<Rightarrow> string list" where
  "journal_args v since =
     [''--no-pager'', ''--output=cat'', ''--since'', since]
     @ (case optional_string v ''unit'' of Some unit \<Rightarrow> [''-u'', unit] | None \<Rightarrow> [])
     @ (case optional_string v ''priority'' of Some priority \<Rightarrow> [''-p'', priority] | None \<Rightarrow> [])"

definition journal_contains :: "externals \<Rightarrow> ctx \<Rightarrow> validator \<Rightarrow> guest \<Rightarrow> check_outcome \<times> guest" where
  "journal_contains X cx v =
     with_arg_at (arg_string v ''text'') (\<lambda>text g.
       let since = (case optional_string v ''since'' of Some s \<Rightarrow> s | None \<Rightarrow> attempt_since_expression cx) in
       with_output (v_kind v) (run_command X ''journalctl'' (journal_args v since) None g) (\<lambda>out.
         if has_text (co_stdout out) text
         then outcome_pass (v_kind v) ''The journal contains the expected message.''
         else with_observed (dec (length (lines (co_stdout out))) @ '' journal lines since '' @ since)
           (with_expected text
             (outcome_fail (v_kind v) ''The journal does not contain the expected message.'' ServiceNotActive))))"

definition port_listening :: "guest \<Rightarrow> validator \<Rightarrow> check_outcome" where
  "port_listening g v =
     (case optional_integer v ''port'' of
        None \<Rightarrow> outcome_error (v_kind v) ''the port parameter is missing or not a number''
      | Some port \<Rightarrow>
          let protocol = (case optional_string v ''protocol'' of Some p \<Rightarrow> p | None \<Rightarrow> ''tcp'');
              sockets = read_sockets g protocol;
              listening = filter (\<lambda>s. uint (so_port s) = port \<and> so_listening s) sockets;
              passed = with_observed
                (join '', '' (map (\<lambda>s. so_address s @ '':'' @ dec (unat (so_port s))) listening))
                (outcome_pass (v_kind v)
                  (''Something is listening on '' @ protocol @ '' port '' @ dec_int port @ ''.'')) in
          if listening = [] then
            let ports = map (\<lambda>p. dec (unat p))
                  (take 8 (remdups_adj (sort (map so_port (filter so_listening sockets))))) in
            with_observed (if ports = [] then ''no listening sockets'' else ''listening on '' @ join '', '' ports)
              (with_expected (protocol @ ''/'' @ dec_int port)
                (outcome_fail (v_kind v)
                  (''Nothing is listening on '' @ protocol @ '' port '' @ dec_int port @ ''.'') WrongPort))
          else case optional_string v ''address'' of
            None \<Rightarrow> passed
          | Some expected_address \<Rightarrow>
              let addresses = map so_address listening in
              if expected_address \<notin> set addresses then
                with_observed (join '', '' addresses) (with_expected expected_address
                  (outcome_fail (v_kind v) (''Port '' @ dec_int port
                     @ '' is open but bound to the wrong address, so it is not reachable where the task expects.'')
                     WrongPort))
              else passed)"

definition service_dispatch :: "externals \<Rightarrow> ctx \<Rightarrow> validator \<Rightarrow> guest \<Rightarrow> (check_outcome \<times> guest) option" where
  "service_dispatch X cx v g =
     (let kind = v_kind v in
      if kind = ''service_active'' then Some (service_state X v ''is-active'' ''active'' True g)
      else if kind = ''service_inactive'' then Some (service_state X v ''is-active'' ''active'' False g)
      else if kind = ''service_enabled'' then Some (service_state X v ''is-enabled'' ''enabled'' True g)
      else if kind = ''service_disabled'' then Some (service_state X v ''is-enabled'' ''enabled'' False g)
      else if kind = ''service_failed'' then Some (service_failed X v g)
      else if kind = ''unit_file_valid'' then Some (unit_file_valid X v g)
      else if kind = ''journal_contains'' then Some (journal_contains X cx v g)
      else if kind = ''port_listening'' then Some (port_listening g v, g)
      else None)"

section \<open>Packages\<close>

text \<open>The status and version that dpkg prints, split at the first space.\<close>

definition dpkg_status :: "externals \<Rightarrow> string \<Rightarrow> guest \<Rightarrow> (string \<times> string) option \<times> guest" where
  "dpkg_status X package g =
     (case run_command X ''dpkg-query'' [''-W'', ''-f=${db:Status-Status} ${Version}'', ''--'', package] None g of
        (Inl _, g') \<Rightarrow> (None, g')
      | (Inr out, g') \<Rightarrow>
          (if \<not> command_success out then None
           else let text = stdout_trimmed out in
             Some (case split_once CHR '' '' text of
                     Some (status, version) \<Rightarrow> (status, trim version)
                   | None \<Rightarrow> (text, [])), g'))"

definition package_installed :: "externals \<Rightarrow> validator \<Rightarrow> guest \<Rightarrow> check_outcome \<times> guest" where
  "package_installed X v =
     with_arg_at (arg_string v ''package'') (\<lambda>package g.
       map_prod (\<lambda>found. case found of
           Some (status, version) \<Rightarrow>
             if status = ''installed'' then
               (if (case optional_string v ''version'' of Some expected \<Rightarrow> version \<noteq> expected | None \<Rightarrow> False)
                then with_observed version (with_expected (the (optional_string v ''version''))
                  (outcome_fail (v_kind v) (package @ '' is installed, but not at the expected version.'')
                     TaskPartiallyCompleted))
                else with_observed version (outcome_pass (v_kind v) (package @ '' is installed.'')))
             else with_observed status (with_expected ''installed''
               (outcome_fail (v_kind v) (package @ '' is known to the system but its state is '' @ quoted status
                  @ '' rather than installed.'') TaskPartiallyCompleted))
         | None \<Rightarrow> outcome_fail (v_kind v) (package @ '' is not installed.'') TaskPartiallyCompleted)
         id (dpkg_status X package g))"

definition package_removed :: "externals \<Rightarrow> validator \<Rightarrow> guest \<Rightarrow> check_outcome \<times> guest" where
  "package_removed X v =
     with_arg_at (arg_string v ''package'') (\<lambda>package g.
       map_prod (\<lambda>found. case found of
           None \<Rightarrow> outcome_pass (v_kind v) (package @ '' is not present.'')
         | Some (status, _) \<Rightarrow>
             if status = ''installed'' then
               with_observed status
                 (outcome_fail (v_kind v) (package @ '' is still installed.'') TaskPartiallyCompleted)
             else if arg_flag v ''purged'' \<and> status = ''config-files'' then
               with_observed status (with_expected ''no configuration files left''
                 (outcome_fail (v_kind v) (package @ '' was removed, but its configuration files are still there. Removing a package and purging it are different operations.'')
                    TaskPartiallyCompleted))
             else with_observed status (outcome_pass (v_kind v) (package @ '' is removed.'')))
         id (dpkg_status X package g))"

definition name_extension :: "string \<Rightarrow> string option" where
  "name_extension name =
     (case rposition (\<lambda>c. c = CHR ''.'') name of
        Some i \<Rightarrow> if i = 0 then None else Some (drop (Suc i) name)
      | None \<Rightarrow> None)"

definition source_paths :: "guest \<Rightarrow> validator \<Rightarrow> string list" where
  "source_paths g v =
     (case optional_string v ''file'' of
        Some f \<Rightarrow> [f]
      | None \<Rightarrow> ''/etc/apt/sources.list'' #
          (case gu_dir g ''/etc/apt/sources.list.d'' of
             Inl _ \<Rightarrow> []
           | Inr names \<Rightarrow> map (unix_join ''/etc/apt/sources.list.d'')
               (filter (\<lambda>n. name_extension n \<in> {Some ''list'', Some ''sources''}) names)))"

definition repository_configured :: "guest \<Rightarrow> validator \<Rightarrow> check_outcome" where
  "repository_configured g v =
     with_arg (arg_string v ''uri'') (\<lambda>uri.
       let sources = List.map_filter (\<lambda>p. map_option (Pair p) (read_to_string g p)) (source_paths g v) in
       if sources = [] then outcome_fail (v_kind v) ''No apt source files could be read.'' TaskPartiallyCompleted
       else case List.find (\<lambda>(_, content).
            list_ex (\<lambda>line. has_text line uri)
              (filter (\<lambda>line. \<not> starts_with line ''#'') (nonempty_lines content))) sources of
         Some (path, _) \<Rightarrow>
           with_observed path (outcome_pass (v_kind v) (uri @ '' is configured as a package source.''))
       | None \<Rightarrow>
           with_observed (join '', '' (map fst sources)) (with_expected uri
             (outcome_fail (v_kind v) (uri @ '' is not configured as a package source.'') TaskPartiallyCompleted)))"

definition package_version :: "externals \<Rightarrow> validator \<Rightarrow> guest \<Rightarrow> check_outcome \<times> guest" where
  "package_version X v =
     with_arg_at (arg_string v ''package'') (\<lambda>package. with_arg_at (arg_string v ''version'') (\<lambda>expected g.
       let comparison = (case optional_string v ''comparison'' of Some c \<Rightarrow> c | None \<Rightarrow> ''eq'') in
       case dpkg_status X package g of
         (None, g') \<Rightarrow> (outcome_fail (v_kind v)
           (package @ '' is not installed, so its version cannot be compared.'') TaskPartiallyCompleted, g')
       | (Some (status, actual), g') \<Rightarrow>
           if status \<noteq> ''installed'' then
             (outcome_fail (v_kind v) (package @ '' is not installed (state '' @ quoted status @ '').'')
                TaskPartiallyCompleted, g')
           else
             with_output (v_kind v)
               (run_command X ''dpkg'' [''--compare-versions'', actual, comparison, expected] None g') (\<lambda>out.
               if command_success out
               then outcome_pass (v_kind v)
                 (package @ '' '' @ actual @ '' satisfies '' @ comparison @ '' '' @ expected @ ''.'')
               else with_observed actual (with_expected (comparison @ '' '' @ expected)
                 (outcome_fail (v_kind v)
                   (''The installed version of '' @ package @ '' does not satisfy the requirement.'')
                   TaskPartiallyCompleted)))))"

text \<open>Times are in nanoseconds; a stamp in the future counts as fresh.\<close>

definition apt_cache_updated :: "guest \<Rightarrow> validator \<Rightarrow> check_outcome" where
  "apt_cache_updated g v =
     (let max_age = max (case optional_integer v ''maxAgeSeconds'' of Some n \<Rightarrow> n | None \<Rightarrow> 3600) 1;
          stamps = List.map_filter (\<lambda>path. Option.bind (gu_stat g path) md_modified)
            [''/var/lib/apt/periodic/update-success-stamp'', ''/var/lib/apt/lists''] in
      if stamps = [] then
        outcome_fail (v_kind v) ''The package lists have never been downloaded. Run apt update first.''
          TaskPartiallyCompleted
      else
        let modified = fold max (tl stamps) (hd stamps);
            age = (if modified \<le> gu_now g then (gu_now g - modified) div 1000000000 else 0) in
        if age \<le> max_age then outcome_pass (v_kind v) ''The package lists have been refreshed recently.''
        else with_observed (dec_int age @ ''s old'') (with_expected (''refreshed within '' @ dec_int max_age @ ''s'')
          (outcome_fail (v_kind v)
            ''The package lists are stale. Run apt update so apt knows what is available.'' TaskPartiallyCompleted)))"

definition package_dispatch :: "externals \<Rightarrow> ctx \<Rightarrow> validator \<Rightarrow> guest \<Rightarrow> (check_outcome \<times> guest) option" where
  "package_dispatch X cx v g =
     (let kind = v_kind v in
      if kind = ''package_installed'' then Some (package_installed X v g)
      else if kind = ''package_removed'' then Some (package_removed X v g)
      else if kind = ''repository_configured'' then Some (repository_configured g v, g)
      else if kind = ''package_version'' then Some (package_version X v g)
      else if kind = ''apt_cache_updated'' then Some (apt_cache_updated g v, g)
      else None)"

section \<open>Lemmas\<close>

lemma safe_unit_error [simp]: "safe_unit v = Inl c \<Longrightarrow> fresh c" "safe_unit v = Inl c \<Longrightarrow> \<not> o_passed c"
  by (auto simp: safe_unit_def res_bind_Inl_iff split: if_splits)

lemma safe_unit_fresh [fresh_intros]:
  "(\<And>u. safe_unit v = Inr u \<Longrightarrow> fresh (fst (k u g))) \<Longrightarrow> fresh (fst (with_arg_at (safe_unit v) k g))"
  by simp

lemmas service_checks = service_state_def service_failed_def unit_file_valid_def journal_contains_def
  port_listening_def
lemmas package_checks = package_installed_def package_removed_def repository_configured_def
  package_version_def apt_cache_updated_def

lemma service_state_fresh: "fresh (fst (service_state X v sub pos want g))"
  unfolding service_state_def by (intro fresh_intros; simp)

lemma service_failed_fresh: "fresh (fst (service_failed X v g))"
  unfolding service_failed_def by (intro fresh_intros; simp)

lemma unit_file_valid_fresh: "fresh (fst (unit_file_valid X v g))"
  unfolding unit_file_valid_def by (intro fresh_intros; simp)

lemma journal_contains_fresh: "fresh (fst (journal_contains X cx v g))"
  unfolding journal_contains_def by (intro fresh_intros; simp)

lemma port_listening_fresh: "fresh (port_listening g v)"
  unfolding port_listening_def by (intro fresh_intros; simp)

lemmas service_checks_fresh = service_state_fresh service_failed_fresh unit_file_valid_fresh
  journal_contains_fresh port_listening_fresh

lemma package_installed_fresh: "fresh (fst (package_installed X v g))"
  unfolding package_installed_def by (intro fresh_intros; simp split: option.split prod.split)

lemma package_removed_fresh: "fresh (fst (package_removed X v g))"
  unfolding package_removed_def by (intro fresh_intros; simp split: option.split prod.split)

lemma repository_configured_fresh: "fresh (repository_configured g v)"
  unfolding repository_configured_def by (intro fresh_intros; simp)

lemma package_version_fresh: "fresh (fst (package_version X v g))"
  unfolding package_version_def by (intro fresh_intros; simp)

lemma apt_cache_updated_fresh: "fresh (apt_cache_updated g v)"
  unfolding apt_cache_updated_def by (intro fresh_intros; simp)

lemmas package_checks_fresh = package_installed_fresh package_removed_fresh repository_configured_fresh
  package_version_fresh apt_cache_updated_fresh

lemma service_dispatch_fresh: "service_dispatch X cx v g = Some r \<Longrightarrow> fresh (fst r)"
  unfolding service_dispatch_def Let_def by (elim dispatch_elim; simp add: service_checks_fresh)

lemma package_dispatch_fresh: "package_dispatch X cx v g = Some r \<Longrightarrow> fresh (fst r)"
  unfolding package_dispatch_def Let_def by (elim dispatch_elim; simp add: package_checks_fresh)

text \<open>A unit name is never read as an option: it does not start with a dash, and it follows the
  end-of-options mark.\<close>

lemma safe_unit_no_option:
  "safe_unit v = Inr unit \<Longrightarrow> unit \<noteq> [] \<and> hd unit \<noteq> CHR ''-'' \<and> CHR '' '' \<notin> set unit"
proof -
  assume unit: "safe_unit v = Inr unit"
  have "\<not> unit_char CHR '' ''" by code_simp
  with unit show ?thesis
    by (cases unit) (auto simp: safe_unit_def res_bind_Inr_iff starts_with_def list_all_iff split: if_splits)
qed

end
