(* ===== verification/Guest_Accounts.thy ===== *)
theory Guest_Accounts
  imports Guest_Args
begin

text \<open>
  The user, group, sudo and ACL validators (guest/linuxlab-agent/src/validators/identity.rs).
\<close>

section \<open>Accounts and groups\<close>

definition no_account :: "validator \<Rightarrow> string \<Rightarrow> check_outcome" where
  "no_account v user =
     outcome_fail (v_kind v) (''There is no account called '' @ user @ ''.'') TaskPartiallyCompleted"

definition no_passwd :: "validator \<Rightarrow> check_outcome" where
  "no_passwd v = outcome_error (v_kind v) ''could not read /etc/passwd''"

definition no_group_file :: "validator \<Rightarrow> check_outcome" where
  "no_group_file v = outcome_error (v_kind v) ''could not read /etc/group''"

definition user_exists :: "guest \<Rightarrow> validator \<Rightarrow> check_outcome" where
  "user_exists g v =
     with_arg (arg_string v ''user'') (\<lambda>user.
       case read_passwd g of
         None \<Rightarrow> no_passwd v
       | Some entries \<Rightarrow>
           (case find_user user entries of
              Some entry \<Rightarrow>
                let passed = with_observed (''uid '' @ dec (unat (pw_uid entry)))
                      (outcome_pass (v_kind v) (''The account '' @ user @ '' exists.'')) in
                (case optional_integer v ''uidMin'' of
                   None \<Rightarrow> passed
                 | Some minimum \<Rightarrow>
                     if uint (pw_uid entry) < minimum then
                       with_observed (dec (unat (pw_uid entry))) (with_expected (''uid of at least '' @ dec_int minimum)
                         (outcome_fail (v_kind v) (''The account '' @ user @ '' exists but has uid ''
                            @ dec (unat (pw_uid entry))
                            @ '', which is in the system range rather than the regular user range.'')
                            TaskPartiallyCompleted))
                     else passed)
            | None \<Rightarrow> no_account v user))"

definition user_missing :: "guest \<Rightarrow> validator \<Rightarrow> check_outcome" where
  "user_missing g v =
     with_arg (arg_string v ''user'') (\<lambda>user.
       case read_passwd g of
         None \<Rightarrow> no_passwd v
       | Some entries \<Rightarrow>
           if list_ex (\<lambda>e. pw_name e = user) entries then
             outcome_fail (v_kind v) (''The account '' @ user @ '' still exists.'') TaskPartiallyCompleted
           else outcome_pass (v_kind v) (''There is no account called '' @ user @ ''.''))"

definition no_group :: "validator \<Rightarrow> string \<Rightarrow> check_outcome" where
  "no_group v grp =
     outcome_fail (v_kind v) (''There is no group called '' @ grp @ ''.'') TaskPartiallyCompleted"

definition group_exists :: "guest \<Rightarrow> validator \<Rightarrow> check_outcome" where
  "group_exists g v =
     with_arg (arg_string v ''group'') (\<lambda>grp.
       case read_groups g of
         None \<Rightarrow> no_group_file v
       | Some groups \<Rightarrow>
           if list_ex (\<lambda>e. gr_name e = grp) groups
           then outcome_pass (v_kind v) (''The group '' @ grp @ '' exists.'') else no_group v grp)"

definition primary_membership :: "guest \<Rightarrow> validator \<Rightarrow> string \<Rightarrow> string \<Rightarrow> passwd_entry \<Rightarrow> group_entry \<Rightarrow> check_outcome" where
  "primary_membership g v user grp entry target =
     (if pw_gid entry = gr_gid target
      then outcome_pass (v_kind v) (grp @ '' is the primary group of '' @ user @ ''.'')
      else with_observed (case group_for_gid g (pw_gid entry) of Some n \<Rightarrow> n | None \<Rightarrow> dec (unat (pw_gid entry)))
        (with_expected grp
          (outcome_fail (v_kind v) (grp @ '' is not the primary group of '' @ user @ ''.'') WrongOwnership)))"

definition supplementary_membership ::
  "guest \<Rightarrow> validator \<Rightarrow> string \<Rightarrow> string \<Rightarrow> passwd_entry \<Rightarrow> group_entry \<Rightarrow> check_outcome" where
  "supplementary_membership g v user grp entry target =
     (if user \<in> set (gr_members target) \<or> pw_gid entry = gr_gid target
      then outcome_pass (v_kind v) (user @ '' is a member of '' @ grp @ ''.'')
      else with_observed (join '', '' (case groups_for_user g user of Some ns \<Rightarrow> ns | None \<Rightarrow> []))
        (with_expected grp
          (outcome_fail (v_kind v) (user @ '' is not in the '' @ grp
             @ '' group. Note that adding a user to a group does not change the groups of sessions that are already open.'')
             WrongOwnership)))"

definition group_membership :: "guest \<Rightarrow> validator \<Rightarrow> check_outcome" where
  "group_membership g v =
     with_arg (arg_string v ''user'') (\<lambda>user. with_arg (arg_string v ''group'') (\<lambda>grp.
       case read_passwd g of
         None \<Rightarrow> no_passwd v
       | Some passwd \<Rightarrow>
           (case find_user user passwd of
              None \<Rightarrow> no_account v user
            | Some entry \<Rightarrow>
                (case read_groups g of
                   None \<Rightarrow> no_group_file v
                 | Some groups \<Rightarrow>
                     (case List.find (\<lambda>e. gr_name e = grp) groups of
                        None \<Rightarrow> no_group v grp
                      | Some target \<Rightarrow>
                          if arg_flag v ''primary'' then primary_membership g v user grp entry target
                          else supplementary_membership g v user grp entry target)))))"

section \<open>sudo and passwords\<close>

definition sudo_permission :: "externals \<Rightarrow> validator \<Rightarrow> guest \<Rightarrow> check_outcome \<times> guest" where
  "sudo_permission X v =
     with_arg_at (arg_string v ''user'') (\<lambda>user g.
       let expected_allowed = arg_flag_or v ''allowed'' True;
           command = optional_string v ''command'';
           arguments = [''-l'', ''-U'', user] @ (case command of Some c \<Rightarrow> [''--'', c] | None \<Rightarrow> []);
           subject = (case command of Some c \<Rightarrow> ''run '' @ c @ '' with sudo'' | None \<Rightarrow> ''use sudo'') in
       with_output (v_kind v) (run_command X ''sudo'' arguments None g) (\<lambda>out.
         let allowed = (if command \<noteq> None then command_success out
               else command_success out \<and> \<not> has_text (co_stdout out) ''not allowed to run sudo'') in
         if allowed \<and> expected_allowed then outcome_pass (v_kind v) (user @ '' may '' @ subject @ ''.'')
         else if \<not> allowed \<and> \<not> expected_allowed
         then outcome_pass (v_kind v) (user @ '' may not '' @ subject @ ''.'')
         else if allowed then
           outcome_fail (v_kind v) (user @ '' can still '' @ subject @ '', but should not be able to.'') PermissionDenied
         else outcome_fail (v_kind v) (user @ '' cannot '' @ subject @ '' yet.'') PermissionDenied))"

text \<open>The password field of the first line whose first field is the user.\<close>

definition shadow_hash :: "string \<Rightarrow> string \<Rightarrow> string option" where
  "shadow_hash user shadow =
     map_option (\<lambda>line. case split_on (\<lambda>c. c = CHR '':'') line of _ # h # _ \<Rightarrow> h | _ \<Rightarrow> [])
       (List.find (\<lambda>line. hd (split_on (\<lambda>c. c = CHR '':'') line) = user) (lines shadow))"

definition locked_hash :: "string \<Rightarrow> bool" where
  "locked_hash hash \<longleftrightarrow> hash = [] \<or> starts_with hash ''!'' \<or> starts_with hash ''*''"

definition password_locked :: "guest \<Rightarrow> validator \<Rightarrow> check_outcome" where
  "password_locked g v =
     with_arg (arg_string v ''user'') (\<lambda>user.
       let expected_locked = arg_flag_or v ''locked'' True;
           word = (\<lambda>b. if b then ''locked'' else ''not locked'') in
       case read_to_string g ''/etc/shadow'' of
         None \<Rightarrow> outcome_error (v_kind v) ''could not read /etc/shadow; the agent must run as root''
       | Some shadow \<Rightarrow>
           (case shadow_hash user shadow of
              None \<Rightarrow> outcome_fail (v_kind v) (''There is no shadow entry for '' @ user @ ''.'') TaskPartiallyCompleted
            | Some hash \<Rightarrow>
                if locked_hash hash = expected_locked then
                  outcome_pass (v_kind v) (''The password for '' @ user @ '' is ''
                    @ (if locked_hash hash then ''locked'' else ''usable'') @ ''.'')
                else with_observed (word (locked_hash hash)) (with_expected (word expected_locked)
                  (outcome_fail (v_kind v)
                    (''The password for '' @ user @ '' is '' @ word (locked_hash hash) @ ''.'') PermissionDenied))))"

section \<open>Login shell, home directory, ACL\<close>

definition login_shell :: "guest \<Rightarrow> validator \<Rightarrow> check_outcome" where
  "login_shell g v =
     with_arg (arg_string v ''user'') (\<lambda>user. with_arg (arg_string v ''shell'') (\<lambda>expected.
       case read_passwd g of
         None \<Rightarrow> no_passwd v
       | Some entries \<Rightarrow>
           (case find_user user entries of
              Some entry \<Rightarrow>
                if pw_shell entry = expected
                then outcome_pass (v_kind v) (''The login shell for '' @ user @ '' is '' @ expected @ ''.'')
                else with_observed (pw_shell entry) (with_expected expected
                  (outcome_fail (v_kind v)
                    (''The login shell for '' @ user @ '' is not what the task asked for.'') TaskPartiallyCompleted))
            | None \<Rightarrow> no_account v user)))"

definition home_directory :: "guest \<Rightarrow> validator \<Rightarrow> check_outcome" where
  "home_directory g v =
     with_arg (arg_string v ''user'') (\<lambda>user. with_arg (arg_string v ''path'') (\<lambda>expected.
       case read_passwd g of
         None \<Rightarrow> no_passwd v
       | Some entries \<Rightarrow>
           (case find_user user entries of
              None \<Rightarrow> no_account v user
            | Some entry \<Rightarrow>
                if pw_home entry \<noteq> expected then
                  with_observed (pw_home entry) (with_expected expected
                    (outcome_fail (v_kind v)
                      (''The home directory recorded for '' @ user @ '' is not what the task asked for.'')
                      TaskPartiallyCompleted))
                else if arg_flag v ''mustExist'' \<and> \<not> is_dir g expected then
                  outcome_fail (v_kind v) (user @ '' is configured with the home directory '' @ expected
                    @ '', but that directory does not exist. Creating a user does not create their home directory unless you ask for it.'')
                    WrongPath
                else outcome_pass (v_kind v) (''The home directory for '' @ user @ '' is '' @ expected @ ''.''))))"

definition acl_lines :: "string \<Rightarrow> string list" where
  "acl_lines text = filter (\<lambda>line. \<not> starts_with line ''#'') (nonempty_lines text)"

definition acl_entry_is :: "bool \<Rightarrow> string \<Rightarrow> string \<Rightarrow> bool" where
  "acl_entry_is want_default entry line =
     (let is_default = starts_with line ''default:'';
          body = (case strip_prefix ''default:'' line of Some b \<Rightarrow> b | None \<Rightarrow> line)
      in is_default = want_default \<and> body = entry)"

definition acl_contains :: "externals \<Rightarrow> validator \<Rightarrow> guest \<Rightarrow> check_outcome \<times> guest" where
  "acl_contains X v =
     with_arg_at (arg_path v ''path'') (\<lambda>path. with_arg_at (arg_string v ''entry'') (\<lambda>entry g.
       let want_default = arg_flag v ''isDefault'' in
       with_output (v_kind v) (run_command X ''getfacl'' [''--omit-header'', ''--'', path] None g) (\<lambda>out.
         if \<not> command_success out then
           outcome_fail (v_kind v) (''Could not read the ACL of '' @ path @ ''. Does it exist?'') WrongPath
         else
           let acl = acl_lines (co_stdout out) in
           if list_ex (acl_entry_is want_default entry) acl
           then outcome_pass (v_kind v) (path @ '' has the expected ACL entry.'')
           else with_observed (join '', '' acl) (with_expected (if want_default then ''default:'' @ entry else entry)
             (outcome_fail (v_kind v) (path @ '' does not have the expected ACL entry.'') WrongPermissions)))))"

definition identity_dispatch :: "externals \<Rightarrow> ctx \<Rightarrow> validator \<Rightarrow> guest \<Rightarrow> (check_outcome \<times> guest) option" where
  "identity_dispatch X cx v g =
     (let kind = v_kind v; pure = (\<lambda>c. Some (c, g)) in
      if kind = ''user_exists'' then pure (user_exists g v)
      else if kind = ''user_missing'' then pure (user_missing g v)
      else if kind = ''group_exists'' then pure (group_exists g v)
      else if kind = ''group_membership'' then pure (group_membership g v)
      else if kind = ''sudo_permission'' then Some (sudo_permission X v g)
      else if kind = ''password_locked'' then pure (password_locked g v)
      else if kind = ''login_shell'' then pure (login_shell g v)
      else if kind = ''home_directory'' then pure (home_directory g v)
      else if kind = ''acl_contains'' then Some (acl_contains X v g)
      else None)"

section \<open>Lemmas\<close>

lemma account_outcomes [simp]:
  "fresh (no_account v u)" "fresh (no_passwd v)" "fresh (no_group_file v)" "fresh (no_group v gr)"
  "\<not> o_passed (no_account v u)" "\<not> o_passed (no_passwd v)" "\<not> o_passed (no_group_file v)" "\<not> o_passed (no_group v gr)"
  by (simp_all add: no_account_def no_passwd_def no_group_file_def no_group_def)

lemmas account_checks = user_exists_def user_missing_def group_exists_def group_membership_def
  primary_membership_def supplementary_membership_def password_locked_def login_shell_def home_directory_def

lemma account_checks_fresh:
  "fresh (user_exists g v)" "fresh (user_missing g v)" "fresh (group_exists g v)" "fresh (group_membership g v)"
  "fresh (password_locked g v)" "fresh (login_shell g v)" "fresh (home_directory g v)"
  unfolding account_checks by (intro fresh_intros; simp)+

lemma sudo_permission_fresh: "fresh (fst (sudo_permission X v g))"
  unfolding sudo_permission_def Let_def by simp

lemma acl_contains_fresh: "fresh (fst (acl_contains X v g))"
  unfolding acl_contains_def Let_def by simp

lemma identity_dispatch_fresh: "identity_dispatch X cx v g = Some r \<Longrightarrow> fresh (fst r)"
  unfolding identity_dispatch_def Let_def by (elim dispatch_elim; simp add: account_checks_fresh sudo_permission_fresh acl_contains_fresh)

end
