(* ===== verification/Guest_Network.thy ===== *)
theory Guest_Network
  imports Guest_Args
begin

unbundle bit_operations_syntax

text \<open>
  The networking validators (guest/linuxlab-agent/src/validators/network.rs) with the parsers of
  the output of \<^verbatim>\<open>ip\<close>, \<^verbatim>\<open>dig\<close> and \<^verbatim>\<open>nft\<close>. All commands run in the namespace of the validator or
  the lesson when there is one.
\<close>

section \<open>Running and parsing\<close>

definition net_run ::
  "externals \<Rightarrow> ctx \<Rightarrow> validator \<Rightarrow> string \<Rightarrow> string list \<Rightarrow> nat option \<Rightarrow> guest \<Rightarrow> (string + command_output) \<times> guest" where
  "net_run X cx v program arguments timeout =
     (case namespace_for cx v of
        Some namespace \<Rightarrow> run_in_namespace X namespace program arguments timeout
      | None \<Rightarrow> run_command X program arguments timeout)"

definition unreachable :: "validator \<Rightarrow> string \<Rightarrow> check_outcome" where
  "unreachable v message = outcome_fail (v_kind v) message NetworkUnreachable"

definition before_char :: "char \<Rightarrow> string \<Rightarrow> string" where
  "before_char c s = takeWhile (\<lambda>d. d \<noteq> c) s"

definition interface_name :: "string \<Rightarrow> string option" where
  "interface_name line =
     map_option (\<lambda>(_, after). before_char CHR ''@'' (trim (before_char CHR '':'' (trim_start after))))
       (split_once CHR '':'' line)"

definition parse_interface_names :: "string \<Rightarrow> string list" where
  "parse_interface_names out = filter (\<lambda>n. n \<noteq> []) (List.map_filter interface_name (lines out))"

definition parse_oper_state :: "externals \<Rightarrow> string \<Rightarrow> string option" where
  "parse_oper_state X out =
     (let tokens = split_whitespace out in
      Option.bind (position (\<lambda>t. t = ''state'') tokens) (\<lambda>i. map_option (x_lower X) (nth_field tokens (Suc i))))"

fun addresses_in :: "string list \<Rightarrow> string list" where
  "addresses_in (t # a # ts) =
     (if t = ''inet'' \<or> t = ''inet6'' then a # addresses_in (a # ts) else addresses_in (a # ts))"
| "addresses_in _ = []"

definition parse_addresses :: "string \<Rightarrow> string list" where
  "parse_addresses out = concat (map (\<lambda>line. addresses_in (split_whitespace line)) (lines out))"

definition summarise_routes :: "string \<Rightarrow> string" where
  "summarise_routes out = or_text (take 5 (lines out)) ''; '' ''an empty routing table''"

text \<open>The ceiling of a division of doubles, clamped to 1 to 30 seconds; below thirty seconds the
  rounding of the quotient does not change its ceiling.\<close>

definition wait_seconds :: "int \<Rightarrow> nat" where
  "wait_seconds millis = nat (max 1 (min 30 ((millis + 999) div 1000)))"

section \<open>Interfaces, addresses and routes\<close>

definition interface_exists :: "externals \<Rightarrow> ctx \<Rightarrow> validator \<Rightarrow> guest \<Rightarrow> check_outcome \<times> guest" where
  "interface_exists X cx v =
     with_arg_at (arg_string v ''interface'') (\<lambda>iface g.
       with_output (v_kind v) (net_run X cx v ''ip'' [''-o'', ''link'', ''show''] None g) (\<lambda>out.
         let names = parse_interface_names (co_stdout out) in
         if iface \<in> set names then outcome_pass (v_kind v) (''The interface '' @ iface @ '' exists.'')
         else with_observed (join '', '' names) (with_expected iface
           (unreachable v (''There is no interface called '' @ iface @ ''.'')))))"

definition interface_up :: "command_output \<Rightarrow> string \<Rightarrow> bool" where
  "interface_up out operational \<longleftrightarrow>
     eq_ignore_ascii_case operational ''up''
     \<or> (eq_ignore_ascii_case operational ''unknown'' \<and> has_text (co_stdout out) ''state UNKNOWN''
        \<and> has_text (co_stdout out) '',UP'')"

definition interface_state :: "externals \<Rightarrow> ctx \<Rightarrow> validator \<Rightarrow> guest \<Rightarrow> check_outcome \<times> guest" where
  "interface_state X cx v =
     with_arg_at (arg_string v ''interface'') (\<lambda>iface. with_arg_at (arg_string v ''state'') (\<lambda>expected g.
       with_output (v_kind v)
         (net_run X cx v ''ip'' [''-o'', ''link'', ''show'', ''dev'', iface] None g) (\<lambda>out.
         if \<not> command_success out then unreachable v (''There is no interface called '' @ iface @ ''.'')
         else
           let operational = (case parse_oper_state X (co_stdout out) of Some s \<Rightarrow> s | None \<Rightarrow> ''unknown'');
               up = interface_up out operational in
           if (expected = ''up'' \<and> up) \<or> (expected = ''down'' \<and> \<not> up)
           then outcome_pass (v_kind v) (iface @ '' is '' @ operational @ ''.'')
           else with_observed operational (with_expected expected
             (unreachable v (iface @ '' is '' @ operational @ '', not '' @ expected
                @ ''. Bring it up with `ip link set '' @ iface @ '' up`.''))))))"

definition ip_address :: "externals \<Rightarrow> ctx \<Rightarrow> validator \<Rightarrow> guest \<Rightarrow> check_outcome \<times> guest" where
  "ip_address X cx v =
     with_arg_at (arg_string v ''interface'') (\<lambda>iface. with_arg_at (arg_string v ''address'') (\<lambda>expected g.
       with_output (v_kind v)
         (net_run X cx v ''ip'' [''-o'', ''address'', ''show'', ''dev'', iface] None g) (\<lambda>out.
         if \<not> command_success out then unreachable v (''There is no interface called '' @ iface @ ''.'')
         else
           let addresses = parse_addresses (co_stdout out) in
           if expected \<in> set addresses
           then outcome_pass (v_kind v) (iface @ '' has the address '' @ expected @ ''.'')
           else with_observed (or_text addresses '', '' ''no addresses'') (with_expected expected
             (unreachable v (iface @ '' does not have the address '' @ expected @ ''.''))))))"

definition route_exists :: "externals \<Rightarrow> ctx \<Rightarrow> validator \<Rightarrow> guest \<Rightarrow> check_outcome \<times> guest" where
  "route_exists X cx v =
     with_arg_at (arg_string v ''destination'') (\<lambda>destination g.
       with_output (v_kind v) (net_run X cx v ''ip'' [''route'', ''show''] None g) (\<lambda>out.
         let routes = filter (\<lambda>line. split_whitespace line \<noteq> [] \<and> hd (split_whitespace line) = destination)
               (lines (co_stdout out));
             lacks = (\<lambda>opt. case optional_string v opt of
               Some x \<Rightarrow> \<not> list_ex (\<lambda>line. has_text line (opt @ '' '' @ x)) routes | None \<Rightarrow> False);
             want = (\<lambda>opt. opt @ '' '' @ the (optional_string v opt)) in
         if routes = [] then
           with_observed (summarise_routes (co_stdout out)) (with_expected destination
             (unreachable v (''There is no route to '' @ destination @ ''.'')))
         else if lacks ''via'' then
           with_observed (join ''; '' routes) (with_expected (want ''via'')
             (unreachable v (''The route to '' @ destination @ '' does not go via ''
                @ the (optional_string v ''via'') @ ''.'')))
         else if lacks ''dev'' then
           with_observed (join ''; '' routes) (with_expected (want ''dev'')
             (unreachable v (''The route to '' @ destination @ '' does not use ''
                @ the (optional_string v ''dev'') @ ''.'')))
         else outcome_pass (v_kind v) (''A route to '' @ destination @ '' exists.'')))"

definition default_route :: "externals \<Rightarrow> ctx \<Rightarrow> validator \<Rightarrow> guest \<Rightarrow> check_outcome \<times> guest" where
  "default_route X cx v g =
     with_output (v_kind v) (net_run X cx v ''ip'' [''route'', ''show'', ''default''] None g) (\<lambda>out.
       let line = stdout_trimmed out;
           lacks = (\<lambda>opt. case optional_string v opt of
             Some x \<Rightarrow> \<not> has_text line (opt @ '' '' @ x) | None \<Rightarrow> False);
           want = (\<lambda>opt. opt @ '' '' @ the (optional_string v opt)) in
       if line = [] then
         unreachable v ''There is no default route, so traffic to other networks has nowhere to go.''
       else if lacks ''via'' then
         with_observed line (with_expected (want ''via'')
           (unreachable v (''The default route does not go via '' @ the (optional_string v ''via'') @ ''.'')))
       else if lacks ''dev'' then
         with_observed line (with_expected (want ''dev'')
           (unreachable v (''The default route does not use '' @ the (optional_string v ''dev'') @ ''.'')))
       else with_observed line (outcome_pass (v_kind v) ''A default route is configured.''))"

section \<open>Names and connections\<close>

definition dns_resolution :: "externals \<Rightarrow> ctx \<Rightarrow> validator \<Rightarrow> guest \<Rightarrow> check_outcome \<times> guest" where
  "dns_resolution X cx v =
     with_arg_at (arg_string v ''name'') (\<lambda>name g.
       let arguments = [''+short'', ''+time=2'', ''+tries=1'']
             @ (case optional_string v ''server'' of Some server \<Rightarrow> [''@'' @ server] | None \<Rightarrow> []) @ [name] in
       with_output (v_kind v) (net_run X cx v ''dig'' arguments (Some 6000) g) (\<lambda>out.
         let answers = nonempty_lines (co_stdout out);
             resolved = with_observed (join '', '' answers) (outcome_pass (v_kind v) (name @ '' resolves.'')) in
         if answers = [] then
           with_observed ''no answer'' (with_expected (''an address for '' @ name)
             (outcome_fail (v_kind v) (name @ '' does not resolve. Check /etc/resolv.conf and the DNS server.'')
                DnsFailure))
         else case optional_string v ''expect'' of
           None \<Rightarrow> resolved
         | Some expected \<Rightarrow>
             if expected \<in> set answers then resolved
             else with_observed (join '', '' answers) (with_expected expected
               (outcome_fail (v_kind v) (name @ '' resolves, but not to the expected address.'') DnsFailure))))"

definition missing_port :: "validator \<Rightarrow> check_outcome" where
  "missing_port v = outcome_error (v_kind v) ''the port parameter is missing or not a number''"

definition tcp_connection :: "externals \<Rightarrow> ctx \<Rightarrow> validator \<Rightarrow> guest \<Rightarrow> check_outcome \<times> guest" where
  "tcp_connection X cx v =
     with_arg_at (arg_string v ''host'') (\<lambda>host g.
       case optional_integer v ''port'' of
         None \<Rightarrow> (missing_port v, g)
       | Some port \<Rightarrow>
           let seconds = wait_seconds (case optional_integer v ''timeoutMs'' of Some t \<Rightarrow> t | None \<Rightarrow> 3000) in
           with_output (v_kind v)
             (net_run X cx v ''nc'' [''-z'', ''-w'', dec seconds, host, dec_int port]
                (Some (1000 * (seconds + 2))) g) (\<lambda>out.
             if command_success out
             then outcome_pass (v_kind v) (''A TCP connection to '' @ host @ '':'' @ dec_int port @ '' works.'')
             else unreachable v (''Nothing accepted a TCP connection on '' @ host @ '':'' @ dec_int port
               @ ''. Check the service, the bind address and the firewall in that order.'')))"

definition udp_listener :: "guest \<Rightarrow> validator \<Rightarrow> check_outcome" where
  "udp_listener g v =
     (case optional_integer v ''port'' of
        None \<Rightarrow> missing_port v
      | Some port \<Rightarrow>
          let bound = filter (\<lambda>s. uint (so_port s) = port) (read_sockets g ''udp'');
              passed = outcome_pass (v_kind v) (''A UDP socket is bound to port '' @ dec_int port @ ''.'') in
          if bound = [] then
            outcome_fail (v_kind v) (''Nothing is bound to UDP port '' @ dec_int port @ ''.'') WrongPort
          else case optional_string v ''address'' of
            None \<Rightarrow> passed
          | Some expected \<Rightarrow>
              if expected \<in> set (map so_address bound) then passed
              else with_observed (join '', '' (map so_address bound)) (with_expected expected
                (outcome_fail (v_kind v) (''UDP port '' @ dec_int port @ '' is bound to the wrong address.'') WrongPort)))"

definition curl :: "externals \<Rightarrow> ctx \<Rightarrow> validator \<Rightarrow> string \<Rightarrow> string list \<Rightarrow> guest \<Rightarrow> (string + command_output) \<times> guest" where
  "curl X cx v url extra g =
     (let seconds = wait_seconds (case optional_integer v ''timeoutMs'' of Some t \<Rightarrow> t | None \<Rightarrow> 5000) in
      net_run X cx v ''curl''
        ([''--silent'', ''--show-error'', ''--max-time'', dec seconds] @ extra @ [''--'', url])
        (Some (1000 * (seconds + 2))) g)"

definition http_status :: "externals \<Rightarrow> ctx \<Rightarrow> validator \<Rightarrow> guest \<Rightarrow> check_outcome \<times> guest" where
  "http_status X cx v =
     with_arg_at (arg_string v ''url'') (\<lambda>url g.
       case optional_integer v ''status'' of
         None \<Rightarrow> (outcome_error (v_kind v) ''the status parameter is missing or not a number'', g)
       | Some expected \<Rightarrow>
           let http_verb = (case optional_string v ''method'' of Some m \<Rightarrow> m | None \<Rightarrow> ''GET'');
               extra = [''-o'', ''/dev/null'', ''-w'', ''%{http_code}'']
                 @ (if http_verb = ''HEAD'' then [''--head'']
                    else if http_verb = ''POST'' then [''-X'', ''POST''] else []) in
           with_output (v_kind v) (curl X cx v url extra g) (\<lambda>out.
             let actual = stdout_trimmed out in
             if \<not> command_success out \<and> actual = [] then
               unreachable v (url @ '' could not be reached at all ('' @ trim (co_stderr out) @ '').'')
             else if actual = dec_int expected
             then outcome_pass (v_kind v) (url @ '' returned '' @ actual @ ''.'')
             else with_observed actual (with_expected (dec_int expected)
               (outcome_fail (v_kind v) (url @ '' returned '' @ actual @ '' rather than '' @ dec_int expected @ ''.'')
                  NetworkUnreachable))))"

definition http_body :: "externals \<Rightarrow> ctx \<Rightarrow> validator \<Rightarrow> guest \<Rightarrow> check_outcome \<times> guest" where
  "http_body X cx v =
     with_arg_at (arg_string v ''url'') (\<lambda>url. with_arg_at (arg_string v ''contains'') (\<lambda>needle g.
       with_output (v_kind v) (curl X cx v url [] g) (\<lambda>out.
         if \<not> command_success out \<and> co_stdout out = [] then
           unreachable v (url @ '' could not be reached ('' @ trim (co_stderr out) @ '').'')
         else if has_text (co_stdout out) needle
         then outcome_pass (v_kind v) (url @ '' returned the expected content.'')
         else with_expected needle
           (outcome_fail (v_kind v) (url @ '' did not return the expected content.'') NetworkUnreachable))))"

section \<open>Firewall\<close>

record block_scan =
  bs_collected :: string
  bs_depth :: nat
  bs_in_table :: bool
  bs_in_chain :: bool

definition scan_line :: "string option \<Rightarrow> string option \<Rightarrow> string \<Rightarrow> block_scan \<Rightarrow> block_scan" where
  "scan_line table chain line s =
     (let trimmed = trim line;
          opens_table = starts_with trimmed ''table '';
          s = (case table of
                 Some name \<Rightarrow>
                   if opens_table \<and> has_text trimmed name then s\<lparr>bs_in_table := True\<rparr>
                   else if opens_table then s\<lparr>bs_in_table := False, bs_in_chain := (chain = None)\<rparr>
                   else s
               | None \<Rightarrow> s);
          s = (case chain of
                 Some name \<Rightarrow>
                   if starts_with trimmed ''chain ''
                   then s\<lparr>bs_in_chain := (nth_field (split_whitespace trimmed) 1 = Some name)\<rparr> else s
               | None \<Rightarrow> s);
          s = s\<lparr>bs_depth := bs_depth s + count_list trimmed CHR ''{'' - count_list trimmed CHR ''}''\<rparr>;
          s = (if bs_in_table s \<and> bs_in_chain s
               then s\<lparr>bs_collected := bs_collected s @ line @ [CHR 0x0A]\<rparr> else s)
      in if bs_depth s = 0 \<and> starts_with trimmed ''}'' then s\<lparr>bs_in_chain := (chain = None)\<rparr> else s)"

definition extract_block :: "string \<Rightarrow> string option \<Rightarrow> string option \<Rightarrow> string" where
  "extract_block ruleset table chain =
     bs_collected (fold (scan_line table chain) (lines ruleset)
       \<lparr>bs_collected = [], bs_depth = 0, bs_in_table = (table = None), bs_in_chain = (chain = None)\<rparr>)"

definition firewall_rule :: "externals \<Rightarrow> ctx \<Rightarrow> validator \<Rightarrow> guest \<Rightarrow> check_outcome \<times> guest" where
  "firewall_rule X cx v =
     with_arg_at (arg_string v ''contains'') (\<lambda>needle g.
       with_output (v_kind v) (net_run X cx v ''nft'' [''list'', ''ruleset''] None g) (\<lambda>out.
         if \<not> command_success out then
           outcome_error (v_kind v) (''could not read the firewall ruleset: '' @ trim (co_stderr out))
         else
           let table = optional_string v ''table''; chain = optional_string v ''chain'';
               scoped = (if table = None \<and> chain = None then co_stdout out
                         else extract_block (co_stdout out) table chain) in
           if has_text scoped needle
           then outcome_pass (v_kind v) ''The firewall ruleset contains the expected rule.''
           else with_expected needle
             (outcome_fail (v_kind v) ''The firewall ruleset does not contain the expected rule.'' NetworkUnreachable)))"

section \<open>SSH\<close>

definition key_mode_safe :: "file_facts \<Rightarrow> bool" where
  "key_mode_safe facts \<longleftrightarrow> ff_permissions facts AND 0x3F = 0"

definition ssh_key_valid :: "externals \<Rightarrow> validator \<Rightarrow> guest \<Rightarrow> check_outcome \<times> guest" where
  "ssh_key_valid X v =
     with_arg_at (arg_path v ''path'') (\<lambda>path g.
       case run_command X ''ssh-keygen'' [''-l'', ''-f'', path] None g of
         (Inl err, g') \<Rightarrow> (outcome_error (v_kind v) err, g')
       | (Inr out, g') \<Rightarrow>
           (let summary = stdout_trimmed out;
                wrong_type = (case optional_string v ''keyType'' of
                  Some t \<Rightarrow> \<not> has_text (x_lower X summary) (''('' @ x_lower X t @ '')'') | None \<Rightarrow> False);
                passed = with_observed summary (outcome_pass (v_kind v) (path @ '' is a valid SSH key.'')) in
            if \<not> command_success out then
              with_observed (trim (co_stderr out))
                (outcome_fail (v_kind v) (path @ '' is not a valid SSH key.'') PermissionDenied)
            else if wrong_type then
              with_observed summary (with_expected (the (optional_string v ''keyType''))
                (outcome_fail (v_kind v) (path @ '' is not an '' @ the (optional_string v ''keyType'') @ '' key.'')
                   PermissionDenied))
            else if arg_flag v ''requireSafeMode'' then
              (case stat g' path of
                 None \<Rightarrow> outcome_fail (v_kind v) (path @ '' could not be inspected.'') WrongPath
               | Some facts \<Rightarrow>
                   if key_mode_safe facts then passed
                   else with_observed (format_mode (ff_permissions facts)) (with_expected ''0600''
                     (outcome_fail (v_kind v) (path @ '' is readable by other users, so ssh will refuse to use it. A private key should be 0600.'')
                        WrongPermissions)))
            else passed, g'))"

definition remote_file_exists :: "externals \<Rightarrow> ctx \<Rightarrow> validator \<Rightarrow> guest \<Rightarrow> check_outcome \<times> guest" where
  "remote_file_exists X cx v =
     with_arg_at (arg_string v ''host'') (\<lambda>host. with_arg_at (arg_string v ''path'') (\<lambda>path g.
       let user = (case optional_string v ''user'' of Some u \<Rightarrow> u | None \<Rightarrow> ''student'') in
       with_output (v_kind v)
         (net_run X cx v ''ssh''
            [''-o'', ''BatchMode=yes'', ''-o'', ''StrictHostKeyChecking=accept-new'', ''-o'', ''ConnectTimeout=4'',
             user @ ''@'' @ host, ''test'', ''-e'', path] (Some 12000) g) (\<lambda>out.
         if command_success out then outcome_pass (v_kind v) (path @ '' exists on '' @ host @ ''.'')
         else if has_text (co_stderr out) ''Permission denied'' then
           outcome_fail (v_kind v) (''Could not log in to '' @ host @ '' as '' @ user @ '' without a password.'')
             PermissionDenied
         else with_observed (trim (co_stderr out))
           (unreachable v (path @ '' was not found on '' @ host @ '', or '' @ host @ '' could not be reached.'')))))"

definition network_dispatch :: "externals \<Rightarrow> ctx \<Rightarrow> validator \<Rightarrow> guest \<Rightarrow> (check_outcome \<times> guest) option" where
  "network_dispatch X cx v g =
     (let kind = v_kind v in
      if kind = ''interface_exists'' then Some (interface_exists X cx v g)
      else if kind = ''interface_state'' then Some (interface_state X cx v g)
      else if kind = ''ip_address'' then Some (ip_address X cx v g)
      else if kind = ''route_exists'' then Some (route_exists X cx v g)
      else if kind = ''default_route'' then Some (default_route X cx v g)
      else if kind = ''dns_resolution'' then Some (dns_resolution X cx v g)
      else if kind = ''tcp_connection'' then Some (tcp_connection X cx v g)
      else if kind = ''udp_listener'' then Some (udp_listener g v, g)
      else if kind = ''http_status'' then Some (http_status X cx v g)
      else if kind = ''http_body'' then Some (http_body X cx v g)
      else if kind = ''firewall_rule'' then Some (firewall_rule X cx v g)
      else if kind = ''ssh_key_valid'' then Some (ssh_key_valid X v g)
      else if kind = ''remote_file_exists'' then Some (remote_file_exists X cx v g)
      else None)"

section \<open>Lemmas\<close>

lemma net_outcomes [simp]: "fresh (unreachable v m)" "\<not> o_passed (unreachable v m)" "fresh (missing_port v)"
  by (simp_all add: unreachable_def missing_port_def)

lemma interface_exists_fresh: "fresh (fst (interface_exists X cx v g))"
  unfolding interface_exists_def Let_def by simp

lemma interface_state_fresh: "fresh (fst (interface_state X cx v g))"
  unfolding interface_state_def Let_def by simp

lemma ip_address_fresh: "fresh (fst (ip_address X cx v g))"
  unfolding ip_address_def Let_def by simp

lemma route_exists_fresh: "fresh (fst (route_exists X cx v g))"
  unfolding route_exists_def Let_def by simp

lemma default_route_fresh: "fresh (fst (default_route X cx v g))"
  unfolding default_route_def Let_def by simp

lemma dns_resolution_fresh: "fresh (fst (dns_resolution X cx v g))"
  unfolding dns_resolution_def Let_def by (simp split: option.split)

lemma tcp_connection_fresh: "fresh (fst (tcp_connection X cx v g))"
  unfolding tcp_connection_def Let_def by (simp split: option.split)

lemma udp_listener_fresh: "fresh (udp_listener g v)"
  unfolding udp_listener_def Let_def by (simp split: option.split)

lemma http_status_fresh: "fresh (fst (http_status X cx v g))"
  unfolding http_status_def Let_def by (simp split: option.split)

lemma http_body_fresh: "fresh (fst (http_body X cx v g))"
  unfolding http_body_def by simp

lemma firewall_rule_fresh: "fresh (fst (firewall_rule X cx v g))"
  unfolding firewall_rule_def Let_def by simp

lemma ssh_key_valid_fresh: "fresh (fst (ssh_key_valid X v g))"
  unfolding ssh_key_valid_def Let_def by (simp split: option.split sum.split prod.split)

lemma remote_file_exists_fresh: "fresh (fst (remote_file_exists X cx v g))"
  unfolding remote_file_exists_def Let_def by simp

lemmas network_checks_fresh = interface_exists_fresh interface_state_fresh ip_address_fresh
  route_exists_fresh default_route_fresh dns_resolution_fresh tcp_connection_fresh udp_listener_fresh
  http_status_fresh http_body_fresh firewall_rule_fresh ssh_key_valid_fresh remote_file_exists_fresh

lemma network_dispatch_fresh: "network_dispatch X cx v g = Some r \<Longrightarrow> fresh (fst r)"
  unfolding network_dispatch_def Let_def by (elim dispatch_elim; simp add: network_checks_fresh)

lemma wait_seconds_bounds: "1 \<le> wait_seconds ms \<and> wait_seconds ms \<le> 30"
  by (auto simp: wait_seconds_def max_def min_def)

end
