(* ===== verification/Guest_Processes.thy ===== *)
theory Guest_Processes
  imports Guest_Args
begin

text \<open>
  The process and job validators (guest/linuxlab-agent/src/validators/process.rs). The agent removes
  its own process tree, down to four generations, before it matches anything.
\<close>

section \<open>Candidates\<close>

definition compile_regex :: "externals \<Rightarrow> validator \<Rightarrow> string \<Rightarrow> (string \<Rightarrow> bool) arg_result" where
  "compile_regex X v pattern =
     (case x_regex X \<lparr>rx_case_insensitive = False, rx_multi_line = False\<rparr> pattern of
        Inl err \<Rightarrow> Inl (outcome_error (v_kind v)
          (''the pattern '' @ quoted pattern @ '' is not a valid regex: '' @ err))
      | Inr matches \<Rightarrow> Inr matches)"

fun own_tree :: "nat \<Rightarrow> process_facts list \<Rightarrow> u32 list \<Rightarrow> u32 list" where
  "own_tree 0 ps tree = tree"
| "own_tree (Suc n) ps tree =
     (let children = map pr_pid (filter (\<lambda>p. pr_ppid p \<in> set tree \<and> pr_pid p \<notin> set tree) ps)
      in if children = [] then tree else own_tree n ps (tree @ children))"

definition candidate_processes :: "guest \<Rightarrow> process_facts list" where
  "candidate_processes g =
     (let ps = read_processes g; tree = own_tree 4 ps [gu_agent_pid g]
      in filter (\<lambda>p. pr_pid p \<notin> set tree) ps)"

definition matching :: "(string \<Rightarrow> bool) \<Rightarrow> guest \<Rightarrow> process_facts list" where
  "matching matches g = filter (\<lambda>p. matches (match_text p)) (candidate_processes g)"

text \<open>The ellipsis is the scalar U+2026.\<close>

definition ellipsis :: string where
  "ellipsis = [CHR 0xE2, CHR 0x80, CHR 0xA6]"

definition truncate_text :: "string \<Rightarrow> nat \<Rightarrow> string" where
  "truncate_text text limit =
     (if length (utf8_chars text) \<le> limit then text
      else concat (take limit (utf8_chars text)) @ ellipsis)"

definition describe_processes :: "process_facts list \<Rightarrow> nat \<Rightarrow> string" where
  "describe_processes ps limit =
     (if ps = [] then ''no matching process''
      else join '', '' (map (\<lambda>p. ''pid '' @ dec (unat (pr_pid p)) @ '' ('' @ truncate_text (match_text p) 60 @ '')'')
             (take limit ps)))"

section \<open>Validators\<close>

definition process_running :: "externals \<Rightarrow> guest \<Rightarrow> validator \<Rightarrow> check_outcome" where
  "process_running X g v =
     with_arg (arg_string v ''pattern'') (\<lambda>pattern_text. with_arg (compile_regex X v pattern_text) (\<lambda>pattern.
       let decide = (\<lambda>found.
             let required = nat (max (case optional_integer v ''minCount'' of Some n \<Rightarrow> n | None \<Rightarrow> 1) 1) in
             if required \<le> length found
             then with_observed (describe_processes found 3)
               (outcome_pass (v_kind v) (''Found '' @ dec (length found) @ '' matching process(es).''))
             else with_observed (describe_processes found 3)
               (with_expected (''at least '' @ dec required @ '' matching '' @ quoted pattern_text)
                 (outcome_fail (v_kind v) (''No process matching '' @ quoted pattern_text @ '' is running.'')
                    ProcessNotRunning))) in
       case optional_string v ''owner'' of
         None \<Rightarrow> decide (matching pattern g)
       | Some owner \<Rightarrow>
           (case uid_for g owner of
              None \<Rightarrow> outcome_fail (v_kind v) (''There is no user called '' @ owner @ ''.'') WrongOwnership
            | Some uid \<Rightarrow> decide (filter (\<lambda>p. pr_uid p = uid) (matching pattern g)))))"

definition process_not_running :: "externals \<Rightarrow> guest \<Rightarrow> validator \<Rightarrow> check_outcome" where
  "process_not_running X g v =
     with_arg (arg_string v ''pattern'') (\<lambda>pattern_text. with_arg (compile_regex X v pattern_text) (\<lambda>pattern.
       let found = matching pattern g in
       if found = [] then outcome_pass (v_kind v) (''Nothing matching '' @ quoted pattern_text @ '' is running.'')
       else with_observed (describe_processes found 3)
         (outcome_fail (v_kind v) (''A process matching '' @ quoted pattern_text @ '' is still running.'')
            ProcessNotRunning)))"

definition process_owner :: "externals \<Rightarrow> guest \<Rightarrow> validator \<Rightarrow> check_outcome" where
  "process_owner X g v =
     with_arg (arg_string v ''pattern'') (\<lambda>pattern_text. with_arg (arg_string v ''owner'') (\<lambda>expected.
     with_arg (compile_regex X v pattern_text) (\<lambda>pattern.
       let found = matching pattern g in
       if found = [] then
         outcome_fail (v_kind v) (''No process matching '' @ quoted pattern_text
           @ '' is running, so its owner cannot be checked.'') ProcessNotRunning
       else
         let owners = map (\<lambda>p. case user_for_uid g (pr_uid p) of
               Some u \<Rightarrow> u | None \<Rightarrow> dec (unat (pr_uid p))) found in
         if list_all (\<lambda>owner. owner = expected) owners
         then outcome_pass (v_kind v) (''The process runs as '' @ expected @ ''.'')
         else with_observed (join '', '' (remdups_adj (sort owners))) (with_expected expected
           (outcome_fail (v_kind v) ''The process is not running as the expected user.'' WrongOwnership)))))"

definition process_count :: "externals \<Rightarrow> guest \<Rightarrow> validator \<Rightarrow> check_outcome" where
  "process_count X g v =
     with_arg (arg_string v ''pattern'') (\<lambda>pattern_text. with_arg (compile_regex X v pattern_text) (\<lambda>pattern.
       let bounds = bounds_read v; actual = int (length (matching pattern g)) in
       if satisfied_by bounds actual
       then outcome_pass (v_kind v) (dec_int actual @ '' matching process(es) are running.'')
       else with_observed (dec_int actual) (with_expected (bounds_describe bounds)
         (outcome_fail (v_kind v) (''The number of processes matching '' @ quoted pattern_text
            @ '' is not what the task asked for.'') ProcessNotRunning))))"

definition process_command :: "externals \<Rightarrow> guest \<Rightarrow> validator \<Rightarrow> check_outcome" where
  "process_command X g v =
     with_arg (arg_string v ''pattern'') (\<lambda>pattern_text. with_arg (arg_string v ''contains'') (\<lambda>needle.
     with_arg (compile_regex X v pattern_text) (\<lambda>pattern.
       let found = matching pattern g in
       if found = [] then
         outcome_fail (v_kind v) (''No process matching '' @ quoted pattern_text @ '' is running.'') ProcessNotRunning
       else if list_ex (\<lambda>p. has_text (match_text p) needle) found
       then outcome_pass (v_kind v) (''A matching process was started with '' @ quoted needle @ ''.'')
       else with_observed (describe_processes found 2) (with_expected needle
         (outcome_fail (v_kind v) (''The process is running but was not started with '' @ quoted needle @ ''.'')
            ProcessNotRunning)))))"

definition handle_char :: "char \<Rightarrow> bool" where
  "handle_char c \<longleftrightarrow> is_ascii_alphanumeric c \<or> c = CHR ''-'' \<or> c = CHR ''_''"

definition process_signal_received :: "guest \<Rightarrow> validator \<Rightarrow> check_outcome" where
  "process_signal_received g v =
     with_arg (arg_string v ''handle'') (\<lambda>handle. with_arg (arg_string v ''signal'') (\<lambda>expected.
       let safe_handle = filter handle_char handle in
       if safe_handle = [] then outcome_error (v_kind v) ''the handle parameter is empty after sanitising''
       else case read_to_string g (''/run/linuxlab/signals/'' @ safe_handle) of
         None \<Rightarrow>
           if expected = ''SIGKILL'' then
             outcome_fail (v_kind v) (''The process was not stopped, or the lesson'' @ [CHR 0x27]
               @ ''s signal wrapper is not running.'') ProcessNotRunning
           else outcome_fail (v_kind v) (''No signal has been recorded for '' @ quoted safe_handle @ '' yet.'')
             ProcessNotRunning
       | Some content \<Rightarrow>
           let seen = nonempty_lines content in
           if expected \<in> set seen then outcome_pass (v_kind v) (''The process received '' @ expected @ ''.'')
           else with_observed (or_text seen '', '' ''no signals'') (with_expected expected
             (outcome_fail (v_kind v) (''The process has not received '' @ expected @ ''.'') ProcessNotRunning))))"

definition in_background :: "process_facts \<Rightarrow> bool" where
  "in_background p \<longleftrightarrow> pr_tpgid p < 0 \<or> sint (pr_pgrp p) \<noteq> pr_tpgid p"

definition background_job_running :: "externals \<Rightarrow> ctx \<Rightarrow> guest \<Rightarrow> validator \<Rightarrow> check_outcome" where
  "background_job_running X cx g v =
     with_arg (arg_string v ''pattern'') (\<lambda>pattern_text. with_arg (compile_regex X v pattern_text) (\<lambda>pattern.
       case uid_for g (cx_subject_user cx) of
         None \<Rightarrow> outcome_error (v_kind v) (''there is no user called '' @ cx_subject_user cx)
       | Some uid \<Rightarrow>
           let found = filter (\<lambda>p. pr_uid p = uid) (matching pattern g) in
           if found = [] then
             outcome_fail (v_kind v) (''Nothing matching '' @ quoted pattern_text @ '' is running.'') ProcessNotRunning
           else if arg_flag v ''detached'' then
             (if filter (\<lambda>p. pr_ppid p = 1) found = [] then
                with_observed (describe_processes found 2) (with_expected ''a process reparented to init''
                  (outcome_fail (v_kind v)
                     ''The job is running but is still attached to your shell, so it would stop when you log out.''
                     ProcessNotRunning))
              else outcome_pass (v_kind v) ''The job is running independently of your shell.'')
           else if filter in_background found = [] then
             with_observed (describe_processes found 2)
               (outcome_fail (v_kind v)
                  ''The command is running in the foreground. Suspend it with Ctrl+Z and resume it with bg, or start it with a trailing &.''
                  ProcessNotRunning)
           else outcome_pass (v_kind v) ''The job is running in the background.''))"

definition process_dispatch :: "externals \<Rightarrow> ctx \<Rightarrow> validator \<Rightarrow> guest \<Rightarrow> (check_outcome \<times> guest) option" where
  "process_dispatch X cx v g =
     (let kind = v_kind v; pure = (\<lambda>c. Some (c, g)) in
      if kind = ''process_running'' then pure (process_running X g v)
      else if kind = ''process_not_running'' then pure (process_not_running X g v)
      else if kind = ''process_owner'' then pure (process_owner X g v)
      else if kind = ''process_count'' then pure (process_count X g v)
      else if kind = ''process_command'' then pure (process_command X g v)
      else if kind = ''process_signal_received'' then pure (process_signal_received g v)
      else if kind = ''background_job_running'' then pure (background_job_running X cx g v)
      else None)"

section \<open>Lemmas\<close>

lemma compile_regex_error [simp]:
  "compile_regex X v p = Inl c \<Longrightarrow> fresh c" "compile_regex X v p = Inl c \<Longrightarrow> \<not> o_passed c"
  by (auto simp: compile_regex_def split: sum.splits)

lemma compile_regex_fresh [fresh_intros]:
  "(\<And>r. compile_regex X v p = Inr r \<Longrightarrow> fresh (f r)) \<Longrightarrow> fresh (with_arg (compile_regex X v p) f)"
  by simp

lemmas process_checks = process_running_def process_not_running_def process_owner_def process_count_def
  process_command_def process_signal_received_def background_job_running_def

lemma process_checks_fresh:
  "fresh (process_running X g v)" "fresh (process_not_running X g v)" "fresh (process_owner X g v)"
  "fresh (process_count X g v)" "fresh (process_command X g v)" "fresh (process_signal_received g v)"
  "fresh (background_job_running X cx g v)"
  unfolding process_checks by (intro fresh_intros; simp)+

lemma process_dispatch_fresh: "process_dispatch X cx v g = Some r \<Longrightarrow> fresh (fst r)"
  unfolding process_dispatch_def Let_def by (elim dispatch_elim; simp add: process_checks_fresh)

text \<open>
  The agent's process tree: \<open>descends ps n root p\<close> when a chain of at most \<open>n\<close> parent links leads
  from process \<open>p\<close> up to \<open>root\<close>.
\<close>

fun descends :: "process_facts list \<Rightarrow> nat \<Rightarrow> u32 \<Rightarrow> u32 \<Rightarrow> bool" where
  "descends ps 0 root pid \<longleftrightarrow> pid = root"
| "descends ps (Suc n) root pid \<longleftrightarrow>
     pid = root \<or> (\<exists>p\<in>set ps. pr_pid p = pid \<and> descends ps n root (pr_ppid p))"

lemma own_tree_mono: "set tree \<subseteq> set (own_tree n ps tree)"
  by (induction n arbitrary: tree) (fastforce simp: Let_def)+

lemma own_tree_step:
  "own_tree (Suc n) ps tree =
     own_tree n ps (tree @ map pr_pid (filter (\<lambda>p. pr_ppid p \<in> set tree \<and> pr_pid p \<notin> set tree) ps))"
proof (cases "map pr_pid (filter (\<lambda>p. pr_ppid p \<in> set tree \<and> pr_pid p \<notin> set tree) ps) = []")
  case True
  then have "own_tree n ps tree = tree" by (cases n) (auto simp: Let_def)
  with True show ?thesis by (simp add: Let_def)
qed (simp add: Let_def)

lemma own_tree_spec:
  "pid \<in> set (own_tree n ps tree) \<longleftrightarrow> (\<exists>root\<in>set tree. descends ps n root pid)"
proof (induction n arbitrary: tree)
  case (Suc n)
  let ?children = "map pr_pid (filter (\<lambda>p. pr_ppid p \<in> set tree \<and> pr_pid p \<notin> set tree) ps)"
  have up: "descends ps n root pid \<Longrightarrow> \<exists>p\<in>set ps. pr_pid p = root \<and> pr_ppid p = r \<Longrightarrow> descends ps (Suc n) r pid" for root r
  proof (induction n arbitrary: pid)
    case (Suc m)
    then show ?case by (simp only: descends.simps(2)) blast
  qed auto
  have down: "descends ps (Suc n) r pid \<Longrightarrow> r = pid \<or> descends ps n r pid
       \<or> (\<exists>p\<in>set ps. pr_ppid p = r \<and> descends ps n (pr_pid p) pid)" for r
  proof (induction n arbitrary: pid)
    case (Suc m)
    then show ?case by (simp only: descends.simps(2)) blast
  qed auto
  have more: "descends ps n r pid \<Longrightarrow> descends ps (Suc n) r pid" for r
  proof (induction n arbitrary: pid)
    case (Suc m)
    then show ?case by (simp only: descends.simps(2)) blast
  qed simp
  have self: "descends ps n r r" for r by (cases n) simp_all
  have "pid \<in> set (own_tree (Suc n) ps tree) \<longleftrightarrow> (\<exists>root\<in>set tree \<union> set ?children. descends ps n root pid)"
    by (simp only: own_tree_step Suc.IH set_append)
  also have "\<dots> \<longleftrightarrow> (\<exists>root\<in>set tree. descends ps (Suc n) root pid)"
  proof
    assume "\<exists>root\<in>set tree \<union> set ?children. descends ps n root pid"
    then obtain r where "r \<in> set tree \<or> (\<exists>p\<in>set ps. pr_pid p = r \<and> pr_ppid p \<in> set tree)"
      and r: "descends ps n r pid" by auto
    then show "\<exists>root\<in>set tree. descends ps (Suc n) root pid" using up [OF r] more [OF r] by blast
  next
    assume "\<exists>root\<in>set tree. descends ps (Suc n) root pid"
    then obtain r where r: "r \<in> set tree" "descends ps (Suc n) r pid" by blast
    from down [OF r(2)] r(1) self show "\<exists>root\<in>set tree \<union> set ?children. descends ps n root pid"
      by (fastforce simp: image_iff simp del: descends.simps)
  qed
  finally show ?case .
qed auto

section \<open>Properties\<close>

text \<open>C24: The agent never takes its own commands for the learner's. What the process validators
  match is exactly the processes that run, except the agent itself and its descendants down to
  four generations.\<close>

theorem own_processes_excluded:
  "set (candidate_processes g) =
     {p \<in> set (read_processes g). \<not> descends (read_processes g) 4 (gu_agent_pid g) (pr_pid p)}"
  by (auto simp: candidate_processes_def Let_def own_tree_spec simp del: descends.simps)

end
