(* ===== verification/Guest_Scripts.thy ===== *)
theory Guest_Scripts
  imports Guest_Processes
begin

unbundle bit_operations_syntax

text \<open>
  The script and pipeline validators (guest/linuxlab-agent/src/validators/script.rs). They run the
  learner's commands, so the state of the guest is threaded through every run.
  \<open>side_effect_exists\<close> is split at its nested validators; the recursion is in Guest_Validators.
\<close>

section \<open>Fixtures and inspection\<close>

definition fixture_dir :: "ctx \<Rightarrow> validator \<Rightarrow> string option" where
  "fixture_dir cx v =
     Option.bind (optional_string v ''fixture'') (\<lambda>fixture.
       let safe = safe_component fixture
       in if safe = [] then None else Some (unix_join (unix_join (cx_lesson_root cx) ''fixtures'') safe))"

definition first_line_of :: "guest \<Rightarrow> string \<Rightarrow> string" where
  "first_line_of g path =
     (case gu_read g path of
        Inr (text, _) \<Rightarrow> (case lines text of l # _ \<Rightarrow> l | [] \<Rightarrow> [])
      | Inl _ \<Rightarrow> [])"

definition path_missing :: "validator \<Rightarrow> string \<Rightarrow> check_outcome" where
  "path_missing v path = outcome_fail (v_kind v) (path @ '' does not exist.'') WrongPath"

definition script_exists :: "guest \<Rightarrow> validator \<Rightarrow> check_outcome" where
  "script_exists g v =
     with_arg (arg_path v ''path'') (\<lambda>path.
       case stat g path of
         None \<Rightarrow> path_missing v path
       | Some facts \<Rightarrow>
           let first_line = first_line_of g path;
               passed = outcome_pass (v_kind v) (path @ '' exists and has a shebang.'') in
           if ff_kind facts \<noteq> Regular then
             outcome_fail (v_kind v) (path @ '' is not a regular file.'') WrongFileType
           else if \<not> starts_with first_line ''#!'' then
             with_observed (if first_line = [] then ''an empty first line'' else first_line)
               (with_expected ''a first line starting with #!''
                 (outcome_fail (v_kind v) (path @ '' has no shebang line. Without one, the kernel does not know which interpreter to use.'')
                    ScriptSyntaxFailure))
           else (case optional_string v ''interpreter'' of
             None \<Rightarrow> passed
           | Some interpreter \<Rightarrow>
               if has_text first_line interpreter then passed
               else with_observed first_line (with_expected interpreter
                 (outcome_fail (v_kind v) (path @ '' does not use '' @ interpreter @ ''.'') ScriptSyntaxFailure))))"

text \<open>The execute bit that matters for a user: owner, group or others; \<open>None\<close> without an account.\<close>

definition needed_bit :: "guest \<Rightarrow> file_facts \<Rightarrow> string option \<Rightarrow> (u32 \<times> string) option" where
  "needed_bit g facts for_user =
     (case for_user of
        None \<Rightarrow> Some (0x49, ''anyone'')
      | Some user \<Rightarrow>
          map_option (\<lambda>entry.
            if pw_uid entry = ff_uid facts then (0x40, ''its owner '' @ user)
            else if list_ex (\<lambda>n. group_for_gid g (ff_gid facts) = Some n)
                   (case groups_for_user g user of Some ns \<Rightarrow> ns | None \<Rightarrow> [])
            then (0x8, ''group members including '' @ user)
            else (0x1, ''other users including '' @ user))
          (Option.bind (read_passwd g) (find_user user)))"

definition script_executable :: "guest \<Rightarrow> validator \<Rightarrow> check_outcome" where
  "script_executable g v =
     with_arg (arg_path v ''path'') (\<lambda>path.
       case stat g path of
         None \<Rightarrow> path_missing v path
       | Some facts \<Rightarrow>
           (case needed_bit g facts (optional_string v ''forUser'') of
              None \<Rightarrow> outcome_fail (v_kind v)
                (''There is no account called '' @ the (optional_string v ''forUser'') @ ''.'') TaskPartiallyCompleted
            | Some (mode_bit, description) \<Rightarrow>
                if ff_permissions facts AND mode_bit \<noteq> 0
                then outcome_pass (v_kind v) (path @ '' is executable by '' @ description @ ''.'')
                else with_observed (format_mode (ff_permissions facts))
                  (with_expected (''execute bit '' @ format_mode mode_bit)
                    (outcome_fail (v_kind v)
                      (path @ '' is not executable by '' @ description @ ''. Add the execute bit with chmod.'')
                      WrongPermissions))))"

section \<open>Running commands\<close>

definition run_millis :: "validator \<Rightarrow> nat option" where
  "run_millis v = (case arg_timeout v of Some ms \<Rightarrow> Some ms | None \<Rightarrow> Some 20000)"

definition execute ::
  "externals \<Rightarrow> ctx \<Rightarrow> validator \<Rightarrow> string \<Rightarrow> string option \<Rightarrow> guest \<Rightarrow> (string + command_output) \<times> guest" where
  "execute X cx v command dir g = run_shell X command (Some (cx_subject_user cx)) dir (run_millis v) g"

definition not_in_time :: "validator \<Rightarrow> check_outcome" where
  "not_in_time v =
     outcome_fail (v_kind v) ''The command did not finish in time. An unbounded loop or a command waiting for input will do this.''
       ScriptLogicFailure"

definition shell_quote :: "string \<Rightarrow> string" where
  "shell_quote s =
     [CHR 0x27] @ concat (map (\<lambda>c. if c = CHR 0x27 then [CHR 0x27, CHR 0x5C, CHR 0x27, CHR 0x27] else [c]) s)
     @ [CHR 0x27]"

definition script_arguments :: "validator \<Rightarrow> string" where
  "script_arguments v =
     (case Option.bind (bt_get (v_params v) ''args'') as_array of
        Some items \<Rightarrow> join '' '' (map shell_quote (List.map_filter as_str items))
      | None \<Rightarrow> [])"

text \<open>With an input the script is run by the agent itself, not as the learner.\<close>

definition script_exit_code :: "externals \<Rightarrow> ctx \<Rightarrow> validator \<Rightarrow> guest \<Rightarrow> check_outcome \<times> guest" where
  "script_exit_code X cx v =
     with_arg_at (arg_path v ''path'') (\<lambda>path g.
       case optional_integer v ''exitCode'' of
         None \<Rightarrow> (outcome_error (v_kind v) ''the exitCode parameter is missing or not a number'', g)
       | Some expected \<Rightarrow>
           let command = shell_quote path @ '' '' @ script_arguments v; dir = fixture_dir cx v in
           with_output (v_kind v)
             (case optional_string v ''stdin'' of
                Some stdin \<Rightarrow> run_with_stdin X ''/bin/bash'' [''-lc'', command] stdin (run_millis v) dir g
              | None \<Rightarrow> execute X cx v command dir g) (\<lambda>out.
             if co_timed_out out then not_in_time v
             else if co_status out = expected
             then outcome_pass (v_kind v) (''The script exited with '' @ dec_int expected @ ''.'')
             else with_observed (dec_int (co_status out)) (with_expected (dec_int expected)
               (outcome_fail (v_kind v) (''The script exited with '' @ dec_int (co_status out) @ '' rather than ''
                  @ dec_int expected @ ''. Exit codes are how other programs learn whether your script succeeded.'')
                  ScriptLogicFailure))))"

definition first_lines :: "string \<Rightarrow> nat \<Rightarrow> string" where
  "first_lines text limit =
     (let ls = lines text in
      if ls = [] then ''no output''
      else join '' / '' (take limit ls) @ (if limit < length ls then '' '' @ ellipsis else []))"

definition stdout_exact :: "externals \<Rightarrow> ctx \<Rightarrow> validator \<Rightarrow> guest \<Rightarrow> check_outcome \<times> guest" where
  "stdout_exact X cx v =
     with_arg_at (arg_string v ''command'') (\<lambda>command. with_arg_at (arg_string v ''expected'') (\<lambda>expected g.
       with_output (v_kind v) (execute X cx v command (fixture_dir cx v) g) (\<lambda>out.
         let normalise = (\<lambda>s. if arg_flag_or v ''trimTrailingNewline'' True then trim_char_end CHR 0x0A s else s) in
         if co_timed_out out then not_in_time v
         else if normalise (co_stdout out) = normalise expected
         then outcome_pass (v_kind v) ''The output is exactly right.''
         else with_observed (first_lines (normalise (co_stdout out)) 6)
           (with_expected (first_lines (normalise expected) 6)
             (outcome_fail (v_kind v) ''The output is not what the task asked for. Build the pipeline up one stage at a time and compare each stage.''
                PipelineOutputIncorrect)))))"

definition stdout_contains :: "externals \<Rightarrow> ctx \<Rightarrow> validator \<Rightarrow> guest \<Rightarrow> check_outcome \<times> guest" where
  "stdout_contains X cx v =
     with_arg_at (arg_string v ''command'') (\<lambda>command. with_arg_at (arg_string v ''text'') (\<lambda>needle g.
       with_output (v_kind v) (execute X cx v command (fixture_dir cx v) g) (\<lambda>out.
         if co_timed_out out then not_in_time v
         else if has_text (co_stdout out) needle
         then outcome_pass (v_kind v) ''The output contains what the task asked for.''
         else with_observed (first_lines (co_stdout out) 6) (with_expected needle
           (outcome_fail (v_kind v) ''The output does not contain what the task asked for.''
              PipelineOutputIncorrect)))))"

definition stderr_contains :: "externals \<Rightarrow> ctx \<Rightarrow> validator \<Rightarrow> guest \<Rightarrow> check_outcome \<times> guest" where
  "stderr_contains X cx v =
     with_arg_at (arg_string v ''command'') (\<lambda>command. with_arg_at (arg_string v ''text'') (\<lambda>needle g.
       with_output (v_kind v) (execute X cx v command (fixture_dir cx v) g) (\<lambda>out.
         if has_text (co_stderr out) needle
         then outcome_pass (v_kind v) ''The error output is as expected.''
         else with_observed (first_lines (co_stderr out) 6) (with_expected needle
           (outcome_fail (v_kind v) ''The error output does not contain what the task asked for. Remember that errors go to a different stream from normal output.''
              IncorrectRedirect)))))"

section \<open>Hidden fixtures\<close>

definition case_names :: "guest \<Rightarrow> string \<Rightarrow> string list" where
  "case_names g fixture =
     (case gu_dir g fixture of
        Inl _ \<Rightarrow> []
      | Inr names \<Rightarrow> sort (filter (\<lambda>n. is_dir g (unix_join fixture n) \<and> starts_with n ''case-'') names))"

definition case_command :: "guest \<Rightarrow> string \<Rightarrow> string \<Rightarrow> string \<times> string option" where
  "case_command g path test_case =
     (let arguments = (case read_to_string g (unix_join test_case ''args'') of Some a \<Rightarrow> trim a | None \<Rightarrow> []);
          input_dir = unix_join test_case ''input''
      in (shell_quote path @ '' '' @ arguments, Some (if is_dir g input_dir then input_dir else test_case)))"

definition case_verdict :: "string \<Rightarrow> string \<Rightarrow> command_output \<Rightarrow> string list" where
  "case_verdict name expected out =
     (if co_timed_out out then [name @ '': did not finish in time'']
      else if trim_end (co_stdout out) \<noteq> trim_end expected then [name @ '': output did not match'']
      else [])"

fun run_cases ::
  "externals \<Rightarrow> ctx \<Rightarrow> validator \<Rightarrow> string \<Rightarrow> string \<Rightarrow> string list \<Rightarrow> string list \<Rightarrow> guest
     \<Rightarrow> (string + string list) \<times> guest" where
  "run_cases X cx v path fixture [] failures g = (Inr failures, g)"
| "run_cases X cx v path fixture (name # names) failures g =
     (let test_case = unix_join fixture name;
          expected = (case read_to_string g (unix_join test_case ''expected_stdout'') of Some e \<Rightarrow> e | None \<Rightarrow> []);
          (command, dir) = case_command g path test_case
      in case execute X cx v command dir g of
           (Inl err, g') \<Rightarrow> (Inl err, g')
         | (Inr out, g') \<Rightarrow> run_cases X cx v path fixture names (failures @ case_verdict name expected out) g')"

definition unit_test_passes :: "externals \<Rightarrow> ctx \<Rightarrow> validator \<Rightarrow> guest \<Rightarrow> check_outcome \<times> guest" where
  "unit_test_passes X cx v =
     with_arg_at (arg_path v ''path'') (\<lambda>path g.
       case fixture_dir cx v of
         None \<Rightarrow> (outcome_error (v_kind v) ''the fixture parameter is missing or unusable'', g)
       | Some fixture \<Rightarrow>
           if \<not> is_dir g fixture then
             (outcome_error (v_kind v) (''the fixture directory '' @ fixture @ '' is not installed''), g)
           else if stat g path = None then (path_missing v path, g)
           else
             let cases = case_names g fixture in
             if cases = [] then (outcome_error (v_kind v) (''the fixture '' @ fixture @ '' contains no cases''), g)
             else case run_cases X cx v path fixture cases [] g of
               (Inl err, g') \<Rightarrow> (outcome_error (v_kind v) err, g')
             | (Inr failures, g') \<Rightarrow>
                 (if failures = [] then
                    outcome_pass (v_kind v) (''Your solution produced the right answer for all ''
                      @ dec (length cases) @ '' test cases, including the hidden ones.'')
                  else with_observed (join ''; '' failures)
                    (outcome_fail (v_kind v) (''Your solution worked for '' @ dec (length cases - length failures)
                       @ '' of '' @ dec (length cases) @ '' test cases. The failing cases use different data from the example, so look for anything that assumes the sample values.'')
                       ScriptLogicFailure), g'))"

section \<open>shellcheck, repetition and side effects\<close>

definition shellcheck_passes :: "externals \<Rightarrow> validator \<Rightarrow> guest \<Rightarrow> check_outcome \<times> guest" where
  "shellcheck_passes X v =
     with_arg_at (arg_path v ''path'') (\<lambda>path g.
       let severity = (case optional_string v ''severity'' of Some s \<Rightarrow> s | None \<Rightarrow> ''warning'');
           excludes = (case Option.bind (bt_get (v_params v) ''exclude'') as_array of
             Some items \<Rightarrow> join '','' (List.map_filter as_str items) | None \<Rightarrow> []);
           arguments = [''--format=gcc'', ''--severity'', severity]
             @ (if excludes = [] then [] else [''--exclude'', excludes]) @ [''--'', path] in
       with_output (v_kind v) (run_command X ''shellcheck'' arguments None g) (\<lambda>out.
         if command_success out
         then outcome_pass (v_kind v) (''shellcheck reports no problems at or above '' @ severity @ ''.'')
         else with_observed (join '' / '' (take 5 (lines (co_stdout out))))
           (outcome_fail (v_kind v) ''shellcheck found problems in the script.'' ScriptSyntaxFailure)))"

text \<open>The runs of \<open>idempotent_result\<close> after the first, numbered from \<open>attempt\<close>.\<close>

definition run_unfinished :: "validator \<Rightarrow> nat \<Rightarrow> check_outcome" where
  "run_unfinished v attempt =
     outcome_fail (v_kind v) (''Run '' @ dec attempt @ '' did not finish in time.'') ScriptLogicFailure"

fun repeat_runs ::
  "externals \<Rightarrow> ctx \<Rightarrow> validator \<Rightarrow> string \<Rightarrow> nat \<Rightarrow> nat \<Rightarrow> (int \<times> string) option \<Rightarrow> guest
     \<Rightarrow> check_outcome option \<times> guest" where
  "repeat_runs X cx v command attempt 0 first g = (None, g)"
| "repeat_runs X cx v command attempt (Suc n) first g =
     (case execute X cx v command None g of
        (Inl err, g') \<Rightarrow> (Some (outcome_error (v_kind v) err), g')
      | (Inr out, g') \<Rightarrow>
          if co_timed_out out then (Some (run_unfinished v attempt), g')
          else
            let result = (co_status out, co_stdout out) in
            (case first of
               None \<Rightarrow> repeat_runs X cx v command (Suc attempt) n (Some result) g'
             | Some expected \<Rightarrow>
                 if expected \<noteq> result then
                   (Some (with_observed (''exit '' @ dec_int (fst result) @ '' with different output'')
                      (with_expected (''exit '' @ dec_int (fst expected) @ '' with the same output'')
                        (outcome_fail (v_kind v) (''Run '' @ dec attempt
                           @ '' produced a different result from the first run. A script that is safe to re-run should reach the same state every time.'')
                           ScriptLogicFailure))), g')
                 else repeat_runs X cx v command (Suc attempt) n first g'))"

definition required_runs :: "validator \<Rightarrow> nat" where
  "required_runs v = nat (max 2 (min 5 (case optional_integer v ''runs'' of Some n \<Rightarrow> n | None \<Rightarrow> 2)))"

definition idempotent_result :: "externals \<Rightarrow> ctx \<Rightarrow> validator \<Rightarrow> guest \<Rightarrow> check_outcome \<times> guest" where
  "idempotent_result X cx v =
     with_arg_at (arg_string v ''command'') (\<lambda>command g.
       case repeat_runs X cx v command 1 (required_runs v) None g of
         (Some outcome, g') \<Rightarrow> (outcome, g')
       | (None, g') \<Rightarrow> (outcome_pass (v_kind v) (''Running the command '' @ dec (required_runs v)
             @ '' times produced the same result each time.''), g'))"

text \<open>The part of \<open>side_effect_exists\<close> before its nested validators: an outcome, or their JSON.\<close>

definition side_effect_start :: "externals \<Rightarrow> ctx \<Rightarrow> validator \<Rightarrow> guest \<Rightarrow> (check_outcome + json list) \<times> guest" where
  "side_effect_start X cx v g =
     (case arg_string v ''command'' of
        Inl c \<Rightarrow> (Inl c, g)
      | Inr command \<Rightarrow>
          let dir = (if cx_subject_user cx = ''root'' then ''/root'' else unix_join ''/home'' (cx_subject_user cx)) in
          (case execute X cx v command (Some dir) g of
             (Inl err, g') \<Rightarrow> (Inl (outcome_error (v_kind v) err), g')
           | (Inr out, g') \<Rightarrow>
               ((if co_timed_out out then
                   Inl (outcome_fail (v_kind v) ''The command did not finish in time.'' ScriptLogicFailure)
                 else case Option.bind (bt_get (v_params v) ''then'') as_array of
                   None \<Rightarrow> Inl (outcome_error (v_kind v) ''the then parameter must be an array of validators'')
                 | Some nested \<Rightarrow> Inr nested), g')))"

text \<open>The message without serde's own error text.\<close>

definition malformed_nested :: "validator \<Rightarrow> check_outcome" where
  "malformed_nested v = outcome_error (v_kind v) ''a nested validator is malformed''"

definition side_effect_verdict :: "validator \<Rightarrow> string list \<Rightarrow> check_outcome" where
  "side_effect_verdict v failed =
     (if failed = [] then outcome_pass (v_kind v) ''Running the command produced the expected result.''
      else with_observed (join ''; '' failed)
        (outcome_fail (v_kind v) ''The command ran, but it did not have the effect the task asked for.''
           ScriptLogicFailure))"

definition script_dispatch :: "externals \<Rightarrow> ctx \<Rightarrow> validator \<Rightarrow> guest \<Rightarrow> (check_outcome \<times> guest) option" where
  "script_dispatch X cx v g =
     (let kind = v_kind v in
      if kind = ''script_exists'' then Some (script_exists g v, g)
      else if kind = ''script_executable'' then Some (script_executable g v, g)
      else if kind = ''script_exit_code'' then Some (script_exit_code X cx v g)
      else if kind = ''stdout_exact'' then Some (stdout_exact X cx v g)
      else if kind = ''stdout_contains'' then Some (stdout_contains X cx v g)
      else if kind = ''stderr_contains'' then Some (stderr_contains X cx v g)
      else if kind = ''unit_test_passes'' then Some (unit_test_passes X cx v g)
      else if kind = ''shellcheck_passes'' then Some (shellcheck_passes X v g)
      else if kind = ''idempotent_result'' then Some (idempotent_result X cx v g)
      else None)"

section \<open>Lemmas\<close>

lemma script_outcomes [simp]:
  "fresh (path_missing v p)" "\<not> o_passed (path_missing v p)" "fresh (not_in_time v)" "\<not> o_passed (not_in_time v)"
  "fresh (run_unfinished v n)" "\<not> o_passed (run_unfinished v n)" "fresh (malformed_nested v)"
  "\<not> o_passed (malformed_nested v)" "fresh (side_effect_verdict v fs)"
  by (simp_all add: path_missing_def not_in_time_def run_unfinished_def malformed_nested_def side_effect_verdict_def)

lemma script_exists_fresh: "fresh (script_exists g v)"
  unfolding script_exists_def Let_def by (simp split: option.split)

lemma script_executable_fresh: "fresh (script_executable g v)"
  unfolding script_executable_def by (simp split: option.split prod.split)

lemma script_exit_code_fresh: "fresh (fst (script_exit_code X cx v g))"
  unfolding script_exit_code_def Let_def by (simp split: option.split)

lemma stdout_exact_fresh: "fresh (fst (stdout_exact X cx v g))"
  unfolding stdout_exact_def Let_def by simp

lemma output_contains_fresh: "fresh (fst (stdout_contains X cx v g))" "fresh (fst (stderr_contains X cx v g))"
  unfolding stdout_contains_def stderr_contains_def by simp_all

lemma unit_test_passes_fresh: "fresh (fst (unit_test_passes X cx v g))"
  unfolding unit_test_passes_def Let_def by (simp split: option.split prod.split sum.split)

lemma shellcheck_passes_fresh: "fresh (fst (shellcheck_passes X v g))"
  unfolding shellcheck_passes_def Let_def by simp

lemma repeat_runs_fresh: "repeat_runs X cx v command attempt n first g = (Some c, g') \<Longrightarrow> fresh c \<and> \<not> o_passed c"
  by (induction n arbitrary: attempt first g)
    (auto simp: Let_def split: prod.splits sum.splits if_splits option.splits)

lemma idempotent_result_fresh: "fresh (fst (idempotent_result X cx v g))"
  unfolding idempotent_result_def using repeat_runs_fresh by (simp split: option.split prod.split)

lemma side_effect_start_fresh: "side_effect_start X cx v g = (Inl c, g') \<Longrightarrow> fresh c"
  by (auto simp: side_effect_start_def Let_def split: sum.splits prod.splits if_splits option.splits)

lemma side_effect_start_nested:
  "side_effect_start X cx v g = (Inr nested, g') \<Longrightarrow> bt_get (v_params v) ''then'' = Some (JArray nested)"
  by (auto simp: side_effect_start_def Let_def bind_eq_Some_conv split: sum.splits prod.splits if_splits option.splits)

lemmas script_checks_fresh = script_exists_fresh script_executable_fresh script_exit_code_fresh
  stdout_exact_fresh output_contains_fresh unit_test_passes_fresh shellcheck_passes_fresh
  idempotent_result_fresh

lemma script_dispatch_fresh: "script_dispatch X cx v g = Some r \<Longrightarrow> fresh (fst r)"
  unfolding script_dispatch_def Let_def by (elim dispatch_elim; simp add: script_checks_fresh)

section \<open>Quoting\<close>

text \<open>
  The words of a command line as a POSIX shell reads single quotes, backslashes and spaces. Any
  other unquoted character may have a meaning of its own, so the reader refuses it.
\<close>

fun shell_words :: "bool \<Rightarrow> string option \<Rightarrow> string \<Rightarrow> string list option" where
  "shell_words True w [] = None"
| "shell_words True w (c # cs) =
     (if c = CHR 0x27 then shell_words False w cs else shell_words True (map_option (\<lambda>s. s @ [c]) w) cs)"
| "shell_words False w [] = Some (case w of None \<Rightarrow> [] | Some s \<Rightarrow> [s])"
| "shell_words False w (c # cs) =
     (if c = CHR 0x27 then shell_words True (case w of None \<Rightarrow> Some [] | Some s \<Rightarrow> Some s) cs
      else if c = CHR 0x5C then
        (case cs of
           [] \<Rightarrow> None
         | d # ds \<Rightarrow> shell_words False (case w of None \<Rightarrow> Some [d] | Some s \<Rightarrow> Some (s @ [d])) ds)
      else if c = CHR '' '' then
        map_option (\<lambda>ws. case w of None \<Rightarrow> ws | Some s \<Rightarrow> s # ws) (shell_words False None cs)
      else None)"

lemma shell_words_body:
  "shell_words True (Some w)
     (concat (map (\<lambda>c. if c = CHR 0x27 then [CHR 0x27, CHR 0x5C, CHR 0x27, CHR 0x27] else [c]) s) @ CHR 0x27 # rest)
   = shell_words False (Some (w @ s)) rest"
  by (induction s arbitrary: w) simp_all

lemma shell_words_quote: "shell_words False None (shell_quote s @ rest) = shell_words False (Some s) rest"
  using shell_words_body [of "[]" s rest] by (simp add: shell_quote_def)

lemma shell_words_join: "shell_words False None (join '' '' (map shell_quote ws)) = Some ws"
proof (induction ws)
  case (Cons a ws)
  then show ?case
    using shell_words_quote [of a "[]"] shell_words_quote [of a "'' '' @ join '' '' (map shell_quote ws)"]
    by (cases ws) simp_all
qed simp

text \<open>The failing cases are among the cases, so the number of passed ones does not wrap.\<close>

lemma run_cases_bound:
  "run_cases X cx v path fixture names failures g = (Inr fs, g') \<Longrightarrow> length fs \<le> length failures + length names"
proof (induction names arbitrary: failures g)
  case (Cons name names)
  let ?test = "unix_join fixture name"
  let ?expected = "case read_to_string g (unix_join ?test ''expected_stdout'') of Some e \<Rightarrow> e | None \<Rightarrow> []"
  obtain command dir where command: "case_command g path ?test = (command, dir)" by fastforce
  obtain out g1 where out: "execute X cx v command dir g = (Inr out, g1)"
    and run: "run_cases X cx v path fixture names (failures @ case_verdict name ?expected out) g1 = (Inr fs, g')"
    using Cons.prems by (auto simp: Let_def command split: prod.splits sum.splits)
  have "length (case_verdict name ?expected out) \<le> 1" by (simp add: case_verdict_def)
  with Cons.IH [OF run] show ?case by simp
qed simp

section \<open>Properties\<close>

text \<open>C22: A path and its arguments reach the learner's script as they are. Whatever bytes they hold,
  quotes and spaces included, the command line that runs a script reads as exactly these words,
  without an unquoted character that the shell could interpret.\<close>

theorem script_arguments_intact:
  "shell_words False None (shell_quote path @ '' '' @ script_arguments v) =
     Some (path # (case Option.bind (bt_get (v_params v) ''args'') as_array of
                     Some items \<Rightarrow> List.map_filter as_str items | None \<Rightarrow> []))"
  by (simp add: script_arguments_def shell_words_quote shell_words_join split: option.split)

end
