(* ===== verification/Guest_Validators.thy ===== *)
theory Guest_Validators
  imports Guest_Files Guest_Services Guest_Accounts Guest_Network Guest_Scripts
begin

text \<open>
  Evaluation of validators in the guest (guest/linuxlab-agent/src/validators/mod.rs): the registry
  check, the dispatch to the category that owns the tag, the author's overrides, and the nested
  validators of \<open>side_effect_exists\<close>, which go through the same evaluation.
\<close>

section \<open>Evaluation\<close>

text \<open>The categories in the order of the code; no tag belongs to two of them.\<close>

definition dispatch :: "externals \<Rightarrow> ctx \<Rightarrow> validator \<Rightarrow> guest \<Rightarrow> (check_outcome \<times> guest) option" where
  "dispatch X cx v g =
     (case file_dispatch X cx v g of Some r \<Rightarrow> Some r | None \<Rightarrow>
     (case process_dispatch X cx v g of Some r \<Rightarrow> Some r | None \<Rightarrow>
     (case service_dispatch X cx v g of Some r \<Rightarrow> Some r | None \<Rightarrow>
     (case identity_dispatch X cx v g of Some r \<Rightarrow> Some r | None \<Rightarrow>
     (case network_dispatch X cx v g of Some r \<Rightarrow> Some r | None \<Rightarrow>
     (case script_dispatch X cx v g of Some r \<Rightarrow> Some r | None \<Rightarrow>
      package_dispatch X cx v g))))))"

definition rejected :: "validator \<Rightarrow> check_failure \<Rightarrow> check_outcome" where
  "rejected v f =
     outcome_error (v_kind v) (''this task cannot be checked: ''
       @ (case f of Rejected e \<Rightarrow> display_registry_error e | Panicked \<Rightarrow> []))"

definition no_handler :: "validator \<Rightarrow> check_outcome" where
  "no_handler v =
     outcome_error (v_kind v) (''validator '' @ quoted (v_kind v)
       @ '' is declared as implemented but this agent has no handler for it'')"

lemma bt_get_members: "bt_get kvs k = Some j \<Longrightarrow> json_nodes j \<le> members_nodes kvs"
  by (induction kvs) (auto split: if_splits)

function evaluate :: "externals \<Rightarrow> registry \<Rightarrow> ctx \<Rightarrow> validator \<Rightarrow> guest \<Rightarrow> check_outcome \<times> guest"
  and evaluate_nested ::
    "externals \<Rightarrow> registry \<Rightarrow> ctx \<Rightarrow> validator \<Rightarrow> json list \<Rightarrow> string list \<Rightarrow> guest \<Rightarrow> check_outcome \<times> guest" where
  "evaluate X R cx v g =
     (case check R v of
        Inl f \<Rightarrow> (rejected v f, g)
      | Inr _ \<Rightarrow>
          map_prod (apply_overrides v) id
            (case dispatch X cx v g of
               Some r \<Rightarrow> r
             | None \<Rightarrow>
                 if v_kind v = ''side_effect_exists'' then
                   (case side_effect_start X cx v g of
                      (Inl c, g') \<Rightarrow> (c, g')
                    | (Inr nested, g') \<Rightarrow> evaluate_nested X R cx v nested [] g')
                 else (no_handler v, g)))"
| "evaluate_nested X R cx v [] failed g = (side_effect_verdict v failed, g)"
| "evaluate_nested X R cx v (j # js) failed g =
     (case validator_of_json j of
        None \<Rightarrow> (malformed_nested v, g)
      | Some nested \<Rightarrow>
          (case evaluate X R cx nested g of
             (c, g') \<Rightarrow> evaluate_nested X R cx v js (if o_passed c then failed else failed @ [o_message c]) g'))"
  by pat_completeness auto
termination evaluate
proof (relation "measure (\<lambda>x. case x of
      Inl (X, R, cx, v, g) \<Rightarrow> members_nodes (v_params v)
    | Inr (X, R, cx, v, js, failed, g) \<Rightarrow> sum_list (map json_nodes js))", goal_cases)
  case (2 X R cx v g unit x g' nested)
  from 2(4) [symmetric] 2(5) have "json_nodes (JArray nested) \<le> members_nodes (v_params v)"
    using bt_get_members [OF side_effect_start_nested, of X cx v g nested g'] by simp
  then show ?case by simp
next
  case (3 X R cx v j js failed g nested)
  then show ?case using validator_of_json_nodes by fastforce
qed auto

declare evaluate.simps [simp del]

fun evaluate_all :: "externals \<Rightarrow> registry \<Rightarrow> ctx \<Rightarrow> validator list \<Rightarrow> guest \<Rightarrow> check_outcome list \<times> guest" where
  "evaluate_all X R cx [] g = ([], g)"
| "evaluate_all X R cx (v # vs) g =
     (case evaluate X R cx v g of (c, g') \<Rightarrow>
        (case evaluate_all X R cx vs g' of (cs, g'') \<Rightarrow> (c # cs, g'')))"

definition validate_task ::
  "externals \<Rightarrow> registry \<Rightarrow> ctx \<Rightarrow> string \<Rightarrow> string \<Rightarrow> validator list \<Rightarrow> guest \<Rightarrow> task_validation \<times> guest" where
  "validate_task X R cx lid tid vs g =
     (case evaluate_all X R cx vs g of (cs, g') \<Rightarrow> (from_outcomes lid tid cs, g'))"

section \<open>Lemmas\<close>

lemma dispatch_fresh: "dispatch X cx v g = Some r \<Longrightarrow> fresh (fst r)"
  unfolding dispatch_def
  by (auto split: option.splits dest: file_dispatch_fresh process_dispatch_fresh service_dispatch_fresh
      identity_dispatch_fresh network_dispatch_fresh script_dispatch_fresh package_dispatch_fresh)

definition sound_outcome :: "check_outcome \<Rightarrow> bool" where
  "sound_outcome c \<longleftrightarrow> wf_outcome c \<and> 1 \<le> unat (o_weight c) \<and> unat (o_weight c) \<le> 100"

lemma sound_overrides: "fresh c \<Longrightarrow> sound_outcome (apply_overrides v c)"
  using apply_overrides_weight wf_apply_overrides by (simp add: sound_outcome_def fresh_def)

lemma rejected_outcome [simp]: "sound_outcome (rejected v f)" "\<not> o_passed (rejected v f)" "o_errored (rejected v f)"
  by (simp_all add: rejected_def sound_outcome_def)

lemma evaluate_nested_fresh: "fresh (fst (evaluate_nested X R cx v js failed g))"
proof (induction js arbitrary: failed g)
  case (Cons j js)
  then show ?case by (simp split: option.split prod.split)
qed simp

lemma evaluate_sound: "sound_outcome (fst (evaluate X R cx v g))"
proof (cases "check R v")
  case (Inl f)
  then show ?thesis by (simp add: evaluate.simps)
next
  case (Inr u)
  have "fresh (no_handler v)" by (simp add: no_handler_def)
  with Inr show ?thesis
    using dispatch_fresh [of X cx v g] side_effect_start_fresh [of X cx v g] evaluate_nested_fresh [of X R cx v]
    by (auto simp: evaluate.simps(1) intro!: sound_overrides split: option.split sum.split prod.split)
qed

lemma evaluate_rejects: "\<not> legal R v \<Longrightarrow> \<exists>f. evaluate X R cx v g = (rejected v f, g)"
proof -
  assume "\<not> legal R v"
  then have "check R v \<noteq> Inr ()" using check_legal(1) by blast
  then obtain f where "check R v = Inl f" by (cases "check R v") auto
  then have "evaluate X R cx v g = (rejected v f, g)" by (simp add: evaluate.simps(1))
  then show ?thesis by blast
qed

lemma evaluate_all_sound: "list_all sound_outcome (fst (evaluate_all X R cx vs g))"
proof (induction vs arbitrary: g)
  case (Cons v vs)
  then show ?case using evaluate_sound by (simp split: prod.split) (metis fst_conv)
qed simp

lemma evaluate_all_length [simp]: "length (fst (evaluate_all X R cx vs g)) = length vs"
  by (induction vs arbitrary: g) (simp_all split: prod.split, metis fst_conv)

lemma sound_weights: "list_all sound_outcome cs \<Longrightarrow> sum_list (map (unat \<circ> o_weight) cs) \<le> 100 * length cs"
  by (induction cs) (auto simp: sound_outcome_def)

text \<open>What the registry requires is what the agent finds.\<close>

lemma legal_required_value:
  assumes "legal R v" "registry_spec R (v_kind v) = Some spec" "bt_get (vs_params spec) name = Some p" "ps_required p"
  obtains j where "bt_get (v_params v) name = Some j" "legal_value R p j"
proof -
  have "bt_contains (v_params v) name"
    using assms bt_get_mem [OF assms(3)] by (auto simp: legal_iff)
  then obtain j where j: "bt_get (v_params v) name = Some j" by (auto simp: bt_contains_def)
  then have "(name, j) \<in> set (v_params v)" by (rule bt_get_mem)
  with assms(1,2) obtain p' where "param_for R spec name = Some p'" "legal_value R p' j"
    by (auto simp: legal_iff)
  with assms(3) j that show ?thesis by (simp add: param_for_def)
qed

section \<open>Properties\<close>

text \<open>A registry with one validator, for the examples.\<close>

definition small_registry :: registry where
  "small_registry =
     \<lparr>reg_schema_version = 1, reg_failure_categories = [], reg_common_params = [],
      reg_validators = [(''file_mode'', \<lparr>vs_category = ''filesystem'', vs_implemented = True,
         vs_failure_category = ''wrong-permissions'', vs_summary = [],
         vs_params = [(''mode'', \<lparr>ps_type = ''mode'', ps_required = True, ps_values = [], ps_summary = None\<rparr>),
                      (''path'', \<lparr>ps_type = ''path'', ps_required = True, ps_values = [], ps_summary = None\<rparr>)],
         vs_requires_one_of = []\<rparr>)]\<rparr>"

definition small_validator :: validator where
  "small_validator = validator_with ''path'' (JString ''/etc/motd'')
     (validator_with ''mode'' (JString ''0o644'') (validator_new ''file_mode''))"

text \<open>A machine on which no program can be started, and the context of a learner's task.\<close>

definition idle_externals :: externals where
  "idle_externals = \<lparr>x_run = (\<lambda>r g. (SpawnFailed, g)), x_regex = (\<lambda>opts p. Inl ''no regex''), x_lower = id\<rparr>"

definition sample_ctx :: ctx where
  "sample_ctx = ctx_new ''student'' ''files.01''"

text \<open>C12: A validator the agent does not know can never complete a task. An outcome passes only if
  the validator is legal and some category owns its tag; an illegal one runs nothing, leaves the
  guest as it is and is reported as an error; and whatever happens an outcome never counts as both
  passed and errored and weighs between one and one hundred.\<close>

theorem only_checked_validators_pass:
  "(o_passed (fst (evaluate X R cx v g)) \<longrightarrow>
      legal R v \<and> (dispatch X cx v g \<noteq> None \<or> v_kind v = ''side_effect_exists''))
   \<and> (\<not> legal R v \<longrightarrow> snd (evaluate X R cx v g) = g \<and> o_errored (fst (evaluate X R cx v g)))
   \<and> sound_outcome (fst (evaluate X R cx v g))"
proof (intro conjI impI)
  assume passed: "o_passed (fst (evaluate X R cx v g))"
  show legal: "legal R v" using passed evaluate_rejects [of R v X cx g] by fastforce
  from legal check_legal(1) [of R v] have check: "check R v = Inr ()" by blast
  show "dispatch X cx v g \<noteq> None \<or> v_kind v = ''side_effect_exists''"
  proof (rule ccontr)
    assume "\<not> (dispatch X cx v g \<noteq> None \<or> v_kind v = ''side_effect_exists'')"
    then have "dispatch X cx v g = None" "v_kind v \<noteq> ''side_effect_exists''"
      by (cases "dispatch X cx v g", auto)
    then have "evaluate X R cx v g = (apply_overrides v (no_handler v), g)"
      using check by (simp add: evaluate.simps(1))
    with passed show False by (simp add: no_handler_def)
  qed
qed (use evaluate_rejects [of R v X cx g] evaluate_sound in auto)

lemma only_checked_validators_pass_witness:
  "o_errored (fst (evaluate idle_externals small_registry sample_ctx (validator_new ''file_exits'') sample_guest))"
proof -
  have "check small_registry (validator_new ''file_exits'') \<noteq> Inr ()" by code_simp
  then have "\<not> legal small_registry (validator_new ''file_exits'')" using check_legal(1) by blast
  then show ?thesis using only_checked_validators_pass [of idle_externals small_registry sample_ctx "validator_new ''file_exits''" sample_guest] by blast
qed

lemma passed_are_legal: "list_all o_passed (fst (evaluate_all X R cx vs g)) \<Longrightarrow> list_all (legal R) vs"
proof (induction vs arbitrary: g)
  case (Cons v vs)
  obtain c g' where e: "evaluate X R cx v g = (c, g')" by fastforce
  with Cons.prems have "o_passed c" "list_all o_passed (fst (evaluate_all X R cx vs g'))"
    by (simp_all split: prod.splits)
  moreover from this e have "legal R v" using evaluate_rejects [of R v X cx g] by fastforce
  ultimately show ?case using Cons.IH by simp
qed simp

lemma validate_task_passed:
  "tv_passed (fst (validate_task X R cx lid tid vs g)) \<longleftrightarrow> vs \<noteq> [] \<and> list_all o_passed (fst (evaluate_all X R cx vs g))"
  "tv_outcomes (fst (validate_task X R cx lid tid vs g)) = fst (evaluate_all X R cx vs g)"
proof -
  have "fst (evaluate_all X R cx vs g) = [] \<longleftrightarrow> vs = []"
    using evaluate_all_length [of X R cx vs g] by (metis length_0_conv)
  then show "tv_passed (fst (validate_task X R cx lid tid vs g)) \<longleftrightarrow> vs \<noteq> [] \<and> list_all o_passed (fst (evaluate_all X R cx vs g))"
    by (simp add: validate_task_def from_outcomes_def split_def)
qed (simp add: validate_task_def from_outcomes_def split_def)

text \<open>C20: The verdict the guest returns for a task of fewer than forty million validators. It is
  passed exactly when there is a validator and every outcome passed, so never with an illegal
  validator among them; the percentage does not overflow, is at most one hundred and is one hundred
  for a pass.\<close>

theorem guest_verdict:
  assumes "length vs < 40000000"
  shows "(tv_passed (fst (validate_task X R cx lid tid vs g)) \<longleftrightarrow>
      vs \<noteq> [] \<and> list_all o_passed (fst (evaluate_all X R cx vs g)))
    \<and> (tv_passed (fst (validate_task X R cx lid tid vs g)) \<longrightarrow>
         list_all (legal R) vs \<and> tv_completion_percent (fst (validate_task X R cx lid tid vs g)) = 100)
    \<and> unat (tv_completion_percent (fst (validate_task X R cx lid tid vs g))) \<le> 100
    \<and> length (tv_outcomes (fst (validate_task X R cx lid tid vs g))) = length vs"
proof -
  let ?cs = "fst (evaluate_all X R cx vs g)"
  have val: "fst (validate_task X R cx lid tid vs g) = from_outcomes lid tid ?cs"
    by (simp add: validate_task_def split: prod.split)
  have w: "sum_list (map (unat \<circ> o_weight) ?cs) < 2 ^ 32"
    using sound_weights [OF evaluate_all_sound [of X R cx vs g]] assms by simp
  have wf: "list_all wf_outcome ?cs"
    using evaluate_all_sound [of X R cx vs g] by (simp add: list_all_iff sound_outcome_def)
  have "?cs = [] \<longleftrightarrow> vs = []" using evaluate_all_length [of X R cx vs g] by (metis length_0_conv)
  then show ?thesis
    using completion_percent_le [OF w] completion_percent_full [OF w wf] passed_are_legal [of X R cx vs g]
    by (auto simp: val from_outcomes_def list_all_iff)
qed

lemma guest_verdict_witness:
  "length (tv_outcomes (fst (validate_task idle_externals small_registry sample_ctx ''files.01'' ''t1''
     [small_validator, validator_new ''file_exits''] sample_guest))) = 2"
  using guest_verdict [of "[small_validator, validator_new ''file_exits'']" idle_externals small_registry sample_ctx
      "''files.01''" "''t1''" sample_guest] by simp

text \<open>C23: Host and guest agree on the parameters. For a legal validator the agent finds every required
  parameter with the type the registry declares: texts, non-empty paths, integers and lists of
  texts; and it reads every mode the registry accepts, except a number that is negative or a
  fraction.\<close>

theorem legal_parameters_are_readable:
  assumes "legal R v" "registry_spec R (v_kind v) = Some spec" "bt_get (vs_params spec) name = Some p" "ps_required p"
  shows "(ps_type p \<in> {''string'', ''regex'', ''user'', ''group'', ''unit'', ''command'', ''enum'', ''sha256''} \<longrightarrow>
       (\<exists>s. arg_string v name = Inr s))
    \<and> (ps_type p = ''path'' \<longrightarrow> (\<exists>s. s \<noteq> [] \<and> arg_path v name = Inr s))
    \<and> (ps_type p \<in> {''int'', ''port''} \<longrightarrow> optional_integer v name \<noteq> None)
    \<and> (ps_type p = ''list<string>'' \<longrightarrow> (\<exists>ss. arg_string_list v name = Inr ss))
    \<and> (ps_type p = ''mode'' \<longrightarrow> mode_param v name \<noteq> None
         \<or> (\<exists>n. bt_get (v_params v) name = Some (JNumber n) \<and> as_u64 (JNumber n) = None))"
proof -
  obtain j where j: "bt_get (v_params v) name = Some j" "legal_value R p j"
    using legal_required_value [OF assms] .
  have scalar: "scalar_legal p j" if "ps_type p \<noteq> ''validators''" using j(2) that by (simp add: legal_value_iff)
  have mode: "mode_param v name \<noteq> None \<or> (\<exists>n. j = JNumber n \<and> as_u64 j = None)" if "ps_type p = ''mode''"
    using scalar that j(1) parse_mode_agrees
    by (cases j) (auto simp: scalar_legal_def mode_param_def parse_mode_def split: json_number.splits)
  show ?thesis
    using j(1) mode scalar
    by (auto simp: scalar_legal_def arg_path_def arg_string_def arg_string_list_def optional_integer_def
        str_param_def i64_param_def)
qed

lemma legal_parameters_are_readable_witness:
  "(\<exists>bits. mode_param small_validator ''mode'' = Some bits)
   \<or> (\<exists>n. bt_get (v_params small_validator) ''mode'' = Some (JNumber n) \<and> as_u64 (JNumber n) = None)"
proof -
  let ?spec = "the (registry_spec small_registry (v_kind small_validator))"
  let ?p = "the (bt_get (vs_params ?spec) ''mode'')"
  have "check small_registry small_validator = Inr ()" by code_simp
  then have "legal small_registry small_validator" using check_legal(1) by blast
  moreover have "registry_spec small_registry (v_kind small_validator) = Some ?spec"
    "bt_get (vs_params ?spec) ''mode'' = Some ?p" "ps_required ?p" "ps_type ?p = ''mode''" by code_simp+
  ultimately show ?thesis
    using legal_parameters_are_readable [of small_registry small_validator ?spec "''mode''" ?p] by blast
qed

end
