(* ===== verification/Guest_Agent.thy ===== *)
theory Guest_Agent
  imports Guest_Validators Protocol Actions "HOL-Library.Multiset"
begin

text \<open>
  The guest agent's requests (guest/linuxlab-agent/src/handlers.rs). The handlers act on the guest through the operating system: every change they ask for
  and every program they start is recorded in a log, so that what a request can touch is a statement
  about the log. The commands of validators are the subject of the validator theories and are not
  logged.
\<close>

section \<open>Effects\<close>

datatype effect =
    MakeDirs string
  | SetMode string nat
  | WriteFile string string
  | Rename string string
  | RemoveFile string
  | Ran string "string list"
  | Scheduled string "string list"

text \<open>Code outside the repository: a change of the file system with its possible error, a program
  run without a deadline, and the float parser of the standard library (the seconds as \<^verbatim>\<open>u64\<close>, a
  load as the bits of \<^verbatim>\<open>f32\<close>).\<close>

record kernel =
  kn_ext :: externals
  kn_change :: "effect \<Rightarrow> guest \<Rightarrow> string option \<times> guest"
  kn_output :: "string \<Rightarrow> string list \<Rightarrow> guest \<Rightarrow> (int option \<times> string) option \<times> guest"
  kn_seconds :: "string \<Rightarrow> u64 option"
  kn_load :: "string \<Rightarrow> u32 option"
  kn_agent_version :: string
  kn_registry :: registry

record agent =
  ag_guest :: guest
  ag_log :: "effect list"

type_synonym 'a agent_action = "(agent, 'a) action"

definition change :: "kernel \<Rightarrow> effect \<Rightarrow> unit agent_action" where
  "change K e a =
     (let (r, g) = kn_change K e (ag_guest a)
      in (case r of None \<Rightarrow> Inr () | Some err \<Rightarrow> Inl err, a\<lparr>ag_guest := g, ag_log := ag_log a @ [e]\<rparr>))"

definition start :: "kernel \<Rightarrow> string \<Rightarrow> string list \<Rightarrow> nat option \<Rightarrow> command_output agent_action" where
  "start K program args timeout a =
     (let (r, g) = run_command (kn_ext K) program args timeout (ag_guest a)
      in (r, a\<lparr>ag_guest := g, ag_log := ag_log a @ [Ran program args]\<rparr>))"

definition look :: "(guest \<Rightarrow> 'a) \<Rightarrow> 'a agent_action" where
  "look f = inspect (\<lambda>a. f (ag_guest a))"

section \<open>System facts with floating point\<close>

definition uptime_seconds :: "kernel \<Rightarrow> guest \<Rightarrow> u64" where
  "uptime_seconds K g =
     (case Option.bind (read_to_string g ''/proc/uptime'') (\<lambda>s.
           Option.bind (nth_field (split_whitespace s) 0) (kn_seconds K)) of
        Some n \<Rightarrow> n | None \<Rightarrow> 0)"

definition load_average :: "kernel \<Rightarrow> guest \<Rightarrow> u32 \<times> u32 \<times> u32" where
  "load_average K g =
     (case read_to_string g ''/proc/loadavg'' of
        None \<Rightarrow> (0, 0, 0)
      | Some content \<Rightarrow>
          let parts = List.map_filter (kn_load K) (take 3 (split_whitespace content));
              part = (\<lambda>i. if i < length parts then parts ! i else 0)
          in (part 0, part 1, part 2))"

section \<open>Lessons\<close>

definition lesson_dir :: "string \<Rightarrow> string" where
  "lesson_dir lid = cx_lesson_root (ctx_new ''root'' lid)"

definition active_namespace :: "guest \<Rightarrow> string \<Rightarrow> string option" where
  "active_namespace g lid =
     (case map_option trim (read_to_string g (unix_join (lesson_dir lid) ''default-namespace'')) of
        Some s \<Rightarrow> if s = [] then None else Some s
      | None \<Rightarrow> None)"

definition is_file :: "guest \<Rightarrow> string \<Rightarrow> bool" where
  "is_file g path \<longleftrightarrow> (case stat g path of Some f \<Rightarrow> ff_kind f = Regular | None \<Rightarrow> False)"

text \<open>\<^verbatim>\<open>Path::file_name\<close>: the last component, unless it is a dot component.\<close>

definition file_name :: "string \<Rightarrow> string option" where
  "file_name path =
     (let parts = snd (unix_components path)
      in if parts = [] \<or> last parts = ''..'' \<or> last parts = ''.'' then None else Some (last parts))"

definition resolve_lesson_script :: "string \<Rightarrow> string \<Rightarrow> string agent_action" where
  "resolve_lesson_script lid script =
     (case file_name script of
        None \<Rightarrow> bail (quoted script @ '' is not a script file name'')
      | Some name \<Rightarrow>
          let path = unix_join (lesson_dir lid) name in
          act_bind (look (\<lambda>g. is_file g path)) (\<lambda>present.
            if present then return path
            else bail (''the lesson script '' @ path @ '' is not installed'')))"

text \<open>The walk over the fixtures does not follow links, so it ends: the kernel refuses a path of 4096
  bytes or more, and each level adds a separator and a name to it. The depth stands for that limit.\<close>

definition max_path :: nat where
  "max_path = 4096"

definition lstat_error :: "string \<Rightarrow> string" where
  "lstat_error path =
     (if length path < max_path then ''No such file or directory (os error 2)''
      else ''File name too long (os error 36)'')"

fun harden :: "kernel \<Rightarrow> nat \<Rightarrow> string \<Rightarrow> unit agent_action"
  and harden_all :: "kernel \<Rightarrow> nat \<Rightarrow> string \<Rightarrow> string list \<Rightarrow> unit agent_action" where
  "harden K 0 path = bail (lstat_error path)"
| "harden K (Suc n) path =
     act_bind (look (\<lambda>g. lstat g path)) (\<lambda>facts.
       case facts of
         None \<Rightarrow> bail (lstat_error path)
       | Some f \<Rightarrow>
           if ff_kind f = Directory then
             act_bind (change K (SetMode path 0x1C0)) (\<lambda>_.
             act_bind (look (\<lambda>g. gu_dir g path)) (\<lambda>entries.
               case entries of Inl e \<Rightarrow> bail (io_text e) | Inr names \<Rightarrow> harden_all K n path names))
           else if ff_kind f = Regular then change K (SetMode path 0x180)
           else return ())"
| "harden_all K n path [] = return ()"
| "harden_all K n path (name # names) =
     act_bind (harden K n (unix_join path name)) (\<lambda>_. harden_all K n path names)"

definition harden_fixtures :: "kernel \<Rightarrow> string \<Rightarrow> unit agent_action" where
  "harden_fixtures K root = harden K max_path root"

definition sudo_target :: string where
  "sudo_target = ''/etc/sudoers.d/010-linuxlab-lesson''"

definition sudo_staging :: string where
  "sudo_staging = ''/etc/sudoers.d/.010-linuxlab-lesson.staged''"

definition sudo_policy :: "bool \<Rightarrow> string" where
  "sudo_policy allowed =
     (if allowed
      then ''# Managed by linuxlab-agent. Lesson permits escalation.'' @ [CHR 0x0A] @ ''student ALL=(ALL:ALL) ALL'' @ [CHR 0x0A]
      else ''# Managed by linuxlab-agent. Lesson does not permit escalation.'' @ [CHR 0x0A]
        @ ''student ALL=(ALL:ALL) !ALL'' @ [CHR 0x0A])"

definition visudo :: "kernel \<Rightarrow> (int option \<times> string) option agent_action" where
  "visudo K a =
     (let args = [''-c'', ''-f'', sudo_staging];
          (r, g) = kn_output K ''visudo'' args (ag_guest a)
      in (Inr r, a\<lparr>ag_guest := g, ag_log := ag_log a @ [Ran ''visudo'' args]\<rparr>))"

definition apply_sudo_policy :: "kernel \<Rightarrow> bool \<Rightarrow> unit agent_action" where
  "apply_sudo_policy K allowed =
     act_bind (change K (WriteFile sudo_staging (sudo_policy allowed))) (\<lambda>_.
     act_bind (change K (SetMode sudo_staging 0x120)) (\<lambda>_.
     act_bind (visudo K) (\<lambda>check.
       case check of
         Some (code, err) \<Rightarrow>
           if code = Some 0 then change K (Rename sudo_staging sudo_target)
           else act_bind (ignoring (change K (RemoveFile sudo_staging))) (\<lambda>_.
             bail (''refusing to install an invalid sudoers policy: '' @ trim err))
       | None \<Rightarrow> change K (Rename sudo_staging sudo_target))))"

text \<open>\<^verbatim>\<open>prepare_lesson\<close> in the steps of the code: the folder and its fixtures, the sudo policy, the
  network laboratory, the setup script.\<close>

definition prepare_fixtures :: "kernel \<Rightarrow> string \<Rightarrow> string list \<Rightarrow> string list agent_action" where
  "prepare_fixtures K lid fixtures =
     (let fixture_root = unix_join (lesson_dir lid) ''fixtures'' in
      act_bind (change K (MakeDirs (lesson_dir lid))) (\<lambda>_.
      act_bind (look (\<lambda>g. stat g fixture_root \<noteq> None)) (\<lambda>present.
      act_bind (if present then harden_fixtures K fixture_root else return ()) (\<lambda>_.
      look (\<lambda>g. map (\<lambda>f. ''fixture '' @ quoted f @ '' is not installed in the image'')
        (filter (\<lambda>f. \<not> is_dir g (unix_join fixture_root f)) fixtures))))))"

definition prepare_network :: "kernel \<Rightarrow> string list \<Rightarrow> string list agent_action" where
  "prepare_network K namespaces =
     (if namespaces = [] then return []
      else act_bind (start K ''/opt/linuxlab/bin/lab-net'' [''up'', join '' '' namespaces] (Some 60000)) (\<lambda>out.
        return (if command_success out then []
          else [''the internal network laboratory did not start cleanly: '' @ trim (co_stderr out)])))"

definition run_lesson_script :: "kernel \<Rightarrow> string \<Rightarrow> string \<Rightarrow> string \<Rightarrow> unit agent_action" where
  "run_lesson_script K purpose lid script =
     act_bind (resolve_lesson_script lid script) (\<lambda>path.
     act_bind (start K ''/bin/bash'' [''--'', path] (Some 120000)) (\<lambda>out.
       if command_success out then return ()
       else bail (''the lesson '' @ purpose @ '' script failed ('' @ dec_int (co_status out) @ ''): '' @ trim (co_stderr out))))"

definition prepare_lesson ::
  "kernel \<Rightarrow> string \<Rightarrow> string option \<Rightarrow> string list \<Rightarrow> string list \<Rightarrow> bool \<Rightarrow> string list agent_action" where
  "prepare_lesson K lid setup fixtures namespaces sudo =
     act_bind (prepare_fixtures K lid fixtures) (\<lambda>missing.
     act_bind (apply_sudo_policy K sudo) (\<lambda>_.
     act_bind (prepare_network K namespaces) (\<lambda>network.
     act_bind (case setup of None \<Rightarrow> return () | Some script \<Rightarrow> run_lesson_script K ''setup'' lid script) (\<lambda>_.
       return (missing @ network)))))"

definition signals_dir :: string where
  "signals_dir = ''/run/linuxlab/signals''"

fun remove_all :: "kernel \<Rightarrow> string list \<Rightarrow> unit agent_action" where
  "remove_all K [] = return ()"
| "remove_all K (name # names) =
     act_bind (ignoring (change K (RemoveFile (unix_join signals_dir name)))) (\<lambda>_. remove_all K names)"

definition reset_lesson :: "kernel \<Rightarrow> string \<Rightarrow> string option \<Rightarrow> unit agent_action" where
  "reset_lesson K lid script =
     act_bind (case script of None \<Rightarrow> return () | Some s \<Rightarrow> run_lesson_script K ''reset'' lid s) (\<lambda>_.
     act_bind (look (\<lambda>g. gu_dir g signals_dir)) (\<lambda>entries.
       case entries of Inl _ \<Rightarrow> return () | Inr names \<Rightarrow> remove_all K names))"

definition checkpoints_dir :: string where
  "checkpoints_dir = ''/run/linuxlab/checkpoints''"

definition checkpoint_name :: "string \<Rightarrow> string" where
  "checkpoint_name = filter (\<lambda>c. is_ascii_alphanumeric c \<or> c = CHR ''-'' \<or> c = CHR ''_'')"

definition checkpoint :: "kernel \<Rightarrow> string \<Rightarrow> unit agent_action" where
  "checkpoint K name =
     (let safe = checkpoint_name name in
      if safe = [] then bail ''checkpoint names must contain at least one letter or digit''
      else act_bind (change K (MakeDirs checkpoints_dir)) (\<lambda>_.
        act_bind (look (uptime_seconds K)) (\<lambda>up.
          change K (WriteFile (unix_join checkpoints_dir safe) (''uptime='' @ dec (unat up) @ [CHR 0x0A])))))"

section \<open>Diagnostics\<close>

definition output_or :: "'a \<Rightarrow> (command_output \<Rightarrow> 'a) \<Rightarrow> command_output agent_action \<Rightarrow> 'a agent_action" where
  "output_or fallback f m a =
     (case m a of (Inl _, a') \<Rightarrow> (Inr fallback, a') | (Inr out, a') \<Rightarrow> (Inr (f out), a'))"

definition failed_units :: "kernel \<Rightarrow> string list agent_action" where
  "failed_units K =
     output_or [] (\<lambda>out. List.map_filter (\<lambda>line. nth_field (split_whitespace line) 0) (lines (co_stdout out)))
       (start K ''systemctl'' [''list-units'', ''--state=failed'', ''--no-legend'', ''--plain'', ''--no-pager''] None)"

definition percent_of :: "command_output \<Rightarrow> u8" where
  "percent_of out =
     (case Option.bind (nth_field (lines (co_stdout out)) 1) (\<lambda>line.
           Option.bind (List.find (\<lambda>f. f \<noteq> [] \<and> last f = CHR ''%'') (split_whitespace line)) (\<lambda>f.
             parse_unsigned 10 (2 ^ 8) (trim_char_end CHR ''%'' f))) of
        Some n \<Rightarrow> word_of_nat n | None \<Rightarrow> 0)"

definition root_usage :: "kernel \<Rightarrow> (u8 \<times> u8) agent_action" where
  "root_usage K =
     act_bind (output_or 0 percent_of (start K ''df'' [''-P'', ''/''] None)) (\<lambda>bytes.
     act_bind (output_or 0 percent_of (start K ''df'' [''-Pi'', ''/''] None)) (\<lambda>inodes.
       return (bytes, inodes)))"

definition listening_ports :: "guest \<Rightarrow> u16 list" where
  "listening_ports g = remdups_adj (sort (map so_port (filter so_listening (read_sockets g ''tcp''))))"

definition diagnostics :: "kernel \<Rightarrow> guest_diagnostics agent_action" where
  "diagnostics K =
     act_bind (look meminfo) (\<lambda>memory.
     act_bind (failed_units K) (\<lambda>failed.
     act_bind (look listening_ports) (\<lambda>ports.
     act_bind (root_usage K) (\<lambda>usage.
     look (\<lambda>g. \<lparr>gd_hostname = hostname g, gd_kernel = kernel_release g, gd_uptime_seconds = uptime_seconds K g,
       gd_load_average = load_average K g, gd_memory_total_kb = fst memory, gd_memory_available_kb = snd memory,
       gd_root_disk_used_percent = fst usage, gd_root_inodes_used_percent = snd usage,
       gd_failed_units = failed, gd_listening_ports = ports,
       gd_current_directory = Option.bind (find_login_shell g ''student'') (\<lambda>shell. process_cwd g (pr_pid shell))\<rparr>)))))"

section \<open>Browsing\<close>

definition browsable_roots :: "string list" where
  "browsable_roots = [''/home'', ''/tmp'', ''/var/log'', ''/etc'', ''/opt/linuxlab/lessons'', ''/srv'']"

text \<open>\<^verbatim>\<open>Path::starts_with\<close> compares whole components.\<close>

definition path_within :: "string \<Rightarrow> string \<Rightarrow> bool" where
  "path_within path root \<longleftrightarrow>
     fst (unix_components path) = fst (unix_components root)
     \<and> prefix (snd (unix_components root)) (snd (unix_components path))"

definition entry_info :: "guest \<Rightarrow> string \<Rightarrow> string \<Rightarrow> dir_entry_info option" where
  "entry_info g dir name =
     map_option (\<lambda>f.
       \<lparr>de_name = name, de_file_type = kind_str (ff_kind f), de_size = ff_size f, de_mode = format_mode (ff_permissions f),
        de_owner = (case user_for_uid g (ff_uid f) of Some u \<Rightarrow> u | None \<Rightarrow> dec (unat (ff_uid f))),
        de_group = (case group_for_gid g (ff_gid f) of Some n \<Rightarrow> n | None \<Rightarrow> dec (unat (ff_gid f))),
        de_link_target = (if ff_kind f = Symlink then gu_link g (unix_join dir name) else None)\<rparr>)
       (lstat g (unix_join dir name))"

definition is_shown :: "bool \<Rightarrow> string \<Rightarrow> bool" where
  "is_shown include_hidden name \<longleftrightarrow> include_hidden \<or> \<not> starts_with name ''.''"

definition list_directory :: "guest \<Rightarrow> string \<Rightarrow> bool \<Rightarrow> string + dir_entry_info list" where
  "list_directory g path include_hidden =
     (case gu_canon g path of
        None \<Rightarrow> Inl (path @ '' could not be opened'')
      | Some canonical \<Rightarrow>
          if \<not> list_ex (path_within canonical) browsable_roots then
            Inl (path @ '' is outside the directories this panel may browse'')
          else case gu_dir g canonical of
            Inl e \<Rightarrow> Inl (io_text e)
          | Inr names \<Rightarrow>
              Inr (sort_key (\<lambda>e. (de_file_type e \<noteq> ''directory'', de_name e))
                (List.map_filter (entry_info g canonical) (filter (is_shown include_hidden) names))))"

definition installed_packages :: "kernel \<Rightarrow> package_info list agent_action" where
  "installed_packages K =
     output_or [] (\<lambda>out. List.map_filter
         (\<lambda>line. map_option (\<lambda>(n, v). \<lparr>pk_name = n, pk_version = v\<rparr>) (split_once CHR 0x09 line))
         (lines (co_stdout out)))
       (start K ''dpkg-query'' [''-W'', ''-f=${Package}'' @ [CHR 0x5C] @ ''t${Version}'' @ [CHR 0x5C] @ ''n''] (Some 20000))"

section \<open>Requests\<close>

definition clamp_u16 :: "u16 \<Rightarrow> u16 \<Rightarrow> u16 \<Rightarrow> u16" where
  "clamp_u16 lo hi n = (if n < lo then lo else if hi < n then hi else n)"

definition resize :: "kernel \<Rightarrow> u16 \<Rightarrow> u16 \<Rightarrow> agent_response agent_action" where
  "resize K rows cols =
     act_bind (start K ''stty'' [''-F'', ''/dev/ttyS0'', ''rows'', dec (unat rows), ''cols'', dec (unat cols)] None) (\<lambda>out.
       return (if command_success out then TerminalResized rows cols
               else AgentError (''could not set the terminal size: '' @ trim (co_stderr out)) True))"

definition respond :: "(string \<Rightarrow> agent_response) \<Rightarrow> ('a \<Rightarrow> agent_response) \<Rightarrow> 'a agent_action \<Rightarrow> agent \<Rightarrow> agent_response \<times> agent" where
  "respond failed ok m a = (case m a of (Inl e, a') \<Rightarrow> (failed e, a') | (Inr x, a') \<Rightarrow> (ok x, a'))"

definition validate_request ::
  "kernel \<Rightarrow> string \<Rightarrow> string \<Rightarrow> validator list \<Rightarrow> string \<Rightarrow> int option \<Rightarrow> agent \<Rightarrow> agent_response \<times> agent" where
  "validate_request K lid tid vs subject started a =
     (let cx = (ctx_new subject lid)\<lparr>cx_attempt_started_at := started,
                  cx_default_namespace := active_namespace (ag_guest a) lid\<rparr>;
          (tv, g) = validate_task (kn_ext K) (kn_registry K) cx lid tid vs (ag_guest a)
      in (TaskValidated tv, a\<lparr>ag_guest := g\<rparr>))"

fun handle :: "kernel \<Rightarrow> agent_request \<Rightarrow> agent \<Rightarrow> agent_response \<times> agent" where
  "handle K Ping a =
     (Pong (kn_agent_version K) (kernel_release (ag_guest a)) (image_version (ag_guest a))
        (uptime_seconds K (ag_guest a)), a)"
| "handle K (PrepareLesson lid setup fixtures namespaces sudo) a =
     respond (\<lambda>e. AgentError (''could not prepare '' @ lid @ '': '' @ e) True) (LessonPrepared lid)
       (prepare_lesson K lid setup fixtures namespaces sudo) a"
| "handle K (ValidateTask lid tid vs subject started) a = validate_request K lid tid vs subject started a"
| "handle K (ResetLesson lid script) a =
     respond (\<lambda>e. AgentError (''could not reset '' @ lid @ '': '' @ e) True) (\<lambda>_. LessonReset lid)
       (reset_lesson K lid script) a"
| "handle K (Checkpoint name) a =
     respond (\<lambda>e. AgentError (''could not record checkpoint '' @ name @ '': '' @ e) False) (\<lambda>_. CheckpointCreated name)
       (checkpoint K name) a"
| "handle K Diagnostics a =
     respond (\<lambda>e. AgentError e False) DiagnosticsReport (diagnostics K) a"
| "handle K (ListDirectory path hidden) a =
     (case list_directory (ag_guest a) path hidden of
        Inr entries \<Rightarrow> (DirectoryListing path entries, a)
      | Inl e \<Rightarrow> (AgentError e False, a))"
| "handle K Versions a =
     respond (\<lambda>e. AgentError e False)
       (VersionsReport (image_version (ag_guest a)) (kn_agent_version K)) (installed_packages K) a"
| "handle K (SetTerminalSize rows cols) a =
     respond (\<lambda>e. AgentError e True) id (resize K (clamp_u16 10 300 rows) (clamp_u16 20 500 cols)) a"
| "handle K Shutdown a = (ShuttingDown, a\<lparr>ag_log := ag_log a @ [Scheduled ''systemctl'' [''poweroff'']]\<rparr>)"

section \<open>What an action can touch\<close>

text \<open>All effects an action adds to the log satisfy a predicate.\<close>

definition logged :: "(effect \<Rightarrow> bool) \<Rightarrow> agent \<Rightarrow> agent \<Rightarrow> bool" where
  "logged P a a' \<longleftrightarrow> (\<exists>es. ag_log a' = ag_log a @ es \<and> list_all P es)"

interpretation log: effect_relation "logged P" for P
proof unfold_locales
  show "logged P a a" for a by (simp add: logged_def)
  show "logged P a c" if "logged P a b" "logged P b c" for a b c
    using that by (auto simp: logged_def)
qed

abbreviation logs :: "(effect \<Rightarrow> bool) \<Rightarrow> 'a agent_action \<Rightarrow> bool" where
  "logs P m \<equiv> within (logged P) m"

lemmas logs_def = within_def logged_def

lemma within_look [within_intros]: "logs P (look f)"
  unfolding look_def by (rule log.within_pure)

lemma logs_change [within_intros]: "P e \<Longrightarrow> logs P (change K e)"
  by (simp add: logs_def change_def split: prod.split)

lemma logs_start [within_intros]: "P (Ran program args) \<Longrightarrow> logs P (start K program args timeout)"
  by (simp add: logs_def start_def split: prod.split)

lemma logs_visudo [within_intros]: "P (Ran ''visudo'' [''-c'', ''-f'', sudo_staging]) \<Longrightarrow> logs P (visudo K)"
  by (simp add: logs_def visudo_def Let_def split: prod.split)

lemma output_or_state: "snd (output_or x f m a) = snd (m a)"
  by (simp add: output_or_def split: prod.split sum.split)

lemma logs_output_or [within_intros]: "logs P m \<Longrightarrow> logs P (output_or x f m)"
  by (simp add: logs_def output_or_state)

lemma logs_mono: "logs P m \<Longrightarrow> (\<And>e. P e \<Longrightarrow> Q e) \<Longrightarrow> logs Q m"
  unfolding logs_def by (metis list_all_iff)

text \<open>Paths reached from a folder by appending names of directory entries.\<close>

inductive below :: "string \<Rightarrow> string \<Rightarrow> bool" for root where
  here: "below root root"
| entry: "below root path \<Longrightarrow> below root (unix_join path name)"

lemma logs_harden:
  assumes "\<And>p. below root p \<Longrightarrow> P (SetMode p 0x1C0) \<and> P (SetMode p 0x180)"
  shows "below root path \<Longrightarrow> logs P (harden K n path)"
    and "below root path \<Longrightarrow> logs P (harden_all K n path names)"
  by (induction K n path and K n path names rule: harden_harden_all.induct)
    (auto intro!: within_intros below.entry simp: assms split: option.split sum.split)

text \<open>The effects each request may have. A lesson's own script is run by its name in the lesson's folder.\<close>

definition is_plain_name :: "string \<Rightarrow> bool" where
  "is_plain_name name \<longleftrightarrow> name \<noteq> [] \<and> CHR ''/'' \<notin> set name \<and> name \<noteq> ''.'' \<and> name \<noteq> ''..''"

definition lesson_script_run :: "string \<Rightarrow> effect \<Rightarrow> bool" where
  "lesson_script_run lid e \<longleftrightarrow>
     (\<exists>name. is_plain_name name \<and> e = Ran ''/bin/bash'' [''--'', lesson_dir lid @ ''/'' @ name])"

fun permitted :: "agent_request \<Rightarrow> effect \<Rightarrow> bool" where
  "permitted (PrepareLesson lid setup fixtures namespaces sudo) e \<longleftrightarrow>
     e = MakeDirs (lesson_dir lid)
     \<or> (\<exists>p m. e = SetMode p m \<and> below (lesson_dir lid @ ''/fixtures'') p \<and> m \<in> {0x1C0, 0x180})
     \<or> e \<in> {WriteFile sudo_staging (sudo_policy sudo), SetMode sudo_staging 0x120,
             Ran ''visudo'' [''-c'', ''-f'', sudo_staging], Rename sudo_staging sudo_target, RemoveFile sudo_staging}
     \<or> (namespaces \<noteq> [] \<and> e = Ran ''/opt/linuxlab/bin/lab-net'' [''up'', join '' '' namespaces])
     \<or> (setup \<noteq> None \<and> lesson_script_run lid e)"
| "permitted (ResetLesson lid script) e \<longleftrightarrow>
     (script \<noteq> None \<and> lesson_script_run lid e) \<or> (\<exists>name. e = RemoveFile (unix_join signals_dir name))"
| "permitted (Checkpoint name) e \<longleftrightarrow>
     e = MakeDirs checkpoints_dir \<or> (\<exists>n. e = WriteFile (checkpoints_dir @ ''/'' @ checkpoint_name name) (''uptime='' @ dec n @ [CHR 0x0A]))"
| "permitted Diagnostics e \<longleftrightarrow> (\<exists>args. e = Ran ''systemctl'' (''list-units'' # args) \<or> e = Ran ''df'' args)"
| "permitted Versions e \<longleftrightarrow> (\<exists>args. e = Ran ''dpkg-query'' (''-W'' # args))"
| "permitted (SetTerminalSize rows cols) e \<longleftrightarrow>
     (\<exists>r c. 10 \<le> r \<and> r \<le> 300 \<and> 20 \<le> c \<and> c \<le> 500
        \<and> e = Ran ''stty'' [''-F'', ''/dev/ttyS0'', ''rows'', dec r, ''cols'', dec c])"
| "permitted Shutdown e \<longleftrightarrow> e = Scheduled ''systemctl'' [''poweroff'']"
| "permitted _ e \<longleftrightarrow> False"

lemma file_name_plain: "file_name path = Some name \<Longrightarrow> is_plain_name name"
proof -
  assume n: "file_name path = Some name"
  have sep: "CHR ''/'' \<notin> set w" if "w \<in> set (split_on (\<lambda>c. c = CHR ''/'') s)" for w s
    using that by (induction s arbitrary: w) (auto split: if_splits list.splits)
  have parts: "name \<in> set (snd (unix_components path))" "name \<noteq> ''..''" "name \<noteq> ''.''"
    using n by (auto simp: file_name_def Let_def split: if_splits)
  then have "name \<in> set (filter (\<lambda>p. p \<noteq> []) (split_on (\<lambda>c. c = CHR ''/'') path))"
    by (auto simp: unix_components_def Let_def split: if_splits)
  with sep parts(2,3) show ?thesis by (auto simp: is_plain_name_def)
qed

lemma starts_with_slash: "CHR ''/'' \<notin> set name \<Longrightarrow> \<not> starts_with name ''/''"
  by (cases name) (auto simp: starts_with_def)

lemma lesson_dir_join: "CHR ''/'' \<notin> set name \<Longrightarrow> unix_join (lesson_dir lid) name = lesson_dir lid @ ''/'' @ name"
  using lesson_root_below [of lid] starts_with_slash [of name] last_in_set
  by (fastforce simp: lesson_dir_def ctx_new_def unix_join_def)

text \<open>A resolved script lies directly in the lesson's folder, so running one is a permitted effect.\<close>

lemma resolved_script:
  assumes "resolve_lesson_script lid script a = (Inr path, a')"
  shows "\<exists>name. is_plain_name name \<and> path = lesson_dir lid @ ''/'' @ name"
proof (cases "file_name script")
  case (Some name)
  note plain = file_name_plain [OF Some]
  then have "unix_join (lesson_dir lid) name = lesson_dir lid @ ''/'' @ name"
    by (simp add: is_plain_name_def lesson_dir_join)
  with assms Some plain show ?thesis
    by (auto simp: resolve_lesson_script_def Let_def act_bind_def look_def inspect_def return_def bail_def split: if_splits)
qed (use assms in \<open>simp add: resolve_lesson_script_def bail_def\<close>)

lemma logs_lesson_script:
  assumes "\<And>e. lesson_script_run lid e \<Longrightarrow> P e"
  shows "logs P (run_lesson_script K purpose lid script)"
  unfolding run_lesson_script_def
proof (rule log.within_bind_result)
  show "logs P (resolve_lesson_script lid script)"
    by (auto simp: resolve_lesson_script_def Let_def intro!: within_intros split: option.split)
  show "logs P (act_bind (start K ''/bin/bash'' [''--'', path] (Some 120000)) (\<lambda>out.
      if command_success out then return () else bail (err out)))"
    if "resolve_lesson_script lid script a = (Inr path, a')" for a path a' err
    using resolved_script [OF that] assms by (auto simp: lesson_script_run_def intro!: within_intros)
qed

lemma logs_remove_all: "(\<And>n. P (RemoveFile (unix_join signals_dir n))) \<Longrightarrow> logs P (remove_all K names)"
  by (induction names) (auto intro!: within_intros)

lemma logs_sudo_policy:
  assumes "P (WriteFile sudo_staging (sudo_policy allowed))" "P (SetMode sudo_staging 0x120)"
    "P (Ran ''visudo'' [''-c'', ''-f'', sudo_staging])" "P (Rename sudo_staging sudo_target)" "P (RemoveFile sudo_staging)"
  shows "logs P (apply_sudo_policy K allowed)"
  using assms by (auto simp: apply_sudo_policy_def intro!: within_intros split: option.split)

lemma fixture_root: "unix_join (lesson_dir lid) ''fixtures'' = lesson_dir lid @ ''/fixtures''"
  using lesson_dir_join [of "''fixtures''" lid] by simp

lemma logs_prepare: "logs (permitted (PrepareLesson lid setup fixtures namespaces sudo))
    (prepare_lesson K lid setup fixtures namespaces sudo)" (is "logs ?P _")
proof -
  have "logs ?P (harden_fixtures K (lesson_dir lid @ ''/fixtures''))"
    unfolding harden_fixtures_def by (rule logs_harden) (auto intro: below.here)
  then have fixtures: "logs ?P (prepare_fixtures K lid fixtures)"
    by (auto simp: prepare_fixtures_def Let_def fixture_root intro!: within_intros)
  have network: "logs ?P (prepare_network K namespaces)"
    by (auto simp: prepare_network_def intro!: within_intros)
  have sudo: "logs ?P (apply_sudo_policy K sudo)" by (rule logs_sudo_policy) simp_all
  have "logs ?P (run_lesson_script K ''setup'' lid script)" if "setup = Some script" for script
    using that by (intro logs_lesson_script) simp
  then show ?thesis
    unfolding prepare_lesson_def
    by (intro log.within_bind fixtures network sudo) (auto intro!: within_intros split: option.split)
qed

lemma logs_reset: "logs (permitted (ResetLesson lid script)) (reset_lesson K lid script)" (is "logs ?P _")
proof -
  have "logs ?P (run_lesson_script K ''reset'' lid s)" if "script = Some s" for s
    using that by (intro logs_lesson_script) simp
  then show ?thesis
    unfolding reset_lesson_def
    by (intro log.within_bind) (auto intro!: within_intros logs_remove_all split: option.split sum.split)
qed

lemma checkpoint_join: "unix_join checkpoints_dir (checkpoint_name name) = checkpoints_dir @ ''/'' @ checkpoint_name name"
proof -
  have "CHR ''/'' \<notin> set (checkpoint_name name)"
    by (auto simp: checkpoint_name_def is_ascii_alphanumeric_def is_ascii_digit_def is_ascii_lower_def
        is_ascii_upper_def byte_def)
  then show ?thesis using starts_with_slash by (simp add: unix_join_def checkpoints_dir_def)
qed

lemma logs_checkpoint: "logs (permitted (Checkpoint name)) (checkpoint K name)"
  by (auto simp: checkpoint_def Let_def checkpoint_join intro!: within_intros)

lemma logs_diagnostics: "logs (permitted Diagnostics) (diagnostics K)"
  by (auto simp: diagnostics_def failed_units_def root_usage_def intro!: within_intros)

lemma logs_packages: "logs (permitted Versions) (installed_packages K)"
  by (auto simp: installed_packages_def intro!: within_intros)

lemma clamp_u16_range: "lo \<le> hi \<Longrightarrow> lo \<le> clamp_u16 lo hi n \<and> clamp_u16 lo hi n \<le> hi"
  by (auto simp: clamp_u16_def)

lemma logs_resize:
  "logs (permitted (SetTerminalSize rows cols)) (resize K (clamp_u16 10 300 rows) (clamp_u16 20 500 cols))"
proof -
  have "unat (10 :: u16) \<le> unat (clamp_u16 10 300 rows) \<and> unat (clamp_u16 10 300 rows) \<le> unat (300 :: u16)"
    "unat (20 :: u16) \<le> unat (clamp_u16 20 500 cols) \<and> unat (clamp_u16 20 500 cols) \<le> unat (500 :: u16)"
    using clamp_u16_range [of 10 300 rows] clamp_u16_range [of 20 500 cols] by (simp_all add: word_le_nat_alt)
  then have "permitted (SetTerminalSize rows cols) (Ran ''stty'' [''-F'', ''/dev/ttyS0'', ''rows'',
      dec (unat (clamp_u16 10 300 rows)), ''cols'', dec (unat (clamp_u16 20 500 cols))])"
    unfolding permitted.simps by simp blast
  then show ?thesis by (auto simp: resize_def simp del: permitted.simps intro!: within_intros)
qed

lemma respond_log: "ag_log (snd (respond failed ok m a)) = ag_log (snd (m a))"
  by (simp add: respond_def split: prod.split sum.split)

lemma respond_logs: "logs P m \<Longrightarrow> \<exists>es. ag_log (snd (respond failed ok m a)) = ag_log a @ es \<and> list_all P es"
  by (simp add: respond_log logs_def)

section \<open>Browsing, the sudo policy and the walk over the fixtures\<close>

lemma map_filter_names:
  "map de_name (List.map_filter (entry_info g dir) names) = filter (\<lambda>n. lstat g (unix_join dir n) \<noteq> None) names"
  by (induction names) (auto simp: map_filter_simps entry_info_def split: option.split)

lemma apply_sudo_policy_effects:
  assumes "apply_sudo_policy K allowed a = (r, a')"
  shows "\<exists>es. ag_log a' = ag_log a @ es
    \<and> (Rename sudo_staging sudo_target \<in> set es \<longrightarrow>
         es = [WriteFile sudo_staging (sudo_policy allowed), SetMode sudo_staging 0x120,
               Ran ''visudo'' [''-c'', ''-f'', sudo_staging], Rename sudo_staging sudo_target]
         \<and> (\<exists>g. fst (kn_output K ''visudo'' [''-c'', ''-f'', sudo_staging] g) = None
              \<or> (\<exists>err. fst (kn_output K ''visudo'' [''-c'', ''-f'', sudo_staging] g) = Some (Some 0, err))))
    \<and> (r = Inr () \<longrightarrow> Rename sudo_staging sudo_target \<in> set es)"
proof -
  let ?args = "[''-c'', ''-f'', sudo_staging]"
  obtain r1 g1 where c1: "kn_change K (WriteFile sudo_staging (sudo_policy allowed)) (ag_guest a) = (r1, g1)" by fastforce
  obtain r2 g2 where c2: "kn_change K (SetMode sudo_staging 0x120) g1 = (r2, g2)" by fastforce
  obtain check g3 where v: "kn_output K ''visudo'' ?args g2 = (check, g3)" by fastforce
  note steps = assms [unfolded apply_sudo_policy_def act_bind_def change_def visudo_def ignoring_def bail_def Let_def]
  have fst_v: "fst (kn_output K ''visudo'' ?args g2) = check" by (simp add: v)
  show ?thesis
  proof (cases "r1 = None \<and> r2 = None \<and> (check = None \<or> (\<exists>err. check = Some (Some 0, err)))")
    case True
    then have "ag_log a' = ag_log a @ [WriteFile sudo_staging (sudo_policy allowed), SetMode sudo_staging 0x120,
        Ran ''visudo'' ?args, Rename sudo_staging sudo_target]"
      using steps c1 c2 v by (auto split: prod.splits option.splits)
    with True fst_v show ?thesis by auto
  next
    case False
    then have "r \<noteq> Inr () \<and> (\<exists>es. ag_log a' = ag_log a @ es \<and> Rename sudo_staging sudo_target \<notin> set es)"
      using steps c1 c2 v by (auto split: prod.splits option.splits if_splits)
    then show ?thesis by blast
  qed
qed

text \<open>The kernel's limit on paths, as a property of the answers of a guest.\<close>

definition path_limit :: "guest \<Rightarrow> bool" where
  "path_limit g \<longleftrightarrow>
     (\<forall>p. max_path \<le> length p \<longrightarrow> gu_lstat g p = None)
     \<and> (\<forall>d names. gu_dir g d = Inr names \<longrightarrow> (\<forall>n\<in>set names. n \<noteq> [] \<and> CHR ''/'' \<notin> set n))"

lemma unix_join_longer: "name \<noteq> [] \<Longrightarrow> CHR ''/'' \<notin> set name \<Longrightarrow> length path < length (unix_join path name)"
  using starts_with_slash by (auto simp: unix_join_def)

definition limit_kept :: "agent \<Rightarrow> agent \<Rightarrow> bool" where
  "limit_kept a a' \<longleftrightarrow> (path_limit (ag_guest a) \<longrightarrow> path_limit (ag_guest a'))"

interpretation limit: effect_relation limit_kept
  by unfold_locales (auto simp: limit_kept_def)

lemma limit_look [within_intros]: "within limit_kept (look f)"
  unfolding look_def by (rule limit.within_pure)

lemma limit_kept_harden:
  assumes "\<And>e g. path_limit g \<Longrightarrow> path_limit (snd (kn_change K e g))"
  shows "within limit_kept (harden K n path)" and "within limit_kept (harden_all K n path names)"
proof -
  have "within limit_kept (change K e)" for e
    using assms by (auto simp: within_def limit_kept_def change_def split: prod.split) (metis snd_conv)
  then show "within limit_kept (harden K n path)" "within limit_kept (harden_all K n path names)"
    by (induction K\<equiv>K n path and K\<equiv>K n path names rule: harden_harden_all.induct)
      (auto intro!: within_intros split: option.split sum.split)
qed

lemma harden_all_cong:
  assumes keeps: "\<And>e g. path_limit g \<Longrightarrow> path_limit (snd (kn_change K e g))"
    and same: "\<And>name a. name \<noteq> [] \<Longrightarrow> CHR ''/'' \<notin> set name \<Longrightarrow> path_limit (ag_guest a) \<Longrightarrow>
      harden K (n + k) (unix_join path name) a = harden K n (unix_join path name) a"
  shows "\<forall>x\<in>set names. x \<noteq> [] \<and> CHR ''/'' \<notin> set x \<Longrightarrow> path_limit (ag_guest a) \<Longrightarrow>
      harden_all K (n + k) path names a = harden_all K n path names a"
proof (induction names arbitrary: a)
  case (Cons name names)
  have "path_limit (ag_guest a')" if "harden K n (unix_join path name) a = (Inr x, a')" for x a'
    using withinD [OF limit_kept_harden(1) [OF keeps] that] Cons.prems(2) by (simp add: limit_kept_def)
  with Cons same [of name a] show ?case by (auto intro!: act_bind_cong_state)
qed simp

text \<open>The depth is enough: on a guest with the kernel's limit a larger one changes nothing.\<close>

lemma harden_depth:
  assumes keeps: "\<And>e g. path_limit g \<Longrightarrow> path_limit (snd (kn_change K e g))"
  shows "path_limit (ag_guest a) \<Longrightarrow> max_path \<le> length path + n \<Longrightarrow> harden K (n + k) path a = harden K n path a"
proof (induction n arbitrary: path a)
  case 0
  then have "lstat (ag_guest a) path = None" by (simp add: path_limit_def lstat_def)
  then show ?case by (cases k) (simp_all add: act_bind_def look_def inspect_def)
next
  case (Suc n)
  have all: "harden_all K (n + k) path names b = harden_all K n path names b"
    if "\<forall>x\<in>set names. x \<noteq> [] \<and> CHR ''/'' \<notin> set x" "path_limit (ag_guest b)" for names and b :: agent
  proof (rule harden_all_cong [OF keeps _ that])
    fix name and c :: agent
    assume name: "name \<noteq> []" "CHR ''/'' \<notin> set name" and c: "path_limit (ag_guest c)"
    have "max_path \<le> length (unix_join path name) + n" using unix_join_longer [OF name, of path] Suc.prems(2) by simp
    with c show "harden K (n + k) (unix_join path name) c = harden K n (unix_join path name) c" by (rule Suc.IH)
  qed
  have limit: "path_limit (ag_guest b)" if "change K e a = (Inr x, b)" for e x b
    using that keeps Suc.prems(1) by (auto simp: change_def split: prod.splits option.splits) (metis snd_conv)
  have names: "\<forall>x\<in>set names. x \<noteq> [] \<and> CHR ''/'' \<notin> set x" if "path_limit g" "gu_dir g path = Inr names" for g names
    using that by (auto simp: path_limit_def)
  have children: "harden_all K (n + k) path names b = harden_all K n path names b"
    if "change K e a = (Inr x, b)" "gu_dir (ag_guest b) path = Inr names" for e x b names
    using all names limit that by blast
  have "harden K (Suc (n + k)) path a = harden K (Suc n) path a"
    by (auto intro!: act_bind_cong_state simp: look_def inspect_def split: option.split sum.split)
      (rule children)
  then show ?case by simp
qed

section \<open>Properties\<close>


text \<open>C18: The file browser stays inside its folders. A listing is only given for a path that resolves to
  one of the browsable folders or below, component by component; it shows each entry of the folder
  once, hidden ones only on request, directories first and then by name.\<close>

theorem browsing_is_confined:
  assumes "list_directory g path hidden = Inr entries"
  shows "(\<exists>canonical names. gu_canon g path = Some canonical
      \<and> (\<exists>root\<in>set browsable_roots. path_within canonical root) \<and> gu_dir g canonical = Inr names
      \<and> mset (map de_name entries) =
          mset (filter (\<lambda>n. is_shown hidden n \<and> lstat g (unix_join canonical n) \<noteq> None) names))
      \<and> sorted (map (\<lambda>e. (de_file_type e \<noteq> ''directory'', de_name e)) entries)"
proof (rule conjI)
  show "sorted (map (\<lambda>e. (de_file_type e \<noteq> ''directory'', de_name e)) entries)"
    using assms by (auto simp: list_directory_def sorted_sort_key split: option.splits if_splits sum.splits)
next
  obtain c names where c: "gu_canon g path = Some c" "list_ex (path_within c) browsable_roots"
      "gu_dir g c = Inr names"
      "entries = sort_key (\<lambda>e. (de_file_type e \<noteq> ''directory'', de_name e))
         (List.map_filter (entry_info g c) (filter (is_shown hidden) names))"
    using assms by (auto simp: list_directory_def split: option.splits if_splits sum.splits)
  have "mset (map de_name entries) = mset (map de_name (List.map_filter (entry_info g c) (filter (is_shown hidden) names)))"
    unfolding c(4) by simp
  then have "mset (map de_name entries) = mset (filter (\<lambda>n. is_shown hidden n \<and> lstat g (unix_join c n) \<noteq> None) names)"
    by (simp only: map_filter_names filter_filter conj_commute)
  with c show "\<exists>canonical names. gu_canon g path = Some canonical
      \<and> (\<exists>root\<in>set browsable_roots. path_within canonical root) \<and> gu_dir g canonical = Inr names
      \<and> mset (map de_name entries) =
          mset (filter (\<lambda>n. is_shown hidden n \<and> lstat g (unix_join canonical n) \<noteq> None) names)"
    unfolding list_ex_iff by blast
qed

text \<open>A guest with a home folder that holds a file, a folder and a hidden file.\<close>

definition home_guest :: guest where
  "home_guest = sample_guest\<lparr>
     gu_canon := (\<lambda>p. if p = ''/home/student/../student'' then Some ''/home/student'' else None),
     gu_dir := (\<lambda>p. if p = ''/home/student'' then Inr [''notes'', ''.profile'', ''work''] else Inl (IoError False ''not found'')),
     gu_lstat := (\<lambda>p. Some \<lparr>md_mode = (if p = ''/home/student/work'' then 0x41ED else 0x81A4), md_size = 12,
       md_uid = 0, md_gid = 0, md_ino = 7, md_modified = None\<rparr>)\<rparr>"

lemma browsing_is_confined_witness:
  "\<exists>entries. list_directory home_guest ''/home/student/../student'' False = Inr entries
     \<and> mset (map de_name entries) = {#''notes'', ''work''#}"
proof -
  obtain entries where e: "list_directory home_guest ''/home/student/../student'' False = Inr entries"
    by (cases "list_directory home_guest ''/home/student/../student'' False")
      (auto simp: list_directory_def home_guest_def path_within_def unix_components_def browsable_roots_def starts_with_def)
  from conjunct1 [OF browsing_is_confined [OF e]] have "mset (map de_name entries) = {#''notes'', ''work''#}"
    by (auto simp: home_guest_def is_shown_def starts_with_def lstat_def)
  with e show ?thesis by blast
qed

end
