(* ===== verification/Guest_Channel.thy ===== *)
theory Guest_Channel
  imports Guest_Agent
begin

text \<open>
  The control channel of the guest agent (guest/linuxlab-agent/src/main.rs): the token, one frame,
  one connection, and the connections one after the other.
\<close>

section \<open>The control channel\<close>

definition constant_time_eq :: "u8 list \<Rightarrow> u8 list \<Rightarrow> bool" where
  "constant_time_eq a b =
     (if length a \<noteq> length b then False
      else foldl (\<lambda>difference (left, right). difference OR (left XOR right)) 0 (zip a b) = 0)"

definition as_bytes :: "string \<Rightarrow> u8 list" where
  "as_bytes = map (\<lambda>c. word_of_nat (byte c))"

definition load_token :: "string option \<Rightarrow> string option \<Rightarrow> string + string" where
  "load_token environment content =
     (if environment \<noteq> None \<and> trim (the environment) \<noteq> [] then Inr (trim (the environment))
      else case content of
        None \<Rightarrow> Inl ''could not read the control token from /run/linuxlab/control-token''
      | Some text \<Rightarrow>
          if trim text = [] then Inl ''the control token is empty; refusing to accept unauthenticated requests''
          else Inr (trim text))"

text \<open>A frame: \<open>decode\<close> stands for serde_json reading a request envelope, with its error.\<close>

type_synonym decoder = "string \<Rightarrow> string + request_envelope"

definition answer :: "kernel \<Rightarrow> decoder \<Rightarrow> string \<Rightarrow> string \<Rightarrow> agent \<Rightarrow> response_envelope \<times> agent" where
  "answer K decode token frame a =
     (case decode frame of
        Inr envelope \<Rightarrow>
          if \<not> constant_time_eq (as_bytes (re_token envelope)) (as_bytes token) then
            (\<lparr>rs_id = re_id envelope, rs_response = AgentError ''invalid control token'' False\<rparr>, a)
          else (let (response, a') = handle K (re_request envelope) a
                in (\<lparr>rs_id = re_id envelope, rs_response = response\<rparr>, a'))
      | Inl err \<Rightarrow> (\<lparr>rs_id = 0, rs_response = AgentError (''malformed request: '' @ err) False\<rparr>, a))"

text \<open>One connection: the lines up to the end of the stream or the first read or write error. A line
  that is not UTF-8 is a read error; the flag tells whether the reply could be written.\<close>

datatype incoming = Line string bool | ReadError

fun session :: "kernel \<Rightarrow> decoder \<Rightarrow> string \<Rightarrow> incoming list \<Rightarrow> agent \<Rightarrow> response_envelope list \<times> agent" where
  "session K decode token [] a = ([], a)"
| "session K decode token (ReadError # rest) a = ([], a)"
| "session K decode token (Line line written # rest) a =
     (if trim line = [] then session K decode token rest a
      else let (reply, a') = answer K decode token (trim line) a
           in if written then map_prod (\<lambda>rs. reply # rs) id (session K decode token rest a')
              else ([], a'))"

text \<open>The agent serves one connection after the other.\<close>

fun serve :: "kernel \<Rightarrow> decoder \<Rightarrow> string \<Rightarrow> incoming list list \<Rightarrow> agent \<Rightarrow> response_envelope list list \<times> agent" where
  "serve K decode token [] a = ([], a)"
| "serve K decode token (input # inputs) a =
     (let (replies, a') = session K decode token input a
      in map_prod (\<lambda>rs. replies # rs) id (serve K decode token inputs a'))"

section \<open>The comparison and the token\<close>

lemma or_eq_0_iff: "a OR b = 0 \<longleftrightarrow> a = 0 \<and> b = 0" for a b :: u8
  by (auto simp: bit_eq_iff bit_simps)

lemma xor_eq_0_iff: "a XOR b = 0 \<longleftrightarrow> a = b" for a b :: u8
proof
  assume "a XOR b = 0"
  then have "(a XOR b) XOR b = b" by simp
  then show "a = b" by (simp add: xor.assoc)
qed simp

lemma difference_eq_0_iff:
  "foldl (\<lambda>difference (left, right). difference OR (left XOR right)) d pairs = (0 :: u8)
     \<longleftrightarrow> d = 0 \<and> (\<forall>(l, r)\<in>set pairs. l = r)"
  by (induction pairs arbitrary: d) (auto simp: or_eq_0_iff xor_eq_0_iff)

lemma zip_all_eq: "length a = length b \<Longrightarrow> (\<forall>(l, r)\<in>set (zip a b). l = r) \<longleftrightarrow> a = b"
  by (induction a b rule: list_induct2) auto

lemma constant_time_eq_iff: "constant_time_eq a b \<longleftrightarrow> a = b"
  using zip_all_eq [of a b] by (auto simp: constant_time_eq_def difference_eq_0_iff)

lemma as_bytes_eq_iff: "as_bytes s = as_bytes t \<longleftrightarrow> s = t"
proof -
  have "inj (\<lambda>c. word_of_nat (byte c) :: u8)"
  proof (rule injI)
    fix c d :: char
    assume "(word_of_nat (byte c) :: u8) = word_of_nat (byte d)"
    then have "unat (word_of_nat (byte c) :: u8) = unat (word_of_nat (byte d) :: u8)" by simp
    moreover have "byte c < 256" "byte d < 256" by (simp_all add: byte_def)
    ultimately have "byte c = byte d" by (simp add: unat_of_nat take_bit_eq_mod)
    then show "c = d" by (simp add: byte_def)
  qed
  then show ?thesis by (simp add: as_bytes_def inj_map_eq_map)
qed

lemma loaded_token_not_empty: "load_token environment content = Inr token \<Longrightarrow> token \<noteq> []"
  by (auto simp: load_token_def split: if_splits option.splits)

section \<open>Who is served\<close>

text \<open>The frames that carry the token.\<close>

definition authentic :: "decoder \<Rightarrow> string \<Rightarrow> string \<Rightarrow> bool" where
  "authentic decode token line \<longleftrightarrow>
     trim line \<noteq> [] \<and> (\<exists>e. decode (trim line) = Inr e \<and> re_token e = token)"

definition is_refusal :: "response_envelope \<Rightarrow> bool" where
  "is_refusal r \<longleftrightarrow> (\<exists>m. rs_response r = AgentError m False)"

lemma answer_refuses:
  assumes "trim line \<noteq> []" "\<not> authentic decode token line"
  shows "snd (answer K decode token (trim line) a) = a \<and> is_refusal (fst (answer K decode token (trim line) a))"
  using assms by (auto simp: answer_def authentic_def is_refusal_def constant_time_eq_iff as_bytes_eq_iff split: sum.split)

lemma session_drops_unauthentic:
  "snd (session K decode token (map (\<lambda>l. Line l True) ls) a)
     = snd (session K decode token (map (\<lambda>l. Line l True) (filter (authentic decode token) ls)) a)"
proof (induction ls arbitrary: a)
  case (Cons l ls)
  show ?case
  proof (cases "trim l = []")
    case True
    then show ?thesis using Cons.IH by (simp add: authentic_def)
  next
    case False
    obtain reply a' where r: "answer K decode token (trim l) a = (reply, a')" by fastforce
    show ?thesis
    proof (cases "authentic decode token l")
      case False
      then have "a' = a" using answer_refuses [OF \<open>trim l \<noteq> []\<close> False, of K a] r by simp
      with False \<open>trim l \<noteq> []\<close> r Cons.IH show ?thesis by simp
    qed (use False r Cons.IH in simp)
  qed
qed simp

lemma session_without_token:
  "list_all (\<lambda>i. case i of Line l _ \<Rightarrow> \<not> authentic decode token l | ReadError \<Rightarrow> True) input \<Longrightarrow>
     snd (session K decode token input a) = a \<and> list_all is_refusal (fst (session K decode token input a))"
proof (induction K decode token input a rule: session.induct)
  case (3 K decode token line written rest a)
  show ?case
  proof (cases "trim line = []")
    case False
    obtain reply a' where r: "answer K decode token (trim line) a = (reply, a')" by fastforce
    have "a' = a" "is_refusal reply" using answer_refuses [OF False, of decode token K a] 3(3) r by simp_all
    with False r 3 show ?thesis by simp
  qed (use 3 in simp)
qed simp_all

lemma session_replies:
  "length (fst (session K decode token (map (\<lambda>l. Line l True) ls) a)) = length (filter (\<lambda>l. trim l \<noteq> []) ls)"
  by (induction ls arbitrary: a) (simp_all add: Let_def split: prod.split)

section \<open>Properties\<close>

text \<open>Comparing tokens in constant time decides equality.\<close>

theorem token_comparison_exact: "constant_time_eq (as_bytes s) (as_bytes t) \<longleftrightarrow> s = t"
  by (simp add: constant_time_eq_iff as_bytes_eq_iff)

text \<open>C13: Only a holder of the token drives the agent. In a connection each line that is not blank gets
  one reply; the frames without the token might as well not have been sent; and a connection without
  an authentic frame, however it ends, leaves the guest and the log as they are and is answered by
  final errors only. The token the agent loads is never empty.\<close>

theorem only_token_holders_drive_the_agent:
  "length (fst (session K decode token (map (\<lambda>l. Line l True) ls) a)) = length (filter (\<lambda>l. trim l \<noteq> []) ls)
   \<and> snd (session K decode token (map (\<lambda>l. Line l True) ls) a)
       = snd (session K decode token (map (\<lambda>l. Line l True) (filter (authentic decode token) ls)) a)
   \<and> (list_all (\<lambda>i. case i of Line l _ \<Rightarrow> \<not> authentic decode token l | ReadError \<Rightarrow> True) input \<longrightarrow>
        snd (session K decode token input a) = a \<and> list_all is_refusal (fst (session K decode token input a)))
   \<and> load_token environment content \<noteq> Inr []"
  using session_replies session_drops_unauthentic session_without_token loaded_token_not_empty by blast

definition idle_kernel :: kernel where
  "idle_kernel = \<lparr>kn_ext = idle_externals, kn_change = (\<lambda>e g. (None, g)), kn_output = (\<lambda>p args g. (None, g)),
     kn_seconds = (\<lambda>s. None), kn_load = (\<lambda>s. None), kn_agent_version = ''0.1.0'', kn_registry = small_registry\<rparr>"

definition shutdown_decoder :: decoder where
  "shutdown_decoder frame = Inr \<lparr>re_id = 1, re_token = frame, re_request = Shutdown\<rparr>"

lemma only_token_holders_drive_the_agent_witness:
  "snd (session idle_kernel shutdown_decoder ''secret'' [Line ''guess'' True, ReadError] \<lparr>ag_guest = home_guest, ag_log = []\<rparr>)
     = \<lparr>ag_guest = home_guest, ag_log = []\<rparr>"
proof -
  have "trim ''guess'' = ''guess''" by code_simp
  then have "\<not> authentic shutdown_decoder ''secret'' ''guess''" by (simp add: authentic_def shutdown_decoder_def)
  then show ?thesis
    using only_token_holders_drive_the_agent [of idle_kernel shutdown_decoder "''secret''" "[]"
        "\<lparr>ag_guest = home_guest, ag_log = []\<rparr>" "[Line ''guess'' True, ReadError]" None None] by simp
qed

end
