(* ===== verification/Host_Platform.thy ===== *)
theory Host_Platform
  imports Vm_Manager Actions
begin

text \<open>
  What the manager asks of Windows: starting QEMU inside a job object, ending a process
  (crates/vm-manager/src/process.rs) and looking for the hypervisor (accel.rs). Windows itself is a
  parameter, the outcome of every call; the state of an action is the list of calls made so far.
\<close>

section \<open>Calls\<close>

datatype os_call =
    OpenLog string
  | SpawnSuspended string "string list"
  | CreateJob
  | SetKillOnJobClose
  | OpenProcess u32
  | AssignToJob u32
  | CloseProcess
  | CloseJob
  | TakeSnapshot
  | ResumeThread nat
  | CloseThread nat
  | CloseSnapshot
  | KillChild

definition call :: "os_call \<Rightarrow> (os_call list, unit) action" where
  "call c = update (\<lambda>calls. calls @ [c])"

record spawn_env =
  sp_log :: "string + unit"
  sp_spawn :: "string + u32 option"
  sp_job :: bool
  sp_limit :: bool
  sp_open :: bool
  sp_assign :: bool
  sp_threads :: "(u32 \<times> nat \<times> bool) list option"

section \<open>Containment\<close>

text \<open>The job handle is dropped, and so closed, on every error after it was created.\<close>

definition create_and_assign :: "spawn_env \<Rightarrow> u32 \<Rightarrow> (os_call list, unit) action" where
  "create_and_assign E pid =
     act_bind (call CreateJob) (\<lambda>_.
       if \<not> sp_job E then bail ''CreateJobObject failed''
       else act_bind (call SetKillOnJobClose) (\<lambda>_.
         if \<not> sp_limit E then act_bind (call CloseJob) (\<lambda>_. bail ''SetInformationJobObject failed'')
         else act_bind (call (OpenProcess pid)) (\<lambda>_.
           if \<not> sp_open E then act_bind (call CloseJob) (\<lambda>_. bail (''OpenProcess failed for pid '' @ dec (unat pid)))
           else act_bind (call (AssignToJob pid)) (\<lambda>_. act_bind (call CloseProcess) (\<lambda>_.
             if \<not> sp_assign E
             then act_bind (call CloseJob) (\<lambda>_. bail (''AssignProcessToJobObject failed for pid '' @ dec (unat pid)))
             else return ())))))"

text \<open>The walk over the threads of the system: owner, id, and whether the thread could be opened.\<close>

fun resume_threads :: "u32 \<Rightarrow> (u32 \<times> nat \<times> bool) list \<Rightarrow> bool \<Rightarrow> (os_call list, bool) action" where
  "resume_threads pid [] resumed = return resumed"
| "resume_threads pid ((owner, tid, opened) # entries) resumed =
     (if owner = pid \<and> opened
      then act_bind (call (ResumeThread tid)) (\<lambda>_. act_bind (call (CloseThread tid)) (\<lambda>_. resume_threads pid entries True))
      else resume_threads pid entries resumed)"

definition resume_process :: "spawn_env \<Rightarrow> u32 \<Rightarrow> (os_call list, unit) action" where
  "resume_process E pid =
     act_bind (call TakeSnapshot) (\<lambda>_.
       case sp_threads E of
         None \<Rightarrow> bail ''CreateToolhelp32Snapshot failed''
       | Some entries \<Rightarrow>
           act_bind (resume_threads pid entries False) (\<lambda>resumed.
           act_bind (call CloseSnapshot) (\<lambda>_.
             if resumed then return () else bail (''found no thread to resume for pid '' @ dec (unat pid)))))"

text \<open>A child that is dropped is killed; what is dropped on an error is dropped after the job.\<close>

definition or_drop :: "os_call list \<Rightarrow> (os_call list, 'a) action \<Rightarrow> (os_call list, 'a) action" where
  "or_drop drops m calls =
     (case m calls of (Inl e, calls') \<Rightarrow> (Inl e, calls' @ drops) | (Inr x, calls') \<Rightarrow> (Inr x, calls'))"

definition spawn :: "spawn_env \<Rightarrow> string \<Rightarrow> string list \<Rightarrow> string \<Rightarrow> (os_call list, u32) action" where
  "spawn E qemu_binary args log_path =
     act_bind (call (OpenLog log_path)) (\<lambda>_.
     act_bind (lift (sp_log E)) (\<lambda>_.
     act_bind (call (SpawnSuspended qemu_binary args)) (\<lambda>_.
     act_bind (lift (sp_spawn E)) (\<lambda>child.
       case child of
         None \<Rightarrow> or_drop [KillChild] (bail ''spawned process has no pid'')
       | Some pid \<Rightarrow>
           act_bind (or_drop [KillChild] (create_and_assign E pid)) (\<lambda>_.
           act_bind (or_drop [CloseJob, KillChild] (resume_process E pid)) (\<lambda>_. return pid))))))"

definition kept_variables :: "string list" where
  "kept_variables = [''SystemRoot'', ''windir'', ''TEMP'', ''TMP'', ''PATH'']"

definition qemu_environment :: "(string \<rightharpoonup> string) \<Rightarrow> (string \<times> string) list" where
  "qemu_environment env = List.map_filter (\<lambda>key. map_option (Pair key) (env key)) kept_variables"

section \<open>Ending a process\<close>

text \<open>\<open>handle\<close>: whether the process could be opened; \<open>queried\<close>: its image, if Windows tells.\<close>

definition process_image_path :: "bool \<Rightarrow> string option \<Rightarrow> string option" where
  "process_image_path handle queried = (if \<not> handle then None else queried)"

definition terminate :: "bool \<Rightarrow> bool \<Rightarrow> bool" where
  "terminate handle ended = (if \<not> handle then True else ended)"

definition kill_stale_process :: "bool \<Rightarrow> string option \<Rightarrow> bool \<Rightarrow> bool \<Rightarrow> string \<Rightarrow> string + bool" where
  "kill_stale_process query_handle queried end_handle ended expected_binary =
     kill_stale (process_image_path query_handle queried) (terminate end_handle ended) expected_binary"

text \<open>Ending the supervised child never fails: the job object is the backstop for a child that stays.\<close>

definition terminate_child :: "(os_call list, unit) action" where
  "terminate_child = call KillChild"

section \<open>The hypervisor\<close>

record whp_answers =
  wh_module :: bool
  wh_symbol :: bool
  wh_ok :: bool
  wh_written :: u32
  wh_present :: u8

definition hypervisor_present :: "whp_answers \<Rightarrow> string + bool" where
  "hypervisor_present A =
     (if \<not> wh_module A then Inr False
      else if \<not> wh_symbol A then Inl ''WinHvPlatform.dll is present but incomplete''
      else if \<not> wh_ok A then Inr False
      else Inr (0 < wh_written A \<and> wh_present A \<noteq> 0))"

section \<open>Lemmas\<close>

lemmas call_defs = call_def action_defs

lemma resume_threads_calls:
  "\<exists>more. resume_threads pid entries resumed calls =
     (Inr (resumed \<or> (\<exists>tid. (pid, tid, True) \<in> set entries)), calls @ more)
     \<and> set more \<subseteq> (\<Union>tid \<in> {tid. (pid, tid, True) \<in> set entries}. {ResumeThread tid, CloseThread tid})
     \<and> (\<forall>tid. (pid, tid, True) \<in> set entries \<longrightarrow> ResumeThread tid \<in> set more)"
proof (induction entries arbitrary: resumed calls)
  case (Cons entry entries)
  obtain owner tid opened where e: "entry = (owner, tid, opened)" by (metis prod_cases3)
  show ?case
  proof (cases "owner = pid \<and> opened")
    case True
    with Cons.IH [of True "calls @ [ResumeThread tid, CloseThread tid]"] obtain more where
      "resume_threads pid (entry # entries) resumed calls = (Inr True, calls @ [ResumeThread tid, CloseThread tid] @ more)"
      "set more \<subseteq> (\<Union>tid \<in> {tid. (pid, tid, True) \<in> set entries}. {ResumeThread tid, CloseThread tid})"
      "\<forall>tid. (pid, tid, True) \<in> set entries \<longrightarrow> ResumeThread tid \<in> set more"
      unfolding e by (auto simp: call_defs)
    with True e show ?thesis by (intro exI [of _ "[ResumeThread tid, CloseThread tid] @ more"]) auto
  next
    case False
    with Cons.IH [of resumed calls] e show ?thesis by auto
  qed
qed (simp add: return_def)

text \<open>The calls of a spawn: those up to containment, then the walk over the threads.\<close>

definition containment :: "string \<Rightarrow> string list \<Rightarrow> string \<Rightarrow> u32 \<Rightarrow> os_call list" where
  "containment qemu_binary args log_path pid =
     [OpenLog log_path, SpawnSuspended qemu_binary args, CreateJob, SetKillOnJobClose, OpenProcess pid,
      AssignToJob pid, CloseProcess, TakeSnapshot]"

definition is_resume :: "os_call \<Rightarrow> bool" where
  "is_resume c \<longleftrightarrow> (\<exists>tid. c = ResumeThread tid)"

lemma spawn_uncontained:
  assumes "spawn E qemu_binary args log_path [] = (r, calls)"
    and "\<not> (sp_log E = Inr () \<and> (\<exists>pid. sp_spawn E = Inr (Some pid)) \<and> sp_job E \<and> sp_limit E \<and> sp_open E \<and> sp_assign E)"
  shows "isl r" "\<not> list_ex is_resume calls"
    and "sp_log E = Inr () \<Longrightarrow> \<not> isl (sp_spawn E) \<Longrightarrow> last calls = KillChild \<and> (sp_job E \<longrightarrow> CreateJob \<in> set calls \<longrightarrow> CloseJob \<in> set calls)"
  using assms
  by (auto simp: spawn_def create_and_assign_def or_drop_def call_defs is_resume_def isl_def
      split: sum.splits option.splits if_splits)

lemma spawn_contained:
  assumes "spawn E qemu_binary args log_path [] = (r, calls)" "sp_log E = Inr ()" "sp_spawn E = Inr (Some pid)"
    and "sp_job E" "sp_limit E" "sp_open E" "sp_assign E"
  shows "\<exists>more tail. calls = containment qemu_binary args log_path pid @ more @ tail \<and> \<not> list_ex is_resume tail
    \<and> set more \<subseteq> {c. \<exists>tid entries. sp_threads E = Some entries \<and> (pid, tid, True) \<in> set entries \<and> c \<in> {ResumeThread tid, CloseThread tid}}
    \<and> (if r = Inr pid then list_ex is_resume more \<and> tail = [CloseSnapshot]
       else isl r \<and> last calls = KillChild \<and> CloseJob \<in> set tail)"
proof -
  have start: "spawn E qemu_binary args log_path [] =
      act_bind (or_drop [CloseJob, KillChild] (resume_process E pid)) (\<lambda>_. return pid)
        [OpenLog log_path, SpawnSuspended qemu_binary args, CreateJob, SetKillOnJobClose, OpenProcess pid, AssignToJob pid, CloseProcess]"
    using assms(2-) by (simp add: spawn_def create_and_assign_def or_drop_def call_defs)
  show ?thesis
  proof (cases "sp_threads E")
    case None
    then have "r = Inl ''CreateToolhelp32Snapshot failed''"
      "calls = containment qemu_binary args log_path pid @ [] @ [CloseJob, KillChild]"
      using start assms(1) by (auto simp: resume_process_def or_drop_def call_defs containment_def)
    then show ?thesis by (intro exI [of _ "[]"] exI [of _ "[CloseJob, KillChild]"]) (auto simp: is_resume_def)
  next
    case (Some entries)
    obtain more where more: "resume_threads pid entries False (containment qemu_binary args log_path pid) =
        (Inr (\<exists>tid. (pid, tid, True) \<in> set entries), containment qemu_binary args log_path pid @ more)"
      "set more \<subseteq> (\<Union>tid \<in> {tid. (pid, tid, True) \<in> set entries}. {ResumeThread tid, CloseThread tid})"
      "\<forall>tid. (pid, tid, True) \<in> set entries \<longrightarrow> ResumeThread tid \<in> set more"
      using resume_threads_calls [of pid entries False "containment qemu_binary args log_path pid"] by auto
    let ?some = "\<exists>tid. (pid, tid, True) \<in> set entries"
    have "r = (if ?some then Inr pid else Inl (''found no thread to resume for pid '' @ dec (unat pid)))
        \<and> calls = containment qemu_binary args log_path pid @ more @ (if ?some then [CloseSnapshot] else [CloseSnapshot, CloseJob, KillChild])"
      using start assms(1) more(1) Some
      by (auto simp: resume_process_def or_drop_def call_defs containment_def split: if_splits)
    with more(2,3) Some show ?thesis
      by (intro exI [of _ more] exI [of _ "if ?some then [CloseSnapshot] else [CloseSnapshot, CloseJob, KillChild]"])
        (auto simp: is_resume_def list_ex_iff split: if_splits)
  qed
qed

lemma prefix_before:
  "xs @ ys = before @ c # after \<Longrightarrow> c \<notin> set xs \<Longrightarrow> \<exists>us. before = xs @ us \<and> ys = us @ c # after"
  by (auto simp: append_eq_append_conv2 append_eq_Cons_conv)

lemma suffix_after: "xs @ ys = us @ c # after \<Longrightarrow> c \<notin> set ys \<Longrightarrow> set us \<subseteq> set xs"
  by (auto simp: append_eq_append_conv2 append_eq_Cons_conv Cons_eq_append_conv)

section \<open>Properties\<close>

text \<open>C28: QEMU never runs outside its job. Whichever calls Windows refuses, a thread is resumed only after the
  suspended process was put into a job that dies with the application, while that job is open, and only
  a thread of that process. A spawn that succeeds has resumed it and holds the job; one that fails
  after the process exists ends with killing it, and no job is left open.\<close>

theorem qemu_contained_before_it_runs:
  assumes "spawn E qemu_binary args log_path [] = (r, calls)"
  shows "(calls = before @ ResumeThread tid # after \<longrightarrow>
            (\<exists>pid entries. sp_spawn E = Inr (Some pid) \<and> sp_threads E = Some entries \<and> (pid, tid, True) \<in> set entries
               \<and> sp_limit E \<and> sp_assign E \<and> SetKillOnJobClose \<in> set before \<and> AssignToJob pid \<in> set before
               \<and> CloseJob \<notin> set before))
    \<and> (case r of
         Inr pid \<Rightarrow> sp_spawn E = Inr (Some pid) \<and> list_ex is_resume calls \<and> CloseJob \<notin> set calls \<and> KillChild \<notin> set calls
       | Inl _ \<Rightarrow> sp_log E = Inr () \<and> \<not> isl (sp_spawn E) \<longrightarrow>
           last calls = KillChild \<and> (sp_job E \<and> CreateJob \<in> set calls \<longrightarrow> CloseJob \<in> set calls))"
proof (cases "sp_log E = Inr () \<and> (\<exists>pid. sp_spawn E = Inr (Some pid)) \<and> sp_job E \<and> sp_limit E \<and> sp_open E \<and> sp_assign E")
  case False
  from spawn_uncontained [OF assms this] show ?thesis
    by (auto simp: is_resume_def split: sum.split)
next
  case True
  then obtain pid where pid: "sp_spawn E = Inr (Some pid)" by blast
  let ?start = "containment qemu_binary args log_path pid"
  from spawn_contained [OF assms _ pid] True obtain more tail where calls: "calls = ?start @ more @ tail"
    and tail: "\<not> list_ex is_resume tail"
    and more: "set more \<subseteq> {c. \<exists>tid entries. sp_threads E = Some entries \<and> (pid, tid, True) \<in> set entries \<and> c \<in> {ResumeThread tid, CloseThread tid}}"
    and result: "if r = Inr pid then list_ex is_resume more \<and> tail = [CloseSnapshot]
       else isl r \<and> last calls = KillChild \<and> CloseJob \<in> set tail" by auto
  have quiet: "CloseJob \<notin> set ?start" "KillChild \<notin> set ?start" "CloseJob \<notin> set more" "KillChild \<notin> set more"
    using more by (auto simp: containment_def)
  have "\<exists>pid entries. sp_spawn E = Inr (Some pid) \<and> sp_threads E = Some entries \<and> (pid, tid, True) \<in> set entries
      \<and> sp_limit E \<and> sp_assign E \<and> SetKillOnJobClose \<in> set before \<and> AssignToJob pid \<in> set before \<and> CloseJob \<notin> set before"
    if at: "calls = before @ ResumeThread tid # after"
  proof -
    have "ResumeThread tid \<notin> set ?start" "ResumeThread tid \<notin> set tail"
      using tail by (auto simp: containment_def is_resume_def list_ex_iff)
    with prefix_before [OF at [unfolded calls]] obtain us where us: "before = ?start @ us" "more @ tail = us @ ResumeThread tid # after"
      by blast
    have "ResumeThread tid \<in> set (more @ tail)" unfolding us(2) by simp
    then have "set us \<subseteq> set more" "ResumeThread tid \<in> set more"
      using suffix_after [OF us(2)] \<open>ResumeThread tid \<notin> set tail\<close> by auto
    with us(1) more quiet True pid show ?thesis
      by (auto simp: containment_def)
  qed
  moreover have "case r of
         Inr pid \<Rightarrow> sp_spawn E = Inr (Some pid) \<and> list_ex is_resume calls \<and> CloseJob \<notin> set calls \<and> KillChild \<notin> set calls
       | Inl _ \<Rightarrow> last calls = KillChild \<and> CloseJob \<in> set calls"
    using result calls quiet pid by (auto split: sum.split if_splits simp: list_ex_iff)
  ultimately show ?thesis by (auto split: sum.splits)
qed

definition helpful_windows :: spawn_env where
  "helpful_windows =
     \<lparr>sp_log = Inr (), sp_spawn = Inr (Some 42), sp_job = True, sp_limit = True, sp_open = True, sp_assign = True,
      sp_threads = Some [(7, 1, True), (42, 2, True)]\<rparr>"

lemma qemu_contained_before_it_runs_witness:
  "let calls = snd (spawn helpful_windows ''qemu'' [''-nodefaults''] ''vm.log'' []) in
   list_ex is_resume calls \<and> CloseJob \<notin> set calls \<and> KillChild \<notin> set calls"
proof -
  obtain r calls where run: "spawn helpful_windows ''qemu'' [''-nodefaults''] ''vm.log'' [] = (r, calls)" by fastforce
  have "fst (spawn helpful_windows ''qemu'' [''-nodefaults''] ''vm.log'' []) = Inr 42" by code_simp
  with qemu_contained_before_it_runs [OF run] run show ?thesis by simp
qed

text \<open>QEMU gets no variable of the application's environment but the five it needs.\<close>

lemma qemu_environment_exact:
  "(key, val) \<in> set (qemu_environment env) \<longleftrightarrow> key \<in> set kept_variables \<and> env key = Some val"
  by (force simp: qemu_environment_def map_filter_def)

text \<open>Hardware acceleration is used exactly when it was forced, or when nothing was forced and Windows has
  the hypervisor: the library is there and complete, its answer is a success, and what it wrote says
  present. Every other outcome falls back to software translation, also an error.\<close>

theorem hardware_only_when_present:
  "ad_mode (accel_detect lower env (if windows then Some (hypervisor_present A) else None)) = Whpx \<longleftrightarrow>
     (\<exists>v. env = Some v \<and> lower v = ''whpx'')
     \<or> (windows \<and> (\<nexists>v. env = Some v \<and> lower v \<in> {''tcg'', ''whpx''})
        \<and> wh_module A \<and> wh_symbol A \<and> wh_ok A \<and> 0 < wh_written A \<and> wh_present A \<noteq> 0)"
  by (auto simp: accel_detect_def forced_from_env_def detect_platform_def hypervisor_present_def accel_hardware_def
      accel_software_def split: option.splits bool.splits)

end
