(* ===== verification/Install_Threads.thy ===== *)
theory Install_Threads
  imports Runtime Interleaving
begin

text \<open>
  Two installations of the runtime at the same time (crates/runtime-manager/src/install.rs): the commands
  that install run on their own threads, and all of one process share a staging folder, since its name
  is made of the process id. An installation is a thread whose pieces are its file operations; alone
  it is \<open>install_runtime\<close>.
\<close>

section \<open>File operations\<close>

record install_dirs =
  id_live :: "directory option"
  id_staging :: "directory option"

definition remove_staging_dir :: "install_io \<Rightarrow> (install_dirs, unit) action" where
  "remove_staging_dir io s =
     (if ii_clear_stale io then (Inr (), s\<lparr>id_staging := None\<rparr>) else (Inl ''could not clear stale staging area'', s))"

definition make_staging :: "(install_dirs, unit) action" where
  "make_staging = update (\<lambda>s. s\<lparr>id_staging := Some (case id_staging s of None \<Rightarrow> Map.empty | Some d \<Rightarrow> d)\<rparr>)"

definition copy_file :: "string \<Rightarrow> runtime_file \<Rightarrow> (install_dirs, unit) action" where
  "copy_file path f s =
     (case id_staging s of
        None \<Rightarrow> (Inl (''could not copy runtime file '' @ path), s)
      | Some d \<Rightarrow> (Inr (), s\<lparr>id_staging := Some (d(path \<mapsto> f))\<rparr>))"

definition staged_files :: "install_dirs \<Rightarrow> directory" where
  "staged_files s = (case id_staging s of None \<Rightarrow> Map.empty | Some d \<Rightarrow> d)"

definition expand_staged :: "(string \<Rightarrow> string option) \<Rightarrow> install_io \<Rightarrow> (install_dirs, unit) action" where
  "expand_staged decode io s =
     (case id_staging s of
        None \<Rightarrow> (Inl ''could not open the compressed image'', s)
      | Some d \<Rightarrow> let (r, d') = expand_image decode io d in (r, s\<lparr>id_staging := Some d'\<rparr>))"

text \<open>After a failure the staging folder goes; that its removal may fail too is ignored.\<close>

definition discard_staging :: "bool \<Rightarrow> (install_dirs, unit) action" where
  "discard_staging removed = update (\<lambda>s. if removed then s\<lparr>id_staging := None\<rparr> else s)"

definition remove_old :: "install_io \<Rightarrow> (install_dirs, unit) action" where
  "remove_old io s =
     (if id_live s = None then (Inr (), s)
      else if ii_live_is_link io then (Inl ''refusing to remove linked runtime path'', s)
      else if ii_remove_live io \<noteq> None then (Inl ''could not replace incomplete runtime'', s\<lparr>id_live := ii_remove_live io\<rparr>)
      else (Inr (), s\<lparr>id_live := None\<rparr>))"

text \<open>A rename needs its source, and no folder at its target.\<close>

definition activate :: "install_io \<Rightarrow> (install_dirs, install_outcome) action" where
  "activate io s =
     (if ii_rename io \<and> id_staging s \<noteq> None \<and> id_live s = None
      then (Inr Installed, s\<lparr>id_live := id_staging s, id_staging := None\<rparr>)
      else (Inl ''could not activate runtime'', s))"

section \<open>The installation as a thread\<close>

fun copy_thread :: "(string \<Rightarrow> bool) \<Rightarrow> bundle_list \<Rightarrow> (install_dirs, unit) thread" where
  "copy_thread fails [] = Result (Inr ())"
| "copy_thread fails ((path, BundleOther) # es) =
     Result (Inl (''the bundled runtime contains an unsupported link or device at '' @ path))"
| "copy_thread fails ((path, BundleFile f) # es) =
     (if fails path then Result (Inl (''could not copy runtime file '' @ path))
      else thread_bind (atomically (copy_file path f)) (\<lambda>_. copy_thread fails es))"

text \<open>Each check reads the folder as it is then.\<close>

definition check_staged :: "(directory \<Rightarrow> string + 'a) \<Rightarrow> (install_dirs, 'a) thread" where
  "check_staged check = atomically (\<lambda>s. (check (staged_files s), s))"

definition staged_manifest :: "(string \<Rightarrow> string + manifest) \<Rightarrow> layout \<Rightarrow> directory \<Rightarrow> string + manifest \<times> manifest_entry" where
  "staged_manifest parse ly d =
     (case manifest_load parse (d ''checksums.json'') of Inl e \<Rightarrow> Inl e | Inr m \<Rightarrow>
      if mf_runtime_version m \<noteq> ly_runtime_version ly then
        Inl (''the bundled runtime is version '' @ mf_runtime_version m
          @ '', but the application requires '' @ ly_runtime_version ly)
      else case raw_entry m of Inl e \<Rightarrow> Inl e | Inr raw \<Rightarrow> Inr (m, raw))"

definition verify_files :: "(string \<Rightarrow> string) \<Rightarrow> string \<Rightarrow> manifest \<Rightarrow> directory \<Rightarrow> string + unit" where
  "verify_files sha failure m d =
     (let report = verify sha m d in if is_healthy report then Inr () else Inl (failure @ join '' '' (problems report)))"

definition stage_thread ::
  "(string \<Rightarrow> string) \<Rightarrow> (string \<Rightarrow> string + manifest) \<Rightarrow> (string \<Rightarrow> string option) \<Rightarrow> install_io \<Rightarrow> layout
     \<Rightarrow> bundle_list \<Rightarrow> (install_dirs, unit) thread" where
  "stage_thread sha parse decode io ly bundled =
     thread_bind (atomically make_staging) (\<lambda>_.
     thread_bind (copy_thread (ii_copy_fails io) bundled) (\<lambda>_.
     thread_bind (check_staged (staged_manifest parse ly)) (\<lambda>(m, raw).
     thread_bind (check_staged (verify_files sha ''the bundled runtime failed verification: ''
        (m\<lparr>mf_files := filter (\<lambda>e. me_path e \<noteq> raw_image) (mf_files m)\<rparr>))) (\<lambda>_.
     thread_bind (atomically (expand_staged decode io)) (\<lambda>_.
       check_staged (verify_files sha ''the decompressed Linux base image failed verification: '' (m\<lparr>mf_files := [raw]\<rparr>)))))))"

definition install_thread ::
  "(string \<Rightarrow> string) \<Rightarrow> (string \<Rightarrow> string + manifest) \<Rightarrow> (string \<Rightarrow> string option) \<Rightarrow> install_io \<Rightarrow> bool \<Rightarrow> layout
     \<Rightarrow> bundle_list option \<Rightarrow> bool \<Rightarrow> (install_dirs, install_outcome) thread" where
  "install_thread sha parse decode io removed ly bundled force =
     thread_bind (atomically (inspect (\<lambda>s. \<not> force \<and> installed_runtime_is_complete parse ly (id_live s)))) (\<lambda>complete.
       if complete then Result (Inr AlreadyInstalled)
       else case bundled of
         None \<Rightarrow> Result (Inl (''the bundled runtime is missing at '' @ ly_bundled_runtime_root ly
                   @ ''; reinstall Linux Practice Lab''))
       | Some entries \<Rightarrow>
           if \<not> ii_mkdir io then Result (Inl ''could not create the runtime folder'')
           else
             thread_bind (atomically (remove_staging_dir io)) (\<lambda>_.
             thread_bind (thread_attempt (stage_thread sha parse decode io ly entries)) (\<lambda>staged.
               case staged of
                 Inl e \<Rightarrow> thread_bind (atomically (discard_staging removed)) (\<lambda>_. Result (Inl e))
               | Inr _ \<Rightarrow> thread_bind (atomically (remove_old io)) (\<lambda>_. atomically (activate io)))))"

section \<open>An installation alone\<close>

lemma copy_alone:
  "id_staging s = Some d \<Longrightarrow> run_alone (copy_thread fails es) s =
     (let (r, d') = copy_bundle fails es d in (r, s\<lparr>id_staging := Some d'\<rparr>))"
proof (induction fails es arbitrary: s d rule: copy_thread.induct)
  case (3 fails path f es)
  then show ?case by (simp add: act_bind_def copy_file_def lift_def)
qed (simp_all add: lift_def)

lemma stage_alone:
  assumes "id_staging s = None" "stage_and_verify sha parse decode io ly bundled = (r, d)"
  shows "run_alone (stage_thread sha parse decode io ly bundled) s = (r, s\<lparr>id_staging := Some d\<rparr>)"
proof -
  obtain copied staging where copy: "copy_bundle (ii_copy_fails io) bundled Map.empty = (copied, staging)" by fastforce
  obtain expanded staging' where expand: "expand_image decode io staging = (expanded, staging')" by fastforce
  show ?thesis
    using assms copy expand
    by (auto simp: stage_thread_def stage_and_verify_def act_bind_def make_staging_def update_def copy_alone check_staged_def
        staged_manifest_def verify_files_def staged_files_def expand_staged_def Let_def split: sum.splits if_splits)
qed

text \<open>An installation that nothing else interrupts is the sequential one. Run alone on a live runtime, its
  pieces give the result and the live runtime of \<open>install_runtime\<close>, whatever fails on the way: what
  becomes live is verified, and an error before the swap leaves the old runtime.\<close>

theorem installing_alone_is_sequential:
  "(case run_alone (install_thread sha parse decode io removed ly bundled force) s of (r, s') \<Rightarrow> (r, id_live s')) =
     install_runtime sha parse decode io ly bundled force (id_live s)"
proof (cases "\<not> force \<and> installed_runtime_is_complete parse ly (id_live s)")
  case True
  then show ?thesis by (simp add: install_thread_def install_runtime_def act_bind_def inspect_def lift_def)
next
  case False
  show ?thesis
  proof (cases bundled)
    case None
    with False show ?thesis by (simp add: install_thread_def install_runtime_def act_bind_def inspect_def lift_def)
  next
    case (Some entries)
    obtain r d where stage: "stage_and_verify sha parse decode io ly entries = (r, d)" by fastforce
    note alone = stage_alone [OF _ stage, of "s\<lparr>id_staging := None\<rparr>"]
    show ?thesis
      using False Some stage alone
      by (cases r; cases "id_live s")
        (auto simp: install_thread_def install_runtime_def act_bind_def inspect_def lift_def remove_staging_dir_def
          attempting_def discard_staging_def update_def remove_old_def activate_def)
  qed
qed

section \<open>Two installations\<close>

text \<open>Both find no runtime. The second clears the staging folder that the first has just verified and
  copies one file into it; the first then makes this folder the live runtime and reports that it is
  installed, and the second fails. What is live has no base image.\<close>

definition sample_install_thread :: "(install_dirs, unit) thread" where
  "sample_install_thread =
     thread_done (install_thread sample_sha (\<lambda>t. if t = ''m'' then Inr sample_manifest else Inl ''?'')
       (\<lambda>z. if z = ''z'' then Some ''raw'' else None) sample_io True (layout_at ''0.1.0'' ''/res'' ''/data'') (Some sample_bundle) False)"

definition installs :: "install_dirs event list \<Rightarrow> bool list \<times> string list" where
  "installs events =
     (let (s, ts) = schedule (Arrives sample_install_thread # Arrives sample_install_thread # events) (\<lparr>id_live = None, id_staging = None\<rparr>, [])
      in (map ended ts, case id_live s of None \<Rightarrow> [] | Some d \<Rightarrow>
            filter (\<lambda>p. d p \<noteq> None) [''checksums.json'', ''vmlinuz'', raw_image]))"

lemma parallel_installs_activate_unverified_files:
  "installs (replicate 12 (Runs 0)) = ([True, False], [''checksums.json'', ''vmlinuz'', raw_image])"
  "installs (replicate 10 (Runs 0) @ replicate 4 (Runs 1) @ replicate 2 (Runs 0) @ replicate 2 (Runs 1)) =
     ([True, True], [''checksums.json''])"
  by code_simp+

end
