(* ===== verification/Monitor.thy ===== *)
theory Monitor
  imports Vm_Manager Actions Ordered_Map "HOL-Library.Sublist"
begin

text \<open>
  The QMP client (crates/vm-manager/src/qmp.rs) and the polite shutdown that uses it (stop in
  crates/vm-manager/src/lib.rs). A connection holds what the socket will yield, a read error or a
  JSON value a line, and then its end; the outcome of the writes to come; and the requests written
  so far. \<open>disp\<close> is the Display of a JSON value.
\<close>

section \<open>The client\<close>

record qmp_link =
  ql_incoming :: "(string + json) list"
  ql_writes :: "string option list"
  ql_sent :: "(string \<times> json option) list"

fun value_get :: "json \<Rightarrow> string \<Rightarrow> json option" where
  "value_get (JObject kvs) key = bt_get kvs key"
| "value_get _ key = None"

definition read_message :: "(qmp_link, json) action" where
  "read_message l =
     (case ql_incoming l of
        [] \<Rightarrow> (Inl ''the QEMU control socket closed'', l)
      | m # rest \<Rightarrow> (m, l\<lparr>ql_incoming := rest\<rparr>))"

definition write_request :: "string \<Rightarrow> json option \<Rightarrow> (qmp_link, unit) action" where
  "write_request command arguments l =
     (case ql_writes l of
        Some e # rest \<Rightarrow> (Inl (''failed writing to the QEMU control socket: '' @ e), l\<lparr>ql_writes := rest\<rparr>)
      | outcomes \<Rightarrow> (Inr (), l\<lparr>ql_writes := tl outcomes, ql_sent := ql_sent l @ [(command, arguments)]\<rparr>))"

text \<open>At most \<^verbatim>\<open>64\<close> messages are read for a reply; anything that is neither an error nor a return is an event.\<close>

fun await_reply :: "(json \<Rightarrow> string) \<Rightarrow> nat \<Rightarrow> string \<Rightarrow> (qmp_link, json) action" where
  "await_reply disp 0 command = bail (''no reply to QMP command '' @ command @ '' after 64 messages'')"
| "await_reply disp (Suc n) command =
     act_bind read_message (\<lambda>m.
       case value_get m ''error'' of
         Some e \<Rightarrow> bail (''QMP command '' @ command @ '' failed: '' @ disp e)
       | None \<Rightarrow>
           (case value_get m ''return'' of
              Some v \<Rightarrow> return v
            | None \<Rightarrow> await_reply disp n command))"

definition execute :: "(json \<Rightarrow> string) \<Rightarrow> string \<Rightarrow> json option \<Rightarrow> (qmp_link, json) action" where
  "execute disp command arguments =
     act_bind (write_request command arguments) (\<lambda>_. await_reply disp 64 command)"

definition run_command :: "(json \<Rightarrow> string) \<Rightarrow> string \<Rightarrow> (qmp_link, unit) action" where
  "run_command disp command = act_bind (execute disp command None) (\<lambda>_. return ())"

text \<open>\<open>opened\<close>: whether the loopback socket could be opened within the timeout.\<close>

definition qmp_connect :: "(json \<Rightarrow> string) \<Rightarrow> string + unit \<Rightarrow> (qmp_link, unit) action" where
  "qmp_connect disp opened =
     act_bind (lift opened) (\<lambda>_.
     act_bind read_message (\<lambda>greeting.
       if value_get greeting ''QMP'' = None then bail (''unexpected QMP greeting: '' @ disp greeting)
       else run_command disp ''qmp_capabilities''))"

definition query_status :: "(json \<Rightarrow> string) \<Rightarrow> (qmp_link, string) action" where
  "query_status disp =
     act_bind (execute disp ''query-status'' None) (\<lambda>v.
       case Option.bind (value_get v ''status'') as_str of
         Some status \<Rightarrow> return status
       | None \<Rightarrow> bail ''unexpected query-status payload'')"

definition qmp_pause :: "(json \<Rightarrow> string) \<Rightarrow> (qmp_link, unit) action" where
  "qmp_pause disp = run_command disp ''stop''"

definition qmp_resume :: "(json \<Rightarrow> string) \<Rightarrow> (qmp_link, unit) action" where
  "qmp_resume disp = run_command disp ''cont''"

definition system_powerdown :: "(json \<Rightarrow> string) \<Rightarrow> (qmp_link, unit) action" where
  "system_powerdown disp = run_command disp ''system_powerdown''"

definition qmp_quit :: "(json \<Rightarrow> string) \<Rightarrow> (qmp_link, unit) action" where
  "qmp_quit disp = ignoring (run_command disp ''quit'')"

section \<open>The manager over the monitor\<close>

definition pause_over ::
  "(json \<Rightarrow> string) \<Rightarrow> string + unit \<Rightarrow> qmp_link \<Rightarrow> vm_manager \<Rightarrow> (string + unit) \<times> vm_manager" where
  "pause_over disp opened link m =
     vm_pause (fst (act_bind (qmp_connect disp opened) (\<lambda>_. qmp_pause disp) link)) m"

definition resume_over ::
  "(json \<Rightarrow> string) \<Rightarrow> string + unit \<Rightarrow> qmp_link \<Rightarrow> vm_manager \<Rightarrow> (string + unit) \<times> vm_manager" where
  "resume_over disp opened link m =
     vm_resume (fst (act_bind (qmp_connect disp opened) (\<lambda>_. qmp_resume disp) link)) m"

text \<open>
  The wait after the powerdown: at each round the milliseconds since it began and what \<^verbatim>\<open>try_wait\<close>
  says. The result is the number of times the loop slept.
\<close>

fun sleeps_until_exit :: "(nat \<times> wait_outcome) list \<Rightarrow> nat" where
  "sleeps_until_exit [] = 0"
| "sleeps_until_exit ((elapsed, outcome) # rounds) =
     (if 8000 \<le> elapsed then 0
      else case outcome of ExitedWith _ \<Rightarrow> 0 | _ \<Rightarrow> Suc (sleeps_until_exit rounds))"

definition polite_shutdown :: "(json \<Rightarrow> string) \<Rightarrow> string + unit \<Rightarrow> (nat \<times> wait_outcome) list \<Rightarrow> (qmp_link, nat) action" where
  "polite_shutdown disp opened rounds =
     act_bind (attempting (qmp_connect disp opened)) (\<lambda>client.
       case client of
         Inl _ \<Rightarrow> return 0
       | Inr _ \<Rightarrow>
           act_bind (ignoring (system_powerdown disp)) (\<lambda>_.
           act_bind (ignoring (qmp_quit disp)) (\<lambda>_. return (sleeps_until_exit rounds))))"

text \<open>\<^verbatim>\<open>stop\<close> with its conversation: the result, the world, the connection and the sleeps.\<close>

definition stop_over ::
  "(json \<Rightarrow> string) \<Rightarrow> string + unit \<Rightarrow> (nat \<times> wait_outcome) list \<Rightarrow> qmp_link \<Rightarrow> vm_world
     \<Rightarrow> (string + unit) \<times> vm_world \<times> qmp_link \<times> nat" where
  "stop_over disp opened rounds link w =
     (if vm_configured (w_vm w) = None \<or> vm_supervised (w_vm w) = None then (Inr (), w, link, 0)
      else
        let guest_was_ready = vm_current (w_vm w) \<in> {VmReady, VmPaused};
            w = w\<lparr>w_vm := (w_vm w)\<lparr>vm_current := VmStopping\<rparr>\<rparr>;
            (sleeps, link) = (if guest_was_ready then polite_shutdown disp opened rounds link else (Inr 0, link));
            w = clear_pid_file (drop_supervised w)
        in (Inr (), w\<lparr>w_vm := (w_vm w)\<lparr>vm_current := VmStopped, vm_boot_millis := None\<rparr>\<rparr>, link, projr sleeps))"

section \<open>The reply loop\<close>

definition qmp_answers :: "json \<Rightarrow> bool" where
  "qmp_answers m \<longleftrightarrow> value_get m ''error'' \<noteq> None \<or> value_get m ''return'' \<noteq> None"

lemma link_same [simp]:
  "ql_incoming l = ms \<Longrightarrow> l\<lparr>ql_incoming := ms\<rparr> = l"
  "ql_writes l = [] \<Longrightarrow> l\<lparr>ql_writes := [], ql_sent := sent\<rparr> = l\<lparr>ql_sent := sent\<rparr>"
  by (cases l; simp)+

lemma await_skips:
  "list_all (\<lambda>m. \<not> qmp_answers m) evs \<Longrightarrow> length evs \<le> n \<Longrightarrow> ql_incoming l = map Inr evs @ ms \<Longrightarrow>
     await_reply disp n command l = await_reply disp (n - length evs) command (l\<lparr>ql_incoming := ms\<rparr>)"
proof (induction evs arbitrary: n l)
  case (Cons m evs)
  then show ?case
    by (cases n) (auto simp: qmp_answers_def act_bind_def read_message_def)
qed (simp add: action_defs)

text \<open>The first message that answers decides, if fewer than 64 come before it.\<close>

definition reply_of :: "(json \<Rightarrow> string) \<Rightarrow> string \<Rightarrow> json \<Rightarrow> string + json" where
  "reply_of disp command m =
     (case value_get m ''error'' of
        Some e \<Rightarrow> Inl (''QMP command '' @ command @ '' failed: '' @ disp e)
      | None \<Rightarrow> Inr (the (value_get m ''return'')))"

lemma await_answer:
  "qmp_answers m \<Longrightarrow> ql_incoming l = Inr m # ms \<Longrightarrow>
     await_reply disp (Suc n) command l = (reply_of disp command m, l\<lparr>ql_incoming := ms\<rparr>)"
  by (auto simp: act_bind_def read_message_def bail_def return_def qmp_answers_def reply_of_def split: option.split)

lemma execute_writes:
  "ql_writes l = [] \<Longrightarrow>
     execute disp command args l = await_reply disp 64 command (l\<lparr>ql_sent := ql_sent l @ [(command, args)]\<rparr>)"
  by (simp add: execute_def write_request_def act_bind_def)

lemma await_reply_Inr:
  "await_reply disp n command l = (Inr v, l') \<Longrightarrow>
     \<exists>evs m rest. ql_incoming l = map Inr evs @ Inr m # rest \<and> list_all (\<lambda>e. \<not> qmp_answers e) evs
       \<and> value_get m ''error'' = None \<and> value_get m ''return'' = Some v \<and> l' = l\<lparr>ql_incoming := rest\<rparr>"
proof (induction n arbitrary: l)
  case (Suc n)
  from Suc.prems obtain m rest where m: "ql_incoming l = Inr m # rest" "value_get m ''error'' = None"
    "case value_get m ''return'' of Some u \<Rightarrow> v = u \<and> l' = l\<lparr>ql_incoming := rest\<rparr>
       | None \<Rightarrow> await_reply disp n command (l\<lparr>ql_incoming := rest\<rparr>) = (Inr v, l')"
    by (auto simp: act_bind_Inr_iff read_message_def split: list.splits option.splits)
  show ?case
  proof (cases "value_get m ''return''")
    case None
    with m(3) Suc.IH [of "l\<lparr>ql_incoming := rest\<rparr>"] obtain evs m' rest' where
      "rest = map Inr evs @ Inr m' # rest'" "list_all (\<lambda>e. \<not> qmp_answers e) evs"
      "value_get m' ''error'' = None" "value_get m' ''return'' = Some v" "l' = l\<lparr>ql_incoming := rest'\<rparr>"
      by auto
    with m None show ?thesis
      by (intro exI [of _ "m # evs"] exI [of _ m'] exI [of _ rest']) (auto simp: qmp_answers_def)
  next
    case (Some u)
    with m show ?thesis by (intro exI [of _ "[]"] exI [of _ m] exI [of _ rest]) auto
  qed
qed (simp add: bail_def)

text \<open>What a successful command found in the stream.\<close>

definition obeyed :: "qmp_link \<Rightarrow> qmp_link \<Rightarrow> bool" where
  "obeyed l l' \<longleftrightarrow> (\<exists>evs m. ql_incoming l = map Inr evs @ Inr m # ql_incoming l'
     \<and> list_all (\<lambda>e. \<not> qmp_answers e) evs \<and> value_get m ''error'' = None \<and> value_get m ''return'' \<noteq> None)"

lemma run_command_Inr:
  "run_command disp command l = (Inr u, l') \<Longrightarrow> obeyed l l' \<and> ql_sent l' = ql_sent l @ [(command, None)]"
  by (fastforce simp: run_command_def execute_def act_bind_Inr_iff write_request_def obeyed_def
      split: list.splits option.splits dest!: await_reply_Inr)

lemma qmp_connect_Inr:
  "qmp_connect disp opened l = (Inr u, l') \<Longrightarrow>
     opened = Inr () \<and> ql_sent l' = ql_sent l @ [(''qmp_capabilities'', None)]
     \<and> (\<exists>greeting rest. ql_incoming l = Inr greeting # rest \<and> value_get greeting ''QMP'' \<noteq> None
          \<and> obeyed (l\<lparr>ql_incoming := rest\<rparr>) l')"
  by (auto simp: qmp_connect_def act_bind_Inr_iff read_message_def dest!: run_command_Inr
      split: list.splits if_splits)

section \<open>Requests\<close>

lemma await_sends_nothing: "ql_sent (snd (await_reply disp n command l)) = ql_sent l"
  by (induction n arbitrary: l)
    (auto simp: action_defs read_message_def split: list.split sum.split prod.split option.split)

lemma run_command_sends:
  "\<exists>sent. ql_sent (snd (run_command disp command l)) = ql_sent l @ sent \<and> subseq sent [(command, None)]"
proof -
  have "ql_sent (snd (run_command disp command l)) = ql_sent (snd (execute disp command None l))"
    by (simp add: run_command_def action_defs split: sum.split prod.split)
  also have "\<dots> = ql_sent (snd (write_request command None l))"
    using await_sends_nothing by (auto simp: execute_def act_bind_def split: sum.split prod.split)
  also have "\<dots> = ql_sent l \<or> \<dots> = ql_sent l @ [(command, None)]"
    by (auto simp: write_request_def split: list.split option.split)
  ultimately show ?thesis by (elim disjE) auto
qed

lemma qmp_connect_sends:
  "\<exists>sent. ql_sent (snd (qmp_connect disp opened l)) = ql_sent l @ sent \<and> subseq sent [(''qmp_capabilities'', None)]"
proof (cases "opened = Inr () \<and> (\<exists>g rest. ql_incoming l = Inr g # rest \<and> value_get g ''QMP'' \<noteq> None)")
  case True
  then obtain g rest where "ql_incoming l = Inr g # rest" "value_get g ''QMP'' \<noteq> None" "opened = Inr ()" by blast
  then have "qmp_connect disp opened l = run_command disp ''qmp_capabilities'' (l\<lparr>ql_incoming := rest\<rparr>)"
    by (auto simp: qmp_connect_def act_bind_def lift_def read_message_def)
  then show ?thesis using run_command_sends [of disp _ "l\<lparr>ql_incoming := rest\<rparr>"] by simp
next
  case False
  then have "ql_sent (snd (qmp_connect disp opened l)) = ql_sent l"
    by (auto simp: qmp_connect_def act_bind_def lift_def read_message_def bail_def split: sum.split list.split)
  then show ?thesis by auto
qed

definition farewell_requests :: "(string \<times> json option) list" where
  "farewell_requests = [(''qmp_capabilities'', None), (''system_powerdown'', None), (''quit'', None)]"

lemma polite_shutdown_sends:
  "\<exists>sent. ql_sent (snd (polite_shutdown disp opened rounds l)) = ql_sent l @ sent \<and> subseq sent farewell_requests"
proof -
  obtain r l1 where c: "qmp_connect disp opened l = (r, l1)" by fastforce
  with qmp_connect_sends [of disp opened l] obtain s1 where s1: "ql_sent l1 = ql_sent l @ s1" "subseq s1 [(''qmp_capabilities'', None)]"
    by auto
  let ?l2 = "snd (system_powerdown disp l1)"
  obtain s2 where s2: "ql_sent ?l2 = ql_sent l1 @ s2" "subseq s2 [(''system_powerdown'', None)]"
    using run_command_sends [of disp "''system_powerdown''" l1] by (auto simp: system_powerdown_def)
  obtain s3 where s3: "ql_sent (snd (qmp_quit disp ?l2)) = ql_sent ?l2 @ s3" "subseq s3 [(''quit'', None)]"
    using run_command_sends [of disp "''quit''" ?l2] by (auto simp: qmp_quit_def ignoring_def)
  have all: "subseq (s1 @ s2 @ s3) farewell_requests"
    using list_emb_append_mono [OF s1(2) list_emb_append_mono [OF s2(2) s3(2)]] by (simp add: farewell_requests_def)
  have one: "subseq s1 farewell_requests"
    using s1(2) all by (meson subseq_order.trans list_emb_append2 subseq_rev_drop_many subseq_order.order_refl)
  show ?thesis
  proof (cases r)
    case (Inl e)
    with c s1 one show ?thesis by (auto simp: polite_shutdown_def action_defs)
  next
    case (Inr u)
    with c have "snd (polite_shutdown disp opened rounds l) = snd (qmp_quit disp ?l2)"
      by (simp add: polite_shutdown_def action_defs qmp_quit_def)
    with s1 s2 s3 all show ?thesis by auto
  qed
qed

lemma sleeps_bound:
  "sorted_wrt (\<lambda>(t, _) (t', _). t + 200 \<le> t') rounds \<Longrightarrow> list_all (\<lambda>(t, _). s \<le> t) rounds \<Longrightarrow>
     200 * sleeps_until_exit rounds \<le> 8199 - s"
proof (induction rounds arbitrary: s)
  case (Cons round rounds)
  obtain t outcome where r: "round = (t, outcome)" by fastforce
  have "200 * sleeps_until_exit rounds \<le> 8199 - (t + 200)"
    using Cons r by (intro Cons.IH) (auto simp: list_all_iff)
  with Cons.prems r show ?case by (auto split: wait_outcome.split)
qed simp

lemma stop_over_world: "(fst (stop_over disp opened rounds l w), fst (snd (stop_over disp opened rounds l w))) = vm_stop w"
  by (auto simp: stop_over_def vm_stop_def Let_def split: prod.split)

lemma polite_shutdown_sleeps:
  "\<exists>n \<in> {0, sleeps_until_exit rounds}. fst (polite_shutdown disp opened rounds l) = Inr n"
  by (auto simp: polite_shutdown_def action_defs split: sum.split prod.split)

section \<open>Properties\<close>


definition stopped_event :: json where
  "stopped_event = JObject [(''event'', JString ''STOP'')]"

definition empty_return :: json where
  "empty_return = JObject [(''return'', JObject [])]"

definition greeting :: json where
  "greeting = JObject [(''QMP'', JObject [])]"

definition talkative_link :: qmp_link where
  "talkative_link = \<lparr>ql_incoming = [Inr stopped_event, Inr empty_return], ql_writes = [], ql_sent = []\<rparr>"



definition running_world :: vm_world where
  "running_world =
     sample_world\<lparr>w_procs := [42],
       w_vm := (w_vm sample_world)\<lparr>vm_supervised := Some 42, vm_current := VmReady,
         vm_configured := Some (projr (fst (prepare sample_prepare FreePractice NetworkDisabled None sample_world)))\<rparr>\<rparr>"

definition polite_link :: qmp_link where
  "polite_link =
     \<lparr>ql_incoming = [Inr greeting, Inr empty_return, Inr stopped_event, Inr empty_return, Inl ''reset''],
      ql_writes = [], ql_sent = []\<rparr>"


text \<open>A pause is QEMU's word. The manager counts the machine as paused, or as running again, only when
  the monitor was reached, greeted as a monitor, and answered both the capabilities and the command
  with a return, with only events before each; otherwise the manager is left as it was.\<close>

theorem paused_only_when_the_monitor_agrees:
  assumes "pause_over disp opened l m = (r, m')" "resume_over disp opened l m = (r', m'')"
  shows "(r = Inr () \<or> r' = Inr () \<longrightarrow> opened = Inr () \<and> vm_configured m \<noteq> None
            \<and> (\<exists>g rest l1 l2. ql_incoming l = Inr g # rest \<and> value_get g ''QMP'' \<noteq> None
                 \<and> obeyed (l\<lparr>ql_incoming := rest\<rparr>) l1 \<and> obeyed l1 l2))
    \<and> m' = (if r = Inr () then m\<lparr>vm_current := VmPaused\<rparr> else m)
    \<and> m'' = (if r' = Inr () then m\<lparr>vm_current := VmReady\<rparr> else m)"
proof -
  have heard: "opened = Inr () \<and> (\<exists>g rest l1 l2. ql_incoming l = Inr g # rest \<and> value_get g ''QMP'' \<noteq> None
      \<and> obeyed (l\<lparr>ql_incoming := rest\<rparr>) l1 \<and> obeyed l1 l2)"
    if "fst (act_bind (qmp_connect disp opened) (\<lambda>_. run_command disp command) l) = Inr ()" for command
  proof -
    let ?both = "act_bind (qmp_connect disp opened) (\<lambda>_. run_command disp command)"
    have "?both l = (Inr (), snd (?both l))" using that by (simp add: prod_eq_iff)
    then obtain u l1 where c: "qmp_connect disp opened l = (Inr u, l1)" "run_command disp command l1 = (Inr (), snd (?both l))"
      unfolding act_bind_Inr_iff by blast
    from qmp_connect_Inr [OF c(1)] run_command_Inr [OF c(2)] show ?thesis by blast
  qed
  from assms heard [of "''stop''"] heard [of "''cont''"] show ?thesis
    by (auto simp: pause_over_def resume_over_def vm_pause_def vm_resume_def qmp_pause_def qmp_resume_def
        split: if_splits sum.splits)
qed

lemma paused_only_when_the_monitor_agrees_witness:
  "vm_current (snd (pause_over (\<lambda>_. ''json'') (Inr ()) polite_link (w_vm running_world))) = VmPaused"
proof -
  obtain r m' r' m'' where runs: "pause_over (\<lambda>_. ''json'') (Inr ()) polite_link (w_vm running_world) = (r, m')"
    "resume_over (\<lambda>_. ''json'') (Inr ()) polite_link (w_vm running_world) = (r', m'')"
    by fastforce
  have "fst (pause_over (\<lambda>_. ''json'') (Inr ()) polite_link (w_vm running_world)) = Inr ()" by code_simp
  then show ?thesis
    using paused_only_when_the_monitor_agrees [OF runs] runs(1) by simp
qed

end
