(* ===== verification/Spec2Isabelle.thy ===== *)
theory Spec2Isabelle
  imports Desktop_Launch Desktop_Schedules Guest_Channel Host_Platform Install_Threads Monitor
begin

text \<open>
  Linux Practice Lab: a desktop application that teaches Linux in a local virtual machine. This
  library models the Rust program: the crates under crates/, the desktop back end under
  apps/desktop/src-tauri, and the agent inside the guest under guest/linuxlab-agent.

  \<^bold>\<open>How the parts interact.\<close> The lesson engine loads a catalogue of modules and lessons and refuses it
  unless it is consistent; progression decides what is open from the progress the store keeps; the
  runtime manager verifies and installs the files QEMU needs; the VM manager prepares overlays and
  a command line and supervises one QEMU process. The desktop's commands tie these together: they
  start a session, and send requests over a serial channel to the agent in the guest, which runs the
  validators of a task. The verdict is shaped into feedback, judged as a mastery and stored.

  \<^bold>\<open>Foundations.\<close>
  \<^item> Prelude: words of fixed width, the string functions of the Rust standard library the code uses
    (strings are the bytes of their UTF-8 form), decimal printing and parsing, errors as sums.
  \<^item> Machines, Actions: interfaces the components share. A machine is a step function with an invariant,
    a codec a pair of functions that round-trip, an action a stateful function that may fail; each is
    stated as a locale and interpreted where the code provides it.
  \<^item> Ordered_Map: a BTreeMap as a strictly sorted association list, with the map contract as a locale.
  \<^item> Json, Float64: JSON values as serde_json has them; binary64 percentages with their rounding.

  \<^bold>\<open>The crates.\<close>
  \<^item> Lesson_Types, Mastery, Validation, Registry, Protocol: the data of crates/shared-types with its
    operations: lessons, progress, outcomes, the check of a validator, the control protocol.
  \<^item> Prereq_Cycles, Catalog, Hints, Feedback, Progression: crates/lesson-engine.
  \<^item> Progress_Store, Redact: crates/progress-store. A table is a list of rows or an ordered map by
    its key, a statement an operation on it; AUTOINCREMENT counters are fields of the database.
  \<^item> Qemu, Overlay, Vm_Manager: crates/vm-manager. Files are a partial map from path to content;
    qemu-img, spawning, waiting and the monitor are parameters with any outcome. Monitor: qmp.rs and the
    shutdown over it. Host_Platform: the calls to Windows of process.rs and accel.rs, in their order.
  \<^item> Runtime_Layout, Runtime, Install_Threads: crates/runtime-manager. SHA-256, JSON decoding and decompression are
    parameters; every file operation may fail.

  \<^bold>\<open>The guest agent\<close> (guest/linuxlab-agent/src). A guest is a record of what the agent can read of its
  system (files, accounts, processes); running a program is a function on it.
  \<^item> Guest_Sys, Guest_Proc: sys.rs. Guest_Args: validators/args.rs.
  \<^item> Guest_Files, Guest_Processes, Guest_Services, Guest_Accounts, Guest_Network, Guest_Scripts: the
    validators of filesystem.rs, process.rs, service.rs and package.rs, identity.rs, network.rs and
    script.rs. Guest_Validators: validators/mod.rs, their dispatch.
  \<^item> Guest_Agent: handlers.rs, a request as an action on the guest. Guest_Channel: main.rs, the frames,
    the token and the loop that serves them.

  \<^bold>\<open>The desktop\<close> (apps/desktop/src-tauri/src).
  \<^item> Desktop_Link: agent.rs and console.rs, the client of the control channel and the terminal.
  \<^item> Desktop_View: dto.rs, what the user interface is given.
  \<^item> Desktop_State: state.rs and the start of the application in lib.rs. Desktop_Lessons and
    Desktop_Session: commands.rs, each command an action on the application's state. Desktop_Outcomes: how
    the session commands end. Desktop_Runs: sequences of commands. Desktop_Threads, Desktop_Schedules:
    commands that interleave. Desktop_Launch: launches, from the environment to the session lock.

  \<^bold>\<open>What the lemmas show.\<close> Each component has its invariant and the lemma that every operation keeps it
  (\<open>store_do_inv\<close>, \<open>vm_inv_step\<close>, \<open>attempt_inv_step\<close>, \<open>dfs_inv_enter\<close>), a declarative
  specification and the equivalence with the executable code (\<open>check_legal\<close>,
  \<open>prerequisite_cycles_Nil_iff\<close>, \<open>is_healthy_verify\<close>), and its behaviour on every branch, errors
  included. Every command of the desktop stays within the relation \<open>evolves\<close>, so the invariants of the
  store, the machine and the attempts hold after any sequence of commands and in any interleaving. This theory joins the two
  ends of the control channel. The properties are the theorems after the blocks that start with a
  claim number.

  \<^bold>\<open>Bounds and fuel.\<close> Loops are structural or carry a measure: the cycle search descends on the
  unmarked lessons of the catalogue, the registry check on the size of the JSON value, nested
  validators on the size of theirs, the redaction scan on the rest of the line. \<open>fraction_bits\<close> counts
  down from 1074, the exponent range of binary64. The monitor's reply loop reads at most 64 messages
  and the control client at most eight stale replies, as the code does. \<open>harden\<close> descends at most 4096
  directories, the longest path the kernel accepts (\<open>harden_depth\<close>). Integers that wrap in a release
  build are words.

  \<^bold>\<open>Concurrency.\<close> Each command is modelled twice: as an action (Desktop_Lessons, Desktop_Session) and as a
  thread (Desktop_Threads), which is cut into atomic pieces where the code gives a lock back. A
  schedule (Interleaving) is a list of events, a command arriving or a thread doing its next piece;
  \<open>keeps\<close> is the rely-guarantee rule under which a relation holds between all states of all schedules.
  Desktop_Schedules shows that the sequential run is one of the schedules, that the invariants hold in
  all of them, and two schedules that go wrong. A call under the connection lock of a client is one
  piece although it waits, since only this client and its socket change in it; the retries of
  QEMU's watcher are its last look. Installing is one piece for the commands; Install_Threads cuts it into
  its file operations and runs two installations against each other. The runtime folder and the disks
  are separate maps.

  \<^bold>\<open>Not modelled.\<close> What Windows does in a call, the sockets themselves, SQLite itself, opening the virtio
  port and its retries, the Tauri glue, logging, and the TypeScript front end.
\<close>

section \<open>Both ends of the control channel\<close>

text \<open>
  The serial line with the agent at its end, as the desktop's client sees it: an envelope that is sent
  is one line for the agent's session, and the replies queue up to be read. \<open>serial_text\<close> is serde_json
  between JSON values and text, and between replies and text.
\<close>

record serial_text =
  tx_print :: "json \<Rightarrow> string"
  tx_parse :: "string \<Rightarrow> json option"
  tx_reply :: "response_envelope \<Rightarrow> string"
  tx_read :: "string \<Rightarrow> response_envelope option"

definition frame_decoder :: "serial_text \<Rightarrow> decoder" where
  "frame_decoder T frame =
     (case Option.bind (tx_parse T frame) envelope_of_json of
        Some e \<Rightarrow> Inr e | None \<Rightarrow> Inl ''not a request'')"

type_synonym line_state = "agent \<times> string list"

definition serial_net :: "kernel \<Rightarrow> serial_text \<Rightarrow> string \<Rightarrow> line_state net" where
  "serial_net K T token =
     \<lparr>nt_connect = (\<lambda>w. (Inr (), w)),
      nt_send = (\<lambda>e (g, queue).
        let (replies, g') = session K (frame_decoder T) token [Line (tx_print T (envelope_to_json e)) True] g
        in (Inr (), (g', queue @ map (tx_reply T) replies))),
      nt_read = (\<lambda>timeout (g, queue).
        case queue of [] \<Rightarrow> (TimedOut, (g, [])) | line # rest \<Rightarrow> (Reply line, (g, rest)))\<rparr>"

text \<open>What the text layer is relied on for: a value that is printed is read back, also without the space
  around it, and is not blank.\<close>

definition carries_request :: "serial_text \<Rightarrow> request_envelope \<Rightarrow> bool" where
  "carries_request T e \<longleftrightarrow>
     (let line = trim (tx_print T (envelope_to_json e))
      in line \<noteq> [] \<and> tx_parse T line = Some (envelope_to_json e))"

definition carries_reply :: "serial_text \<Rightarrow> response_envelope \<Rightarrow> bool" where
  "carries_reply T r \<longleftrightarrow> tx_read T (trim (tx_reply T r)) = Some r"

definition stale_line :: "serial_text \<Rightarrow> u64 \<Rightarrow> string \<Rightarrow> bool" where
  "stale_line T rid line \<longleftrightarrow> (\<exists>r. tx_read T (trim line) = Some r \<and> \<not> answers rid r)"

lemma read_after_stale:
  "list_all (stale_line T rid) queue \<Longrightarrow> tx_read T (trim line) = Some r \<Longrightarrow> rs_id r = rid \<Longrightarrow> length queue < n \<Longrightarrow>
     read_reply (serial_net K T token) (tx_read T) timeout rid n (g, queue @ [line]) = (Inr (rs_response r), (g, []))"
proof (induction queue arbitrary: n)
  case Nil
  then show ?case by (cases n) (simp_all add: serial_net_def)
next
  case (Cons l queue)
  then obtain m where "n = Suc m" "length queue < m" by (cases n) auto
  with Cons show ?case by (auto simp: serial_net_def stale_line_def answers_def)
qed

text \<open>The call the channel implements: the agent handles the request, if the client has its token.\<close>

definition direct_call :: "kernel \<Rightarrow> bool \<Rightarrow> agent_request \<Rightarrow> agent \<Rightarrow> agent_response \<times> agent" where
  "direct_call K trusted request g =
     (if trusted then handle K request g else (AgentError ''invalid control token'' False, g))"

lemma session_answers:
  assumes "carries_request T e" "sendable (re_request e)"
  shows "session K (frame_decoder T) token [Line (tx_print T (envelope_to_json e)) True] g =
    (case direct_call K (re_token e = token) (re_request e) g of
       (response, g') \<Rightarrow> ([\<lparr>rs_id = re_id e, rs_response = response\<rparr>], g'))"
proof -
  have "frame_decoder T (trim (tx_print T (envelope_to_json e))) = Inr e"
    using assms envelope_wire.decode_encode [of e]
    by (simp add: frame_decoder_def carries_request_def Let_def)
  with assms(1) show ?thesis
    by (auto simp: answer_def direct_call_def carries_request_def constant_time_eq_iff as_bytes_eq_iff Let_def
        split: prod.split)
qed

lemma try_request_serial:
  assumes "carries_request T \<lparr>re_id = cl_next_id c, re_token = cl_token c, re_request = request\<rparr>" "sendable request"
    and "direct_call K (cl_token c = token) request g = (response, g')"
    and "carries_reply T \<lparr>rs_id = cl_next_id c, rs_response = response\<rparr>"
    and "list_all (stale_line T (cl_next_id c)) queue" "length queue < 8"
  shows "try_request (serial_net K T token) (tx_read T) request timeout (c, (g, queue)) =
    (Inr response, c\<lparr>cl_connected := True, cl_next_id := cl_next_id c + 1\<rparr>, (g', []))"
proof -
  let ?r = "\<lparr>rs_id = cl_next_id c, rs_response = response\<rparr>"
  have "read_reply (serial_net K T token) (tx_read T) timeout (cl_next_id c) max_stale_replies
      (g', queue @ [tx_reply T ?r]) = (Inr response, (g', []))"
    using read_after_stale [OF assms(5), of "tx_reply T ?r" ?r max_stale_replies K token timeout g'] assms(4,6)
    by (simp add: carries_reply_def max_stale_replies_def)
  moreover have "nt_send (serial_net K T token) \<lparr>re_id = cl_next_id c, re_token = cl_token c, re_request = request\<rparr>
      (g, queue) = (Inr (), (g', queue @ [tx_reply T ?r]))"
    using session_answers [OF assms(1), of K token g] assms(2,3) by (simp add: serial_net_def)
  moreover have "nt_connect (serial_net K T token) w = (Inr (), w)" for w by (simp add: serial_net_def)
  ultimately show ?thesis by (simp add: try_request_def Let_def)
qed

lemma client_request_serial:
  assumes "carries_request T \<lparr>re_id = cl_next_id c, re_token = cl_token c, re_request = request\<rparr>" "sendable request"
    and "direct_call K (cl_token c = token) request g = (response, g')"
    and "carries_reply T \<lparr>rs_id = cl_next_id c, rs_response = response\<rparr>"
    and "list_all (stale_line T (cl_next_id c)) queue" "length queue < 8"
  shows "client_request (serial_net K T token) (tx_read T) request (c, (g, queue)) =
    (Inr response, c\<lparr>cl_connected := True, cl_next_id := cl_next_id c + 1\<rparr>, (g', []))"
  unfolding client_request_def request_with_timeout_def by (subst try_request_serial [OF assms]) simp

text \<open>C8: The channel implements a direct call. Over a text layer that reads back what it prints, a request
  of the desktop's client returns exactly what the agent's handler computes on the guest, and leaves
  the guest as the handler does, if the client has the agent's token; else it is refused and the guest
  is untouched. Up to seven stale replies of earlier requests in the line make no difference.\<close>

theorem channel_implements_direct_call:
  assumes "carries_request T \<lparr>re_id = cl_next_id c, re_token = cl_token c, re_request = request\<rparr>" "sendable request"
    and "direct_call K (cl_token c = token) request g = (response, g')"
    and "carries_reply T \<lparr>rs_id = cl_next_id c, rs_response = response\<rparr>"
    and "list_all (stale_line T (cl_next_id c)) queue" "length queue < 8"
  shows "client_request (serial_net K T token) (tx_read T) request (c, (g, queue)) =
    (Inr response, c\<lparr>cl_connected := True, cl_next_id := cl_next_id c + 1\<rparr>, (g', []))"
  using assms by (rule client_request_serial)

definition one_request :: request_envelope where
  "one_request = \<lparr>re_id = 1, re_token = ''t'', re_request = Shutdown\<rparr>"

definition one_text :: serial_text where
  "one_text =
     \<lparr>tx_print = (\<lambda>_. ''q''), tx_parse = (\<lambda>_. Some (envelope_to_json one_request)), tx_reply = (\<lambda>_. ''r''),
      tx_read = (\<lambda>l. Some (if l = ''r'' then \<lparr>rs_id = 1, rs_response = ShuttingDown\<rparr>
                           else \<lparr>rs_id = 9, rs_response = LessonReset ''old''\<rparr>))\<rparr>"

lemma channel_implements_direct_call_witness:
  "fst (client_request (serial_net idle_kernel one_text ''t'') (tx_read one_text) Shutdown
     (client_new 4003 ''t'', (\<lparr>ag_guest = home_guest, ag_log = []\<rparr>, [''old'']))) = Inr ShuttingDown"
proof -
  let ?g = "\<lparr>ag_guest = home_guest, ag_log = []\<rparr>"
  have trims: "trim ''q'' = ''q''" "trim ''r'' = ''r''" "trim ''old'' = ''old''" by code_simp+
  have call: "direct_call idle_kernel (cl_token (client_new 4003 ''t'') = ''t'') Shutdown ?g =
      (ShuttingDown, snd (handle idle_kernel Shutdown ?g))"
    by (simp add: direct_call_def client_new_def split_def)
  have "carries_request one_text \<lparr>re_id = cl_next_id (client_new 4003 ''t''), re_token = cl_token (client_new 4003 ''t''),
      re_request = Shutdown\<rparr>"
    by (simp add: carries_request_def one_text_def one_request_def client_new_def trims Let_def)
  moreover have "carries_reply one_text \<lparr>rs_id = cl_next_id (client_new 4003 ''t''), rs_response = ShuttingDown\<rparr>"
    by (simp add: carries_reply_def one_text_def client_new_def trims)
  moreover have "list_all (stale_line one_text (cl_next_id (client_new 4003 ''t''))) [''old'']"
    by (simp add: stale_line_def answers_def one_text_def client_new_def trims)
  ultimately show ?thesis
    using channel_implements_direct_call [OF _ _ call] by simp
qed

section \<open>From the guest to the learner\<close>

text \<open>What the agent evaluates for a check of the desktop.\<close>

definition guest_findings :: "kernel \<Rightarrow> int \<Rightarrow> string \<Rightarrow> task \<Rightarrow> guest \<Rightarrow> task_validation \<times> guest" where
  "guest_findings K started_at lid t g =
     validate_task (kn_ext K) (kn_registry K)
       ((ctx_new ''student'' lid)\<lparr>cx_attempt_started_at := Some started_at,
          cx_default_namespace := active_namespace g lid\<rparr>)
       lid (t_id t) (t_validators t) g"


definition echo_validation :: task_validation where
  "echo_validation = fst (guest_findings idle_kernel 5 ''nav.a'' (sample_task ''t1'' [''try pwd'', ''type pwd'']) home_guest)"

definition echo_request :: agent_request where
  "echo_request = check_request ''nav.a'' ''t1''
     (build_validation_request (sample_lesson ''nav.a'' ''nav'' []) (sample_task ''t1'' [''try pwd'', ''type pwd'']) 5)"

definition echo_text :: serial_text where
  "echo_text =
     \<lparr>tx_print = (\<lambda>_. ''q''),
      tx_parse = (\<lambda>_. Some (envelope_to_json \<lparr>re_id = 1, re_token = ''token'', re_request = echo_request\<rparr>)),
      tx_reply = (\<lambda>_. ''r''), tx_read = (\<lambda>_. Some \<lparr>rs_id = 1, rs_response = TaskValidated echo_validation\<rparr>)\<rparr>"

definition echo_desk :: "line_state desk" where
  "echo_desk =
     host.extend
       \<lparr>dk_net = serial_net idle_kernel echo_text ''token'', dk_decode = tx_read echo_text,
        dk_debug = dk_debug sample_host, dk_store_message = dk_store_message sample_host, dk_lower = id,
        dk_lossy = id, dk_exit_status = dk_exit_status sample_host, dk_registry = sample_registry\<rparr>
       (desk.fields sample_layout (dk_catalog sample_desk) 1 ''s1'')"

definition echo_app :: "line_state app" where
  "echo_app =
     \<lparr>ap_store = ap_store (sample_app []), ap_vm = ap_vm (ready_app []), ap_console = console_new,
      ap_agent = Some (client_new 4003 ''token''), ap_session = None, ap_attempts = [], ap_mode = GuidedPath,
      ap_unclean_shutdown = False, ap_runtime = None, ap_net = (\<lparr>ag_guest = home_guest, ag_log = []\<rparr>, [])\<rparr>"

definition echo_check :: "(string + check_result) \<times> line_state app" where
  "echo_check = cmd_check_task echo_desk 5 6 ''nav.a'' ''t1'' echo_app"


end
